(* ===== verification/Prelude.thy ===== *)
theory Prelude
  imports Main "HOL-Library.Char_ord" "HOL-Library.List_Lexorder"
begin

text \<open>
  Shared vocabulary of the development: the collections of rewrite rules the component
  theories feed (\<open>store_simps\<close>, \<open>http_simps\<close>), the table operations behind the SQL
  statements of internal/server/store.go (select the first matching row, update or delete
  the matching rows, order and limit), and the list facts about them that every component
  proof uses.
\<close>

named_theorems store_simps \<open>definitions of the statements of the store\<close>
named_theorems http_simps \<open>definitions of the HTTP handlers' building blocks\<close>

section \<open>Table operations\<close>

definition update_where :: "('r \<Rightarrow> bool) \<Rightarrow> ('r \<Rightarrow> 'r) \<Rightarrow> 'r list \<Rightarrow> 'r list" where
  "update_where P f rows = map (\<lambda>r. if P r then f r else r) rows"

definition delete_where :: "('r \<Rightarrow> bool) \<Rightarrow> 'r list \<Rightarrow> 'r list" where
  "delete_where P rows = filter (\<lambda>r. \<not> P r) rows"

text \<open>
  \<open>ORDER BY k ASC\<close> and \<open>ORDER BY k DESC\<close>; SQL leaves the order of rows with equal keys
  open, the model keeps them in rowid order.
\<close>

definition order_asc :: "('r \<Rightarrow> 'k::linorder) \<Rightarrow> 'r list \<Rightarrow> 'r list" where
  "order_asc k rows = sort_key k rows"

definition order_desc :: "('r \<Rightarrow> 'k::linorder) \<Rightarrow> 'r list \<Rightarrow> 'r list" where
  "order_desc k rows = rev (sort_key k (rev rows))"

lemma update_where_simps [simp]:
  "update_where P f [] = []"
  "update_where P f (r # rs) = (if P r then f r else r) # update_where P f rs"
  by (simp_all add: update_where_def)

lemma length_update_where [simp]: "length (update_where P f rs) = length rs"
  by (simp add: update_where_def)

lemma set_update_where:
  "set (update_where P f rs) = f ` {r \<in> set rs. P r} \<union> {r \<in> set rs. \<not> P r}"
  by (induction rs) auto

lemma map_update_where [simp]:
  "(\<And>r. k (f r) = k r) \<Longrightarrow> map k (update_where P f rs) = map k rs"
  by (induction rs) auto

lemma image_update_where:
  "(\<And>r. k (f r) = k r) \<Longrightarrow> k ` set (update_where P f rs) = k ` set rs"
  by (induction rs) auto

lemma update_where_none: "(\<And>r. r \<in> set rs \<Longrightarrow> \<not> P r) \<Longrightarrow> update_where P f rs = rs"
  by (induction rs) auto

lemma delete_where_simps [simp]:
  "delete_where P [] = []"
  "delete_where P (r # rs) = (if P r then delete_where P rs else r # delete_where P rs)"
  by (simp_all add: delete_where_def)

lemma set_delete_where [simp]: "set (delete_where P rs) = {r \<in> set rs. \<not> P r}"
  by (auto simp: delete_where_def)

lemma distinct_map_delete_where [intro]:
  "distinct (map k rs) \<Longrightarrow> distinct (map k (delete_where P rs))"
  by (induction rs) auto

lemma delete_where_none: "(\<And>r. r \<in> set rs \<Longrightarrow> \<not> P r) \<Longrightarrow> delete_where P rs = rs"
  by (induction rs) auto

lemma length_order_asc [simp]: "length (order_asc k rs) = length rs"
  by (simp add: order_asc_def)

lemma set_order_asc [simp]: "set (order_asc k rs) = set rs"
  by (simp add: order_asc_def)

lemma sorted_order_asc: "sorted (map k (order_asc k rs))"
  by (simp add: order_asc_def)

lemma length_order_desc [simp]: "length (order_desc k rs) = length rs"
  by (simp add: order_desc_def)

lemma set_order_desc [simp]: "set (order_desc k rs) = set rs"
  by (simp add: order_desc_def)

lemma distinct_order_desc [simp]: "distinct (order_desc k rs) = distinct rs"
  by (simp add: order_desc_def)

lemma sorted_order_desc: "sorted_wrt (\<lambda>a b. k b \<le> k a) (order_desc k rs)"
proof -
  have "sorted (map k (sort_key k (rev rs)))" by simp
  then show ?thesis
    by (simp add: order_desc_def sorted_wrt_rev sorted_map)
qed

section \<open>Selecting one row\<close>

text \<open>
  A row selected by a key that is unique in the table is the only row with that key.
\<close>

lemma find_SomeD: "find P rs = Some r \<Longrightarrow> r \<in> set rs \<and> P r"
  by (auto simp: find_Some_iff)

lemma find_NoneD: "find P rs = None \<Longrightarrow> r \<in> set rs \<Longrightarrow> \<not> P r"
  by (auto simp: find_None_iff)

lemma distinct_key_unique:
  "distinct (map k rs) \<Longrightarrow> r \<in> set rs \<Longrightarrow> r' \<in> set rs \<Longrightarrow> k r = k r' \<Longrightarrow> r = r'"
  by (simp add: distinct_map inj_on_def)

lemma find_unique:
  assumes "distinct (map k rs)" and "r \<in> set rs" and "k r = key"
  shows "find (\<lambda>r. k r = key) rs = Some r"
  using assms
proof (induction rs)
  case Nil
  then show ?case by simp
next
  case (Cons a rs)
  then show ?case by (auto simp: image_iff)
qed

lemma in_set_mapD: "y \<in> set (map f xs) \<Longrightarrow> \<exists>x. x \<in> set xs \<and> f x = y"
  by auto

lemma find_append:
  "find P (xs @ ys) = (case find P xs of Some r \<Rightarrow> Some r | None \<Rightarrow> find P ys)"
  by (induction xs) auto

lemma find_snoc_fresh:
  "(\<And>r. r \<in> set xs \<Longrightarrow> \<not> P r) \<Longrightarrow> P y \<Longrightarrow> find P (xs @ [y]) = Some y"
  by (induction xs) auto

lemma find_update_where:
  assumes "\<And>r. k (f r) = k r"
  shows "find (\<lambda>r. k r = key) (update_where P f rs) =
    map_option (\<lambda>r. if P r then f r else r) (find (\<lambda>r. k r = key) rs)"
  by (induction rs) (auto simp: assms)

lemma find_update_where_pred:
  assumes "\<And>r. Q (f r) = Q r"
  shows "find Q (update_where P f rs) = map_option (\<lambda>r. if P r then f r else r) (find Q rs)"
  by (induction rs) (auto simp: assms)

lemma find_delete_where_same:
  "find (\<lambda>r. k r = key) (delete_where (\<lambda>r. k r = key) rs) = None"
  by (auto simp: find_None_iff)

lemma find_delete_where_other:
  assumes "\<And>r. Q r \<Longrightarrow> \<not> P r"
  shows "find Q (delete_where P rs) = find Q rs"
  by (induction rs) (auto dest: assms)

section \<open>Go maps\<close>

text \<open>
  A Go map that the code iterates over is a list of entries with distinct keys; the order of
  the iteration is left to the list.
\<close>

definition drop_key :: "'k \<Rightarrow> ('k \<times> 'v) list \<Rightarrow> ('k \<times> 'v) list" where
  "drop_key k al = filter (\<lambda>p. fst p \<noteq> k) al"

definition put_key :: "'k \<Rightarrow> 'v \<Rightarrow> ('k \<times> 'v) list \<Rightarrow> ('k \<times> 'v) list" where
  "put_key k v al = (k, v) # drop_key k al"

lemma map_of_drop_key [simp]: "map_of (drop_key k al) = (map_of al)(k := None)"
  by (induction al) (auto simp: drop_key_def)

lemma map_of_put_key [simp]: "map_of (put_key k v al) = (map_of al)(k \<mapsto> v)"
  by (simp add: put_key_def)

lemma set_drop_key [simp]: "set (drop_key k al) = {p \<in> set al. fst p \<noteq> k}"
  by (auto simp: drop_key_def)

lemma set_put_key [simp]: "set (put_key k v al) = insert (k, v) {p \<in> set al. fst p \<noteq> k}"
  by (simp add: put_key_def)

lemma distinct_drop_key [intro]: "distinct (map fst al) \<Longrightarrow> distinct (map fst (drop_key k al))"
  unfolding drop_key_def by (rule distinct_map_filter)

lemma distinct_put_key [intro]: "distinct (map fst al) \<Longrightarrow> distinct (map fst (put_key k v al))"
  using distinct_drop_key [of al k] by (auto simp: put_key_def drop_key_def)

lemma map_of_distinct_mem:
  "distinct (map fst al) \<Longrightarrow> (k, v) \<in> set al \<Longrightarrow> map_of al k = Some v"
  by simp

lemma keys_map_of: "map_of al k = None \<longleftrightarrow> k \<notin> fst ` set al"
  by (rule map_of_eq_None_iff)

end
