(* ===== verification/GoTime.thy ===== *)
theory GoTime
  imports GoStrings
begin

text \<open>
  Instants and their text in the database. A \<open>time.Time\<close> is the number of nanoseconds
  since 0001-01-01T00:00:00Z, so that the zero value (\<open>IsZero\<close>) is 0. The store keeps
  instants as text: the empty string for the zero value, otherwise
  \<open>t.UTC().Format(time.RFC3339Nano)\<close>. SQL compares and orders that text byte by byte.
  The part up to the seconds has a fixed width and is ordered as the instants are (years 1
  to 9999); the fraction is not, because RFC3339Nano drops its trailing zeros. The order
  of \<open>stamp\<close> is the order of the text.
\<close>

type_synonym time = int

definition second :: int where "second = 1000000000"
definition minute :: int where "minute = 60 * second"
definition hour :: int where "hour = 60 * minute"
definition millisecond :: int where "millisecond = 1000000"

lemma second_pos [simp]: "0 < second"
  by (simp add: second_def)

definition is_zero :: "time \<Rightarrow> bool" where
  "is_zero t \<longleftrightarrow> t = 0"

datatype stamp = NoStamp | At time

definition format_time :: "time \<Rightarrow> stamp" where
  "format_time t = At t"

text \<open>The guard \<open>if !seenAt.IsZero()\<close> before formatting.\<close>

definition format_seen :: "time \<Rightarrow> stamp" where
  "format_seen t = (if is_zero t then NoStamp else format_time t)"

fun parseRFC3339 :: "stamp \<Rightarrow> time" where
  "parseRFC3339 NoStamp = 0"
| "parseRFC3339 (At t) = t"

lemma parse_format [simp]: "parseRFC3339 (format_time t) = t"
  by (simp add: format_time_def)

lemma parse_format_seen [simp]: "parseRFC3339 (format_seen t) = t"
  by (simp add: format_seen_def is_zero_def)

section \<open>The fraction of a second as RFC3339Nano writes it\<close>

definition digit_char :: "nat \<Rightarrow> char" where
  "digit_char d = ''0123456789'' ! d"

text \<open>\<open>k\<close> decimal digits, most significant first.\<close>

fun fixed_digits :: "nat \<Rightarrow> nat \<Rightarrow> string" where
  "fixed_digits 0 n = []"
| "fixed_digits (Suc k) n = fixed_digits k (n div 10) @ [digit_char (n mod 10)]"

definition drop_trailing_zeros :: "string \<Rightarrow> string" where
  "drop_trailing_zeros ds = rev (dropWhile (\<lambda>c. c = CHR ''0'') (rev ds))"

definition fraction_text :: "nat \<Rightarrow> string" where
  "fraction_text n = (if n = 0 then ''Z'' else ''.'' @ drop_trailing_zeros (fixed_digits 9 n) @ ''Z'')"

definition seconds_of :: "time \<Rightarrow> int" where
  "seconds_of t = t div second"

definition nanos_of :: "time \<Rightarrow> nat" where
  "nanos_of t = nat (t mod second)"

lemma digit_char_inj: "a < 10 \<Longrightarrow> b < 10 \<Longrightarrow> digit_char a = digit_char b \<Longrightarrow> a = b"
  using nth_eq_iff_index_eq [of "''0123456789''" a b] by (simp add: digit_char_def)

lemma fixed_digits_numeral [simp]:
  "fixed_digits (numeral k) n =
    fixed_digits (pred_numeral k) (n div 10) @ [digit_char (n mod 10)]"
  unfolding numeral_eq_Suc [of k] by (rule fixed_digits.simps(2))

lemma length_fixed_digits [simp]: "length (fixed_digits k n) = k"
  by (induction k arbitrary: n) auto

lemma fixed_digits_inj:
  "a < 10 ^ k \<Longrightarrow> b < 10 ^ k \<Longrightarrow> fixed_digits k a = fixed_digits k b \<Longrightarrow> a = b"
proof (induction k arbitrary: a b)
  case 0
  then show ?case by simp
next
  case (Suc k)
  from Suc.prems(3) have "fixed_digits k (a div 10) = fixed_digits k (b div 10)"
    and "digit_char (a mod 10) = digit_char (b mod 10)" by simp_all
  moreover have "a div 10 < 10 ^ k" "b div 10 < 10 ^ k"
    using Suc.prems by (simp_all add: less_mult_imp_div_less mult.commute)
  ultimately have "a div 10 = b div 10" "a mod 10 = b mod 10"
    using Suc.IH digit_char_inj [of "a mod 10" "b mod 10"] by auto
  then show ?case by (metis div_mult_mod_eq)
qed

lemma drop_trailing_zeros_pad:
  "drop_trailing_zeros ds @ replicate (length ds - length (drop_trailing_zeros ds)) CHR ''0'' = ds"
proof -
  let ?P = "\<lambda>c. c = CHR ''0''"
  have "takeWhile ?P (rev ds) = replicate (length (takeWhile ?P (rev ds))) CHR ''0''"
    by (rule replicate_eqI [symmetric, THEN sym]) (auto dest: set_takeWhileD)
  moreover have "ds = rev (dropWhile ?P (rev ds)) @ rev (takeWhile ?P (rev ds))"
    by (metis rev_append rev_rev_ident takeWhile_dropWhile_id)
  moreover have "length ds - length (dropWhile ?P (rev ds)) = length (takeWhile ?P (rev ds))"
    by (metis add_diff_cancel_right' length_append length_rev takeWhile_dropWhile_id)
  ultimately show ?thesis
    by (simp add: drop_trailing_zeros_def) (metis rev_replicate)
qed

lemma drop_trailing_zeros_inj:
  "length a = length b \<Longrightarrow> drop_trailing_zeros a = drop_trailing_zeros b \<Longrightarrow> a = b"
  by (metis drop_trailing_zeros_pad)

lemma fraction_text_inj:
  assumes "a < 10 ^ 9" and "b < 10 ^ 9" and "fraction_text a = fraction_text b"
  shows "a = b"
proof (cases "a = 0 \<or> b = 0")
  case True
  with assms(3) show ?thesis by (auto simp: fraction_text_def split: if_splits)
next
  case False
  with assms(3) have "drop_trailing_zeros (fixed_digits 9 a) = drop_trailing_zeros (fixed_digits 9 b)"
    by (simp add: fraction_text_def)
  then have "fixed_digits 9 a = fixed_digits 9 b"
    by (rule drop_trailing_zeros_inj [rotated]) simp
  with assms(1,2) show ?thesis by (rule fixed_digits_inj)
qed

section \<open>The order of the text\<close>

fun stamp_le :: "stamp \<Rightarrow> stamp \<Rightarrow> bool" where
  "stamp_le NoStamp s = True"
| "stamp_le (At t) NoStamp = False"
| "stamp_le (At t) (At u) =
     (seconds_of t < seconds_of u \<or>
      seconds_of t = seconds_of u \<and> fraction_text (nanos_of t) \<le> fraction_text (nanos_of u))"

lemma time_eqI: "seconds_of t = seconds_of u \<Longrightarrow> nanos_of t = nanos_of u \<Longrightarrow> t = u"
  by (metis div_mult_mod_eq eq_nat_nat_iff nanos_of_def pos_mod_sign second_pos seconds_of_def)

lemma nanos_of_less: "nanos_of t < 10 ^ 9"
proof -
  have "t mod second < second" by simp
  then show ?thesis by (simp add: nanos_of_def second_def)
qed

lemma stamp_le_antisym: "stamp_le a b \<Longrightarrow> stamp_le b a \<Longrightarrow> a = b"
proof (cases a; cases b)
  fix t u
  assume "a = At t" and "b = At u" and "stamp_le a b" and "stamp_le b a"
  then have "seconds_of t = seconds_of u" and "fraction_text (nanos_of t) = fraction_text (nanos_of u)"
    by auto
  then have "t = u"
    using fraction_text_inj [OF nanos_of_less nanos_of_less] by (blast intro: time_eqI)
  then show "a = b" using \<open>a = At t\<close> \<open>b = At u\<close> by simp
qed auto

lemma stamp_le_trans: "stamp_le a b \<Longrightarrow> stamp_le b c \<Longrightarrow> stamp_le a c"
  by (cases a; cases b; cases c) auto

lemma stamp_le_total: "stamp_le a b \<or> stamp_le b a"
  by (cases a; cases b) auto

instantiation stamp :: linorder
begin

definition less_eq_stamp :: "stamp \<Rightarrow> stamp \<Rightarrow> bool" where
  "less_eq_stamp a b = stamp_le a b"

definition less_stamp :: "stamp \<Rightarrow> stamp \<Rightarrow> bool" where
  "less_stamp a b = (stamp_le a b \<and> \<not> stamp_le b a)"

instance
proof
  show "(x < y) = (x \<le> y \<and> \<not> y \<le> x)" for x y :: stamp
    by (simp add: less_eq_stamp_def less_stamp_def)
  show "x \<le> x" for x :: stamp
    using stamp_le_total [of x x] by (simp add: less_eq_stamp_def)
  show "x \<le> y \<Longrightarrow> y \<le> z \<Longrightarrow> x \<le> z" for x y z :: stamp
    unfolding less_eq_stamp_def by (rule stamp_le_trans)
  show "x \<le> y \<Longrightarrow> y \<le> x \<Longrightarrow> x = y" for x y :: stamp
    unfolding less_eq_stamp_def by (rule stamp_le_antisym)
  show "x \<le> y \<or> y \<le> x" for x y :: stamp
    unfolding less_eq_stamp_def by (rule stamp_le_total)
qed

end

text \<open>Across different seconds the text order is the order of the instants.\<close>

lemma stamp_le_seconds:
  "seconds_of t < seconds_of u \<Longrightarrow> At t < At u"
  by (auto simp: less_stamp_def)

lemma stamp_less_coarse:
  "At t < At u \<Longrightarrow> seconds_of t \<le> seconds_of u"
  by (auto simp: less_stamp_def)

lemma seconds_of_mono: "t \<le> u \<Longrightarrow> seconds_of t \<le> seconds_of u"
  by (simp add: seconds_of_def zdiv_mono1)

text \<open>Half a second later, and yet a smaller text: \<open>...:00.5Z\<close> sorts before \<open>...:00Z\<close>.\<close>

lemma stamp_order_quirk: "At (k * second + 500000000) < At (k * second)"
proof -
  have "seconds_of (k * second + 500000000) = k" "seconds_of (k * second) = k"
    "nanos_of (k * second + 500000000) = 500000000" "nanos_of (k * second) = 0"
    by (simp_all add: seconds_of_def nanos_of_def second_def)
  then show ?thesis
    by (simp add: less_stamp_def fraction_text_def drop_trailing_zeros_def digit_char_def)
qed

end
