(* ===== verification/StoreBase.thy ===== *)
theory StoreBase
  imports GoTime "HOL-Library.Word"
begin

text \<open>
  The database of internal/server/store.go: one record per table of the schema, rows in
  rowid order, the AUTOINCREMENT counter of each table, and the constraints of the schema
  (\<open>UNIQUE\<close>, \<open>FOREIGN KEY\<close>, positive rowids) as one invariant \<open>store_ok\<close>. JSON columns
  hold the decoded string list. A table can be marked faulty: every statement that names
  it then fails with a driver error, which is how the error paths of the callers arise.
\<close>

section \<open>Errors\<close>

datatype go_err =
    ErrNoRows            \<comment> \<open>\<open>sql.ErrNoRows\<close>\<close>
  | ErrUnique string     \<comment> \<open>a \<open>UNIQUE\<close> constraint failed, with its column\<close>
  | ErrForeignKey        \<comment> \<open>a \<open>FOREIGN KEY\<close> constraint failed\<close>
  | ErrIO                \<comment> \<open>any other driver error\<close>
  | ErrMsg string        \<comment> \<open>\<open>fmt.Errorf\<close> of the program\<close>

type_synonym 'a res = "go_err + 'a"

text \<open>\<open>err.Error()\<close>: the text of a driver error is the driver's (\<open>drv\<close>).\<close>

definition err_text :: "(go_err \<Rightarrow> string) \<Rightarrow> go_err \<Rightarrow> string" where
  "err_text drv e =
     (case e of ErrNoRows \<Rightarrow> ''sql: no rows in result set'' | ErrMsg m \<Rightarrow> m | _ \<Rightarrow> drv e)"

section \<open>Tables\<close>

datatype table = Tunnels | Agents | RequestLogs | AccessRules | TunnelEvents | Users | Sessions | LoginStates

record tunnel_row =
  t_id :: int
  t_name :: string
  t_hostname :: string
  t_local :: string
  t_owner :: int
  t_agent :: int
  t_desired :: string
  t_actual :: string
  t_error :: string
  t_seen :: stamp
  t_created :: stamp
  t_updated :: stamp

record agent_row =
  ag_id :: int
  ag_name :: string
  ag_hash :: string
  ag_owner :: int
  ag_status :: string
  ag_seen :: stamp
  ag_created :: stamp
  ag_revoked :: stamp
  ag_meta :: string

record log_row =
  lg_id :: int
  lg_tunnel :: int
  lg_hostname :: string
  lg_time :: stamp
  lg_method :: string
  lg_host :: string
  lg_path :: string
  lg_status :: int
  lg_latency :: int
  lg_in :: int
  lg_out :: int
  lg_client :: string
  lg_error :: string
  lg_ws :: int

record rule_row =
  ru_id :: int
  ru_tunnel :: int
  ru_mode :: string
  ru_user :: string
  ru_pass :: string
  ru_header :: string
  ru_secret :: string
  ru_allowed :: "string list"
  ru_created :: stamp
  ru_updated :: stamp

record event_row =
  ev_id :: int
  ev_tunnel :: int
  ev_type :: string
  ev_message :: string
  ev_created :: stamp

record user_row =
  us_id :: int
  us_subject :: string
  us_email :: string
  us_name :: string
  us_role :: string
  us_groups :: "string list"
  us_created :: stamp
  us_updated :: stamp
  us_login :: stamp

record session_row =
  se_id :: int
  se_user :: int
  se_hash :: string
  se_expires :: stamp
  se_created :: stamp
  se_seen :: stamp

record login_row =
  ls_id :: int
  ls_state :: string
  ls_verifier :: string
  ls_redirect :: string
  ls_expires :: stamp
  ls_created :: stamp

record store =
  tunnels :: "tunnel_row list"
  agents :: "agent_row list"
  logs :: "log_row list"
  rules :: "rule_row list"
  events :: "event_row list"
  users :: "user_row list"
  sessions :: "session_row list"
  logins :: "login_row list"
  seqs :: "table \<Rightarrow> int"
  hits :: "64 word"
  fault :: "table \<Rightarrow> bool"

text \<open>The store right after \<open>migrate\<close> on a new file.\<close>

definition empty_store :: store where
  "empty_store = \<lparr>tunnels = [], agents = [], logs = [], rules = [], events = [], users = [],
     sessions = [], logins = [], seqs = (\<lambda>_. 0), hits = 0, fault = (\<lambda>_. False)\<rparr>"

definition next_id :: "store \<Rightarrow> table \<Rightarrow> int" where
  "next_id s tb = seqs s tb + 1"

definition bump :: "table \<Rightarrow> store \<Rightarrow> store" where
  "bump tb s = s\<lparr>seqs := (seqs s)(tb := next_id s tb)\<rparr>"

section \<open>Schema constraints\<close>

definition ids_ok :: "('r \<Rightarrow> int) \<Rightarrow> 'r list \<Rightarrow> int \<Rightarrow> bool" where
  "ids_ok k rs n \<longleftrightarrow> distinct (map k rs) \<and> (\<forall>r \<in> set rs. 0 < k r \<and> k r \<le> n) \<and> 0 \<le> n"

text \<open>Every value of a referencing column is an id of the referenced table.\<close>

definition refs_ok :: "('r \<Rightarrow> int) \<Rightarrow> 'r list \<Rightarrow> ('p \<Rightarrow> int) \<Rightarrow> 'p list \<Rightarrow> bool" where
  "refs_ok f rs k ps \<longleftrightarrow> f ` set rs \<subseteq> k ` set ps"

definition tunnels_ok :: "store \<Rightarrow> bool" where
  "tunnels_ok s \<longleftrightarrow> ids_ok t_id (tunnels s) (seqs s Tunnels) \<and>
     distinct (map t_name (tunnels s)) \<and> distinct (map t_hostname (tunnels s))"

definition agents_ok :: "store \<Rightarrow> bool" where
  "agents_ok s \<longleftrightarrow> ids_ok ag_id (agents s) (seqs s Agents) \<and>
     distinct (map ag_name (agents s)) \<and> distinct (map ag_hash (agents s)) \<and>
     refs_ok ag_owner (agents s) us_id (users s)"

definition children_ok :: "store \<Rightarrow> bool" where
  "children_ok s \<longleftrightarrow>
     ids_ok lg_id (logs s) (seqs s RequestLogs) \<and> refs_ok lg_tunnel (logs s) t_id (tunnels s) \<and>
     ids_ok ru_id (rules s) (seqs s AccessRules) \<and> refs_ok ru_tunnel (rules s) t_id (tunnels s) \<and>
     distinct (map ru_tunnel (rules s)) \<and>
     ids_ok ev_id (events s) (seqs s TunnelEvents) \<and> refs_ok ev_tunnel (events s) t_id (tunnels s)"

definition users_ok :: "store \<Rightarrow> bool" where
  "users_ok s \<longleftrightarrow> ids_ok us_id (users s) (seqs s Users) \<and> distinct (map us_subject (users s)) \<and>
     ids_ok se_id (sessions s) (seqs s Sessions) \<and> distinct (map se_hash (sessions s)) \<and>
     refs_ok se_user (sessions s) us_id (users s) \<and>
     ids_ok ls_id (logins s) (seqs s LoginStates) \<and> distinct (map ls_state (logins s))"

definition store_ok :: "store \<Rightarrow> bool" where
  "store_ok s \<longleftrightarrow> tunnels_ok s \<and> agents_ok s \<and> children_ok s \<and> users_ok s"

lemmas table_ok_defs = tunnels_ok_def agents_ok_def children_ok_def users_ok_def

lemmas store_ok_defs = store_ok_def table_ok_defs

lemma empty_store_ok: "store_ok empty_store"
  by (simp add: store_ok_defs empty_store_def ids_ok_def refs_ok_def)

section \<open>Facts about ids and references\<close>

lemma ids_ok_insert [intro!]:
  "ids_ok k rs n \<Longrightarrow> k r = n + 1 \<Longrightarrow> ids_ok k (rs @ [r]) (n + 1)"
  by (force simp: ids_ok_def)

lemma ids_ok_delete [intro!]: "ids_ok k rs n \<Longrightarrow> ids_ok k (delete_where P rs) n"
  by (auto simp: ids_ok_def)

lemma ids_ok_update [simp]:
  assumes "\<And>r. k (f r) = k r"
  shows "ids_ok k (update_where P f rs) n = ids_ok k rs n"
proof -
  have "(\<forall>r \<in> set xs. 0 < k r \<and> k r \<le> n) = (\<forall>i \<in> k ` set xs. 0 < i \<and> i \<le> n)" for xs
    by blast
  then show ?thesis by (simp only: ids_ok_def image_update_where [of k, OF assms] map_update_where [of k, OF assms])
qed

lemma ids_okD: "ids_ok k rs n \<Longrightarrow> r \<in> set rs \<Longrightarrow> 0 < k r \<and> k r \<le> n"
  by (simp add: ids_ok_def)

lemma ids_ok_fresh: "ids_ok k rs n \<Longrightarrow> n + 1 \<notin> k ` set rs"
  by (force simp: ids_ok_def)

lemma ids_ok_distinct: "ids_ok k rs n \<Longrightarrow> distinct (map k rs)"
  by (simp add: ids_ok_def)

lemma refs_ok_insert_parent [intro!]: "refs_ok f rs k ps \<Longrightarrow> refs_ok f rs k (ps @ [p])"
  by (auto simp: refs_ok_def)

lemma refs_ok_insert [intro!]:
  "refs_ok f rs k ps \<Longrightarrow> f r \<in> k ` set ps \<Longrightarrow> refs_ok f (rs @ [r]) k ps"
  by (auto simp: refs_ok_def)

lemma refs_ok_delete [intro!]: "refs_ok f rs k ps \<Longrightarrow> refs_ok f (delete_where P rs) k ps"
  by (auto simp: refs_ok_def)

lemma refs_ok_update [simp]:
  "(\<And>r. f (g r) = f r) \<Longrightarrow> refs_ok f (update_where P g rs) k ps = refs_ok f rs k ps"
  by (simp add: refs_ok_def image_update_where)

lemma refs_ok_update_parent [simp]:
  "(\<And>p. k (g p) = k p) \<Longrightarrow> refs_ok f rs k (update_where P g ps) = refs_ok f rs k ps"
  by (simp add: refs_ok_def image_update_where)

text \<open>
  Deleting parents together with the children that refer to them keeps the references:
  this is \<open>ON DELETE CASCADE\<close>.
\<close>

lemma refs_ok_cascade:
  assumes "refs_ok f rs k ps"
  shows "refs_ok f (delete_where (\<lambda>r. f r \<in> k ` {p \<in> set ps. P p}) rs) k (delete_where P ps)"
  using assms by (auto simp: refs_ok_def image_iff)

lemma fresh_id_not_referenced:
  "ids_ok k ps n \<Longrightarrow> refs_ok f rs k ps \<Longrightarrow> r \<in> set rs \<Longrightarrow> f r \<noteq> n + 1"
  by (metis ids_ok_fresh image_subset_iff refs_ok_def)

end
