(* ===== verification/Netip.thy ===== *)
theory Netip
  imports GoStrings "HOL-Library.Word"
begin

text \<open>
  IP addresses and CIDR prefixes, as net/netip and net of Go's standard library read and
  write them: \<open>ParseAddr\<close>, \<open>ParsePrefix\<close>, \<open>Prefix.Contains\<close>, \<open>Addr.String\<close> and
  \<open>SplitHostPort\<close>. The access rules and the trusted-proxy list of the server are decided
  with them. IPv6 addresses keep their zone; an IPv4-mapped IPv6 address is an IPv6
  address, as in netip.
\<close>

unbundle bit_operations_syntax

datatype addr = V4 "32 word" | V6 "128 word" string

datatype prefix = Prefix addr nat

section \<open>Reading IPv4 addresses\<close>

definition is_digit :: "char \<Rightarrow> bool" where
  "is_digit c \<longleftrightarrow> (let n = of_char c :: nat in 48 \<le> n \<and> n \<le> 57)"

definition dec_val :: "string \<Rightarrow> nat" where
  "dec_val s = foldl (\<lambda>v c. v * 10 + (of_char c - 48)) 0 s"

definition parse_octet :: "string \<Rightarrow> nat option" where
  "parse_octet s =
     (if s = [] \<or> \<not> list_all is_digit s then None
      else if 1 < length s \<and> hd s = CHR ''0'' then None
      else if 255 < dec_val s then None
      else Some (dec_val s))"

definition word_of_octets :: "nat \<Rightarrow> nat \<Rightarrow> nat \<Rightarrow> nat \<Rightarrow> 32 word" where
  "word_of_octets a b c d = of_nat (((a * 256 + b) * 256 + c) * 256 + d)"

definition parse_ipv4 :: "string \<Rightarrow> (nat \<times> nat \<times> nat \<times> nat) option" where
  "parse_ipv4 s =
     (case map parse_octet (split_on CHR ''.'' s) of
        [Some a, Some b, Some c, Some d] \<Rightarrow> Some (a, b, c, d)
      | _ \<Rightarrow> None)"

section \<open>Reading IPv6 addresses\<close>

definition hex_digit :: "char \<Rightarrow> nat option" where
  "hex_digit c = (let n = of_char c :: nat in
     if 48 \<le> n \<and> n \<le> 57 then Some (n - 48)
     else if 97 \<le> n \<and> n \<le> 102 then Some (n - 87)
     else if 65 \<le> n \<and> n \<le> 70 then Some (n - 55) else None)"

definition hex_val :: "string \<Rightarrow> nat" where
  "hex_val s = foldl (\<lambda>v c. v * 16 + (case hex_digit c of Some d \<Rightarrow> d | None \<Rightarrow> 0)) 0 s"

text \<open>
  The loop of \<open>parseIPv6\<close>: the 16-bit groups read so far, the position of the ellipsis,
  the rest of the string. It ends with the groups, the ellipsis and what is left over.
\<close>

function v6_loop :: "nat list \<Rightarrow> nat option \<Rightarrow> string \<Rightarrow> (nat list \<times> nat option \<times> string) option" where
  "v6_loop groups ell s =
     (if 8 \<le> length groups then Some (groups, ell, s)
      else
        let hs = takeWhile (\<lambda>c. hex_digit c \<noteq> None) s;
            rest = dropWhile (\<lambda>c. hex_digit c \<noteq> None) s
        in if hs = [] \<or> 4 < length hs then None
           else if rest \<noteq> [] \<and> hd rest = CHR ''.'' then
             (if ell = None \<and> length groups \<noteq> 6 then None
              else if 8 < length groups + 2 then None
              else case parse_ipv4 s of None \<Rightarrow> None
                   | Some (a, b, c, d) \<Rightarrow> Some (groups @ [a * 256 + b, c * 256 + d], ell, []))
           else case rest of
               [] \<Rightarrow> Some (groups @ [hex_val hs], ell, [])
             | c # t \<Rightarrow>
                 if c \<noteq> CHR '':'' \<or> t = [] then None
                 else if hd t = CHR '':'' then
                   (if ell \<noteq> None then None
                    else if tl t = [] then Some (groups @ [hex_val hs], Some (Suc (length groups)), [])
                    else v6_loop (groups @ [hex_val hs]) (Some (Suc (length groups))) (tl t))
                 else v6_loop (groups @ [hex_val hs]) ell t)"
  by pat_completeness auto
termination
  by (relation "measure (\<lambda>(groups, ell, s). 8 - length groups)") auto

declare v6_loop.simps [simp del]

definition expand_groups :: "nat list \<Rightarrow> nat option \<Rightarrow> nat list option" where
  "expand_groups groups ell =
     (case ell of
        None \<Rightarrow> if length groups < 8 then None else Some groups
      | Some e \<Rightarrow>
          if length groups < 8
          then Some (take e groups @ replicate (8 - length groups) 0 @ drop e groups)
          else None)"

definition word_of_groups :: "nat list \<Rightarrow> 128 word" where
  "word_of_groups gs = of_nat (foldl (\<lambda>v g. v * 65536 + g) 0 gs)"

definition parse_v6_body :: "string \<Rightarrow> (128 word) option" where
  "parse_v6_body s =
     (let lead = has_prefix s ''::''; s' = (if lead then drop 2 s else s)
      in if lead \<and> s' = [] then Some 0
         else case v6_loop [] (if lead then Some 0 else None) s' of
             None \<Rightarrow> None
           | Some (groups, ell, rest) \<Rightarrow>
               if rest \<noteq> [] then None else map_option word_of_groups (expand_groups groups ell))"

definition parse_ipv6 :: "string \<Rightarrow> addr option" where
  "parse_ipv6 s =
     (let body = takeWhile (\<lambda>c. c \<noteq> CHR ''%'') s; rest = dropWhile (\<lambda>c. c \<noteq> CHR ''%'') s
      in if rest \<noteq> [] \<and> tl rest = [] then None
         else map_option (\<lambda>w. V6 w (tl rest)) (parse_v6_body body))"

text \<open>\<open>ParseAddr\<close>: the first of \<open>.\<close>, \<open>:\<close> and \<open>%\<close> decides.\<close>

definition parse_addr :: "string \<Rightarrow> addr option" where
  "parse_addr s =
     (case dropWhile (\<lambda>c. c \<noteq> CHR ''.'' \<and> c \<noteq> CHR '':'' \<and> c \<noteq> CHR ''%'') s of
        [] \<Rightarrow> None
      | c # _ \<Rightarrow>
          if c = CHR ''.'' then map_option (\<lambda>(a, b, c, d). V4 (word_of_octets a b c d)) (parse_ipv4 s)
          else if c = CHR '':'' then parse_ipv6 s else None)"

section \<open>Prefixes\<close>

definition parse_bits :: "string \<Rightarrow> nat option" where
  "parse_bits s =
     (if s = [] \<or> \<not> list_all is_digit s \<or> 1 < length s \<and> hd s = CHR ''0'' then None
      else Some (dec_val s))"

definition max_bits :: "addr \<Rightarrow> nat" where
  "max_bits a = (case a of V4 _ \<Rightarrow> 32 | V6 _ _ \<Rightarrow> 128)"

definition has_zone :: "addr \<Rightarrow> bool" where
  "has_zone a = (case a of V4 _ \<Rightarrow> False | V6 _ z \<Rightarrow> z \<noteq> [])"

definition split_last :: "char \<Rightarrow> string \<Rightarrow> (string \<times> string) option" where
  "split_last c s =
     (if c \<in> set s
      then Some (rev (tl (dropWhile (\<lambda>x. x \<noteq> c) (rev s))), rev (takeWhile (\<lambda>x. x \<noteq> c) (rev s)))
      else None)"

definition parse_prefix :: "string \<Rightarrow> prefix option" where
  "parse_prefix s =
     (case split_last CHR ''/'' s of
        None \<Rightarrow> None
      | Some (ip, bs) \<Rightarrow>
          (case parse_addr ip of
             None \<Rightarrow> None
           | Some a \<Rightarrow>
               if has_zone a then None
               else case parse_bits bs of
                   None \<Rightarrow> None
                 | Some n \<Rightarrow> if max_bits a < n then None else Some (Prefix a n)))"

text \<open>\<open>Prefix.Contains\<close>: same family, no zone, and no difference left after the shift.\<close>

fun prefix_contains :: "prefix \<Rightarrow> addr \<Rightarrow> bool" where
  "prefix_contains (Prefix (V4 p) n) (V4 a) \<longleftrightarrow> drop_bit (32 - n) (a XOR p) = 0"
| "prefix_contains (Prefix (V6 p _) n) (V6 a z) \<longleftrightarrow> z = [] \<and> drop_bit (128 - n) (a XOR p) = 0"
| "prefix_contains _ _ \<longleftrightarrow> False"

section \<open>Writing addresses\<close>

definition digit_of :: "nat \<Rightarrow> char" where
  "digit_of d = ''0123456789abcdef'' ! d"

text \<open>A number in base 10 or 16 without leading zeros.\<close>

function num_text :: "nat \<Rightarrow> nat \<Rightarrow> string" where
  "num_text b n = (if b < 2 \<or> n < b then [digit_of n] else num_text b (n div b) @ [digit_of (n mod b)])"
  by pat_completeness auto
termination
  by (relation "measure snd") auto

declare num_text.simps [simp del]

definition octet :: "32 word \<Rightarrow> nat \<Rightarrow> nat" where
  "octet w i = unat w div 256 ^ i mod 256"

definition v4_text :: "32 word \<Rightarrow> string" where
  "v4_text w = join_with ''.'' (map (\<lambda>i. num_text 10 (octet w i)) [3, 2, 1, 0])"

definition groups_of :: "128 word \<Rightarrow> nat list" where
  "groups_of w = map (\<lambda>i. unat w div 65536 ^ i mod 65536) [7, 6, 5, 4, 3, 2, 1, 0]"

text \<open>The first longest run of at least two zero groups, as start and end.\<close>

definition zero_run :: "nat list \<Rightarrow> nat \<times> nat" where
  "zero_run gs = foldl (\<lambda>(b, e) i.
       let l = length (takeWhile (\<lambda>g. g = 0) (drop i gs))
       in if 2 \<le> l \<and> e - b < l then (i, i + l) else (b, e)) (0, 0) [0, 1, 2, 3, 4, 5, 6, 7]"

definition v6_text :: "128 word \<Rightarrow> string" where
  "v6_text w =
     (let gs = groups_of w; (b, e) = zero_run gs; hx = num_text 16
      in if b = e then join_with '':'' (map hx gs)
         else join_with '':'' (map hx (take b gs)) @ ''::'' @ join_with '':'' (map hx (drop e gs)))"

definition addr_text :: "addr \<Rightarrow> string" where
  "addr_text a =
     (case a of
        V4 w \<Rightarrow> v4_text w
      | V6 w z \<Rightarrow>
          (if unat w div 2 ^ 32 = 65535 then ''::ffff:'' @ v4_text (of_nat (unat w mod 2 ^ 32)) else v6_text w)
          @ (if z = [] then [] else ''%'' @ z))"

section \<open>Host and port\<close>

text \<open>\<open>net.SplitHostPort\<close>, keeping the host of a well-formed pair.\<close>

definition split_host_port :: "string \<Rightarrow> string option" where
  "split_host_port hp =
     (case split_last CHR '':'' hp of
        None \<Rightarrow> None
      | Some (hostpart, port) \<Rightarrow>
          if hp \<noteq> [] \<and> hd hp = CHR ''['' then
            (let host = takeWhile (\<lambda>c. c \<noteq> CHR '']'') (tl hp);
                 after = dropWhile (\<lambda>c. c \<noteq> CHR '']'') (tl hp)
             in if after = [] \<or> CHR ''['' # host @ '']'' \<noteq> hostpart \<or> CHR ''['' \<in> set host
                   \<or> CHR ''['' \<in> set port \<or> CHR '']'' \<in> set port
                then None else Some host)
          else if CHR '':'' \<in> set hostpart \<or> CHR ''['' \<in> set hp \<or> CHR '']'' \<in> set hp
          then None else Some hostpart)"


section \<open>Facts\<close>

lemma word_xor_eq_0: "(a XOR b = (0::'a::len word)) \<longleftrightarrow> a = b"
  by (metis xor.assoc xor.left_neutral xor.right_neutral xor_self_eq)

lemma drop_bit_word_eq_iff:
  "drop_bit n a = drop_bit n (b :: 'a::len word) \<longleftrightarrow> unat a div 2 ^ n = unat b div 2 ^ n"
  by (simp only: word_unat_eq_iff unat_drop_bit_eq) (simp add: drop_bit_eq_div)

text \<open>A prefix of length \<open>n\<close> holds the addresses of one aligned block of \<open>2 ^ (32 - n)\<close>.\<close>

lemma prefix_contains_v4:
  "prefix_contains (Prefix (V4 p) n) (V4 a) \<longleftrightarrow>
    unat a div 2 ^ (32 - n) = unat p div 2 ^ (32 - n)"
  by (simp add: drop_bit_xor word_xor_eq_0 drop_bit_word_eq_iff)

lemma prefix_contains_no_zone: "prefix_contains p a \<Longrightarrow> \<not> has_zone a"
  by (induction p a rule: prefix_contains.induct) (auto simp: has_zone_def)

lemma split_join:
  "ws \<noteq> [] \<Longrightarrow> (\<And>w. w \<in> set ws \<Longrightarrow> sep \<notin> set w) \<Longrightarrow> split_on sep (join_with [sep] ws) = ws"
proof (induction ws)
  case (Cons w ws)
  then show ?case by (cases ws) (auto simp: split_on_append split_on_no_sep)
qed simp

lemma digit_cases: "d < 10 \<Longrightarrow> d \<in> {0, 1, 2, 3, 4, 5, 6, 7, 8, 9 :: nat}"
  by auto

lemma digit_of_props:
  assumes "d < 10"
  shows "of_char (digit_of d) = 48 + d" and "is_digit (digit_of d)"
    and "digit_of d \<noteq> CHR ''.''" and "digit_of d = CHR ''0'' \<longleftrightarrow> d = 0"
  using digit_cases [OF assms] by (auto simp: digit_of_def is_digit_def)

lemma num_text_small: "n < 10 \<Longrightarrow> num_text 10 n = [digit_of n]"
  by (subst num_text.simps) simp

lemma num_text_big: "10 \<le> n \<Longrightarrow> num_text 10 n = num_text 10 (n div 10) @ [digit_of (n mod 10)]"
  by (subst num_text.simps) simp

lemma num_text_decimal:
  "dec_val (num_text 10 n) = n \<and> list_all is_digit (num_text 10 n) \<and> num_text 10 n \<noteq> [] \<and>
   CHR ''.'' \<notin> set (num_text 10 n) \<and> (0 < n \<longrightarrow> hd (num_text 10 n) \<noteq> CHR ''0'')"
proof (induction n rule: less_induct)
  case (less n)
  show ?case
  proof (cases "n < 10")
    case True
    then show ?thesis using digit_of_props [of n] by (auto simp: num_text_small dec_val_def)
  next
    case False
    then have "n div 10 < n" by simp
    note IH = less.IH [OF this]
    have d: "n mod 10 < 10" by simp
    have "0 < n div 10" using False by simp
    with IH False show ?thesis
      using digit_of_props [OF d] by (auto simp: num_text_big dec_val_def hd_append)
  qed
qed

lemma parse_octet_text: "n < 256 \<Longrightarrow> parse_octet (num_text 10 n) = Some n"
  using num_text_decimal [of n] num_text_small [of 0] by (cases "n = 0") (auto simp: parse_octet_def)

lemma num_text_no_dot: "CHR ''.'' \<notin> set (num_text 10 n)"
  using num_text_decimal by blast

lemma word_of_octets_octet:
  "word_of_octets (octet w 3) (octet w 2) (octet w (Suc 0)) (octet w 0) = w"
proof -
  define n where "n = unat w"
  define q1 q2 q3 where "q1 = n div 256" and "q2 = q1 div 256" and "q3 = q2 div 256"
  have "n < 2 ^ 32" unfolding n_def using unsigned_less [of w] by simp
  then have "q3 < 256" by (simp add: q1_def q2_def q3_def div_mult2_eq [symmetric])
  moreover have "n div 256 ^ 3 = q3" "n div 256 ^ 2 = q2"
    by (simp_all add: q1_def q2_def q3_def div_mult2_eq [symmetric])
  ultimately have o: "octet w 3 = q3" "octet w 2 = q2 mod 256" "octet w (Suc 0) = q1 mod 256"
      "octet w 0 = n mod 256"
    by (simp_all add: octet_def n_def [symmetric] q1_def)
  have "q3 * 256 + q2 mod 256 = q2" "q2 * 256 + q1 mod 256 = q1" "q1 * 256 + n mod 256 = n"
    by (simp_all add: q1_def q2_def q3_def)
  then show ?thesis by (simp add: word_of_octets_def o n_def)
qed

text \<open>The text of an IPv4 address is read back as the same address.\<close>

lemma parse_ipv4_text: "parse_ipv4 (v4_text w) = Some (octet w 3, octet w 2, octet w (Suc 0), octet w 0)"
proof -
  have "split_on CHR ''.'' (v4_text w) = map (\<lambda>i. num_text 10 (octet w i)) [3, 2, 1, 0]"
    unfolding v4_text_def by (rule split_join) (auto simp: num_text_no_dot)
  moreover have "octet w i < 256" for i by (simp add: octet_def)
  ultimately show ?thesis by (simp add: parse_ipv4_def parse_octet_text)
qed

lemma is_digit_not_special:
  "is_digit c \<Longrightarrow> c \<noteq> CHR ''.'' \<and> c \<noteq> CHR '':'' \<and> c \<noteq> CHR ''%''"
  by (auto simp: is_digit_def)

lemma parse_addr_v4_text: "parse_addr (v4_text w) = Some (V4 w)"
proof -
  let ?P = "\<lambda>c. c \<noteq> CHR ''.'' \<and> c \<noteq> CHR '':'' \<and> c \<noteq> CHR ''%''"
  obtain t where t: "v4_text w = num_text 10 (octet w 3) @ CHR ''.'' # t"
    by (simp add: v4_text_def)
  have "\<forall>c \<in> set (num_text 10 (octet w 3)). ?P c"
    using num_text_decimal [of "octet w 3"] is_digit_not_special by (auto simp: list_all_iff)
  then have "dropWhile ?P (v4_text w) = CHR ''.'' # t"
    unfolding t by (subst dropWhile_append2) auto
  then show ?thesis
    by (simp add: parse_addr_def parse_ipv4_text word_of_octets_octet)
qed

end
