(* ===== verification/AccessRules.thy ===== *)
theory AccessRules
  imports StoreBase Netip
begin

text \<open>
  Ingress access rules: the validation of an update (\<open>validateAccessRuleInput\<close> of
  internal/server/store.go), the checks of a request against a stored rule
  (\<open>verifyAccessRuleBasicAuth\<close>, \<open>verifyAccessRuleSharedSecret\<close>) and the IP allow-list
  (\<open>allowedByIP\<close> of internal/server/proxy.go). The hexadecimal SHA-256 digest is the
  parameter \<open>H\<close>; nothing is assumed of it unless a statement says so.
\<close>

section \<open>Data\<close>

record access_input =
  in_mode :: string
  in_user :: string
  in_pass :: string
  in_header :: string
  in_secret :: string
  in_allowed :: "string list"

record access_rule =
  ar_id :: int
  ar_tunnel :: int
  ar_mode :: string
  ar_user :: string
  ar_pass :: string
  ar_header :: string
  ar_secret :: string
  ar_allowed :: "string list"
  ar_created :: time
  ar_updated :: time

text \<open>The values \<open>validateAccessRuleInput\<close> returns.\<close>

record rule_values =
  rv_mode :: string
  rv_user :: string
  rv_pass :: string
  rv_header :: string
  rv_secret :: string
  rv_allowed :: "string list"

abbreviation public_mode :: string where "public_mode \<equiv> ''public''"
abbreviation basic_mode :: string where "basic_mode \<equiv> ''basic_auth''"
abbreviation secret_mode :: string where "secret_mode \<equiv> ''shared_secret_header''"

section \<open>Operations\<close>

definition hashSecret :: "(string \<Rightarrow> string) \<Rightarrow> string \<Rightarrow> string" where
  "hashSecret H raw = H (trim_space raw)"

definition capitalize_part :: "string \<Rightarrow> string" where
  "capitalize_part p = (case p of [] \<Rightarrow> [] | c # cs \<Rightarrow> to_upper [c] @ cs)"

definition httpCanonicalHeaderKey :: "string \<Rightarrow> string" where
  "httpCanonicalHeaderKey v =
     join_with ''-'' (map capitalize_part (split_on CHR ''-'' (to_lower (trim_space v))))"

fun check_cidrs :: "string list \<Rightarrow> string list res" where
  "check_cidrs [] = Inr []"
| "check_cidrs (c # cs) =
     (let c' = trim_space c
      in if c' = [] then check_cidrs cs
         else case parse_prefix c' of
             None \<Rightarrow> Inl (ErrMsg (''invalid cidr: '' @ c'))
           | Some _ \<Rightarrow> (case check_cidrs cs of Inl e \<Rightarrow> Inl e | Inr r \<Rightarrow> Inr (c' # r)))"

definition resolve_mode :: "access_input \<Rightarrow> access_rule option \<Rightarrow> string" where
  "resolve_mode inp existing =
     (let m = trim_lower (in_mode inp)
      in if m \<noteq> [] then m
         else case existing of
             Some r \<Rightarrow> if ar_mode r \<noteq> [] then ar_mode r else public_mode
           | None \<Rightarrow> public_mode)"

text \<open>A value typed in the form, or the one of the existing rule when it is blank.\<close>

definition or_existing :: "string \<Rightarrow> (access_rule \<Rightarrow> string) \<Rightarrow> access_rule option \<Rightarrow> string" where
  "or_existing v f existing =
     (if v \<noteq> [] then v else case existing of Some r \<Rightarrow> f r | None \<Rightarrow> [])"

definition secret_hash :: "(string \<Rightarrow> string) \<Rightarrow> string \<Rightarrow> (access_rule \<Rightarrow> string) \<Rightarrow> access_rule option \<Rightarrow> string" where
  "secret_hash H typed f existing =
     (if trim_space typed \<noteq> [] then hashSecret H typed
      else case existing of Some r \<Rightarrow> f r | None \<Rightarrow> [])"

definition validateAccessRuleInput ::
  "(string \<Rightarrow> string) \<Rightarrow> access_input \<Rightarrow> access_rule option \<Rightarrow> rule_values res" where
  "validateAccessRuleInput H inp existing =
     (let mode = resolve_mode inp existing
      in if mode \<notin> {public_mode, basic_mode, secret_mode} then Inl (ErrMsg ''invalid auth mode'')
         else case check_cidrs (in_allowed inp) of
             Inl e \<Rightarrow> Inl e
           | Inr allowed \<Rightarrow>
               if mode = public_mode then
                 Inr \<lparr>rv_mode = mode, rv_user = [], rv_pass = [], rv_header = [], rv_secret = [],
                      rv_allowed = allowed\<rparr>
               else if mode = basic_mode then
                 (let username = or_existing (trim_space (in_user inp)) ar_user existing;
                      passwordHash = secret_hash H (in_pass inp) ar_pass existing
                  in if username = [] then Inl (ErrMsg ''basic auth username required'')
                     else if passwordHash = [] then Inl (ErrMsg ''basic auth password required'')
                     else Inr \<lparr>rv_mode = mode, rv_user = username, rv_pass = passwordHash,
                               rv_header = [], rv_secret = [], rv_allowed = allowed\<rparr>)
               else
                 (let headerName = or_existing (httpCanonicalHeaderKey (trim_space (in_header inp))) ar_header existing;
                      secretHash = secret_hash H (in_secret inp) ar_secret existing
                  in if headerName = [] then Inl (ErrMsg ''shared secret header name required'')
                     else if secretHash = [] then Inl (ErrMsg ''shared secret value required'')
                     else Inr \<lparr>rv_mode = mode, rv_user = [], rv_pass = [], rv_header = headerName,
                               rv_secret = secretHash, rv_allowed = allowed\<rparr>))"

definition verifyAccessRuleBasicAuth :: "(string \<Rightarrow> string) \<Rightarrow> access_rule \<Rightarrow> string \<Rightarrow> string \<Rightarrow> bool" where
  "verifyAccessRuleBasicAuth H rule username password \<longleftrightarrow>
     (if ar_mode rule \<noteq> basic_mode then True
      else trim_space (ar_user rule) = trim_space username \<and> ar_pass rule = hashSecret H password)"

definition verifyAccessRuleSharedSecret :: "(string \<Rightarrow> string) \<Rightarrow> access_rule \<Rightarrow> string \<Rightarrow> bool" where
  "verifyAccessRuleSharedSecret H rule value \<longleftrightarrow>
     (if ar_mode rule \<noteq> secret_mode then True else ar_secret rule = hashSecret H value)"

definition prefix_text_contains :: "addr \<Rightarrow> string \<Rightarrow> bool" where
  "prefix_text_contains ip raw =
     (case parse_prefix (trim_space raw) of None \<Rightarrow> False | Some p \<Rightarrow> prefix_contains p ip)"

definition allowedByIP :: "access_rule \<Rightarrow> string \<Rightarrow> bool" where
  "allowedByIP rule clientIP \<longleftrightarrow>
     (if ar_allowed rule = [] then True
      else case parse_addr (trim_space clientIP) of
          None \<Rightarrow> False
        | Some ip \<Rightarrow> list_ex (prefix_text_contains ip) (ar_allowed rule))"

text \<open>The rule a request is checked against once the values are stored.\<close>

definition rule_of_values :: "rule_values \<Rightarrow> access_rule \<Rightarrow> access_rule" where
  "rule_of_values v r = r\<lparr>ar_mode := rv_mode v, ar_user := rv_user v, ar_pass := rv_pass v,
     ar_header := rv_header v, ar_secret := rv_secret v, ar_allowed := rv_allowed v\<rparr>"

section \<open>Canonical header names\<close>

lemma lower_upper_char: "lower_char (upper_char c) = lower_char c"
  by (auto simp: lower_char_def upper_char_def Let_def)

lemma to_lower_capitalize: "to_lower (capitalize_part p) = to_lower p"
  by (auto simp: capitalize_part_def to_lower_def to_upper_def lower_upper_char split: list.splits)

lemma to_lower_join: "to_lower (join_with sep ws) = join_with (to_lower sep) (map to_lower ws)"
  by (induction sep ws rule: join_with.induct) auto

lemma lower_split_parts:
  assumes "to_lower s = s"
  shows "map to_lower (split_on c s) = split_on c s"
  using assms
proof (induction s)
  case (Cons a s)
  then have "lower_char a = a" "to_lower s = s" by (auto simp: to_lower_def)
  with Cons.IH show ?case
    by (cases "split_on c s") (auto simp: to_lower_def split: list.splits)
qed (simp add: to_lower_def)

lemma to_lower_dash [simp]: "to_lower ''-'' = ''-''"
  by (simp add: to_lower_def lower_char_def)

lemma to_lower_canonical: "to_lower (httpCanonicalHeaderKey v) = to_lower (trim_space v)"
proof -
  let ?s = "to_lower (trim_space v)"
  have "to_lower (httpCanonicalHeaderKey v) = join_with ''-'' (map to_lower (split_on CHR ''-'' ?s))"
    by (simp add: httpCanonicalHeaderKey_def to_lower_join to_lower_capitalize comp_def)
  then show ?thesis by (simp add: lower_split_parts)
qed

lemma length_trim_space_le: "length (trim_space s) \<le> length s"
  unfolding trim_space_def
  by (metis length_dropWhile_le length_rev order_trans)

lemma trim_space_full: "length (trim_space s) = length s \<Longrightarrow> trim_space s = s"
proof -
  assume full: "length (trim_space s) = length s"
  let ?t = "dropWhile is_space s"
  have "length (trim_space s) \<le> length ?t"
    unfolding trim_space_def by (metis length_dropWhile_le length_rev)
  with full have "length ?t = length s" using length_dropWhile_le [of is_space s] by simp
  then have t: "?t = s" by (metis append_Nil length_append length_0_conv add_cancel_left_left takeWhile_dropWhile_id)
  with full have "length (dropWhile is_space (rev s)) = length (rev s)" by (simp add: trim_space_def)
  then have "dropWhile is_space (rev s) = rev s"
    by (metis append_Nil length_append length_0_conv add_cancel_left_left takeWhile_dropWhile_id)
  with t show ?thesis by (simp add: trim_space_def)
qed

lemma httpCanonicalHeaderKey_idem:
  "httpCanonicalHeaderKey (httpCanonicalHeaderKey v) = httpCanonicalHeaderKey v"
proof -
  let ?k = "httpCanonicalHeaderKey v"
  have "to_lower (trim_space ?k) = to_lower (trim_space v)"
    by (simp add: trim_space_to_lower [symmetric] to_lower_canonical)
  then have "length (trim_space ?k) = length ?k"
    by (metis length_to_lower to_lower_canonical)
  then have "trim_space ?k = ?k" by (rule trim_space_full)
  then show ?thesis
    by (simp add: httpCanonicalHeaderKey_def [of ?k] to_lower_canonical)
      (simp add: httpCanonicalHeaderKey_def)
qed

section \<open>Validation\<close>

text \<open>A CIDR list that passed the loop is trimmed and parses.\<close>

lemma check_cidrs_sound:
  "check_cidrs cs = Inr r \<Longrightarrow> c \<in> set r \<Longrightarrow> c \<noteq> [] \<and> trim_space c = c \<and> parse_prefix c \<noteq> None"
proof (induction cs arbitrary: r)
  case (Cons a cs)
  then show ?case
    by (auto simp: Let_def split: if_splits option.splits sum.splits)
qed simp

lemma check_cidrs_complete:
  "check_cidrs cs = Inr r \<Longrightarrow> set r = {c \<in> trim_space ` set cs. c \<noteq> []}"
proof (induction cs arbitrary: r)
  case (Cons a cs)
  then show ?case
    by (auto simp: Let_def split: if_splits option.splits sum.splits)
qed simp

lemma check_cidrs_error:
  "check_cidrs cs = Inl e \<Longrightarrow>
    \<exists>c \<in> set cs. trim_space c \<noteq> [] \<and> parse_prefix (trim_space c) = None \<and>
      e = ErrMsg (''invalid cidr: '' @ trim_space c)"
proof (induction cs)
  case (Cons a cs)
  then show ?case
    by (auto simp: Let_def split: if_splits option.splits sum.splits)
qed simp

lemma validate_cases:
  assumes "validateAccessRuleInput H inp existing = Inr v"
  obtains (public) "rv_mode v = public_mode" "rv_user v = []" "rv_pass v = []" "rv_header v = []" "rv_secret v = []"
    | (basic) "rv_mode v = basic_mode" "rv_header v = []" "rv_secret v = []"
        "rv_user v = or_existing (trim_space (in_user inp)) ar_user existing"
        "rv_pass v = secret_hash H (in_pass inp) ar_pass existing"
        "rv_user v \<noteq> []" "rv_pass v \<noteq> []"
    | (secret) "rv_mode v = secret_mode" "rv_user v = []" "rv_pass v = []"
        "rv_header v = or_existing (httpCanonicalHeaderKey (trim_space (in_header inp))) ar_header existing"
        "rv_secret v = secret_hash H (in_secret inp) ar_secret existing"
        "rv_header v \<noteq> []" "rv_secret v \<noteq> []"
  using assms
  by (auto simp: validateAccessRuleInput_def Let_def split: if_splits sum.splits)

lemma validate_mode: "validateAccessRuleInput H inp existing = Inr v \<Longrightarrow> rv_mode v = resolve_mode inp existing"
  by (auto simp: validateAccessRuleInput_def Let_def split: if_splits sum.splits)

lemma validate_allowed:
  "validateAccessRuleInput H inp existing = Inr v \<Longrightarrow> check_cidrs (in_allowed inp) = Inr (rv_allowed v)"
  by (auto simp: validateAccessRuleInput_def Let_def split: if_splits sum.splits)

lemma validate_public:
  "validateAccessRuleInput H \<lparr>in_mode = public_mode, in_user = [], in_pass = [], in_header = [],
      in_secret = [], in_allowed = []\<rparr> existing =
   Inr \<lparr>rv_mode = public_mode, rv_user = [], rv_pass = [], rv_header = [], rv_secret = [], rv_allowed = []\<rparr>"
proof -
  have "trim_lower public_mode = public_mode"
    by (simp add: trim_lower_def to_lower_def trim_space_def lower_char_def is_space_def)
  then show ?thesis by (simp add: validateAccessRuleInput_def resolve_mode_def)
qed

section \<open>The allow-list\<close>

lemma allowedByIP_iff:
  "allowedByIP rule clientIP \<longleftrightarrow> ar_allowed rule = [] \<or>
     (\<exists>ip raw p. parse_addr (trim_space clientIP) = Some ip \<and> raw \<in> set (ar_allowed rule) \<and>
        parse_prefix (trim_space raw) = Some p \<and> prefix_contains p ip)"
  by (auto simp: allowedByIP_def prefix_text_contains_def list_ex_iff split: option.splits)

end
