(* ===== verification/Http.thy ===== *)
theory Http
  imports AccessRules
begin

text \<open>
  What the handlers of internal/server use of net/http: the request as the server hands it
  to a handler (canonical header keys, parsed query, cookies and form, the body both as
  bytes and as the JSON value it decodes to), the response a handler builds, the helpers
  \<open>http.Error\<close>, \<open>http.Redirect\<close>, \<open>http.NotFound\<close> and \<open>writeJSON\<close>, header look-up and
  basic authentication.
\<close>

section \<open>JSON bodies\<close>

datatype json =
    JNull
  | JString string
  | JStrings "string list"
  | JObject "(string \<times> json) list"
  | JOther

text \<open>
  \<open>json.Decoder.Decode\<close> into a struct: a member fills the field whose name matches it up to
  case, the last one winning; \<open>null\<close> leaves the field; a member of another type is an error.
\<close>

definition decode_string :: "string \<Rightarrow> (string \<times> json) list \<Rightarrow> string option" where
  "decode_string name ms =
     foldl (\<lambda>acc (k, v). if \<not> equal_fold k name then acc
        else (case (acc, v) of (Some _, JString s) \<Rightarrow> Some s | (Some s, JNull) \<Rightarrow> Some s | _ \<Rightarrow> None))
       (Some []) ms"

definition decode_strings :: "string \<Rightarrow> (string \<times> json) list \<Rightarrow> string list option" where
  "decode_strings name ms =
     foldl (\<lambda>acc (k, v). if \<not> equal_fold k name then acc
        else (case (acc, v) of (Some _, JStrings ss) \<Rightarrow> Some ss | (Some _, JNull) \<Rightarrow> Some [] | _ \<Rightarrow> None))
       (Some []) ms"

text \<open>The members of the body, when it is a JSON object; \<open>null\<close> decodes to the zero struct.\<close>

definition members :: "json option \<Rightarrow> (string \<times> json) list option" where
  "members b = (case b of Some (JObject ms) \<Rightarrow> Some ms | Some JNull \<Rightarrow> Some [] | _ \<Rightarrow> None)"

definition body_string :: "json option \<Rightarrow> string \<Rightarrow> string option" where
  "body_string b name = Option.bind (members b) (decode_string name)"

definition body_strings :: "json option \<Rightarrow> string \<Rightarrow> string list option" where
  "body_strings b name = Option.bind (members b) (decode_strings name)"

section \<open>Requests\<close>

record request =
  rq_method :: string
  rq_path :: string
  rq_query :: string
  rq_args :: "(string \<times> string) list"
  rq_headers :: "(string \<times> string list) list"
  rq_cookies :: "(string \<times> string) list"
  rq_host :: string
  rq_remote :: string
  rq_length :: int
  rq_body :: string
  rq_json :: "json option"
  rq_form :: "(string \<times> string) list"
  rq_form_bad :: bool

text \<open>\<open>textproto.CanonicalMIMEHeaderKey\<close>: unchanged when a byte is no token character.\<close>

definition token_char :: "char \<Rightarrow> bool" where
  "token_char c \<longleftrightarrow> (let n = of_char c :: nat in
     48 \<le> n \<and> n \<le> 57 \<or> 65 \<le> n \<and> n \<le> 90 \<or> 97 \<le> n \<and> n \<le> 122 \<or>
     n \<in> {33, 35, 36, 37, 38, 39, 42, 43, 45, 46, 94, 95, 96, 124, 126})"

definition mime_key :: "string \<Rightarrow> string" where
  "mime_key k =
     (if list_all token_char k then join_with ''-'' (map capitalize_part (split_on CHR ''-'' (to_lower k))) else k)"

definition header_get :: "request \<Rightarrow> string \<Rightarrow> string" where
  "header_get r k =
     (case map_of (rq_headers r) (mime_key k) of Some (v # _) \<Rightarrow> v | _ \<Rightarrow> [])"

definition query_get :: "request \<Rightarrow> string \<Rightarrow> string" where
  "query_get r k = (case map_of (rq_args r) k of Some v \<Rightarrow> v | None \<Rightarrow> [])"

text \<open>
  \<open>FormValue\<close>: the values of the body (\<open>rq_form\<close>, what the form parsers read of it) come before
  those of the query; \<open>rq_form_bad\<close> says that \<open>ParseForm\<close> reports an error.
\<close>

definition form_value :: "request \<Rightarrow> string \<Rightarrow> string" where
  "form_value r k = (case map_of (rq_form r @ rq_args r) k of Some v \<Rightarrow> v | None \<Rightarrow> [])"

definition cookie :: "request \<Rightarrow> string \<Rightarrow> string option" where
  "cookie r name = map_of (rq_cookies r) name"

section \<open>Basic authentication\<close>

text \<open>\<open>base64.StdEncoding\<close>: line breaks are skipped, padding is required.\<close>

definition b64_digit :: "char \<Rightarrow> nat option" where
  "b64_digit c = (let n = of_char c :: nat in
     if 65 \<le> n \<and> n \<le> 90 then Some (n - 65)
     else if 97 \<le> n \<and> n \<le> 122 then Some (n - 71)
     else if 48 \<le> n \<and> n \<le> 57 then Some (n + 4)
     else if n = 43 then Some 62 else if n = 47 then Some 63 else None)"

fun b64_decode :: "string \<Rightarrow> string option" where
  "b64_decode [] = Some []"
| "b64_decode (a # b # c # d # rest) =
     (case (b64_digit a, b64_digit b) of
        (Some x, Some y) \<Rightarrow>
          (if c = CHR ''='' then (if d = CHR ''='' \<and> rest = [] then Some [char_of (x * 4 + y div 16)] else None)
           else case b64_digit c of
               None \<Rightarrow> None
             | Some z \<Rightarrow>
                 if d = CHR ''='' then
                   (if rest = [] then Some [char_of (x * 4 + y div 16), char_of (y mod 16 * 16 + z div 4)] else None)
                 else case b64_digit d of
                     None \<Rightarrow> None
                   | Some w \<Rightarrow> map_option (\<lambda>r. [char_of (x * 4 + y div 16), char_of (y mod 16 * 16 + z div 4),
                                               char_of (z mod 4 * 64 + w)] @ r) (b64_decode rest))
      | _ \<Rightarrow> None)"
| "b64_decode _ = None"

definition std_decode :: "string \<Rightarrow> string option" where
  "std_decode s = b64_decode (filter (\<lambda>c. c \<noteq> CHR 0x0A \<and> c \<noteq> CHR 0x0D) s)"

text \<open>\<open>Request.BasicAuth\<close>: the pair split at the first colon.\<close>

definition basic_auth :: "request \<Rightarrow> (string \<times> string) option" where
  "basic_auth r =
     (let h = header_get r ''Authorization''
      in if length h < 6 \<or> \<not> equal_fold (take 6 h) ''Basic '' then None
         else case std_decode (drop 6 h) of
             None \<Rightarrow> None
           | Some c \<Rightarrow>
               if CHR '':'' \<in> set c
               then Some (takeWhile (\<lambda>x. x \<noteq> CHR '':'') c, tl (dropWhile (\<lambda>x. x \<noteq> CHR '':'') c))
               else None)"

section \<open>Responses\<close>

datatype 'p body = NoBody | Text string | Json 'p | Html string 'p

datatype cookie_action = SetCookie string string time | ClearCookie string

record 'p response =
  rs_status :: int
  rs_headers :: "(string \<times> string) list"
  rs_cookies :: "cookie_action list"
  rs_body :: "'p body"

definition plain_response :: "int \<Rightarrow> 'p body \<Rightarrow> 'p response" where
  "plain_response code b = \<lparr>rs_status = code, rs_headers = [], rs_cookies = [], rs_body = b\<rparr>"

definition http_error :: "string \<Rightarrow> int \<Rightarrow> 'p response" where
  "http_error msg code = plain_response code (Text (msg @ [CHR 0x0A]))"

definition not_found :: "'p response" where
  "not_found = http_error ''404 page not found'' 404"

definition no_content :: "'p response" where
  "no_content = plain_response 204 NoBody"

text \<open>\<open>http.Redirect(w, r, target, 302)\<close>, with the target as the handler passes it.\<close>

definition redirect :: "string \<Rightarrow> 'p response" where
  "redirect target = (plain_response 302 NoBody)\<lparr>rs_headers := [(''Location'', target)]\<rparr>"

definition writeJSON :: "int \<Rightarrow> 'p \<Rightarrow> 'p response" where
  "writeJSON code v = (plain_response code (Json v))\<lparr>rs_headers := [(''Content-Type'', ''application/json'')]\<rparr>"

text \<open>A page: the name of the template with the data it is executed on.\<close>

definition render :: "string \<Rightarrow> 'p \<Rightarrow> 'p response" where
  "render name v = (plain_response 200 (Html name v))\<lparr>rs_headers := [(''Content-Type'', ''text/html; charset=utf-8'')]\<rparr>"

definition status_text :: "int \<Rightarrow> string" where
  "status_text code =
     (if code = 200 then ''OK'' else if code = 401 then ''Unauthorized''
      else if code = 403 then ''Forbidden'' else [])"

lemma response_status [simp]:
  "rs_status (plain_response code b) = code" "rs_status (http_error msg code) = code"
  "rs_status not_found = 404" "rs_status no_content = 204" "rs_status (redirect t) = 302"
  "rs_status (writeJSON code v) = code" "rs_status (render nm v) = 200"
  by (simp_all add: plain_response_def http_error_def not_found_def no_content_def redirect_def writeJSON_def render_def)

lemma response_body [simp]:
  "rs_body (plain_response code b) = b" "rs_body (http_error msg code) = Text (msg @ [CHR 0x0A])"
  "rs_body (writeJSON code v) = Json v" "rs_body (redirect t) = NoBody"
  by (simp_all add: plain_response_def http_error_def redirect_def writeJSON_def)

lemma response_cookies [simp]:
  "rs_cookies (plain_response code b) = []" "rs_cookies (http_error msg code) = []"
  "rs_cookies (writeJSON code v) = []" "rs_cookies (redirect t) = []" "rs_cookies no_content = []"
  by (simp_all add: plain_response_def http_error_def no_content_def redirect_def writeJSON_def)

lemma response_location [simp]: "rs_headers (redirect t) = [(''Location'', t)]"
  by (simp add: redirect_def plain_response_def)

lemma b64_example: "std_decode ''Ym9iOnMzY3JldA=='' = Some ''bob:s3cret''"
  by code_simp

end
