(* ===== verification/StoreTunnels.thy ===== *)
theory StoreTunnels
  imports AccessRules
begin

text \<open>
  Tunnels, their access rules and their events: the statements of internal/server/store.go
  on the tables tunnels, tunnel_access_rules and tunnel_events. Every operation takes the
  store and the clock reading and returns its result with the new store; a statement that
  fails leaves the store as it was.
\<close>

section \<open>Records returned to the callers\<close>

record tunnel_record =
  tr_id :: int
  tr_name :: string
  tr_hostname :: string
  tr_local :: string
  tr_owner :: int
  tr_owner_email :: string
  tr_agent :: int
  tr_agent_name :: string
  tr_desired :: string
  tr_actual :: string
  tr_error :: string
  tr_seen :: time
  tr_created :: time
  tr_updated :: time

text \<open>The zero value \<open>TunnelRecord{}\<close>.\<close>

definition zero_tunnel :: tunnel_record where
  "zero_tunnel = \<lparr>tr_id = 0, tr_name = [], tr_hostname = [], tr_local = [], tr_owner = 0,
     tr_owner_email = [], tr_agent = 0, tr_agent_name = [], tr_desired = [], tr_actual = [],
     tr_error = [], tr_seen = 0, tr_created = 0, tr_updated = 0\<rparr>"

record event_record =
  er_id :: int
  er_tunnel :: int
  er_type :: string
  er_message :: string
  er_created :: time

section \<open>Reading tunnels\<close>

text \<open>The two left joins and \<open>COALESCE(..., '')\<close>, then the scan into the record.\<close>

definition owner_email :: "store \<Rightarrow> int \<Rightarrow> string" where
  "owner_email s uid = (case find (\<lambda>u. us_id u = uid) (users s) of Some u \<Rightarrow> us_email u | None \<Rightarrow> [])"

definition agent_name :: "store \<Rightarrow> int \<Rightarrow> string" where
  "agent_name s aid = (case find (\<lambda>a. ag_id a = aid) (agents s) of Some a \<Rightarrow> ag_name a | None \<Rightarrow> [])"

definition scan_tunnel :: "store \<Rightarrow> tunnel_row \<Rightarrow> tunnel_record" where
  "scan_tunnel s r = \<lparr>tr_id = t_id r, tr_name = t_name r, tr_hostname = t_hostname r,
     tr_local = t_local r, tr_owner = t_owner r, tr_owner_email = owner_email s (t_owner r),
     tr_agent = t_agent r, tr_agent_name = agent_name s (t_agent r), tr_desired = t_desired r,
     tr_actual = t_actual r, tr_error = t_error r, tr_seen = parseRFC3339 (t_seen r),
     tr_created = parseRFC3339 (t_created r), tr_updated = parseRFC3339 (t_updated r)\<rparr>"

definition tunnel_read_fault :: "store \<Rightarrow> bool" where
  "tunnel_read_fault s \<longleftrightarrow> fault s Tunnels \<or> fault s Users \<or> fault s Agents"

text \<open>\<open>QueryRow\<close> with a condition, then \<open>Scan\<close>.\<close>

definition select_tunnel :: "(tunnel_row \<Rightarrow> bool) \<Rightarrow> store \<Rightarrow> tunnel_record res" where
  "select_tunnel P s =
     (if tunnel_read_fault s then Inl ErrIO
      else case find P (tunnels s) of
          None \<Rightarrow> Inl ErrNoRows
        | Some r \<Rightarrow> Inr (scan_tunnel s r))"

definition GetTunnelByName :: "store \<Rightarrow> string \<Rightarrow> tunnel_record res" where
  "GetTunnelByName s name = select_tunnel (\<lambda>t. t_name t = name) s"

definition GetTunnelByHostname :: "store \<Rightarrow> string \<Rightarrow> tunnel_record res" where
  "GetTunnelByHostname s hostname = select_tunnel (\<lambda>t. t_hostname t = hostname) s"

definition GetTunnelForAgent :: "store \<Rightarrow> string \<Rightarrow> int \<Rightarrow> tunnel_record res" where
  "GetTunnelForAgent s name agentID = select_tunnel (\<lambda>t. t_name t = name \<and> t_agent t = agentID) s"

definition ListTunnels :: "store \<Rightarrow> tunnel_record list res" where
  "ListTunnels s =
     (if tunnel_read_fault s then Inl ErrIO
      else Inr (map (scan_tunnel s) (order_asc t_hostname (tunnels s))))"

definition ListTunnelsForUser :: "store \<Rightarrow> int \<Rightarrow> bool \<Rightarrow> tunnel_record list res" where
  "ListTunnelsForUser s userID isAdmin =
     (if isAdmin then ListTunnels s
      else if tunnel_read_fault s then Inl ErrIO
      else Inr (map (scan_tunnel s) (order_asc t_hostname (filter (\<lambda>t. t_owner t = userID) (tunnels s)))))"

definition tunnelIDByHostname :: "store \<Rightarrow> string \<Rightarrow> int res" where
  "tunnelIDByHostname s hostname =
     (if fault s Tunnels then Inl ErrIO
      else case find (\<lambda>t. t_hostname t = hostname) (tunnels s) of
          None \<Rightarrow> Inr 0
        | Some t \<Rightarrow> Inr (t_id t))"

section \<open>Access rules\<close>

definition scan_rule :: "rule_row \<Rightarrow> access_rule" where
  "scan_rule r = \<lparr>ar_id = ru_id r, ar_tunnel = ru_tunnel r, ar_mode = ru_mode r, ar_user = ru_user r,
     ar_pass = ru_pass r, ar_header = ru_header r, ar_secret = ru_secret r, ar_allowed = ru_allowed r,
     ar_created = parseRFC3339 (ru_created r), ar_updated = parseRFC3339 (ru_updated r)\<rparr>"

definition GetTunnelAccessRule :: "store \<Rightarrow> int \<Rightarrow> access_rule res" where
  "GetTunnelAccessRule s tunnelID =
     (if fault s AccessRules then Inl ErrIO
      else case find (\<lambda>r. ru_tunnel r = tunnelID) (rules s) of
          None \<Rightarrow> Inl ErrNoRows
        | Some r \<Rightarrow> Inr (scan_rule r))"

definition AccessRuleByTunnelName :: "store \<Rightarrow> string \<Rightarrow> access_rule res" where
  "AccessRuleByTunnelName s name =
     (case GetTunnelByName s name of Inl e \<Rightarrow> Inl e | Inr t \<Rightarrow> GetTunnelAccessRule s (tr_id t))"

definition set_rule :: "time \<Rightarrow> rule_values \<Rightarrow> rule_row \<Rightarrow> rule_row" where
  "set_rule now v r = r\<lparr>ru_mode := rv_mode v, ru_user := rv_user v, ru_pass := rv_pass v,
     ru_header := rv_header v, ru_secret := rv_secret v, ru_allowed := rv_allowed v,
     ru_updated := format_time now\<rparr>"

text \<open>\<open>INSERT INTO tunnel_access_rules ... ON CONFLICT(tunnel_id) DO UPDATE\<close>.\<close>

definition upsert_rule_row :: "store \<Rightarrow> time \<Rightarrow> int \<Rightarrow> rule_values \<Rightarrow> store res" where
  "upsert_rule_row s now tunnelID v =
     (if fault s AccessRules then Inl ErrIO
      else if tunnelID \<in> ru_tunnel ` set (rules s) then
        Inr (s\<lparr>rules := update_where (\<lambda>r. ru_tunnel r = tunnelID) (set_rule now v) (rules s)\<rparr>)
      else if tunnelID \<notin> t_id ` set (tunnels s) then Inl ErrForeignKey
      else Inr (bump AccessRules (s\<lparr>rules := rules s @
        [\<lparr>ru_id = next_id s AccessRules, ru_tunnel = tunnelID, ru_mode = rv_mode v, ru_user = rv_user v,
          ru_pass = rv_pass v, ru_header = rv_header v, ru_secret = rv_secret v,
          ru_allowed = rv_allowed v, ru_created = format_time now, ru_updated = format_time now\<rparr>]\<rparr>)))"

definition upsertTunnelAccessRuleTx ::
  "(string \<Rightarrow> string) \<Rightarrow> store \<Rightarrow> time \<Rightarrow> int \<Rightarrow> string \<Rightarrow> string \<Rightarrow> access_input \<Rightarrow> bool \<Rightarrow>
   access_rule option \<Rightarrow> store res" where
  "upsertTunnelAccessRuleTx H s now tunnelID tunnelName hostname inp ensureTunnelLookup existing =
     (case (if ensureTunnelLookup \<and> tunnelID = 0
            then (if fault s Tunnels then Inl ErrIO
                  else case find (\<lambda>t. t_name t = tunnelName \<or> t_hostname t = hostname) (tunnels s) of
                      None \<Rightarrow> Inl ErrNoRows
                    | Some t \<Rightarrow> Inr (t_id t))
            else Inr tunnelID) of
        Inl e \<Rightarrow> Inl e
      | Inr tid \<Rightarrow>
          (case validateAccessRuleInput H inp existing of
             Inl e \<Rightarrow> Inl e
           | Inr v \<Rightarrow> upsert_rule_row s now tid v))"

definition UpsertTunnelAccessRule ::
  "(string \<Rightarrow> string) \<Rightarrow> store \<Rightarrow> time \<Rightarrow> int \<Rightarrow> access_input \<Rightarrow> unit res \<times> store" where
  "UpsertTunnelAccessRule H s now tunnelID inp =
     (let upsert = (\<lambda>ex. case upsertTunnelAccessRuleTx H s now tunnelID [] [] inp False ex of
                           Inl e \<Rightarrow> (Inl e, s) | Inr s' \<Rightarrow> (Inr (), s'))
      in case GetTunnelAccessRule s tunnelID of
          Inr r \<Rightarrow> upsert (Some r)
        | Inl ErrNoRows \<Rightarrow> upsert None
        | Inl e \<Rightarrow> (Inl e, s))"

section \<open>Writing tunnels\<close>

definition tunnelNameFromHostname :: "string \<Rightarrow> string" where
  "tunnelNameFromHostname hostname =
     (let h = trim_lower hostname; label = takeWhile (\<lambda>c. c \<noteq> CHR ''.'') h
      in if h = [] then [] else if label \<noteq> [] \<and> label \<noteq> h then label else h)"

definition public_input :: access_input where
  "public_input = \<lparr>in_mode = public_mode, in_user = [], in_pass = [], in_header = [], in_secret = [],
     in_allowed = []\<rparr>"

text \<open>\<open>INSERT INTO tunnels\<close>, with its two \<open>UNIQUE\<close> constraints.\<close>

definition insert_tunnel_row :: "store \<Rightarrow> tunnel_row \<Rightarrow> store res" where
  "insert_tunnel_row s r =
     (if fault s Tunnels then Inl ErrIO
      else if t_name r \<in> t_name ` set (tunnels s) then Inl (ErrUnique ''tunnels.name'')
      else if t_hostname r \<in> t_hostname ` set (tunnels s) then Inl (ErrUnique ''tunnels.hostname'')
      else Inr (bump Tunnels (s\<lparr>tunnels := tunnels s @ [r\<lparr>t_id := next_id s Tunnels\<rparr>]\<rparr>)))"

text \<open>
  The transaction of \<open>CreateTunnel\<close>: the row, then its public access rule; any error rolls
  both back. The created record is read back after the commit.
\<close>

definition CreateTunnel ::
  "(string \<Rightarrow> string) \<Rightarrow> store \<Rightarrow> time \<Rightarrow> int \<Rightarrow> string \<Rightarrow> string \<Rightarrow> string \<Rightarrow> int \<Rightarrow> tunnel_record res \<times> store" where
  "CreateTunnel H s now ownerUserID name hostname localHint assignedAgentID =
     (case insert_tunnel_row s
             \<lparr>t_id = 0, t_name = name, t_hostname = hostname, t_local = localHint, t_owner = ownerUserID,
              t_agent = assignedAgentID, t_desired = ''stopped'', t_actual = ''offline'', t_error = [],
              t_seen = NoStamp, t_created = format_time now, t_updated = format_time now\<rparr> of
        Inl e \<Rightarrow> (Inl e, s)
      | Inr s1 \<Rightarrow>
          (case upsertTunnelAccessRuleTx H s1 now 0 name hostname public_input True None of
             Inl e \<Rightarrow> (Inl e, s)
           | Inr s2 \<Rightarrow> (GetTunnelByName s2 name, s2)))"

text \<open>An \<open>UPDATE tunnels SET ... WHERE ...\<close> statement.\<close>

definition update_tunnels :: "(tunnel_row \<Rightarrow> bool) \<Rightarrow> (tunnel_row \<Rightarrow> tunnel_row) \<Rightarrow> store \<Rightarrow> unit res \<times> store" where
  "update_tunnels P f s =
     (if fault s Tunnels then (Inl ErrIO, s)
      else (Inr (), s\<lparr>tunnels := update_where P f (tunnels s)\<rparr>))"

definition UpsertTunnelStatus ::
  "store \<Rightarrow> time \<Rightarrow> string \<Rightarrow> string \<Rightarrow> string \<Rightarrow> string \<Rightarrow> string \<Rightarrow> time \<Rightarrow> unit res \<times> store" where
  "UpsertTunnelStatus s now hostname localHint desiredState actualState lastError seenAt =
     (let name0 = tunnelNameFromHostname hostname; name = (if name0 = [] then hostname else name0)
      in if hostname \<in> t_hostname ` set (tunnels s) then
           update_tunnels (\<lambda>t. t_hostname t = hostname)
             (\<lambda>t. t\<lparr>t_local := localHint, t_desired := desiredState, t_actual := actualState,
                    t_error := lastError, t_seen := format_seen seenAt, t_updated := format_time now\<rparr>) s
         else case insert_tunnel_row s
             \<lparr>t_id = 0, t_name = name, t_hostname = hostname, t_local = localHint, t_owner = 0,
              t_agent = 0, t_desired = desiredState, t_actual = actualState, t_error = lastError,
              t_seen = format_seen seenAt, t_created = format_time now, t_updated = format_time now\<rparr> of
           Inl e \<Rightarrow> (Inl e, s)
         | Inr s' \<Rightarrow> (Inr (), s'))"

definition MarkTunnelOffline :: "store \<Rightarrow> time \<Rightarrow> string \<Rightarrow> string \<Rightarrow> unit res \<times> store" where
  "MarkTunnelOffline s now hostname lastError =
     update_tunnels (\<lambda>t. t_hostname t = hostname)
       (\<lambda>t. t\<lparr>t_actual := ''offline'', t_error := lastError, t_updated := format_time now\<rparr>) s"

definition AssignTunnelToAgent :: "store \<Rightarrow> time \<Rightarrow> string \<Rightarrow> int \<Rightarrow> unit res \<times> store" where
  "AssignTunnelToAgent s now name agentID =
     update_tunnels (\<lambda>t. t_name t = name) (\<lambda>t. t\<lparr>t_agent := agentID, t_updated := format_time now\<rparr>) s"

definition SetTunnelDesiredState :: "store \<Rightarrow> time \<Rightarrow> string \<Rightarrow> string \<Rightarrow> unit res \<times> store" where
  "SetTunnelDesiredState s now name desiredState =
     update_tunnels (\<lambda>t. t_name t = name) (\<lambda>t. t\<lparr>t_desired := desiredState, t_updated := format_time now\<rparr>) s"

definition UpdateTunnelStateByName ::
  "store \<Rightarrow> time \<Rightarrow> string \<Rightarrow> string \<Rightarrow> string \<Rightarrow> string \<Rightarrow> time \<Rightarrow> unit res \<times> store" where
  "UpdateTunnelStateByName s now name localHint actualState lastError seenAt =
     update_tunnels (\<lambda>t. t_name t = name)
       (\<lambda>t. t\<lparr>t_local := (if localHint \<noteq> [] then localHint else t_local t), t_actual := actualState,
              t_error := lastError, t_seen := format_seen seenAt, t_updated := format_time now\<rparr>) s"

text \<open>\<open>DELETE FROM tunnels\<close> with the \<open>ON DELETE CASCADE\<close> of the three child tables.\<close>

definition DeleteTunnelByName :: "store \<Rightarrow> string \<Rightarrow> unit res \<times> store" where
  "DeleteTunnelByName s name =
     (if fault s Tunnels then (Inl ErrIO, s)
      else let gone = t_id ` {t \<in> set (tunnels s). t_name t = name}
           in (Inr (), s\<lparr>tunnels := delete_where (\<lambda>t. t_name t = name) (tunnels s),
                         logs := delete_where (\<lambda>l. lg_tunnel l \<in> gone) (logs s),
                         rules := delete_where (\<lambda>r. ru_tunnel r \<in> gone) (rules s),
                         events := delete_where (\<lambda>e. ev_tunnel e \<in> gone) (events s)\<rparr>))"

section \<open>Events\<close>

definition insert_event_row :: "store \<Rightarrow> time \<Rightarrow> int \<Rightarrow> string \<Rightarrow> string \<Rightarrow> unit res \<times> store" where
  "insert_event_row s now tunnelID eventType message =
     (if fault s TunnelEvents then (Inl ErrIO, s)
      else if tunnelID \<notin> t_id ` set (tunnels s) then (Inl ErrForeignKey, s)
      else (Inr (), bump TunnelEvents (s\<lparr>events := events s @
        [\<lparr>ev_id = next_id s TunnelEvents, ev_tunnel = tunnelID, ev_type = eventType,
          ev_message = message, ev_created = format_time now\<rparr>]\<rparr>)))"

definition AddTunnelEvent :: "store \<Rightarrow> time \<Rightarrow> string \<Rightarrow> string \<Rightarrow> string \<Rightarrow> unit res \<times> store" where
  "AddTunnelEvent s now hostname eventType message =
     (case tunnelIDByHostname s hostname of
        Inl e \<Rightarrow> (Inl e, s)
      | Inr tid \<Rightarrow> if tid = 0 then (Inr (), s) else insert_event_row s now tid eventType message)"

text \<open>\<open>if limit <= 0 || limit > 500 { limit = 100 }\<close>, shared by the three list operations.\<close>

definition clamp_limit :: "int \<Rightarrow> nat" where
  "clamp_limit limit = (if limit \<le> 0 \<or> 500 < limit then 100 else nat limit)"

definition scan_event :: "event_row \<Rightarrow> event_record" where
  "scan_event e = \<lparr>er_id = ev_id e, er_tunnel = ev_tunnel e, er_type = ev_type e,
     er_message = ev_message e, er_created = parseRFC3339 (ev_created e)\<rparr>"

definition ListTunnelEventsByTunnel :: "store \<Rightarrow> int \<Rightarrow> int \<Rightarrow> event_record list res" where
  "ListTunnelEventsByTunnel s tunnelID limit =
     (if fault s TunnelEvents then Inl ErrIO
      else Inr (map scan_event (take (clamp_limit limit)
             (order_desc ev_created (filter (\<lambda>e. ev_tunnel e = tunnelID) (events s))))))"

end
