(* ===== verification/StoreLogs.thy ===== *)
theory StoreLogs
  imports StoreTunnels
begin

text \<open>
  The request log of internal/server/store.go: insertion with its retention run every
  hundredth time, the retention rule (seven days, ten thousand entries per tunnel) and the
  two list operations. Timestamps are compared as the text SQL sees.
\<close>

record log_record =
  lr_id :: int
  lr_tunnel :: int
  lr_hostname :: string
  lr_time :: time
  lr_method :: string
  lr_host :: string
  lr_path :: string
  lr_status :: int
  lr_latency :: int
  lr_in :: int
  lr_out :: int
  lr_client :: string
  lr_error :: string
  lr_ws :: bool

definition defaultRequestLogLimit :: nat where
  "defaultRequestLogLimit = 10000"

definition defaultRequestLogTTL :: int where
  "defaultRequestLogTTL = 7 * 24 * hour"

definition boolToInt :: "bool \<Rightarrow> int" where
  "boolToInt v = (if v then 1 else 0)"

definition log_row_of :: "int \<Rightarrow> int \<Rightarrow> log_record \<Rightarrow> log_row" where
  "log_row_of lid tid rec = \<lparr>lg_id = lid, lg_tunnel = tid, lg_hostname = lr_hostname rec,
     lg_time = format_time (lr_time rec), lg_method = lr_method rec, lg_host = lr_host rec,
     lg_path = lr_path rec, lg_status = lr_status rec, lg_latency = lr_latency rec,
     lg_in = lr_in rec, lg_out = lr_out rec, lg_client = lr_client rec, lg_error = lr_error rec,
     lg_ws = boolToInt (lr_ws rec)\<rparr>"

definition scan_log :: "log_row \<Rightarrow> log_record" where
  "scan_log l = \<lparr>lr_id = lg_id l, lr_tunnel = lg_tunnel l, lr_hostname = lg_hostname l,
     lr_time = parseRFC3339 (lg_time l), lr_method = lg_method l, lr_host = lg_host l,
     lr_path = lg_path l, lr_status = lg_status l, lr_latency = lg_latency l, lr_in = lg_in l,
     lr_out = lg_out l, lr_client = lg_client l, lr_error = lg_error l, lr_ws = (lg_ws l = 1)\<rparr>"

text \<open>The ids the second \<open>DELETE\<close> of the retention keeps.\<close>

definition newest_ids :: "nat \<Rightarrow> int \<Rightarrow> log_row list \<Rightarrow> int set" where
  "newest_ids limit tid ls =
     lg_id ` set (take limit (order_desc lg_time (filter (\<lambda>l. lg_tunnel l = tid) ls)))"

definition expire_logs :: "time \<Rightarrow> int \<Rightarrow> log_row list \<Rightarrow> log_row list" where
  "expire_logs now tid ls =
     delete_where (\<lambda>l. lg_tunnel l = tid \<and> lg_time l < format_time (now - defaultRequestLogTTL)) ls"

definition cap_logs :: "nat \<Rightarrow> int \<Rightarrow> log_row list \<Rightarrow> log_row list" where
  "cap_logs limit tid ls =
     (let keep = newest_ids limit tid ls
      in delete_where (\<lambda>l. lg_tunnel l = tid \<and> lg_id l \<notin> keep) ls)"

definition enforceLogRetention :: "store \<Rightarrow> time \<Rightarrow> int \<Rightarrow> unit res \<times> store" where
  "enforceLogRetention s now tid =
     (if fault s RequestLogs then (Inl ErrIO, s)
      else (Inr (), s\<lparr>logs := cap_logs defaultRequestLogLimit tid (expire_logs now tid (logs s))\<rparr>))"

definition insert_log_row :: "store \<Rightarrow> int \<Rightarrow> log_record \<Rightarrow> store res" where
  "insert_log_row s tid rec =
     (if fault s RequestLogs then Inl ErrIO
      else if tid \<notin> t_id ` set (tunnels s) then Inl ErrForeignKey
      else Inr (bump RequestLogs (s\<lparr>logs := logs s @ [log_row_of (next_id s RequestLogs) tid rec]\<rparr>)))"

definition InsertRequestLog :: "store \<Rightarrow> time \<Rightarrow> log_record \<Rightarrow> unit res \<times> store" where
  "InsertRequestLog s now rec =
     (case (if lr_tunnel rec = 0 then tunnelIDByHostname s (lr_hostname rec) else Inr (lr_tunnel rec)) of
        Inl e \<Rightarrow> (Inl e, s)
      | Inr tid \<Rightarrow>
          if tid = 0 then (Inr (), s)
          else (case insert_log_row s tid rec of
                  Inl e \<Rightarrow> (Inl e, s)
                | Inr s1 \<Rightarrow>
                    let s2 = s1\<lparr>hits := hits s1 + 1\<rparr>
                    in if unat (hits s2) mod 100 = 0 then (Inr (), snd (enforceLogRetention s2 now tid))
                       else (Inr (), s2)))"

definition list_logs :: "(log_row \<Rightarrow> bool) \<Rightarrow> store \<Rightarrow> int \<Rightarrow> log_record list res" where
  "list_logs P s limit =
     (if fault s RequestLogs then Inl ErrIO
      else Inr (map scan_log (take (clamp_limit limit) (order_desc lg_time (filter P (logs s))))))"

definition ListRequestLogs :: "store \<Rightarrow> string \<Rightarrow> int \<Rightarrow> log_record list res" where
  "ListRequestLogs s hostname limit = list_logs (\<lambda>l. lg_hostname l = hostname) s limit"

definition ListRequestLogsByTunnel :: "store \<Rightarrow> int \<Rightarrow> int \<Rightarrow> log_record list res" where
  "ListRequestLogsByTunnel s tunnelID limit = list_logs (\<lambda>l. lg_tunnel l = tunnelID) s limit"

section \<open>Retention\<close>

lemma clamp_limit_bounds: "0 < clamp_limit n \<and> clamp_limit n \<le> 500"
  by (auto simp: clamp_limit_def)

lemma take_image_card: "card (f ` set (take n xs)) \<le> n"
  by (metis List.finite_set card_image_le card_length le_trans length_take min.bounded_iff order_refl)

lemma filter_cap_logs:
  "filter (\<lambda>l. lg_tunnel l = tid) (cap_logs limit tid ls) =
   filter (\<lambda>l. lg_tunnel l = tid \<and> lg_id l \<in> newest_ids limit tid ls) ls"
  unfolding cap_logs_def delete_where_def Let_def filter_filter
  by (rule filter_cong) auto

lemma cap_logs_length:
  assumes "distinct (map lg_id ls)"
  shows "length (filter (\<lambda>l. lg_tunnel l = tid) (cap_logs limit tid ls)) \<le> limit"
proof -
  let ?kept = "filter (\<lambda>l. lg_tunnel l = tid) (cap_logs limit tid ls)"
  have "distinct (map lg_id ?kept)"
    unfolding filter_cap_logs using assms by (rule distinct_map_filter)
  then have "length ?kept = card (lg_id ` set ?kept)"
    by (metis distinct_card length_map set_map)
  also have "\<dots> \<le> card (newest_ids limit tid ls)"
    unfolding filter_cap_logs by (rule card_mono) (auto simp: newest_ids_def)
  also have "\<dots> \<le> limit"
    unfolding newest_ids_def by (rule take_image_card)
  finally show ?thesis .
qed

lemma cap_logs_others:
  "filter (\<lambda>l. lg_tunnel l \<noteq> tid) (cap_logs limit tid ls) = filter (\<lambda>l. lg_tunnel l \<noteq> tid) ls"
  unfolding cap_logs_def delete_where_def Let_def filter_filter
  by (rule filter_cong) auto

lemma expire_logs_others:
  "filter (\<lambda>l. lg_tunnel l \<noteq> tid) (expire_logs now tid ls) = filter (\<lambda>l. lg_tunnel l \<noteq> tid) ls"
  unfolding expire_logs_def delete_where_def filter_filter
  by (rule filter_cong) auto

lemma distinct_ids_expire: "distinct (map lg_id ls) \<Longrightarrow> distinct (map lg_id (expire_logs now tid ls))"
  unfolding expire_logs_def by (rule distinct_map_delete_where)

lemma sorted_take_drop:
  "sorted_wrt R xs \<Longrightarrow> a \<in> set (take n xs) \<Longrightarrow> b \<in> set (drop n xs) \<Longrightarrow> R a b"
  by (metis append_take_drop_id sorted_wrt_append)

text \<open>What the cap drops is no newer, as text, than what it keeps.\<close>

lemma cap_logs_newest:
  assumes "distinct (map lg_id ls)" and "a \<in> set (cap_logs limit tid ls)" and "lg_tunnel a = tid"
    and "b \<in> set ls" and "lg_tunnel b = tid" and "b \<notin> set (cap_logs limit tid ls)"
  shows "lg_time b \<le> lg_time a"
proof -
  let ?xs = "order_desc lg_time (filter (\<lambda>l. lg_tunnel l = tid) ls)"
  have a: "a \<in> set ls" "lg_id a \<in> lg_id ` set (take limit ?xs)"
    and b: "lg_id b \<notin> lg_id ` set (take limit ?xs)"
    using assms by (auto simp: cap_logs_def newest_ids_def Let_def)
  from a(2) obtain a' where a': "a' \<in> set (take limit ?xs)" "lg_id a = lg_id a'" by auto
  then have "a' \<in> set ls" by (auto dest: in_set_takeD)
  with assms(1) a a'(2) have "a = a'" by (blast intro: distinct_key_unique)
  moreover have "b \<in> set ?xs" using assms by simp
  then have "b \<in> set (drop limit ?xs)"
    using b by (metis Un_iff append_take_drop_id image_eqI set_append)
  ultimately show ?thesis
    using sorted_take_drop [OF sorted_order_desc, of a limit lg_time] a'(1) by blast
qed

text \<open>An entry that is older than the limit by a whole second is gone.\<close>

lemma expire_logs_old:
  assumes "l \<in> set (expire_logs now tid ls)" and "lg_tunnel l = tid" and "lg_time l = At t"
  shows "seconds_of (now - defaultRequestLogTTL) \<le> seconds_of t"
  using assms stamp_le_seconds [of t "now - defaultRequestLogTTL"]
  by (force simp: expire_logs_def format_time_def not_le [symmetric])

lemma set_cap_logs: "set (cap_logs limit tid ls) \<subseteq> set ls"
  by (auto simp: cap_logs_def Let_def)

lemma set_expire_logs: "set (expire_logs now tid ls) \<subseteq> set ls"
  by (auto simp: expire_logs_def)

end
