(* ===== verification/StoreUsers.thy ===== *)
theory StoreUsers
  imports StoreLogs
begin

text \<open>
  Users, browser and CLI sessions, pending OIDC logins and agents: the statements of
  internal/server/store.go on the tables users, oidc_sessions, oidc_login_states and agents.
\<close>

record user_record =
  ur_id :: int
  ur_subject :: string
  ur_email :: string
  ur_name :: string
  ur_role :: string
  ur_groups :: "string list"
  ur_created :: time
  ur_updated :: time
  ur_login :: time

record session_record =
  sr_id :: int
  sr_user :: int
  sr_hash :: string
  sr_expires :: time
  sr_created :: time
  sr_seen :: time

record login_record =
  lo_id :: int
  lo_state :: string
  lo_verifier :: string
  lo_redirect :: string
  lo_expires :: time
  lo_created :: time

record agent_record =
  gr_id :: int
  gr_name :: string
  gr_owner :: int
  gr_status :: string
  gr_seen :: time
  gr_created :: time
  gr_revoked :: time
  gr_meta :: string

section \<open>Users\<close>

definition scanUserRecord :: "user_row \<Rightarrow> user_record" where
  "scanUserRecord u = \<lparr>ur_id = us_id u, ur_subject = us_subject u, ur_email = us_email u,
     ur_name = us_name u, ur_role = us_role u, ur_groups = us_groups u,
     ur_created = parseRFC3339 (us_created u), ur_updated = parseRFC3339 (us_updated u),
     ur_login = parseRFC3339 (us_login u)\<rparr>"

definition upsert_user_row :: "store \<Rightarrow> time \<Rightarrow> string \<Rightarrow> string \<Rightarrow> string \<Rightarrow> string list \<Rightarrow> string \<Rightarrow> store" where
  "upsert_user_row s now subject email displayName groups role =
     (if subject \<in> us_subject ` set (users s) then
        s\<lparr>users := update_where (\<lambda>u. us_subject u = subject)
            (\<lambda>u. u\<lparr>us_email := email, us_name := displayName, us_role := role, us_groups := groups,
                   us_updated := format_time now, us_login := format_time now\<rparr>) (users s)\<rparr>
      else bump Users (s\<lparr>users := users s @
        [\<lparr>us_id = next_id s Users, us_subject = subject, us_email = email, us_name = displayName,
          us_role = role, us_groups = groups, us_created = format_time now,
          us_updated = format_time now, us_login = format_time now\<rparr>]\<rparr>))"

definition UpsertUserFromOIDC ::
  "store \<Rightarrow> time \<Rightarrow> string \<Rightarrow> string \<Rightarrow> string \<Rightarrow> string list \<Rightarrow> string \<Rightarrow> user_record res \<times> store" where
  "UpsertUserFromOIDC s now subject email displayName groups role =
     (let role' = (if role = [] then ''member'' else role)
      in if fault s Users then (Inl ErrIO, s)
         else let s' = upsert_user_row s now subject email displayName groups role'
              in (case find (\<lambda>u. us_subject u = subject) (users s') of
                    None \<Rightarrow> (Inl ErrNoRows, s')
                  | Some u \<Rightarrow> (Inr (scanUserRecord u), s')))"

section \<open>Sessions\<close>

definition CreateSession :: "store \<Rightarrow> time \<Rightarrow> int \<Rightarrow> string \<Rightarrow> time \<Rightarrow> unit res \<times> store" where
  "CreateSession s now userID tokenHash expiresAt =
     (if fault s Sessions then (Inl ErrIO, s)
      else if tokenHash \<in> se_hash ` set (sessions s) then (Inl (ErrUnique ''oidc_sessions.session_token_hash''), s)
      else if userID \<notin> us_id ` set (users s) then (Inl ErrForeignKey, s)
      else (Inr (), bump Sessions (s\<lparr>sessions := sessions s @
        [\<lparr>se_id = next_id s Sessions, se_user = userID, se_hash = tokenHash,
          se_expires = format_time expiresAt, se_created = format_time now, se_seen = format_time now\<rparr>]\<rparr>)))"

definition DeleteSession :: "store \<Rightarrow> string \<Rightarrow> unit res \<times> store" where
  "DeleteSession s tokenHash =
     (if fault s Sessions then (Inl ErrIO, s)
      else (Inr (), s\<lparr>sessions := delete_where (\<lambda>x. se_hash x = tokenHash) (sessions s)\<rparr>))"

definition scan_session :: "session_row \<Rightarrow> session_record" where
  "scan_session x = \<lparr>sr_id = se_id x, sr_user = se_user x, sr_hash = se_hash x,
     sr_expires = parseRFC3339 (se_expires x), sr_created = parseRFC3339 (se_created x),
     sr_seen = parseRFC3339 (se_seen x)\<rparr>"

text \<open>\<open>!ExpiresAt.IsZero() && time.Now().After(ExpiresAt)\<close>.\<close>

definition expired :: "time \<Rightarrow> time \<Rightarrow> bool" where
  "expired now expiresAt \<longleftrightarrow> \<not> is_zero expiresAt \<and> expiresAt < now"

definition touch_session :: "time \<Rightarrow> int \<Rightarrow> store \<Rightarrow> store" where
  "touch_session now sid s =
     s\<lparr>sessions := update_where (\<lambda>x. se_id x = sid) (\<lambda>x. x\<lparr>se_seen := format_time now\<rparr>) (sessions s)\<rparr>"

definition GetSessionByToken :: "store \<Rightarrow> time \<Rightarrow> string \<Rightarrow> (session_record \<times> user_record) res \<times> store" where
  "GetSessionByToken s now tokenHash =
     (if fault s Sessions \<or> fault s Users then (Inl ErrIO, s)
      else case find (\<lambda>x. se_hash x = tokenHash) (sessions s) of
          None \<Rightarrow> (Inl ErrNoRows, s)
        | Some x \<Rightarrow>
            (case find (\<lambda>u. us_id u = se_user x) (users s) of
               None \<Rightarrow> (Inl ErrNoRows, s)
             | Some u \<Rightarrow>
                 if expired now (sr_expires (scan_session x))
                 then (Inl ErrNoRows, snd (DeleteSession s tokenHash))
                 else (Inr (scan_session x, scanUserRecord u), touch_session now (se_id x) s)))"

section \<open>Pending logins\<close>

definition CreateLoginState :: "store \<Rightarrow> time \<Rightarrow> string \<Rightarrow> string \<Rightarrow> string \<Rightarrow> time \<Rightarrow> unit res \<times> store" where
  "CreateLoginState s now state verifier redirectTo expiresAt =
     (let redirect = (if redirectTo = [] then ''/admin/ui'' else redirectTo)
      in if fault s LoginStates then (Inl ErrIO, s)
         else if state \<in> ls_state ` set (logins s) then (Inl (ErrUnique ''oidc_login_states.state''), s)
         else (Inr (), bump LoginStates (s\<lparr>logins := logins s @
           [\<lparr>ls_id = next_id s LoginStates, ls_state = state, ls_verifier = verifier,
             ls_redirect = redirect, ls_expires = format_time expiresAt, ls_created = format_time now\<rparr>]\<rparr>)))"

definition scan_login :: "login_row \<Rightarrow> login_record" where
  "scan_login l = \<lparr>lo_id = ls_id l, lo_state = ls_state l, lo_verifier = ls_verifier l,
     lo_redirect = ls_redirect l, lo_expires = parseRFC3339 (ls_expires l),
     lo_created = parseRFC3339 (ls_created l)\<rparr>"

definition ConsumeLoginState :: "store \<Rightarrow> time \<Rightarrow> string \<Rightarrow> login_record res \<times> store" where
  "ConsumeLoginState s now state =
     (if fault s LoginStates then (Inl ErrIO, s)
      else case find (\<lambda>l. ls_state l = state) (logins s) of
          None \<Rightarrow> (Inl ErrNoRows, s)
        | Some l \<Rightarrow>
            (let s' = s\<lparr>logins := delete_where (\<lambda>x. ls_id x = ls_id l) (logins s)\<rparr>
             in if expired now (lo_expires (scan_login l)) then (Inl ErrNoRows, s')
                else (Inr (scan_login l), s')))"

section \<open>Agents\<close>

definition scanAgentRecord :: "agent_row \<Rightarrow> agent_record" where
  "scanAgentRecord a = \<lparr>gr_id = ag_id a, gr_name = ag_name a, gr_owner = ag_owner a,
     gr_status = ag_status a, gr_seen = parseRFC3339 (ag_seen a),
     gr_created = parseRFC3339 (ag_created a), gr_revoked = parseRFC3339 (ag_revoked a),
     gr_meta = ag_meta a\<rparr>"

definition select_agent :: "(agent_row \<Rightarrow> bool) \<Rightarrow> store \<Rightarrow> agent_record res" where
  "select_agent P s =
     (if fault s Agents then Inl ErrIO
      else case find P (agents s) of None \<Rightarrow> Inl ErrNoRows | Some a \<Rightarrow> Inr (scanAgentRecord a))"

definition GetAgentByName :: "store \<Rightarrow> string \<Rightarrow> agent_record res" where
  "GetAgentByName s name = select_agent (\<lambda>a. ag_name a = name) s"

definition GetAgentByCredentialHash :: "store \<Rightarrow> string \<Rightarrow> agent_record res" where
  "GetAgentByCredentialHash s credentialHash = select_agent (\<lambda>a. ag_hash a = credentialHash) s"

definition CreateAgent :: "store \<Rightarrow> time \<Rightarrow> int \<Rightarrow> string \<Rightarrow> string \<Rightarrow> agent_record res \<times> store" where
  "CreateAgent s now ownerUserID name credentialHash =
     (if fault s Agents then (Inl ErrIO, s)
      else if name \<in> ag_name ` set (agents s) then (Inl (ErrUnique ''agents.name''), s)
      else if credentialHash \<in> ag_hash ` set (agents s) then (Inl (ErrUnique ''agents.credential_hash''), s)
      else if ownerUserID \<notin> us_id ` set (users s) then (Inl ErrForeignKey, s)
      else let s' = bump Agents (s\<lparr>agents := agents s @
             [\<lparr>ag_id = next_id s Agents, ag_name = name, ag_hash = credentialHash, ag_owner = ownerUserID,
               ag_status = ''authorized'', ag_seen = NoStamp, ag_created = format_time now,
               ag_revoked = NoStamp, ag_meta = ''{}''\<rparr>]\<rparr>)
           in (GetAgentByName s' name, s'))"

definition ListAgentsForUser :: "store \<Rightarrow> int \<Rightarrow> bool \<Rightarrow> agent_record list res" where
  "ListAgentsForUser s userID isAdmin =
     (if fault s Agents then Inl ErrIO
      else Inr (map scanAgentRecord (order_asc ag_name
             (if isAdmin then agents s else filter (\<lambda>a. ag_owner a = userID) (agents s)))))"

definition update_agents :: "(agent_row \<Rightarrow> bool) \<Rightarrow> (agent_row \<Rightarrow> agent_row) \<Rightarrow> store \<Rightarrow> unit res \<times> store" where
  "update_agents P f s =
     (if fault s Agents then (Inl ErrIO, s)
      else (Inr (), s\<lparr>agents := update_where P f (agents s)\<rparr>))"

definition RevokeAgentByName :: "store \<Rightarrow> time \<Rightarrow> string \<Rightarrow> unit res \<times> store" where
  "RevokeAgentByName s now name =
     update_agents (\<lambda>a. ag_name a = name)
       (\<lambda>a. a\<lparr>ag_status := ''revoked'', ag_revoked := format_time now, ag_seen := NoStamp\<rparr>) s"

definition TouchAgent :: "store \<Rightarrow> time \<Rightarrow> int \<Rightarrow> string \<Rightarrow> unit res \<times> store" where
  "TouchAgent s now agentID status =
     update_agents (\<lambda>a. ag_id a = agentID) (\<lambda>a. a\<lparr>ag_status := status, ag_seen := format_time now\<rparr>) s"

end
