(* ===== verification/Oidc.thy ===== *)
theory Oidc
  imports Http StoreUsers
begin

text \<open>
  The OIDC client of internal/server/oidc.go and the server's \<open>Config\<close>. The identity
  provider is reached through libraries and the network, so what it answers is an argument
  of the definitions: the outcome of discovery, of the verification of an ID token, of the
  userinfo call, and the HTTP reply of the device endpoints.
\<close>

section \<open>Configuration\<close>

record config =
  cf_hostname :: string
  cf_web_port :: int
  cf_grpc_port :: int
  cf_cert :: string
  cf_key :: string
  cf_data_dir :: string
  cf_issuer :: string
  cf_client_id :: string
  cf_client_secret :: string
  cf_redirect_url :: string
  cf_scopes :: "string list"
  cf_admin_emails :: "string list"
  cf_admin_subjects :: "string list"
  cf_admin_groups :: "string list"
  cf_session_secret :: string
  cf_device_client_id :: string
  cf_trusted :: "string list"

record claims =
  cl_subject :: string
  cl_email :: string
  cl_name :: string
  cl_groups :: "string list"

definition zero_claims :: claims where
  "zero_claims = \<lparr>cl_subject = [], cl_email = [], cl_name = [], cl_groups = []\<rparr>"

section \<open>The client\<close>

record discovery_document =
  dd_issuer :: string
  dd_authorization :: string
  dd_token :: string
  dd_userinfo :: string
  dd_jwks :: string
  dd_device :: string

definition zero_discovery :: discovery_document where
  "zero_discovery = \<lparr>dd_issuer = [], dd_authorization = [], dd_token = [], dd_userinfo = [], dd_jwks = [], dd_device = []\<rparr>"

record oidc_manager =
  om_enabled :: bool
  om_issuer :: string
  om_device_client :: string
  om_client_secret :: string
  om_scopes :: "string list"
  om_client :: string
  om_redirect :: string
  om_discovery :: discovery_document

text \<open>
  \<open>newOIDCManager\<close>; the arguments are the outcome of \<open>oidc.NewProvider\<close> and of
  \<open>loadDiscovery\<close>, the latter with the document it decoded.
\<close>

definition newOIDCManager :: "config \<Rightarrow> string + unit \<Rightarrow> string + discovery_document \<Rightarrow> string + oidc_manager" where
  "newOIDCManager cfg provider discovery =
     (let issuer = trim_space (cf_issuer cfg)
      in if issuer = [] then Inr \<lparr>om_enabled = False, om_issuer = [], om_device_client = [], om_client_secret = [],
             om_scopes = [], om_client = [], om_redirect = [], om_discovery = zero_discovery\<rparr>
         else if trim_space (cf_client_id cfg) = [] \<or> trim_space (cf_redirect_url cfg) = []
         then Inl ''oidc requires issuer, client id, and redirect url''
         else case provider of
             Inl e \<Rightarrow> Inl (''oidc discovery: '' @ e)
           | Inr _ \<Rightarrow>
               (case discovery of
                  Inl e \<Rightarrow> Inl e
                | Inr doc \<Rightarrow> Inr \<lparr>om_enabled = True, om_issuer = issuer,
                    om_device_client = (let d = trim_space (cf_device_client_id cfg)
                                        in if d = [] then cf_client_id cfg else d),
                    om_client_secret = trim_space (cf_client_secret cfg),
                    om_scopes = (if cf_scopes cfg = [] then [''openid'', ''profile'', ''email''] else cf_scopes cfg),
                    om_client = cf_client_id cfg, om_redirect = cf_redirect_url cfg, om_discovery = doc\<rparr>))"

text \<open>\<open>loadDiscovery\<close>: the reply to the request for the document, or its failure.\<close>

definition wellKnown :: "string \<Rightarrow> string" where
  "wellKnown issuer = trim_suffix issuer ''/'' @ ''/.well-known/openid-configuration''"

definition loadDiscovery :: "string + (int \<times> string \<times> (string + discovery_document)) \<Rightarrow> string + discovery_document" where
  "loadDiscovery reply =
     (case reply of
        Inl e \<Rightarrow> Inl (''oidc discovery document: '' @ e)
      | Inr (code, line, doc) \<Rightarrow>
          if code \<noteq> 200 then Inl (''oidc discovery document: '' @ line)
          else case doc of Inl e \<Rightarrow> Inl (''decode oidc discovery document: '' @ e) | Inr d \<Rightarrow> Inr d)"

text \<open>
  The verifier of ID tokens and the userinfo call: each can fail itself, or succeed with
  claims that then decode or not.
\<close>

type_synonym answer = "string + string + claims"

definition or_else :: "'a list \<Rightarrow> 'a list \<Rightarrow> 'a list" where
  "or_else a b = (if a = [] then b else a)"

text \<open>The claims of the ID token, or the zero claims when the response carries none.\<close>

definition token_claims :: "(string \<Rightarrow> answer) \<Rightarrow> string \<Rightarrow> string + claims" where
  "token_claims verify id_token =
     (if id_token = [] then Inr zero_claims
      else case verify id_token of
          Inl e \<Rightarrow> Inl (''verify id token: '' @ e)
        | Inr (Inl e) \<Rightarrow> Inl (''parse id token claims: '' @ e)
        | Inr (Inr c) \<Rightarrow> Inr c)"

text \<open>
  \<open>claimsFromToken\<close>: the ID token's claims, completed field by field from userinfo when
  subject, email or name is missing.
\<close>

definition claimsFromToken :: "(string \<Rightarrow> answer) \<Rightarrow> answer \<Rightarrow> string \<Rightarrow> string + claims" where
  "claimsFromToken verify userinfo id_token =
     (case token_claims verify id_token of
        Inl e \<Rightarrow> Inl e
      | Inr c \<Rightarrow>
          if cl_subject c \<noteq> [] \<and> cl_email c \<noteq> [] \<and> cl_name c \<noteq> [] then Inr c
          else case userinfo of
              Inl e \<Rightarrow> if cl_subject c \<noteq> [] then Inr c else Inl (''userinfo: '' @ e)
            | Inr (Inl e) \<Rightarrow> Inl (''userinfo claims: '' @ e)
            | Inr (Inr u) \<Rightarrow>
                (let c' = \<lparr>cl_subject = or_else (cl_subject c) (cl_subject u), cl_email = or_else (cl_email c) (cl_email u),
                           cl_name = or_else (cl_name c) (cl_name u), cl_groups = or_else (cl_groups c) (cl_groups u)\<rparr>
                 in if cl_subject c' = [] then Inl ''oidc subject missing'' else Inr c'))"

text \<open>
  \<open>exchangeCode\<close>: the token endpoint's answer to code and verifier is the ID token of the
  response (empty when it carries none), or a failure.
\<close>

definition exchangeCode ::
  "(string \<Rightarrow> string \<Rightarrow> string + string) \<Rightarrow> (string \<Rightarrow> answer) \<Rightarrow> answer \<Rightarrow> string \<Rightarrow> string \<Rightarrow> string + claims" where
  "exchangeCode token verify userinfo code verifier =
     (case token code verifier of
        Inl e \<Rightarrow> Inl (''oidc code exchange: '' @ e)
      | Inr id_token \<Rightarrow> claimsFromToken verify userinfo id_token)"

section \<open>Device authorization\<close>

record device_authorization =
  da_device_code :: string
  da_user_code :: string
  da_uri :: string
  da_uri_complete :: string
  da_expires :: int
  da_interval :: int

datatype 'a http_reply =
    Failed string                      \<comment> \<open>the request itself failed\<close>
  | Reply int string string "string + 'a"  \<comment> \<open>status code, status line, body text, decoded body\<close>

text \<open>A form posted to an endpoint, and what the endpoint replies to it.\<close>

type_synonym 'a post = "string \<Rightarrow> (string \<times> string) list \<Rightarrow> 'a http_reply"

definition secret_field :: "oidc_manager \<Rightarrow> (string \<times> string) list" where
  "secret_field m = (if om_client_secret m \<noteq> [] then [(''client_secret'', om_client_secret m)] else [])"

definition start_form :: "oidc_manager \<Rightarrow> (string \<times> string) list" where
  "start_form m = [(''client_id'', om_device_client m), (''scope'', join_with '' '' (om_scopes m))] @ secret_field m"

definition startDeviceAuthorization ::
  "oidc_manager \<Rightarrow> device_authorization post \<Rightarrow> string + device_authorization" where
  "startDeviceAuthorization m post =
     (if trim_space (dd_device (om_discovery m)) = []
      then Inl ''oidc provider does not expose device authorization endpoint''
      else case post (dd_device (om_discovery m)) (start_form m) of
          Failed e \<Rightarrow> Inl e
        | Reply code line txt out \<Rightarrow>
            if code \<noteq> 200 then Inl (''device authorization: '' @ line @ '': '' @ trim_space txt)
            else case out of
                Inl e \<Rightarrow> Inl e
              | Inr d \<Rightarrow> Inr (if da_interval d \<le> 0 then d\<lparr>da_interval := 5\<rparr> else d))"

text \<open>The answer of the token endpoint: an OAuth error or a token response.\<close>

record poll_error =
  pe_error :: string
  pe_description :: string
  pe_interval :: int

datatype poll_result = Pending int | Granted claims

text \<open>
  \<open>pollDeviceAuthorization\<close>: the reply decodes to the error object (\<open>Inl\<close>) or to the ID
  token (\<open>Inr\<close>); the text left in the body after the decoder ran is its own argument.
\<close>

definition poll_form :: "oidc_manager \<Rightarrow> string \<Rightarrow> (string \<times> string) list" where
  "poll_form m deviceCode =
     [(''grant_type'', ''urn:ietf:params:oauth:grant-type:device_code''), (''device_code'', deviceCode),
      (''client_id'', om_device_client m)] @ secret_field m"

definition pollDeviceAuthorization ::
  "oidc_manager \<Rightarrow> (string \<Rightarrow> answer) \<Rightarrow> answer \<Rightarrow> (poll_error + string) post \<Rightarrow> string \<Rightarrow> string + poll_result" where
  "pollDeviceAuthorization m verify userinfo post deviceCode =
     (case post (dd_token (om_discovery m)) (poll_form m deviceCode) of
        Failed e \<Rightarrow> Inl e
      | Reply code line rest out \<Rightarrow>
          if code \<noteq> 200 then
            (let failed = Inl (''device token exchange: '' @ line @ '': '' @ trim_space rest)
             in case out of
                 Inr (Inl e) \<Rightarrow>
                   if pe_error e = ''authorization_pending'' \<or> pe_error e = ''slow_down''
                   then Inr (Pending (if pe_interval e \<le> 0 then 5 else pe_interval e))
                   else if pe_error e \<noteq> [] then Inl (''device token exchange: '' @ pe_error e @ '': '' @ pe_description e)
                   else failed
               | _ \<Rightarrow> failed)
          else
            (case out of
               Inl e \<Rightarrow> Inl e
             | Inr (Inl _) \<Rightarrow> map_sum id Granted (claimsFromToken verify userinfo [])
             | Inr (Inr id_token) \<Rightarrow> map_sum id Granted (claimsFromToken verify userinfo id_token)))"

section \<open>Facts\<close>

lemma claimsFromToken_subject:
  "claimsFromToken verify userinfo tok = Inr c \<Longrightarrow> cl_subject c \<noteq> []"
  by (auto simp: claimsFromToken_def Let_def or_else_def split: if_splits sum.splits)

lemma pollDeviceAuthorization_interval:
  "pollDeviceAuthorization m verify userinfo post code = Inr (Pending n) \<Longrightarrow> 0 < n"
  by (auto simp: pollDeviceAuthorization_def Let_def map_sum_def split: http_reply.splits if_splits sum.splits)

lemma pollDeviceAuthorization_granted:
  "pollDeviceAuthorization m verify userinfo post code = Inr (Granted c) \<Longrightarrow> cl_subject c \<noteq> []"
  by (auto simp: pollDeviceAuthorization_def Let_def map_sum_def split: http_reply.splits if_splits sum.splits
      dest: claimsFromToken_subject)

end
