(* ===== verification/StoreInv.thy ===== *)
theory StoreInv
  imports StoreUsers
begin

text \<open>
  The integrity of the database: every operation of the store keeps the constraints of the
  schema (\<open>store_ok\<close>), so they hold in every store that operations and driver faults can
  reach from the freshly migrated one.
\<close>

section \<open>Every operation keeps the schema constraints\<close>

lemma bump_simps [simp]:
  "tunnels (bump tb s) = tunnels s" "agents (bump tb s) = agents s" "logs (bump tb s) = logs s"
  "rules (bump tb s) = rules s" "events (bump tb s) = events s" "users (bump tb s) = users s"
  "sessions (bump tb s) = sessions s" "logins (bump tb s) = logins s" "fault (bump tb s) = fault s"
  "hits (bump tb s) = hits s"
  "seqs (bump tb s) tb' = (if tb' = tb then seqs s tb + 1 else seqs s tb')"
  by (simp_all add: bump_def next_id_def)

lemma insert_tunnel_row_ok:
  assumes "store_ok s" and "insert_tunnel_row s r = Inr s'"
  shows "store_ok s'"
  using assms
  by (auto simp: insert_tunnel_row_def store_ok_defs next_id_def split: if_splits)

lemma upsert_rule_row_ok:
  assumes "store_ok s" and "upsert_rule_row s now tid v = Inr s'"
  shows "store_ok s'"
proof (cases "tid \<in> ru_tunnel ` set (rules s)")
  case True
  with assms show ?thesis
    by (auto simp: upsert_rule_row_def store_ok_defs set_rule_def split: if_splits)
next
  case False
  with assms show ?thesis
    by (auto simp: upsert_rule_row_def store_ok_defs next_id_def split: if_splits
        intro!: ids_ok_insert refs_ok_insert)
qed

lemma upsertTx_ok:
  "store_ok s \<Longrightarrow> upsertTunnelAccessRuleTx H s now tid nm hn inp b ex = Inr s' \<Longrightarrow> store_ok s'"
  by (auto simp: upsertTunnelAccessRuleTx_def split: sum.splits intro: upsert_rule_row_ok)

lemma UpsertTunnelAccessRule_ok: "store_ok s \<Longrightarrow> store_ok (snd (UpsertTunnelAccessRule H s now tid inp))"
  by (auto simp: UpsertTunnelAccessRule_def Let_def split: sum.splits go_err.splits intro: upsertTx_ok)

lemma CreateTunnel_ok: "store_ok s \<Longrightarrow> store_ok (snd (CreateTunnel H s now owner nm hn hint aid))"
  by (auto simp: CreateTunnel_def split: sum.splits intro: upsertTx_ok insert_tunnel_row_ok)

lemma update_tunnels_ok:
  assumes "store_ok s"
    and "\<And>t. t_id (f t) = t_id t" "\<And>t. t_name (f t) = t_name t" "\<And>t. t_hostname (f t) = t_hostname t"
  shows "store_ok (snd (update_tunnels P f s))"
  using assms by (simp add: update_tunnels_def store_ok_defs)

lemma UpsertTunnelStatus_ok: "store_ok s \<Longrightarrow> store_ok (snd (UpsertTunnelStatus s now hn hint ds as le seen))"
  by (auto simp: UpsertTunnelStatus_def Let_def split: sum.splits
      intro: insert_tunnel_row_ok intro!: update_tunnels_ok)

lemma MarkTunnelOffline_ok: "store_ok s \<Longrightarrow> store_ok (snd (MarkTunnelOffline s now hn le))"
  by (simp add: MarkTunnelOffline_def update_tunnels_ok)

lemma AssignTunnelToAgent_ok: "store_ok s \<Longrightarrow> store_ok (snd (AssignTunnelToAgent s now nm aid))"
  by (simp add: AssignTunnelToAgent_def update_tunnels_ok)

lemma SetTunnelDesiredState_ok: "store_ok s \<Longrightarrow> store_ok (snd (SetTunnelDesiredState s now nm ds))"
  by (simp add: SetTunnelDesiredState_def update_tunnels_ok)

lemma UpdateTunnelStateByName_ok:
  "store_ok s \<Longrightarrow> store_ok (snd (UpdateTunnelStateByName s now nm hint as le seen))"
  by (simp add: UpdateTunnelStateByName_def update_tunnels_ok)

lemma DeleteTunnelByName_ok:
  assumes "store_ok s"
  shows "store_ok (snd (DeleteTunnelByName s nm))"
proof -
  let ?P = "\<lambda>t. t_name t = nm"
  let ?gone = "t_id ` {t \<in> set (tunnels s). ?P t}"
  have "refs_ok f (delete_where (\<lambda>r. f r \<in> ?gone) rs) t_id (delete_where ?P (tunnels s))"
    if "refs_ok f rs t_id (tunnels s)" for f :: "'r \<Rightarrow> int" and rs
    using that by (rule refs_ok_cascade)
  note casc = refs_ok_cascade [where P = ?P and k = t_id and ps = "tunnels s"]
  show ?thesis
    using assms by (auto simp: DeleteTunnelByName_def Let_def store_ok_defs intro!: casc)
qed

lemma AddTunnelEvent_ok: "store_ok s \<Longrightarrow> store_ok (snd (AddTunnelEvent s now hn et msg))"
  by (auto simp: AddTunnelEvent_def insert_event_row_def store_ok_defs next_id_def split: sum.splits)

lemma enforceLogRetention_ok: "store_ok s \<Longrightarrow> store_ok (snd (enforceLogRetention s now tid))"
  by (auto simp: enforceLogRetention_def cap_logs_def expire_logs_def Let_def store_ok_defs)

lemma InsertRequestLog_ok: "store_ok s \<Longrightarrow> store_ok (snd (InsertRequestLog s now rec))"
proof -
  assume ok: "store_ok s"
  have ins: "store_ok s1" if "insert_log_row s tid rec = Inr s1" for s1 tid
    using ok that by (auto simp: insert_log_row_def log_row_of_def store_ok_defs next_id_def split: if_splits)
  have hit: "store_ok (s1\<lparr>hits := h\<rparr>) = store_ok s1" for s1 h
    by (simp add: store_ok_defs)
  show ?thesis
    using ok by (auto simp: InsertRequestLog_def Let_def hit split: sum.splits
        intro!: enforceLogRetention_ok intro: ins)
qed

lemma UpsertUserFromOIDC_ok: "store_ok s \<Longrightarrow> store_ok (snd (UpsertUserFromOIDC s now sub em dn gs ro))"
proof -
  assume ok: "store_ok s"
  have "store_ok (upsert_user_row s now sub em dn gs r)" for r
    using ok by (auto simp: upsert_user_row_def store_ok_defs next_id_def)
  then show ?thesis
    using ok by (auto simp: UpsertUserFromOIDC_def Let_def split: option.splits)
qed

lemma CreateSession_ok: "store_ok s \<Longrightarrow> store_ok (snd (CreateSession s now uid h ex))"
  by (auto simp: CreateSession_def store_ok_defs next_id_def)

lemma DeleteSession_ok: "store_ok s \<Longrightarrow> store_ok (snd (DeleteSession s h))"
  by (auto simp: DeleteSession_def store_ok_defs)

lemma GetSessionByToken_ok: "store_ok s \<Longrightarrow> store_ok (snd (GetSessionByToken s now h))"
proof -
  assume ok: "store_ok s"
  then have "store_ok (touch_session now i s)" for i
    by (auto simp: touch_session_def store_ok_defs)
  then show ?thesis
    using ok DeleteSession_ok [OF ok] by (auto simp: GetSessionByToken_def split: option.splits)
qed

lemma CreateLoginState_ok: "store_ok s \<Longrightarrow> store_ok (snd (CreateLoginState s now st v r ex))"
  by (auto simp: CreateLoginState_def Let_def store_ok_defs next_id_def)

lemma ConsumeLoginState_ok: "store_ok s \<Longrightarrow> store_ok (snd (ConsumeLoginState s now st))"
  by (auto simp: ConsumeLoginState_def Let_def store_ok_defs split: option.splits)

lemma CreateAgent_ok: "store_ok s \<Longrightarrow> store_ok (snd (CreateAgent s now uid nm h))"
  by (auto simp: CreateAgent_def Let_def store_ok_defs next_id_def)

lemma RevokeAgentByName_ok: "store_ok s \<Longrightarrow> store_ok (snd (RevokeAgentByName s now nm))"
  by (auto simp: RevokeAgentByName_def update_agents_def store_ok_defs)

lemma TouchAgent_ok: "store_ok s \<Longrightarrow> store_ok (snd (TouchAgent s now aid st))"
  by (auto simp: TouchAgent_def update_agents_def store_ok_defs)

lemmas store_op_ok = UpsertTunnelAccessRule_ok CreateTunnel_ok UpsertTunnelStatus_ok
  MarkTunnelOffline_ok AssignTunnelToAgent_ok SetTunnelDesiredState_ok UpdateTunnelStateByName_ok
  DeleteTunnelByName_ok AddTunnelEvent_ok InsertRequestLog_ok UpsertUserFromOIDC_ok
  CreateSession_ok DeleteSession_ok GetSessionByToken_ok CreateLoginState_ok
  ConsumeLoginState_ok CreateAgent_ok RevokeAgentByName_ok TouchAgent_ok

end
