(* ===== verification/StoreProps.thy ===== *)
theory StoreProps
  imports StoreInv
begin

text \<open>
  What the store promises its callers, over every store reachable from the migrated file:
  integrity, what creating and deleting a tunnel does, the life of sessions and pending
  logins, the retention of the request log.
\<close>

section \<open>Reachable stores\<close>

text \<open>
  One constructor per exported operation, with its arguments (the clock reading first);
  \<open>Faults\<close> lets the driver start or stop failing on tables, \<open>Restart\<close> is a new \<open>Store\<close>
  value on the same file, whose insertion counter starts again.
\<close>

datatype store_op =
    OpCreateTunnel time int string string string int
  | OpUpsertRule time int access_input
  | OpUpsertStatus time string string string string string time
  | OpMarkOffline time string string
  | OpAssign time string int
  | OpSetDesired time string string
  | OpUpdateState time string string string string time
  | OpDeleteTunnel string
  | OpAddEvent time string string string
  | OpInsertLog time log_record
  | OpUpsertUser time string string string "string list" string
  | OpCreateSession time int string time
  | OpGetSession time string
  | OpDeleteSession string
  | OpCreateLogin time string string string time
  | OpConsumeLogin time string
  | OpCreateAgent time int string string
  | OpRevokeAgent time string
  | OpTouchAgent time int string
  | Faults "table \<Rightarrow> bool"
  | Restart

fun exec_op :: "(string \<Rightarrow> string) \<Rightarrow> store_op \<Rightarrow> store \<Rightarrow> store" where
  "exec_op H (OpCreateTunnel now owner nm hn hint aid) s = snd (CreateTunnel H s now owner nm hn hint aid)"
| "exec_op H (OpUpsertRule now tid inp) s = snd (UpsertTunnelAccessRule H s now tid inp)"
| "exec_op H (OpUpsertStatus now hn hint ds as le seen) s = snd (UpsertTunnelStatus s now hn hint ds as le seen)"
| "exec_op H (OpMarkOffline now hn le) s = snd (MarkTunnelOffline s now hn le)"
| "exec_op H (OpAssign now nm aid) s = snd (AssignTunnelToAgent s now nm aid)"
| "exec_op H (OpSetDesired now nm ds) s = snd (SetTunnelDesiredState s now nm ds)"
| "exec_op H (OpUpdateState now nm hint as le seen) s = snd (UpdateTunnelStateByName s now nm hint as le seen)"
| "exec_op H (OpDeleteTunnel nm) s = snd (DeleteTunnelByName s nm)"
| "exec_op H (OpAddEvent now hn et msg) s = snd (AddTunnelEvent s now hn et msg)"
| "exec_op H (OpInsertLog now rec) s = snd (InsertRequestLog s now rec)"
| "exec_op H (OpUpsertUser now sub em dn gs ro) s = snd (UpsertUserFromOIDC s now sub em dn gs ro)"
| "exec_op H (OpCreateSession now uid h ex) s = snd (CreateSession s now uid h ex)"
| "exec_op H (OpGetSession now h) s = snd (GetSessionByToken s now h)"
| "exec_op H (OpDeleteSession h) s = snd (DeleteSession s h)"
| "exec_op H (OpCreateLogin now st v r ex) s = snd (CreateLoginState s now st v r ex)"
| "exec_op H (OpConsumeLogin now st) s = snd (ConsumeLoginState s now st)"
| "exec_op H (OpCreateAgent now uid nm h) s = snd (CreateAgent s now uid nm h)"
| "exec_op H (OpRevokeAgent now nm) s = snd (RevokeAgentByName s now nm)"
| "exec_op H (OpTouchAgent now aid st) s = snd (TouchAgent s now aid st)"
| "exec_op H (Faults f) s = s\<lparr>fault := f\<rparr>"
| "exec_op H Restart s = s\<lparr>hits := 0\<rparr>"

definition run_ops :: "(string \<Rightarrow> string) \<Rightarrow> store_op list \<Rightarrow> store \<Rightarrow> store" where
  "run_ops H ops s = fold (exec_op H) ops s"

inductive reachable_store :: "(string \<Rightarrow> string) \<Rightarrow> store \<Rightarrow> bool" for H where
  init: "reachable_store H empty_store"
| step: "reachable_store H s \<Longrightarrow> reachable_store H (exec_op H op s)"

lemma store_ok_outside [simp]:
  "store_ok (s\<lparr>fault := f\<rparr>) = store_ok s" "store_ok (s\<lparr>hits := h\<rparr>) = store_ok s"
  by (simp_all add: store_ok_defs)

lemma exec_op_ok: "store_ok s \<Longrightarrow> store_ok (exec_op H op s)"
  by (cases op) (simp_all add: store_op_ok)

lemma reachable_ok: "reachable_store H s \<Longrightarrow> store_ok s"
  by (induction rule: reachable_store.induct) (auto intro: empty_store_ok exec_op_ok)

lemma run_ops_ok: "store_ok s \<Longrightarrow> store_ok (run_ops H ops s)"
  unfolding run_ops_def by (induction ops arbitrary: s) (auto intro: exec_op_ok)

lemma run_ops_reachable: "reachable_store H s \<Longrightarrow> reachable_store H (run_ops H ops s)"
  unfolding run_ops_def by (induction ops arbitrary: s) (auto intro: reachable_store.step)

text \<open>A fact that every operation but some keeps holds after any run without those.\<close>

lemma run_ops_invariant:
  assumes "\<And>op s. P s \<Longrightarrow> Q op \<Longrightarrow> P (exec_op H op s)" and "P s" and "list_all Q ops"
  shows "P (run_ops H ops s)"
  using assms(2,3) unfolding run_ops_def
  by (induction ops arbitrary: s) (auto intro: assms(1))

section \<open>Facts about single operations\<close>

lemma store_okD:
  assumes "store_ok s"
  shows "distinct (map t_id (tunnels s))" "distinct (map t_name (tunnels s))"
    "distinct (map t_hostname (tunnels s))" "distinct (map ru_tunnel (rules s))"
    "distinct (map lg_id (logs s))" "distinct (map se_hash (sessions s))"
    "distinct (map us_id (users s))" "distinct (map us_subject (users s))"
    "distinct (map ls_state (logins s))" "distinct (map ls_id (logins s))"
    "distinct (map ag_id (agents s))" "distinct (map ag_name (agents s))"
    "distinct (map ag_hash (agents s))" "distinct (map se_id (sessions s))"
  using assms by (auto simp: store_ok_defs dest: ids_ok_distinct)

lemma fresh_tunnel_no_rule:
  "store_ok s \<Longrightarrow> next_id s Tunnels \<notin> ru_tunnel ` set (rules s)"
proof -
  assume "store_ok s"
  then have "\<forall>r \<in> set (rules s). ru_tunnel r \<noteq> next_id s Tunnels"
    using fresh_id_not_referenced [of t_id "tunnels s" "seqs s Tunnels" ru_tunnel "rules s"]
    by (simp add: store_ok_defs next_id_def)
  then show ?thesis by force
qed

lemma fresh_tunnel_id: "store_ok s \<Longrightarrow> next_id s Tunnels \<notin> t_id ` set (tunnels s)"
  using ids_ok_fresh [of t_id "tunnels s" "seqs s Tunnels"] by (auto simp: store_ok_defs next_id_def)

lemma next_id_pos: "store_ok s \<Longrightarrow> next_id s Tunnels \<noteq> 0"
  by (auto simp: store_ok_defs next_id_def ids_ok_def)

definition new_tunnel_row :: "store \<Rightarrow> time \<Rightarrow> int \<Rightarrow> string \<Rightarrow> string \<Rightarrow> string \<Rightarrow> int \<Rightarrow> tunnel_row" where
  "new_tunnel_row s now owner nm hn hint aid =
     \<lparr>t_id = next_id s Tunnels, t_name = nm, t_hostname = hn, t_local = hint, t_owner = owner,
      t_agent = aid, t_desired = ''stopped'', t_actual = ''offline'', t_error = [],
      t_seen = NoStamp, t_created = format_time now, t_updated = format_time now\<rparr>"

definition new_public_rule :: "store \<Rightarrow> time \<Rightarrow> rule_row" where
  "new_public_rule s now =
     \<lparr>ru_id = next_id s AccessRules, ru_tunnel = next_id s Tunnels, ru_mode = public_mode,
      ru_user = [], ru_pass = [], ru_header = [], ru_secret = [], ru_allowed = [],
      ru_created = format_time now, ru_updated = format_time now\<rparr>"

lemma bump_tunnels_update [simp]: "bump tb s\<lparr>rules := r\<rparr> = bump tb (s\<lparr>rules := r\<rparr>)"
  by (simp add: bump_def next_id_def)

lemma next_id_bump [simp]: "next_id (bump tb s) tb' = (if tb' = tb then next_id s tb + 1 else next_id s tb')"
  by (simp add: next_id_def)

lemma next_id_update [simp]:
  "next_id (s\<lparr>tunnels := x\<rparr>) tb = next_id s tb" "next_id (s\<lparr>rules := y\<rparr>) tb = next_id s tb"
  by (simp_all add: next_id_def)

text \<open>The whole transaction on a store where both unique columns are free.\<close>

lemma CreateTunnel_fresh:
  assumes "store_ok s" and "\<not> fault s Tunnels" and "\<not> fault s AccessRules"
    and "nm \<notin> t_name ` set (tunnels s)" and "hn \<notin> t_hostname ` set (tunnels s)"
  shows "CreateTunnel H s now owner nm hn hint aid =
    (let s' = bump AccessRules (bump Tunnels
          (s\<lparr>tunnels := tunnels s @ [new_tunnel_row s now owner nm hn hint aid],
             rules := rules s @ [new_public_rule s now]\<rparr>))
     in (GetTunnelByName s' nm, s'))"
proof -
  let ?row = "new_tunnel_row s now owner nm hn hint aid"
  let ?s1 = "bump Tunnels (s\<lparr>tunnels := tunnels s @ [?row]\<rparr>)"
  have ins: "insert_tunnel_row s (?row\<lparr>t_id := 0\<rparr>) = Inr ?s1"
    using assms by (simp add: insert_tunnel_row_def new_tunnel_row_def)
  have find: "find (\<lambda>t. t_name t = nm \<or> t_hostname t = hn) (tunnels s @ [?row]) = Some ?row"
    using assms(4,5) by (intro find_snoc_fresh) (auto simp: new_tunnel_row_def)
  have "upsertTunnelAccessRuleTx H ?s1 now 0 nm hn public_input True None =
      Inr (bump AccessRules (?s1\<lparr>rules := rules s @ [new_public_rule s now]\<rparr>))"
    using assms fresh_tunnel_no_rule [OF assms(1)]
    by (simp add: upsertTunnelAccessRuleTx_def find public_input_def validate_public upsert_rule_row_def
        new_public_rule_def) (simp add: new_tunnel_row_def)
  with ins show ?thesis
    by (simp add: CreateTunnel_def new_tunnel_row_def Let_def)
qed

lemma CreateTunnel_taken:
  assumes "\<not> fault s Tunnels" and "nm \<in> t_name ` set (tunnels s) \<or> hn \<in> t_hostname ` set (tunnels s)"
  shows "\<exists>col. CreateTunnel H s now owner nm hn hint aid = (Inl (ErrUnique col), s)"
  using assms by (auto simp: CreateTunnel_def insert_tunnel_row_def)

lemma select_tunnel_unique:
  assumes "store_ok s" and "\<not> tunnel_read_fault s" and "t \<in> set (tunnels s)"
  shows "GetTunnelByName s (t_name t) = Inr (scan_tunnel s t)"
    and "GetTunnelByHostname s (t_hostname t) = Inr (scan_tunnel s t)"
  using assms store_okD(2,3) [OF assms(1)]
  by (simp_all add: GetTunnelByName_def GetTunnelByHostname_def select_tunnel_def find_unique)

lemma select_tunnel_SomeD:
  "select_tunnel P s = Inr r \<Longrightarrow> \<exists>t \<in> set (tunnels s). P t \<and> r = scan_tunnel s t"
  by (auto simp: select_tunnel_def split: if_splits option.splits dest: find_SomeD)

lemma rule_lookup_unique:
  "store_ok s \<Longrightarrow> \<not> fault s AccessRules \<Longrightarrow> r \<in> set (rules s) \<Longrightarrow>
    GetTunnelAccessRule s (ru_tunnel r) = Inr (scan_rule r)"
  using store_okD(4) [of s] by (simp add: GetTunnelAccessRule_def find_unique)

end
