(* ===== verification/SessionStore.thy ===== *)
theory SessionStore
  imports StoreProps
begin

text \<open>
  The contract the authentication code needs of the session table, as the interface
  \<open>session_table\<close> (create, look up at a time, delete), its consequences for any number of
  requests, and its interpretation on \<open>CreateSession\<close>, \<open>GetSessionByToken\<close> and
  \<open>DeleteSession\<close> of internal/server/store.go.
\<close>

section \<open>The interface\<close>

locale session_table =
  fixes valid :: "'s \<Rightarrow> bool"
    and holder :: "'s \<Rightarrow> string \<Rightarrow> ('u \<times> time) option"
    and create :: "'s \<Rightarrow> time \<Rightarrow> 'k \<Rightarrow> string \<Rightarrow> time \<Rightarrow> unit res \<times> 's"
    and lookup :: "'s \<Rightarrow> time \<Rightarrow> string \<Rightarrow> 'u res \<times> 's"
    and delete :: "'s \<Rightarrow> string \<Rightarrow> unit res \<times> 's"
  assumes valid_lookup: "valid s \<Longrightarrow> valid (snd (lookup s now h))"
    and valid_delete: "valid s \<Longrightarrow> valid (snd (delete s h))"
    and lookup_live: "valid s \<Longrightarrow> holder s h = Some (u, ex) \<Longrightarrow> \<not> expired now ex \<Longrightarrow> fst (lookup s now h) = Inr u"
    and lookup_keeps: "valid s \<Longrightarrow> holder s h = Some (u, ex) \<Longrightarrow> \<not> expired now ex \<Longrightarrow>
      holder (snd (lookup s now h)) k = holder s k"
    and lookup_expired: "valid s \<Longrightarrow> holder s h = Some (u, ex) \<Longrightarrow> expired now ex \<Longrightarrow>
      fst (lookup s now h) = Inl ErrNoRows \<and> holder (snd (lookup s now h)) h = None"
    and lookup_absent: "valid s \<Longrightarrow> holder s h = None \<Longrightarrow> lookup s now h = (Inl ErrNoRows, s)"
    and delete_holder: "valid s \<Longrightarrow> holder (snd (delete s h)) k = (if k = h then None else holder s k)"
begin

text \<open>Looking a token up any number of times before its expiry keeps it alive.\<close>

fun lookups :: "'s \<Rightarrow> string \<Rightarrow> time list \<Rightarrow> 'u res list \<times> 's" where
  "lookups s h [] = ([], s)"
| "lookups s h (t # ts) =
     (let (r, s1) = lookup s t h; (rs, s2) = lookups s1 h ts in (r # rs, s2))"

lemma lookups_live:
  assumes "valid s" and "holder s h = Some (u, ex)" and "\<And>t. t \<in> set ts \<Longrightarrow> \<not> expired t ex"
  shows "fst (lookups s h ts) = replicate (length ts) (Inr u) \<and> valid (snd (lookups s h ts)) \<and>
    holder (snd (lookups s h ts)) h = Some (u, ex)"
  using assms
proof (induction ts arbitrary: s)
  case Nil
  then show ?case by simp
next
  case (Cons t ts)
  have now: "\<not> expired t ex" using Cons.prems(3) by simp
  obtain r s1 where l: "lookup s t h = (r, s1)" by fastforce
  have r: "r = Inr u" and h1: "holder s1 h = Some (u, ex)" and v1: "valid s1"
    using lookup_live [OF Cons.prems(1,2) now] lookup_keeps [OF Cons.prems(1,2) now, of h]
      valid_lookup [OF Cons.prems(1), of t h] Cons.prems(2) by (simp_all add: l)
  show ?case
    using Cons.IH [OF v1 h1] Cons.prems(3) by (simp add: l r split_beta)
qed

lemma dead_stays_dead:
  assumes "valid s" and "holder s h = None"
  shows "lookups s h ts = (replicate (length ts) (Inl ErrNoRows), s)"
  by (induction ts) (simp_all add: lookup_absent [OF assms])

lemma lookups_after_delete:
  assumes "valid s"
  shows "fst (lookups (snd (delete s h)) h ts) = replicate (length ts) (Inl ErrNoRows)"
  using assms by (simp add: dead_stays_dead valid_delete delete_holder)

lemma lookups_after_expiry:
  assumes "valid s" and "holder s h = Some (u, ex)" and "expired t ex"
  shows "fst (lookups s h (t # ts)) = replicate (Suc (length ts)) (Inl ErrNoRows)"
proof -
  obtain r s1 where l: "lookup s t h = (r, s1)" by fastforce
  have "r = Inl ErrNoRows" "holder s1 h = None" "valid s1"
    using lookup_expired [OF assms] valid_lookup [OF assms(1), of t h] by (simp_all add: l)
  then show ?thesis by (simp add: l dead_stays_dead)
qed

end

section \<open>The store as a session table\<close>

text \<open>The session tables answer: no driver error on the two tables the lookup joins.\<close>

definition sessions_up :: "store \<Rightarrow> bool" where
  "sessions_up s \<longleftrightarrow> store_ok s \<and> \<not> fault s Sessions \<and> \<not> fault s Users"

text \<open>The user and the expiry a token hash stands for.\<close>

definition session_holder :: "store \<Rightarrow> string \<Rightarrow> (user_record \<times> time) option" where
  "session_holder s h =
     (case find (\<lambda>x. se_hash x = h) (sessions s) of
        None \<Rightarrow> None
      | Some x \<Rightarrow> (case find (\<lambda>u. us_id u = se_user x) (users s) of
            None \<Rightarrow> None
          | Some u \<Rightarrow> Some (scanUserRecord u, parseRFC3339 (se_expires x))))"

definition session_user :: "store \<Rightarrow> time \<Rightarrow> string \<Rightarrow> user_record res \<times> store" where
  "session_user s now h = apfst (map_sum id snd) (GetSessionByToken s now h)"

lemma session_user_cases:
  assumes "sessions_up s"
  shows "session_user s now h =
    (case session_holder s h of
       None \<Rightarrow> (Inl ErrNoRows, s)
     | Some (u, ex) \<Rightarrow>
         if expired now ex then (Inl ErrNoRows, snd (DeleteSession s h))
         else (Inr u, touch_session now (se_id (the (find (\<lambda>x. se_hash x = h) (sessions s)))) s))"
  using assms
  by (auto simp: sessions_up_def session_user_def session_holder_def GetSessionByToken_def scan_session_def
      split: option.splits)

lemma touch_holder [simp]: "session_holder (touch_session now i s) k = session_holder s k"
  by (auto simp: session_holder_def touch_session_def find_update_where split: option.splits)

lemma delete_session_holder:
  "\<not> fault s Sessions \<Longrightarrow>
    session_holder (snd (DeleteSession s h)) k = (if k = h then None else session_holder s k)"
  by (auto simp: session_holder_def DeleteSession_def find_delete_where_same
      find_delete_where_other [where P = "\<lambda>x. se_hash x = h"] cong: option.case_cong)

lemma sessions_up_delete: "sessions_up s \<Longrightarrow> sessions_up (snd (DeleteSession s h))"
  by (simp add: sessions_up_def DeleteSession_ok) (simp add: DeleteSession_def)

lemma sessions_up_lookup: "sessions_up s \<Longrightarrow> sessions_up (snd (session_user s now h))"
  by (simp add: sessions_up_def session_user_def GetSessionByToken_ok)
    (simp add: GetSessionByToken_def DeleteSession_def touch_session_def split: option.splits)

interpretation sess: session_table sessions_up session_holder CreateSession session_user DeleteSession
proof
  fix s now h u ex k
  assume up: "sessions_up s"
  show "sessions_up (snd (session_user s now h))" by (rule sessions_up_lookup [OF up])
  show "sessions_up (snd (DeleteSession s h))" by (rule sessions_up_delete [OF up])
  show "session_holder (snd (DeleteSession s h)) k = (if k = h then None else session_holder s k)"
    using up by (simp add: delete_session_holder sessions_up_def)
  show "session_holder s h = None \<Longrightarrow> session_user s now h = (Inl ErrNoRows, s)"
    by (simp add: session_user_cases [OF up])
  assume h: "session_holder s h = Some (u, ex)"
  show "\<not> expired now ex \<Longrightarrow> fst (session_user s now h) = Inr u"
    by (simp add: session_user_cases [OF up] h)
  show "\<not> expired now ex \<Longrightarrow> session_holder (snd (session_user s now h)) k = session_holder s k"
    by (simp add: session_user_cases [OF up] h)
  show "expired now ex \<Longrightarrow> fst (session_user s now h) = Inl ErrNoRows \<and>
      session_holder (snd (session_user s now h)) h = None"
    using up by (simp add: session_user_cases [OF up] h delete_session_holder sessions_up_def)
qed

text \<open>A created session stands for its user until its expiry.\<close>

lemma CreateSession_holder:
  assumes "sessions_up s" and "fst (CreateSession s now uid h ex) = Inr ()"
  shows "\<exists>u \<in> set (users s). us_id u = uid \<and>
    session_holder (snd (CreateSession s now uid h ex)) h = Some (scanUserRecord u, ex)"
    "sessions_up (snd (CreateSession s now uid h ex))"
proof -
  have fresh: "h \<notin> se_hash ` set (sessions s)" and "uid \<in> us_id ` set (users s)"
    using assms by (auto simp: CreateSession_def sessions_up_def split: if_splits)
  then obtain u where u: "u \<in> set (users s)" "us_id u = uid" by auto
  have "find (\<lambda>u. us_id u = uid) (users s) = Some u"
    using u assms(1) store_okD(7) by (auto intro!: find_unique simp: sessions_up_def)
  moreover have "\<And>x. se_hash x = h \<Longrightarrow> find (\<lambda>x. se_hash x = h) (sessions s @ [x]) = Some x"
    using fresh by (intro find_snoc_fresh) (auto simp: image_iff)
  ultimately show "\<exists>u \<in> set (users s). us_id u = uid \<and>
      session_holder (snd (CreateSession s now uid h ex)) h = Some (scanUserRecord u, ex)"
    using assms fresh u by (auto simp: CreateSession_def session_holder_def sessions_up_def)
  show "sessions_up (snd (CreateSession s now uid h ex))"
    using assms(1) by (simp add: sessions_up_def CreateSession_ok) (simp add: CreateSession_def)
qed

end
