(* ===== verification/Sessions.thy ===== *)
theory Sessions
  imports Oidc SessionStore
begin

text \<open>
  Browser and CLI sessions: \<open>AuthManager\<close> of internal/server/session.go. The keyed digest
  (HMAC-SHA256, in hexadecimal) and the random strings are parameters: \<open>hmac key msg\<close>, and
  the outcome of \<open>randomString\<close> as an argument. A handler reads the clock once (\<open>now\<close>) and
  takes and returns the store.
\<close>

record auth_manager =
  am_cfg :: config
  am_oidc :: oidc_manager
  am_secure :: bool
  am_key :: string

definition userSessionCookieName :: string where
  "userSessionCookieName = ''fwdx_session''"

definition defaultSessionTTL :: int where
  "defaultSessionTTL = 12 * hour"

text \<open>\<open>NewAuthManager\<close>: the key is the configured secret, or derived from the hostname.\<close>

definition session_key :: "config \<Rightarrow> string" where
  "session_key cfg =
     (let key = trim_space (cf_session_secret cfg)
      in if key \<noteq> [] then key
         else if trim_space (cf_hostname cfg) \<noteq> [] then ''fwdx-session::'' @ cf_hostname cfg
         else ''fwdx-session::default'')"

definition NewAuthManager :: "config \<Rightarrow> bool \<Rightarrow> bool \<Rightarrow> string + oidc_manager \<Rightarrow> string + auth_manager" where
  "NewAuthManager cfg has_store secure oidc =
     (if \<not> has_store then Inl ''store required''
      else case oidc of
          Inl e \<Rightarrow> Inl e
        | Inr m \<Rightarrow> Inr \<lparr>am_cfg = cfg, am_oidc = m, am_secure = secure, am_key = session_key cfg\<rparr>)"

definition OIDCEnabled :: "auth_manager \<Rightarrow> bool" where
  "OIDCEnabled a \<longleftrightarrow> om_enabled (am_oidc a)"

definition sessionHash :: "(string \<Rightarrow> string \<Rightarrow> string) \<Rightarrow> auth_manager \<Rightarrow> string \<Rightarrow> string" where
  "sessionHash hmac a raw = hmac (am_key a) raw"

definition issueSession ::
  "(string \<Rightarrow> string \<Rightarrow> string) \<Rightarrow> auth_manager \<Rightarrow> store \<Rightarrow> time \<Rightarrow> string res \<Rightarrow> int \<Rightarrow> (string \<times> time) res \<times> store" where
  "issueSession hmac a s now random userID =
     (case random of
        Inl e \<Rightarrow> (Inl e, s)
      | Inr raw \<Rightarrow>
          (let expiresAt = now + defaultSessionTTL
           in case CreateSession s now userID (sessionHash hmac a raw) expiresAt of
               (Inl e, s') \<Rightarrow> (Inl e, s')
             | (Inr _, s') \<Rightarrow> (Inr (raw, expiresAt), s')))"

definition IssueSessionForClaims ::
  "(string \<Rightarrow> string \<Rightarrow> string) \<Rightarrow> auth_manager \<Rightarrow> store \<Rightarrow> time \<Rightarrow> string res \<Rightarrow> claims \<Rightarrow> string \<Rightarrow>
   (string \<times> time \<times> user_record) res \<times> store" where
  "IssueSessionForClaims hmac a s now random claims role =
     (case UpsertUserFromOIDC s now (cl_subject claims) (cl_email claims) (cl_name claims) (cl_groups claims) role of
        (Inl e, s1) \<Rightarrow> (Inl e, s1)
      | (Inr user, s1) \<Rightarrow>
          (case issueSession hmac a s1 now random (ur_id user) of
             (Inl e, s2) \<Rightarrow> (Inl e, s2)
           | (Inr (raw, ex), s2) \<Rightarrow> (Inr (raw, ex, user), s2)))"

definition setSessionCookie :: "string \<Rightarrow> time \<Rightarrow> 'p response \<Rightarrow> 'p response" where
  "setSessionCookie raw expiresAt w =
     w\<lparr>rs_cookies := rs_cookies w @ [SetCookie userSessionCookieName raw expiresAt]\<rparr>"

definition clearSessionCookie :: "'p response \<Rightarrow> 'p response" where
  "clearSessionCookie w = w\<lparr>rs_cookies := rs_cookies w @ [ClearCookie userSessionCookieName]\<rparr>"

section \<open>Who is asking\<close>

text \<open>The cookie, when it is not blank, wins over the bearer token.\<close>

definition bearer_token :: "request \<Rightarrow> string" where
  "bearer_token r =
     (let h = trim_space (header_get r ''Authorization'')
      in if 7 \<le> length h \<and> equal_fold (take 7 h) ''Bearer '' then trim_space (drop 7 h) else [])"

definition requestSessionToken :: "request \<Rightarrow> string" where
  "requestSessionToken r =
     (case cookie r userSessionCookieName of
        Some c \<Rightarrow> if trim_space c \<noteq> [] then trim_space c else bearer_token r
      | None \<Rightarrow> bearer_token r)"

definition requestUser ::
  "(string \<Rightarrow> string \<Rightarrow> string) \<Rightarrow> auth_manager \<Rightarrow> store \<Rightarrow> time \<Rightarrow> request \<Rightarrow> (user_record option \<times> int) \<times> store" where
  "requestUser hmac a s now r =
     (let token = requestSessionToken r
      in if token = [] then ((None, 401), s)
         else case GetSessionByToken s now (sessionHash hmac a token) of
             (Inl _, s') \<Rightarrow> ((None, 401), s')
           | (Inr (_, user), s') \<Rightarrow> ((Some user, 200), s'))"

text \<open>
  \<open>requireAdmin\<close>: the wrapped handler runs on the world whose store is the one the look-up
  leaves; \<open>get\<close> and \<open>put\<close> read and replace the store of a handler's world.
\<close>

definition requireAdminOn ::
  "('w \<Rightarrow> store) \<Rightarrow> (store \<Rightarrow> 'w \<Rightarrow> 'w) \<Rightarrow> (string \<Rightarrow> string \<Rightarrow> string) \<Rightarrow> auth_manager \<Rightarrow>
   ('w \<Rightarrow> request \<Rightarrow> 'p response \<times> 'w) \<Rightarrow> 'w \<Rightarrow> time \<Rightarrow> request \<Rightarrow> 'p response \<times> 'w" where
  "requireAdminOn get put hmac a handler w now r =
     (case requestUser hmac a (get w) now r of
        ((user, status), s') \<Rightarrow>
          (let w' = put s' w
           in if status = 401 then
                (if equal_fold (header_get r ''HX-Request'') ''true''
                 then ((http_error ''unauthorized'' 401)\<lparr>rs_headers := [(''HX-Redirect'', ''/admin/ui/login'')]\<rparr>, w')
                 else (redirect ''/admin/ui/login'', w'))
              else (case user of
                      Some u \<Rightarrow> if ur_role u \<noteq> ''admin'' then (http_error ''forbidden'' 403, w') else handler w' r
                    | None \<Rightarrow> (http_error ''forbidden'' 403, w'))))"

definition requireAdmin ::
  "(string \<Rightarrow> string \<Rightarrow> string) \<Rightarrow> auth_manager \<Rightarrow> (store \<Rightarrow> request \<Rightarrow> 'p response \<times> store) \<Rightarrow>
   store \<Rightarrow> time \<Rightarrow> request \<Rightarrow> 'p response \<times> store" where
  "requireAdmin = requireAdminOn (\<lambda>s. s) (\<lambda>s _. s)"

definition authorizeAdmin ::
  "(string \<Rightarrow> string \<Rightarrow> string) \<Rightarrow> auth_manager \<Rightarrow> store \<Rightarrow> time \<Rightarrow> request \<Rightarrow> (bool \<times> int) \<times> store" where
  "authorizeAdmin hmac a s now r =
     (case requestUser hmac a s now r of
        ((user, status), s') \<Rightarrow>
          if status \<noteq> 200 then ((False, status), s')
          else (case user of
                  Some u \<Rightarrow> if ur_role u \<noteq> ''admin'' then ((False, 403), s') else ((True, 200), s')
                | None \<Rightarrow> ((False, 403), s')))"

section \<open>Roles\<close>

definition containsStringFold :: "string list \<Rightarrow> string \<Rightarrow> bool" where
  "containsStringFold xs want \<longleftrightarrow>
     (let w = trim_lower want in list_ex (\<lambda>item. trim_lower item = w \<and> w \<noteq> []) xs)"

definition userRole :: "auth_manager \<Rightarrow> claims \<Rightarrow> string" where
  "userRole a claims =
     (let email = to_lower (trim_space (cl_email claims)); subject = trim_space (cl_subject claims); cfg = am_cfg a
      in if containsStringFold (cf_admin_emails cfg) email \<or> containsStringFold (cf_admin_subjects cfg) subject
         then ''admin''
         else if list_ex (containsStringFold (cf_admin_groups cfg)) (cl_groups claims) then ''admin''
         else ''member'')"

section \<open>Who am I\<close>

definition whoami_fields :: "user_record \<Rightarrow> (string \<times> string) list" where
  "whoami_fields u = [(''subject'', ur_subject u), (''email'', ur_email u), (''display_name'', ur_name u), (''role'', ur_role u)]"

definition handleWhoAmI ::
  "(string \<Rightarrow> string \<Rightarrow> string) \<Rightarrow> auth_manager \<Rightarrow> store \<Rightarrow> time \<Rightarrow> request \<Rightarrow>
   (string \<times> string) list response \<times> store" where
  "handleWhoAmI hmac a s now r =
     (if rq_method r \<noteq> ''GET'' then (http_error ''method not allowed'' 405, s)
      else case requestUser hmac a s now r of
          ((Some u, status), s') \<Rightarrow>
            if status \<noteq> 200 then (http_error ''unauthorized'' 401, s') else (writeJSON 200 (whoami_fields u), s')
        | ((None, _), s') \<Rightarrow> (http_error ''unauthorized'' 401, s'))"

section \<open>Facts\<close>

text \<open>Who a request speaks for, by the session contract.\<close>

definition speaks_for :: "(string \<Rightarrow> string \<Rightarrow> string) \<Rightarrow> auth_manager \<Rightarrow> store \<Rightarrow> time \<Rightarrow> request \<Rightarrow> user_record \<Rightarrow> bool" where
  "speaks_for hmac a s now r u \<longleftrightarrow>
     (let token = requestSessionToken r
      in token \<noteq> [] \<and> (\<exists>ex. session_holder s (sessionHash hmac a token) = Some (u, ex) \<and> \<not> expired now ex))"

lemma requestUser_iff:
  assumes "sessions_up s"
  shows "fst (requestUser hmac a s now r) = (Some u, 200) \<longleftrightarrow> speaks_for hmac a s now r u"
proof -
  let ?h = "sessionHash hmac a (requestSessionToken r)"
  have "fst (session_user s now ?h) = Inr u \<longleftrightarrow> (\<exists>ex. session_holder s ?h = Some (u, ex) \<and> \<not> expired now ex)"
    using session_user_cases [OF assms, of now ?h] by (auto split: option.splits)
  then show ?thesis
    by (auto simp: requestUser_def speaks_for_def session_user_def Let_def split: prod.splits sum.splits)
qed

lemma requestUser_cases:
  obtains (user) u where "fst (requestUser hmac a s now r) = (Some u, 200)"
  | (none) "fst (requestUser hmac a s now r) = (None, 401)"
proof -
  have "fst (requestUser hmac a s now r) = (None, 401) \<or> (\<exists>u. fst (requestUser hmac a s now r) = (Some u, 200))"
    by (auto simp: requestUser_def Let_def split: prod.splits sum.splits)
  then show thesis using user none by blast
qed

lemma requestUser_None:
  "(\<And>u. fst (requestUser hmac a s now r) \<noteq> (Some u, 200)) \<Longrightarrow> fst (requestUser hmac a s now r) = (None, 401)"
  by (cases rule: requestUser_cases [of hmac a s now r]) auto

text \<open>Identifying the caller changes the session table at most.\<close>

lemma requestUser_store:
  "tunnels (snd (requestUser hmac a s now r)) = tunnels s" "rules (snd (requestUser hmac a s now r)) = rules s"
  "agents (snd (requestUser hmac a s now r)) = agents s" "events (snd (requestUser hmac a s now r)) = events s"
  "logs (snd (requestUser hmac a s now r)) = logs s" "users (snd (requestUser hmac a s now r)) = users s"
  "fault (snd (requestUser hmac a s now r)) = fault s" "seqs (snd (requestUser hmac a s now r)) = seqs s"
  "logins (snd (requestUser hmac a s now r)) = logins s" "hits (snd (requestUser hmac a s now r)) = hits s"
  by (auto simp: requestUser_def GetSessionByToken_def DeleteSession_def touch_session_def Let_def
      split: prod.splits sum.splits option.splits if_splits)

lemma requestUser_ok: "store_ok s \<Longrightarrow> store_ok (snd (requestUser hmac a s now r))"
  using GetSessionByToken_ok [of s now "sessionHash hmac a (requestSessionToken r)"]
  by (auto simp: requestUser_def Let_def split: prod.splits sum.splits)

lemma containsStringFold_iff:
  "containsStringFold xs want \<longleftrightarrow> trim_lower want \<noteq> [] \<and> (\<exists>x \<in> set xs. trim_lower x = trim_lower want)"
  by (auto simp: containsStringFold_def Let_def list_ex_iff)

end
