(* ===== verification/AuthHttp.thy ===== *)
theory AuthHttp
  imports Sessions
begin

text \<open>
  The login handlers of internal/server/auth_http.go: the OIDC browser flow (login,
  callback, logout) and the device flow (start, poll). The answers of the provider and the
  random strings are arguments, the URL of the provider's login page is the parameter
  \<open>auth_url state verifier\<close> (the PKCE challenge is computed from the verifier).
\<close>

datatype auth_payload =
    Device device_authorization
  | PollPending int
  | AccessGranted string stamp "(string \<times> string) list"

type_synonym auth_response = "auth_payload response"

definition default_redirect :: string where
  "default_redirect = ''/admin/ui''"

definition login_redirect :: "request \<Rightarrow> string" where
  "login_redirect r =
     (let t = trim_space (query_get r ''redirect'')
      in if t = [] \<or> \<not> has_prefix t ''/'' then default_redirect else t)"

definition handleOIDCLogin ::
  "(go_err \<Rightarrow> string) \<Rightarrow> (string \<Rightarrow> string \<Rightarrow> string) \<Rightarrow> auth_manager \<Rightarrow> store \<Rightarrow> time \<Rightarrow> string res \<Rightarrow> string res \<Rightarrow>
   request \<Rightarrow> auth_response \<times> store" where
  "handleOIDCLogin drv auth_url a s now rand_state rand_verifier r =
     (if rq_method r \<noteq> ''GET'' then (http_error ''method not allowed'' 405, s)
      else if \<not> OIDCEnabled a then (http_error ''oidc not configured'' 503, s)
      else case rand_state of
          Inl e \<Rightarrow> (http_error (err_text drv e) 500, s)
        | Inr state \<Rightarrow>
            (case rand_verifier of
               Inl e \<Rightarrow> (http_error (err_text drv e) 500, s)
             | Inr verifier \<Rightarrow>
                 (case CreateLoginState s now state verifier (login_redirect r) (now + 10 * minute) of
                    (Inl e, s') \<Rightarrow> (http_error (err_text drv e) 500, s')
                  | (Inr _, s') \<Rightarrow> (redirect (auth_url state verifier), s'))))"

text \<open>\<open>exchange code verifier\<close> is the outcome of \<open>exchangeCode\<close>.\<close>

definition handleOIDCCallback ::
  "(go_err \<Rightarrow> string) \<Rightarrow> (string \<Rightarrow> string \<Rightarrow> string) \<Rightarrow> (string \<Rightarrow> string \<Rightarrow> string + claims) \<Rightarrow> auth_manager \<Rightarrow>
   store \<Rightarrow> time \<Rightarrow> string res \<Rightarrow> request \<Rightarrow> auth_response \<times> store" where
  "handleOIDCCallback drv hmac exchange a s now random r =
     (if rq_method r \<noteq> ''GET'' then (http_error ''method not allowed'' 405, s)
      else if \<not> OIDCEnabled a then (http_error ''oidc not configured'' 503, s)
      else let state = trim_space (query_get r ''state''); code = trim_space (query_get r ''code'')
      in if state = [] \<or> code = [] then (http_error ''missing oidc callback state or code'' 400, s)
         else case ConsumeLoginState s now state of
             (Inl _, s1) \<Rightarrow> (http_error ''invalid auth state'' 400, s1)
           | (Inr login, s1) \<Rightarrow>
               (case exchange code (lo_verifier login) of
                  Inl e \<Rightarrow> (http_error e 502, s1)
                | Inr c \<Rightarrow>
                    (case UpsertUserFromOIDC s1 now (cl_subject c) (cl_email c) (cl_name c) (cl_groups c) (userRole a c) of
                       (Inl e, s2) \<Rightarrow> (http_error (err_text drv e) 500, s2)
                     | (Inr user, s2) \<Rightarrow>
                         (case issueSession hmac a s2 now random (ur_id user) of
                            (Inl e, s3) \<Rightarrow> (http_error (err_text drv e) 500, s3)
                          | (Inr (raw, ex), s3) \<Rightarrow> (setSessionCookie raw ex (redirect (lo_redirect login)), s3)))))"

definition handleOIDCLogout ::
  "(string \<Rightarrow> string \<Rightarrow> string) \<Rightarrow> auth_manager \<Rightarrow> store \<Rightarrow> request \<Rightarrow> auth_response \<times> store" where
  "handleOIDCLogout hmac a s r =
     (if rq_method r \<noteq> ''POST'' then (http_error ''method not allowed'' 405, s)
      else let token = requestSessionToken r;
               s' = (if token \<noteq> [] then snd (DeleteSession s (sessionHash hmac a token)) else s)
      in if has_prefix (rq_path r) ''/auth/'' then (clearSessionCookie (redirect ''/admin/ui/login''), s')
         else (clearSessionCookie no_content, s'))"

definition handleDeviceStart :: "auth_manager \<Rightarrow> store \<Rightarrow> device_authorization post \<Rightarrow> request \<Rightarrow> auth_response \<times> store" where
  "handleDeviceStart a s post r =
     (if rq_method r \<noteq> ''POST'' then (http_error ''method not allowed'' 405, s)
      else if \<not> OIDCEnabled a then (http_error ''oidc not configured'' 503, s)
      else case startDeviceAuthorization (am_oidc a) post of
          Inl e \<Rightarrow> (http_error e 502, s)
        | Inr d \<Rightarrow> (writeJSON 200 (Device d), s))"

text \<open>\<open>poll code\<close> is the outcome of \<open>pollDeviceAuthorization\<close>.\<close>

definition handleDevicePoll ::
  "(go_err \<Rightarrow> string) \<Rightarrow> (string \<Rightarrow> string \<Rightarrow> string) \<Rightarrow> (string \<Rightarrow> string + poll_result) \<Rightarrow> auth_manager \<Rightarrow>
   store \<Rightarrow> time \<Rightarrow> string res \<Rightarrow> request \<Rightarrow> auth_response \<times> store" where
  "handleDevicePoll drv hmac poll a s now random r =
     (if rq_method r \<noteq> ''POST'' then (http_error ''method not allowed'' 405, s)
      else if \<not> OIDCEnabled a then (http_error ''oidc not configured'' 503, s)
      else case body_string (rq_json r) ''device_code'' of
          None \<Rightarrow> (http_error ''invalid json'' 400, s)
        | Some v \<Rightarrow>
            (let code = trim_space v
             in if code = [] then (http_error ''device_code required'' 400, s)
                else case poll code of
                    Inl e \<Rightarrow> (http_error e 502, s)
                  | Inr (Pending n) \<Rightarrow> (writeJSON 202 (PollPending n), s)
                  | Inr (Granted c) \<Rightarrow>
                      (case UpsertUserFromOIDC s now (cl_subject c) (cl_email c) (cl_name c) (cl_groups c) (userRole a c) of
                         (Inl e, s1) \<Rightarrow> (http_error (err_text drv e) 500, s1)
                       | (Inr user, s1) \<Rightarrow>
                           (case issueSession hmac a s1 now random (ur_id user) of
                              (Inl e, s2) \<Rightarrow> (http_error (err_text drv e) 500, s2)
                            | (Inr (raw, ex), s2) \<Rightarrow>
                                (writeJSON 200 (AccessGranted raw (format_time ex) (whoami_fields user)), s2)))))"

section \<open>Facts\<close>

lemma issueSession_success:
  assumes "issueSession hmac a s now random uid = (Inr (raw, ex), s')"
  shows "random = Inr raw" "ex = now + defaultSessionTTL"
    "CreateSession s now uid (sessionHash hmac a raw) ex = (Inr (), s')"
  using assms by (auto simp: issueSession_def Let_def split: sum.splits prod.splits)

text \<open>The user an upsert returns is the row of the subject, with the given role.\<close>

lemma find_upserted_user:
  assumes "find (\<lambda>u. us_subject u = subject) (users (upsert_user_row s now subject email nm gs role)) = Some u"
  shows "us_subject u = subject \<and> us_email u = email \<and> us_name u = nm \<and> us_role u = role \<and> us_groups u = gs"
proof (cases "subject \<in> us_subject ` set (users s)")
  case True
  have u: "u \<in> set (users (upsert_user_row s now subject email nm gs role))" "us_subject u = subject"
    using find_SomeD [OF assms] by auto
  let ?f = "\<lambda>u. u\<lparr>us_email := email, us_name := nm, us_role := role, us_groups := gs,
    us_updated := format_time now, us_login := format_time now\<rparr>"
  from True have "users (upsert_user_row s now subject email nm gs role) =
      update_where (\<lambda>u. us_subject u = subject) ?f (users s)"
    by (simp add: upsert_user_row_def)
  with u have "u \<in> ?f ` {u \<in> set (users s). us_subject u = subject} \<union> {u \<in> set (users s). us_subject u \<noteq> subject}"
    by (simp only: set_update_where)
  then obtain w where "u = ?f w" using u(2) by blast
  with u(2) show ?thesis by simp
next
  case False
  then have none: "find (\<lambda>u. us_subject u = subject) (users s) = None" by (auto simp: find_None_iff)
  have "users (upsert_user_row s now subject email nm gs role) = users s @
      [\<lparr>us_id = next_id s Users, us_subject = subject, us_email = email, us_name = nm, us_role = role,
        us_groups = gs, us_created = format_time now, us_updated = format_time now, us_login = format_time now\<rparr>]"
    using False by (simp add: upsert_user_row_def)
  with assms none show ?thesis by (auto simp: find_append)
qed

lemma UpsertUserFromOIDC_result:
  assumes "UpsertUserFromOIDC s now subject email nm gs role = (Inr u, s')"
  shows "ur_subject u = subject \<and> ur_email u = email \<and> ur_name u = nm \<and> ur_groups u = gs \<and>
    ur_role u = (if role = [] then ''member'' else role) \<and>
    (\<exists>row \<in> set (users s'). scanUserRecord row = u)"
  using assms
  by (auto simp: UpsertUserFromOIDC_def Let_def scanUserRecord_def split: if_splits option.splits
      dest: find_upserted_user find_SomeD)

lemma userRole_values: "userRole a c = ''admin'' \<or> userRole a c = ''member''"
  by (simp add: userRole_def Let_def)

end
