(* ===== verification/StoreFrame.thy ===== *)
theory StoreFrame
  imports StoreProps
begin

text \<open>
  What the operations leave alone: the tables of identities (users, sessions, pending
  logins, agents) under the operations on tunnels, and the reverse; from it, facts about
  runs of any length.
\<close>

text \<open>The four tables of identities, as one value.\<close>

definition identity_part :: "store \<Rightarrow> user_row list \<times> session_row list \<times> login_row list \<times> agent_row list" where
  "identity_part s = (users s, sessions s, logins s, agents s)"

lemma identity_part_simps [simp]:
  "identity_part (bump tb s) = identity_part s"
  "identity_part (s\<lparr>tunnels := a\<rparr>) = identity_part s" "identity_part (s\<lparr>rules := b\<rparr>) = identity_part s"
  "identity_part (s\<lparr>events := c\<rparr>) = identity_part s" "identity_part (s\<lparr>logs := d\<rparr>) = identity_part s"
  "identity_part (s\<lparr>hits := e\<rparr>) = identity_part s" "identity_part (s\<lparr>fault := f\<rparr>) = identity_part s"
  by (simp_all add: identity_part_def)

lemma insert_tunnel_row_identity: "insert_tunnel_row s r = Inr s' \<Longrightarrow> identity_part s' = identity_part s"
  by (auto simp: insert_tunnel_row_def split: if_splits)

lemma upsert_rule_row_identity: "upsert_rule_row s now tid v = Inr s' \<Longrightarrow> identity_part s' = identity_part s"
  by (auto simp: upsert_rule_row_def split: if_splits)

lemma upsertTx_identity:
  "upsertTunnelAccessRuleTx H s now tid nm hn inp b ex = Inr s' \<Longrightarrow> identity_part s' = identity_part s"
  by (auto simp: upsertTunnelAccessRuleTx_def split: sum.splits dest: upsert_rule_row_identity)

lemma insert_log_row_identity: "insert_log_row s tid rec = Inr s' \<Longrightarrow> identity_part s' = identity_part s"
  by (auto simp: insert_log_row_def split: if_splits)

lemma update_tunnels_identity [simp]: "identity_part (snd (update_tunnels P f s)) = identity_part s"
  by (simp add: update_tunnels_def)

lemma tunnel_ops_identity [simp]:
  "identity_part (snd (MarkTunnelOffline s now hn le)) = identity_part s"
  "identity_part (snd (AssignTunnelToAgent s now nm aid)) = identity_part s"
  "identity_part (snd (SetTunnelDesiredState s now nm ds)) = identity_part s"
  "identity_part (snd (UpdateTunnelStateByName s now nm hint as le seen)) = identity_part s"
  "identity_part (snd (DeleteTunnelByName s nm)) = identity_part s"
  by (simp_all add: MarkTunnelOffline_def AssignTunnelToAgent_def SetTunnelDesiredState_def
      UpdateTunnelStateByName_def DeleteTunnelByName_def Let_def)

lemma UpsertTunnelStatus_identity [simp]:
  "identity_part (snd (UpsertTunnelStatus s now hn hint ds as le seen)) = identity_part s"
  by (auto simp: UpsertTunnelStatus_def Let_def split: sum.splits dest: insert_tunnel_row_identity)

lemma CreateTunnel_identity [simp]:
  "identity_part (snd (CreateTunnel H s now owner nm hn hint aid)) = identity_part s"
  by (auto simp: CreateTunnel_def split: sum.splits dest!: insert_tunnel_row_identity upsertTx_identity)

lemma UpsertTunnelAccessRule_identity [simp]:
  "identity_part (snd (UpsertTunnelAccessRule H s now tid inp)) = identity_part s"
  by (auto simp: UpsertTunnelAccessRule_def Let_def split: sum.splits go_err.splits dest: upsertTx_identity)

lemma AddTunnelEvent_identity [simp]:
  "identity_part (snd (AddTunnelEvent s now hn et msg)) = identity_part s"
  by (auto simp: AddTunnelEvent_def insert_event_row_def split: sum.splits)

lemma InsertRequestLog_identity [simp]:
  "identity_part (snd (InsertRequestLog s now rec)) = identity_part s"
  by (auto simp: InsertRequestLog_def enforceLogRetention_def Let_def split: sum.splits
      dest: insert_log_row_identity)

section \<open>Sessions and pending logins along a run\<close>

text \<open>What the operations on other tables of identities leave of sessions and logins.\<close>

lemma users_agents_frame [simp]:
  "sessions (snd (UpsertUserFromOIDC s now sub em dn gs ro)) = sessions s"
  "logins (snd (UpsertUserFromOIDC s now sub em dn gs ro)) = logins s"
  "sessions (snd (CreateAgent s now uid nm h)) = sessions s"
  "logins (snd (CreateAgent s now uid nm h)) = logins s"
  "sessions (snd (RevokeAgentByName s now nm)) = sessions s"
  "logins (snd (RevokeAgentByName s now nm)) = logins s"
  "sessions (snd (TouchAgent s now aid st)) = sessions s"
  "logins (snd (TouchAgent s now aid st)) = logins s"
  by (simp_all add: UpsertUserFromOIDC_def upsert_user_row_def CreateAgent_def RevokeAgentByName_def
      TouchAgent_def update_agents_def Let_def split: option.split)

lemma session_login_frame [simp]:
  "logins (snd (CreateSession s now uid h ex)) = logins s"
  "logins (snd (DeleteSession s h)) = logins s"
  "logins (snd (GetSessionByToken s now h)) = logins s"
  "sessions (snd (CreateLoginState s now st v r ex)) = sessions s"
  "sessions (snd (ConsumeLoginState s now st)) = sessions s"
  by (simp_all add: CreateSession_def DeleteSession_def GetSessionByToken_def touch_session_def
      CreateLoginState_def ConsumeLoginState_def Let_def split: option.split)

definition session_hashes :: "store \<Rightarrow> string set" where
  "session_hashes s = se_hash ` set (sessions s)"

definition login_states :: "store \<Rightarrow> string set" where
  "login_states s = ls_state ` set (logins s)"

lemma identity_partD:
  assumes "identity_part s' = identity_part s"
  shows "session_hashes s' = session_hashes s" "login_states s' = login_states s"
    "agents s' = agents s" "users s' = users s"
  using assms by (simp_all add: identity_part_def session_hashes_def login_states_def)

fun creates_session :: "string \<Rightarrow> store_op \<Rightarrow> bool" where
  "creates_session h (OpCreateSession now uid h' ex) = (h' = h)"
| "creates_session h _ = False"

fun creates_login :: "string \<Rightarrow> store_op \<Rightarrow> bool" where
  "creates_login st (OpCreateLogin now st' v r ex) = (st' = st)"
| "creates_login st _ = False"

lemmas tunnel_part_identity = tunnel_ops_identity UpsertTunnelStatus_identity CreateTunnel_identity
  UpsertTunnelAccessRule_identity AddTunnelEvent_identity InsertRequestLog_identity

lemmas tunnel_part_frame = tunnel_part_identity [THEN identity_partD(1)]
  tunnel_part_identity [THEN identity_partD(2)]

lemma GetSession_hashes: "session_hashes (snd (GetSessionByToken s now h)) \<subseteq> session_hashes s"
  by (auto simp: session_hashes_def GetSessionByToken_def touch_session_def DeleteSession_def
      image_update_where split: option.splits)

lemma ConsumeLogin_states: "login_states (snd (ConsumeLoginState s now st)) \<subseteq> login_states s"
  by (auto simp: login_states_def ConsumeLoginState_def Let_def split: option.splits)

lemma CreateSession_hashes: "session_hashes (snd (CreateSession s now uid h ex)) \<subseteq> insert h (session_hashes s)"
  by (auto simp: session_hashes_def CreateSession_def)

lemma CreateLogin_states: "login_states (snd (CreateLoginState s now st v r ex)) \<subseteq> insert st (login_states s)"
  by (auto simp: login_states_def CreateLoginState_def Let_def)

lemma DeleteSession_hashes: "session_hashes (snd (DeleteSession s h)) \<subseteq> session_hashes s"
  by (auto simp: session_hashes_def DeleteSession_def)

lemma identity_ops_frame:
  "session_hashes (snd (UpsertUserFromOIDC s now sub em dn gs ro)) = session_hashes s"
  "session_hashes (snd (CreateAgent s now uid nm h)) = session_hashes s"
  "session_hashes (snd (RevokeAgentByName s now nm)) = session_hashes s"
  "session_hashes (snd (TouchAgent s now aid st)) = session_hashes s"
  "session_hashes (snd (CreateLoginState s now st v r ex)) = session_hashes s"
  "session_hashes (snd (ConsumeLoginState s now st)) = session_hashes s"
  "session_hashes (s\<lparr>fault := f\<rparr>) = session_hashes s" "session_hashes (s\<lparr>hits := n\<rparr>) = session_hashes s"
  "login_states (snd (UpsertUserFromOIDC s now sub em dn gs ro)) = login_states s"
  "login_states (snd (CreateAgent s now uid nm h)) = login_states s"
  "login_states (snd (RevokeAgentByName s now nm)) = login_states s"
  "login_states (snd (TouchAgent s now aid st)) = login_states s"
  "login_states (snd (CreateSession s now uid h ex)) = login_states s"
  "login_states (snd (DeleteSession s h)) = login_states s"
  "login_states (snd (GetSessionByToken s now h)) = login_states s"
  "login_states (s\<lparr>fault := f\<rparr>) = login_states s" "login_states (s\<lparr>hits := n\<rparr>) = login_states s"
  by (simp_all add: session_hashes_def login_states_def)

lemma exec_op_hashes: "session_hashes (exec_op H op s) \<subseteq> session_hashes s \<union> {h. creates_session h op}"
proof (cases op)
  case (OpCreateSession now uid h ex)
  then show ?thesis using CreateSession_hashes [of s now uid h ex] by auto
qed (use GetSession_hashes DeleteSession_hashes in
    \<open>auto simp: tunnel_part_frame identity_ops_frame\<close>)

lemma exec_op_states: "login_states (exec_op H op s) \<subseteq> login_states s \<union> {st. creates_login st op}"
proof (cases op)
  case (OpCreateLogin now st v r ex)
  then show ?thesis using CreateLogin_states [of s now st v r ex] by auto
qed (use ConsumeLogin_states in \<open>auto simp: tunnel_part_frame identity_ops_frame\<close>)

lemma exec_op_session_absent:
  "h \<notin> session_hashes s \<Longrightarrow> \<not> creates_session h op \<Longrightarrow> h \<notin> session_hashes (exec_op H op s)"
  using exec_op_hashes by blast

lemma exec_op_login_absent:
  "st \<notin> login_states s \<Longrightarrow> \<not> creates_login st op \<Longrightarrow> st \<notin> login_states (exec_op H op s)"
  using exec_op_states by blast

lemma run_session_absent:
  "h \<notin> session_hashes s \<Longrightarrow> list_all (\<lambda>op. \<not> creates_session h op) ops \<Longrightarrow> h \<notin> session_hashes (run_ops H ops s)"
  by (rule run_ops_invariant [where Q = "\<lambda>op. \<not> creates_session h op"]) (auto dest: exec_op_session_absent)

lemma run_login_absent:
  "st \<notin> login_states s \<Longrightarrow> list_all (\<lambda>op. \<not> creates_login st op) ops \<Longrightarrow> st \<notin> login_states (run_ops H ops s)"
  by (rule run_ops_invariant [where Q = "\<lambda>op. \<not> creates_login st op"]) (auto dest: exec_op_login_absent)

end
