(* ===== verification/StoreClaims.thy ===== *)
theory StoreClaims
  imports SessionStore StoreFrame
begin

text \<open>
  The properties of the store: integrity of every reachable database, creation and deletion
  of tunnels, sessions, pending logins, and the request log. The small database \<open>demo_store\<close>
  is the one the witnesses evaluate.
\<close>

section \<open>A small database\<close>

definition demo_ops :: "store_op list" where
  "demo_ops =
    [OpUpsertUser 10 ''sub-1'' ''a@x'' ''A'' [''ops''] ''admin'',
     OpUpsertUser 11 ''sub-2'' ''b@x'' ''B'' [] [],
     OpCreateSession 12 1 ''h1'' 100,
     OpCreateSession 12 2 ''h2'' 200,
     OpCreateLogin 13 ''st'' ''ver'' ''/x'' 50,
     OpCreateAgent 14 2 ''box'' ''k1'',
     OpCreateTunnel 15 2 ''app'' ''app.example.com'' ''localhost:1'' 1,
     OpCreateTunnel 16 1 ''web'' ''web.example.com'' ''localhost:2'' 0,
     OpAddEvent 17 ''app.example.com'' ''register'' ''up'',
     OpInsertLog 18 \<lparr>lr_id = 0, lr_tunnel = 1, lr_hostname = ''app.example.com'', lr_time = 18,
       lr_method = ''GET'', lr_host = ''app.example.com'', lr_path = ''/'', lr_status = 200,
       lr_latency = 1, lr_in = 0, lr_out = 2, lr_client = ''1.2.3.4'', lr_error = [], lr_ws = False\<rparr>]"

definition demo_store :: store where
  "demo_store = run_ops (\<lambda>x. x) demo_ops empty_store"

lemma demo_reachable: "reachable_store (\<lambda>x. x) demo_store"
  unfolding demo_store_def by (rule run_ops_reachable [OF reachable_store.init])

lemma demo_ok: "store_ok demo_store"
  by (rule reachable_ok [OF demo_reachable])

lemma demo_counts:
  "map t_name (tunnels demo_store) = [''app'', ''web'']" "map se_hash (sessions demo_store) = [''h1'', ''h2'']"
  "map ls_state (logins demo_store) = [''st'']" "map us_role (users demo_store) = [''admin'', ''member'']"
  "map lg_tunnel (logs demo_store) = [1]" "map ev_tunnel (events demo_store) = [1]"
  "map ru_tunnel (rules demo_store) = [1, 2]" "map ag_name (agents demo_store) = [''box'']"
  "map t_hostname (tunnels demo_store) = [''app.example.com'', ''web.example.com'']"
  "map t_id (tunnels demo_store) = [1, 2]"
  by code_simp+

lemma demo_fault [simp]: "fault demo_store tb = False"
  by (cases tb) code_simp+

section \<open>Integrity\<close>

text \<open>
  C15. Schema integrity is an invariant: in every store that any sequence of operations and
  driver faults reaches from the migrated file, ids are positive, distinct and below their
  counter, tunnel names and hostnames, agent names and credentials, session hashes, login
  states and subjects are distinct, every log, rule and event belongs to a tunnel, every
  session and agent to a user, and a tunnel has at most one access rule.
\<close>

theorem store_integrity: "reachable_store H s \<Longrightarrow> store_ok s"
  by (induction rule: reachable_store.induct) (simp_all add: empty_store_ok exec_op_ok)

theorem store_integrity_witness:
  "store_ok demo_store \<and> map t_name (tunnels demo_store) = [''app'', ''web'']"
  using store_integrity [OF demo_reachable] demo_counts(1) by blast

section \<open>Tunnels\<close>

lemma select_tunnel_append_other:
  assumes "\<not> P row"
  shows "select_tunnel P (bump tb (bump tb' (s\<lparr>tunnels := tunnels s @ [row], rules := rs\<rparr>))) = select_tunnel P s"
  using assms
  by (simp add: select_tunnel_def find_append tunnel_read_fault_def scan_tunnel_def owner_email_def
      agent_name_def split: option.split)

lemma scan_tunnel_frame:
  "users s' = users s \<Longrightarrow> agents s' = agents s \<Longrightarrow> scan_tunnel s' = scan_tunnel s"
  by (rule ext) (simp add: scan_tunnel_def owner_email_def agent_name_def)

text \<open>
  C32. Creating a tunnel: a taken name or hostname is refused by the unique column and
  changes nothing; otherwise the tunnel is stored stopped and offline with the arguments,
  it is what its name and its hostname look up, its access rule is public with no IP
  restriction, and every other name looks up what it did before.
\<close>

theorem create_tunnel_correct:
  assumes "store_ok s" and "\<not> tunnel_read_fault s" and "\<not> fault s AccessRules"
  shows "if nm \<in> t_name ` set (tunnels s) \<or> hn \<in> t_hostname ` set (tunnels s)
    then \<exists>col. CreateTunnel H s now owner nm hn hint aid = (Inl (ErrUnique col), s)
    else \<exists>t s' r. CreateTunnel H s now owner nm hn hint aid = (Inr t, s') \<and>
      tr_name t = nm \<and> tr_hostname t = hn \<and> tr_local t = hint \<and> tr_owner t = owner \<and>
      tr_agent t = aid \<and> tr_desired t = ''stopped'' \<and> tr_actual t = ''offline'' \<and>
      GetTunnelByName s' nm = Inr t \<and> GetTunnelByHostname s' hn = Inr t \<and>
      GetTunnelAccessRule s' (tr_id t) = Inr r \<and> ar_mode r = public_mode \<and> ar_allowed r = [] \<and>
      (\<forall>n. n \<noteq> nm \<longrightarrow> GetTunnelByName s' n = GetTunnelByName s n)"
proof (cases "nm \<in> t_name ` set (tunnels s) \<or> hn \<in> t_hostname ` set (tunnels s)")
  case True
  then show ?thesis
    using CreateTunnel_taken [of s nm hn] assms(2) by (simp add: tunnel_read_fault_def)
next
  case False
  let ?row = "new_tunnel_row s now owner nm hn hint aid"
  let ?rule = "new_public_rule s now"
  let ?s' = "bump AccessRules (bump Tunnels (s\<lparr>tunnels := tunnels s @ [?row], rules := rules s @ [?rule]\<rparr>))"
  have fresh: "nm \<notin> t_name ` set (tunnels s)" "hn \<notin> t_hostname ` set (tunnels s)" using False by auto
  have run: "CreateTunnel H s now owner nm hn hint aid = (GetTunnelByName ?s' nm, ?s')"
    using CreateTunnel_fresh [OF assms(1) _ assms(3) fresh] assms(2)
    by (simp add: tunnel_read_fault_def Let_def)
  have ok: "store_ok ?s'" using CreateTunnel_ok [OF assms(1), of H now owner nm hn hint aid] by (simp add: run)
  have up: "\<not> tunnel_read_fault ?s'" using assms(2) by (simp add: tunnel_read_fault_def)
  have t: "GetTunnelByName ?s' nm = Inr (scan_tunnel ?s' ?row)" "GetTunnelByHostname ?s' hn = Inr (scan_tunnel ?s' ?row)"
    using select_tunnel_unique [OF ok up, of ?row] by (simp_all add: new_tunnel_row_def)
  have r: "GetTunnelAccessRule ?s' (t_id ?row) = Inr (scan_rule ?rule)"
    using rule_lookup_unique [OF ok, of ?rule] assms(3) by (simp add: new_public_rule_def new_tunnel_row_def)
  have other: "GetTunnelByName ?s' n = GetTunnelByName s n" if "n \<noteq> nm" for n
    using that by (simp add: GetTunnelByName_def select_tunnel_append_other new_tunnel_row_def)
  show ?thesis
    using False t r other by (simp add: run scan_tunnel_def scan_rule_def new_tunnel_row_def new_public_rule_def)
qed

theorem create_tunnel_correct_witness:
  "\<exists>t s'. CreateTunnel (\<lambda>x. x) demo_store 20 1 ''new'' ''new.example.com'' ''l'' 0 = (Inr t, s') \<and>
     tr_desired t = ''stopped'' \<and> GetTunnelByName s' ''new'' = Inr t"
  using create_tunnel_correct [OF demo_ok, where H = "\<lambda>x. x" and now = 20 and owner = 1 and
    nm = "''new''" and hn = "''new.example.com''" and hint = "''l''" and aid = 0]
    demo_counts(1,9) by (auto simp: tunnel_read_fault_def simp flip: set_map)

text \<open>
  Deleting a tunnel by name: the name no longer resolves, no log, access rule or event
  of the deleted tunnel is left, every other name resolves as before, and the rows of the
  other tunnels stay, in their order.
\<close>

theorem delete_tunnel_correct:
  assumes "store_ok s" and "\<not> tunnel_read_fault s" and "t \<in> set (tunnels s)" and "t_name t = nm"
  defines "s' \<equiv> snd (DeleteTunnelByName s nm)"
  shows "GetTunnelByName s' nm = Inl ErrNoRows \<and>
    (\<forall>n. n \<noteq> nm \<longrightarrow> GetTunnelByName s' n = GetTunnelByName s n) \<and>
    logs s' = filter (\<lambda>l. lg_tunnel l \<noteq> t_id t) (logs s) \<and>
    rules s' = filter (\<lambda>r. ru_tunnel r \<noteq> t_id t) (rules s) \<and>
    events s' = filter (\<lambda>e. ev_tunnel e \<noteq> t_id t) (events s)"
proof -
  have gone: "t_id ` {u \<in> set (tunnels s). t_name u = nm} = {t_id t}"
    using assms(3,4) distinct_key_unique [OF store_okD(2) [OF assms(1)]] by auto
  have up: "\<not> fault s Tunnels" using assms(2) by (simp add: tunnel_read_fault_def)
  have s': "s' = s\<lparr>tunnels := delete_where (\<lambda>t. t_name t = nm) (tunnels s),
      logs := delete_where (\<lambda>l. lg_tunnel l = t_id t) (logs s),
      rules := delete_where (\<lambda>r. ru_tunnel r = t_id t) (rules s),
      events := delete_where (\<lambda>e. ev_tunnel e = t_id t) (events s)\<rparr>"
    using up by (simp add: s'_def DeleteTunnelByName_def gone)
  have scan: "scan_tunnel s' = scan_tunnel s" by (rule scan_tunnel_frame) (simp_all add: s')
  have "GetTunnelByName s' n = GetTunnelByName s n" if "n \<noteq> nm" for n
    unfolding GetTunnelByName_def select_tunnel_def scan
    using that by (simp add: s' tunnel_read_fault_def find_delete_where_other [where P = "\<lambda>t. t_name t = nm"])
  moreover have "GetTunnelByName s' nm = Inl ErrNoRows"
    using assms(2) by (simp add: s' GetTunnelByName_def select_tunnel_def tunnel_read_fault_def find_delete_where_same)
  ultimately show ?thesis by (simp add: s' delete_where_def)
qed

theorem delete_tunnel_correct_witness:
  "GetTunnelByName (snd (DeleteTunnelByName demo_store ''app'')) ''app'' = Inl ErrNoRows \<and>
   logs (snd (DeleteTunnelByName demo_store ''app'')) = filter (\<lambda>l. lg_tunnel l \<noteq> 1) (logs demo_store)"
proof -
  have "hd (tunnels demo_store) \<in> set (tunnels demo_store)" "t_name (hd (tunnels demo_store)) = ''app''"
    "t_id (hd (tunnels demo_store)) = 1"
    by code_simp+
  then show ?thesis
    using delete_tunnel_correct [OF demo_ok, of "hd (tunnels demo_store)" "''app''"]
    by (simp add: tunnel_read_fault_def)
qed

section \<open>Sessions and pending logins\<close>

text \<open>The answers to one token hash at the given times, one after another.\<close>

fun answers :: "store \<Rightarrow> string \<Rightarrow> time list \<Rightarrow> user_record res list" where
  "answers s h [] = []"
| "answers s h (t # ts) = (case session_user s t h of (r, s') \<Rightarrow> r # answers s' h ts)"

lemma answers_lookups: "answers s h ts = fst (sess.lookups s h ts)"
  by (induction ts arbitrary: s) (simp_all add: split_beta)

text \<open>
  C20. The life of a session: once \<open>CreateSession\<close> has stored a token hash, any number of
  look-ups made before its expiry all return its user; the first look-up after the expiry
  fails with \<open>sql.ErrNoRows\<close>, and so do all later ones, whatever time they carry, because
  the row is gone; after \<open>DeleteSession\<close> no look-up succeeds.
\<close>

theorem session_lifecycle:
  assumes "sessions_up s" and "CreateSession s now uid h ex = (Inr (), s1)"
  shows "\<exists>u \<in> set (users s). us_id u = uid \<and>
    (\<forall>ts. list_all (\<lambda>t. \<not> expired t ex) ts \<longrightarrow> answers s1 h ts = replicate (length ts) (Inr (scanUserRecord u))) \<and>
    (\<forall>t ts. expired t ex \<longrightarrow> answers s1 h (t # ts) = replicate (Suc (length ts)) (Inl ErrNoRows)) \<and>
    (\<forall>ts. answers (snd (DeleteSession s1 h)) h ts = replicate (length ts) (Inl ErrNoRows))"
proof -
  note created = CreateSession_holder [OF assms(1), of now uid h ex, unfolded assms(2), simplified]
  then obtain u where u: "u \<in> set (users s)" "us_id u = uid"
    and hold: "session_holder s1 h = Some (scanUserRecord u, ex)" and up: "sessions_up s1" by auto
  show ?thesis
    using u sess.lookups_live [OF up hold] sess.lookups_after_expiry [OF up hold]
      sess.lookups_after_delete [OF up]
    unfolding answers_lookups list_all_iff by blast
qed

theorem session_lifecycle_witness:
  "answers (snd (CreateSession demo_store 20 2 ''h3'' 300)) ''h3'' [100, 300, 301, 5] =
     answers (snd (CreateSession demo_store 20 2 ''h3'' 300)) ''h3'' [100, 300] @ [Inl ErrNoRows, Inl ErrNoRows] \<and>
   answers (snd (DeleteSession (snd (CreateSession demo_store 20 2 ''h3'' 300)) ''h3'')) ''h3'' [100] = [Inl ErrNoRows]"
proof -
  let ?s1 = "snd (CreateSession demo_store 20 2 ''h3'' 300)"
  have "fst (CreateSession demo_store 20 2 ''h3'' 300) = Inr ()" by code_simp
  then have "CreateSession demo_store 20 2 ''h3'' 300 = (Inr (), ?s1)" by (simp add: prod_eq_iff)
  moreover have "sessions_up demo_store" by (simp add: sessions_up_def demo_ok)
  ultimately have "answers (snd (DeleteSession ?s1 ''h3'')) ''h3'' [100] = replicate (length [100 :: time]) (Inl ErrNoRows)"
    using session_lifecycle [of demo_store 20 2 "''h3''" 300 ?s1] by blast
  moreover have "answers ?s1 ''h3'' [100, 300, 301, 5] = answers ?s1 ''h3'' [100, 300] @ [Inl ErrNoRows, Inl ErrNoRows]"
    by code_simp
  ultimately show ?thesis by simp
qed

text \<open>
  A token hash with no row stays unusable: after any run of operations that does not
  create a session with that very hash, looking it up gives no user. Together with C4 this
  is the safety of logout.
\<close>

theorem dead_session_stays_dead:
  assumes "h \<notin> session_hashes s" and "list_all (\<lambda>op. \<not> creates_session h op) ops"
  shows "isl (fst (GetSessionByToken (run_ops H ops s) now h))"
proof -
  have "h \<notin> session_hashes (run_ops H ops s)"
    using assms by (intro run_session_absent) auto
  then have "find (\<lambda>x. se_hash x = h) (sessions (run_ops H ops s)) = None"
    by (auto simp: find_None_iff session_hashes_def)
  then show ?thesis by (simp add: GetSessionByToken_def)
qed

theorem dead_session_stays_dead_witness:
  "isl (fst (GetSessionByToken (run_ops (\<lambda>x. x) demo_ops demo_store) 20 ''gone''))"
proof (rule dead_session_stays_dead)
  show "''gone'' \<notin> session_hashes demo_store"
    unfolding session_hashes_def set_map [symmetric] demo_counts by simp
  show "list_all (\<lambda>op. \<not> creates_session ''gone'' op) demo_ops" by code_simp
qed

text \<open>
  C7. A pending login is used at most once: when \<open>ConsumeLoginState\<close> answers a state, with
  its record or with a rejection, that state is consumed, and after any run that does not
  create the same state again it is refused.
\<close>

theorem login_state_single_use:
  assumes "store_ok s" and "\<not> fault s LoginStates"
    and "ConsumeLoginState s now st = (r, s1)" and "list_all (\<lambda>op. \<not> creates_login st op) ops"
  shows "isl (fst (ConsumeLoginState (run_ops H ops s1) now' st)) \<and>
    (\<forall>l. r = Inr l \<longrightarrow> lo_state l = st \<and> \<not> expired now (lo_expires l) \<and> st \<in> login_states s)"
proof -
  have "st \<notin> login_states s1"
  proof (cases "find (\<lambda>l. ls_state l = st) (logins s)")
    case None
    then have "s1 = s" using assms(2,3) by (simp add: ConsumeLoginState_def)
    with None show ?thesis by (auto simp: login_states_def find_None_iff)
  next
    case (Some l)
    then have l: "l \<in> set (logins s)" "ls_state l = st" by (auto dest: find_SomeD)
    have "logins s1 = delete_where (\<lambda>x. ls_id x = ls_id l) (logins s)"
      using assms(2,3) Some by (auto simp: ConsumeLoginState_def Let_def split: if_splits)
    moreover have "x = l" if "x \<in> set (logins s)" "ls_state x = st" for x
      using distinct_key_unique [OF store_okD(9) [OF assms(1)]] l that by simp
    ultimately show ?thesis by (auto simp: login_states_def)
  qed
  then have "st \<notin> login_states (run_ops H ops s1)" by (rule run_login_absent [OF _ assms(4)])
  then have "find (\<lambda>l. ls_state l = st) (logins (run_ops H ops s1)) = None"
    by (auto simp: find_None_iff login_states_def)
  then have "isl (fst (ConsumeLoginState (run_ops H ops s1) now' st))"
    by (simp add: ConsumeLoginState_def)
  moreover have "\<forall>l. r = Inr l \<longrightarrow> lo_state l = st \<and> \<not> expired now (lo_expires l) \<and> st \<in> login_states s"
    using assms(2,3) by (auto simp: ConsumeLoginState_def Let_def scan_login_def login_states_def
        split: option.splits if_splits dest!: find_SomeD intro: rev_image_eqI)
  ultimately show ?thesis ..
qed

theorem login_state_single_use_witness:
  "\<not> isl (fst (ConsumeLoginState demo_store 20 ''st'')) \<and>
   isl (fst (ConsumeLoginState (run_ops (\<lambda>x. x) [OpGetSession 1 ''h1'', Restart]
     (snd (ConsumeLoginState demo_store 20 ''st''))) 21 ''st''))"
proof
  show "\<not> isl (fst (ConsumeLoginState demo_store 20 ''st''))" by code_simp
  show "isl (fst (ConsumeLoginState (run_ops (\<lambda>x. x) [OpGetSession 1 ''h1'', Restart]
     (snd (ConsumeLoginState demo_store 20 ''st''))) 21 ''st''))"
    using login_state_single_use [OF demo_ok _ surjective_pairing] by simp
qed

end
