(* ===== verification/LogClaims.thy ===== *)
theory LogClaims
  imports StoreClaims
begin

text \<open>
  The properties of the request log: the retention run, the tunnels it never reaches, and
  the bounded, newest-first lists.
\<close>

section \<open>One insertion\<close>

lemma insert_log_quiet:
  assumes "\<not> fault s RequestLogs" and "lr_tunnel rec \<in> t_id ` set (tunnels s)" and "lr_tunnel rec \<noteq> 0"
    and "unat (hits s + 1) mod 100 \<noteq> 0"
  shows "InsertRequestLog s now rec =
    (Inr (), (bump RequestLogs (s\<lparr>logs := logs s @ [log_row_of (next_id s RequestLogs) (lr_tunnel rec) rec]\<rparr>))
       \<lparr>hits := hits s + 1\<rparr>)"
  using assms by (simp add: InsertRequestLog_def insert_log_row_def Let_def)

lemma insert_log_trim:
  assumes "\<not> fault s RequestLogs" and "lr_tunnel rec \<in> t_id ` set (tunnels s)" and "lr_tunnel rec \<noteq> 0"
    and "unat (hits s + 1) mod 100 = 0"
  shows "InsertRequestLog s now rec =
    (let s2 = (bump RequestLogs (s\<lparr>logs := logs s @ [log_row_of (next_id s RequestLogs) (lr_tunnel rec) rec]\<rparr>))
       \<lparr>hits := hits s + 1\<rparr>
     in (Inr (), s2\<lparr>logs := cap_logs defaultRequestLogLimit (lr_tunnel rec) (expire_logs now (lr_tunnel rec) (logs s2))\<rparr>))"
  using assms by (simp add: InsertRequestLog_def insert_log_row_def enforceLogRetention_def Let_def)

lemma log_row_of_simps [simp]:
  "lg_tunnel (log_row_of i tid rec) = tid" "lg_id (log_row_of i tid rec) = i"
  "lg_time (log_row_of i tid rec) = format_time (lr_time rec)"
  by (simp_all add: log_row_of_def)

section \<open>Retention\<close>


definition demo_log :: "int \<Rightarrow> time \<Rightarrow> log_record" where
  "demo_log tid t = \<lparr>lr_id = 0, lr_tunnel = tid, lr_hostname = [], lr_time = t, lr_method = [],
     lr_host = [], lr_path = [], lr_status = 200, lr_latency = 1, lr_in = 0, lr_out = 2,
     lr_client = [], lr_error = [], lr_ws = False\<rparr>"


section \<open>Tunnels the retention never reaches\<close>

definition insert_all :: "(time \<times> log_record) list \<Rightarrow> store \<Rightarrow> store" where
  "insert_all es s = fold (\<lambda>(now, rec) s. snd (InsertRequestLog s now rec)) es s"

lemma insert_all_simps [simp]:
  "insert_all [] s = s"
  "insert_all ((now, rec) # es) s = insert_all es (snd (InsertRequestLog s now rec))"
  by (simp_all add: insert_all_def)

lemma insert_all_append [simp]: "insert_all (es @ es') s = insert_all es' (insert_all es s)"
  by (simp add: insert_all_def)

text \<open>\<open>n\<close> insertions for one tunnel between two retention runs only append.\<close>

lemma insert_run_quiet:
  assumes "\<not> fault s RequestLogs" and "a \<in> t_id ` set (tunnels s)" and "a \<noteq> 0"
    and "unat (hits s) = 100 * k" and "n < 100" and "100 * k + n < 2 ^ 64"
  shows "let s' = insert_all (replicate n (now, demo_log a t)) s
    in length (filter (\<lambda>l. lg_tunnel l = a) (logs s')) = length (filter (\<lambda>l. lg_tunnel l = a) (logs s)) + n \<and>
      unat (hits s') = 100 * k + n \<and> tunnels s' = tunnels s \<and> fault s' = fault s"
  using assms(5,6)
proof (induction n)
  case 0
  then show ?case using assms(4) by simp
next
  case (Suc n)
  let ?s = "insert_all (replicate n (now, demo_log a t)) s"
  have IH: "length (filter (\<lambda>l. lg_tunnel l = a) (logs ?s)) = length (filter (\<lambda>l. lg_tunnel l = a) (logs s)) + n"
    "unat (hits ?s) = 100 * k + n" "tunnels ?s = tunnels s" "fault ?s = fault s"
    using Suc by (simp_all add: Let_def)
  have hit: "unat (hits ?s + 1) = 100 * k + Suc n"
    using IH(2) Suc.prems(2) by (simp add: unat_word_ariths)
  then have "unat (hits ?s + 1) mod 100 \<noteq> 0" using Suc.prems(1) by simp
  then have "InsertRequestLog ?s now (demo_log a t) = (Inr (), (bump RequestLogs (?s\<lparr>logs := logs ?s @
      [log_row_of (next_id ?s RequestLogs) a (demo_log a t)]\<rparr>))\<lparr>hits := hits ?s + 1\<rparr>)"
    using insert_log_quiet [of ?s "demo_log a t" now] IH assms(1-3) by (simp add: demo_log_def)
  moreover have "replicate (Suc n) (now, demo_log a t) = replicate n (now, demo_log a t) @ [(now, demo_log a t)]"
    by (simp add: replicate_append_same)
  ultimately show ?case using IH hit by (simp add: Let_def del: replicate.simps)
qed

definition starving_block :: "int \<Rightarrow> int \<Rightarrow> time \<Rightarrow> time \<Rightarrow> (time \<times> log_record) list" where
  "starving_block a b now t = replicate 99 (now, demo_log a t) @ [(now, demo_log b t)]"

lemma starving_step:
  assumes "\<not> fault s RequestLogs" and "a \<in> t_id ` set (tunnels s)" and "a \<noteq> 0"
    and "b \<in> t_id ` set (tunnels s)" and "b \<noteq> 0" and "a \<noteq> b"
    and "unat (hits s) = 100 * k" and "100 * k + 100 < 2 ^ 64"
  shows "let s' = insert_all (starving_block a b now t) s
    in length (filter (\<lambda>l. lg_tunnel l = a) (logs s')) = length (filter (\<lambda>l. lg_tunnel l = a) (logs s)) + 99 \<and>
      unat (hits s') = 100 * Suc k \<and> tunnels s' = tunnels s \<and> fault s' = fault s"
proof -
  let ?s = "insert_all (replicate 99 (now, demo_log a t)) s"
  have Q: "length (filter (\<lambda>l. lg_tunnel l = a) (logs ?s)) = length (filter (\<lambda>l. lg_tunnel l = a) (logs s)) + 99"
    "unat (hits ?s) = 100 * k + 99" "tunnels ?s = tunnels s" "fault ?s = fault s"
    using insert_run_quiet [OF assms(1-3,7), of 99 now t] assms(8) by (simp_all add: Let_def)
  have hit: "unat (hits ?s + 1) = 100 * Suc k"
    using Q(2) assms(8) by (simp add: unat_word_ariths)
  then have "unat (hits ?s + 1) mod 100 = 0" by simp
  then have ins: "InsertRequestLog ?s now (demo_log b t) =
      (let s2 = (bump RequestLogs (?s\<lparr>logs := logs ?s @ [log_row_of (next_id ?s RequestLogs) b (demo_log b t)]\<rparr>))
         \<lparr>hits := hits ?s + 1\<rparr>
       in (Inr (), s2\<lparr>logs := cap_logs defaultRequestLogLimit b (expire_logs now b (logs s2))\<rparr>))"
    using insert_log_trim [of ?s "demo_log b t" now] Q assms(1,4,5) by (simp add: demo_log_def)
  have other: "filter (\<lambda>l. lg_tunnel l = a) ls = filter (\<lambda>l. lg_tunnel l = a) (filter (\<lambda>l. lg_tunnel l \<noteq> b) ls)" for ls
    unfolding filter_filter using assms(6) by (intro filter_cong) auto
  have "filter (\<lambda>l. lg_tunnel l = a) (cap_logs n b (expire_logs now b ls)) = filter (\<lambda>l. lg_tunnel l = a) ls" for n ls
    by (subst (1 2) other) (simp add: cap_logs_others expire_logs_others)
  then show ?thesis
    using Q hit assms(6) by (simp add: starving_block_def ins Let_def)
qed

text \<open>
  The limit is not a limit for every tunnel: the retention run only trims the tunnel
  whose entry happens to be the hundredth, so when 99 entries of one tunnel alternate with
  one of another, the first is never trimmed and its log grows by 99 entries a round, past
  any bound.
\<close>

theorem log_retention_starves:
  assumes "\<not> fault s RequestLogs" and "a \<in> t_id ` set (tunnels s)" and "a \<noteq> 0"
    and "b \<in> t_id ` set (tunnels s)" and "b \<noteq> 0" and "a \<noteq> b" and "hits s = 0" and "100 * n < (2 :: nat) ^ 64"
  shows "length (filter (\<lambda>l. lg_tunnel l = a)
      (logs (insert_all (concat (replicate n (starving_block a b now t))) s))) =
    length (filter (\<lambda>l. lg_tunnel l = a) (logs s)) + 99 * n"
proof -
  have "let s' = insert_all (concat (replicate n (starving_block a b now t))) s
    in length (filter (\<lambda>l. lg_tunnel l = a) (logs s')) = length (filter (\<lambda>l. lg_tunnel l = a) (logs s)) + 99 * n \<and>
      unat (hits s') = 100 * n \<and> tunnels s' = tunnels s \<and> fault s' = fault s"
    using assms(8)
  proof (induction n)
    case 0
    then show ?case using assms(7) by simp
  next
    case (Suc n)
    let ?B = "starving_block a b now t"
    have split: "concat (replicate (Suc n) ?B) = concat (replicate n ?B) @ ?B"
      by (simp only: replicate_Suc replicate_append_same [symmetric] concat_append) simp
    from Suc show ?case
      unfolding split using starving_step [of "insert_all (concat (replicate n ?B)) s" a b n now t] assms(1-6)
      by (simp add: Let_def)
  qed
  then show ?thesis by (simp add: Let_def)
qed

theorem log_retention_starves_witness:
  "length (filter (\<lambda>l. lg_tunnel l = 1)
     (logs (insert_all (concat (replicate 1000 (starving_block 1 2 20 20))) (demo_store\<lparr>hits := 0\<rparr>)))) = 99001"
proof -
  have "1 \<in> t_id ` set (tunnels demo_store)" "2 \<in> t_id ` set (tunnels demo_store)"
    unfolding set_map [symmetric] demo_counts by simp_all
  moreover have "length (filter (\<lambda>l. lg_tunnel l = 1) (logs demo_store)) = 1" by code_simp
  ultimately show ?thesis
    using log_retention_starves [of "demo_store\<lparr>hits := 0\<rparr>" 1 2 1000 20 20] by simp
qed

section \<open>Lists\<close>

text \<open>A prefix of the rows in descending key order.\<close>

lemma take_order_desc:
  assumes "distinct rs"
  shows "sorted_wrt (\<lambda>x y. k y \<le> k x) (take n (order_desc k rs)) \<and>
    distinct (take n (order_desc k rs)) \<and> set (take n (order_desc k rs)) \<subseteq> set rs \<and>
    length (take n (order_desc k rs)) = min n (length rs) \<and>
    (\<forall>x y. x \<in> set (take n (order_desc k rs)) \<longrightarrow> y \<in> set rs \<longrightarrow> y \<notin> set (take n (order_desc k rs)) \<longrightarrow> k y \<le> k x)"
proof -
  have "k y \<le> k x" if "x \<in> set (take n (order_desc k rs))" "y \<in> set rs" "y \<notin> set (take n (order_desc k rs))" for x y
  proof -
    have "y \<in> set (drop n (order_desc k rs))"
      using that by (metis Un_iff append_take_drop_id set_append set_order_desc)
    then show ?thesis using sorted_take_drop [OF sorted_order_desc that(1)] by simp
  qed
  then show ?thesis
    using assms sorted_order_desc [of k rs] set_take_subset [of n "order_desc k rs"]
    by (auto simp: sorted_wrt_take min.commute)
qed

text \<open>
  C35. The log of a tunnel: whatever limit is asked for, between one and five hundred rows
  are asked of the table; the answer holds entries of that tunnel only, each at most once,
  as many as the limit allows, ordered by descending stored timestamp, and no entry left
  out has a later stored timestamp than one returned.
\<close>

theorem list_logs_newest_first:
  assumes "store_ok s" and "ListRequestLogsByTunnel s tid limit = Inr rs"
  shows "\<exists>rows. rs = map scan_log rows \<and> distinct rows \<and> set rows \<subseteq> {l \<in> set (logs s). lg_tunnel l = tid} \<and>
    length rows = min (clamp_limit limit) (length (filter (\<lambda>l. lg_tunnel l = tid) (logs s))) \<and>
    1 \<le> clamp_limit limit \<and> clamp_limit limit \<le> 500 \<and>
    sorted_wrt (\<lambda>x y. lg_time y \<le> lg_time x) rows \<and>
    (\<forall>x y. x \<in> set rows \<longrightarrow> y \<in> set (logs s) \<longrightarrow> lg_tunnel y = tid \<longrightarrow> y \<notin> set rows \<longrightarrow> lg_time y \<le> lg_time x)"
proof -
  let ?rs = "filter (\<lambda>l. lg_tunnel l = tid) (logs s)"
  have "distinct ?rs" using store_okD(5) [OF assms(1)] by (simp add: distinct_map)
  note T = take_order_desc [OF this, of lg_time "clamp_limit limit"]
  show ?thesis
    using assms(2) T clamp_limit_bounds [of limit]
    by (intro exI [of _ "take (clamp_limit limit) (order_desc lg_time ?rs)"])
      (auto simp: ListRequestLogsByTunnel_def list_logs_def split: if_splits)
qed

theorem list_logs_newest_first_witness:
  "\<exists>rows. ListRequestLogsByTunnel demo_store 1 (- 5) = Inr (map scan_log rows) \<and> length rows = 1"
proof -
  let ?r = "case ListRequestLogsByTunnel demo_store 1 (- 5) of Inr rs \<Rightarrow> rs | Inl _ \<Rightarrow> []"
  have "length (filter (\<lambda>l. lg_tunnel l = 1) (logs demo_store)) = 1" "clamp_limit (- 5) = 100" by code_simp+
  moreover have "ListRequestLogsByTunnel demo_store 1 (- 5) = Inr ?r"
    by (simp add: ListRequestLogsByTunnel_def list_logs_def)
  ultimately show ?thesis
    using list_logs_newest_first [OF demo_ok, of 1 "- 5" ?r] by auto
qed

lemma order_desc_pair: "k b < k a \<Longrightarrow> order_desc k [a, b] = [a, b]"
  by (simp add: order_desc_def less_imp_le)

text \<open>
  The stored timestamps are text and RFC 3339 text drops trailing zeros, so within a second
  the text order is not the order of time: of two requests half a second apart, the list
  that promises the newest first starts with the older one.
\<close>

theorem log_order_within_second:
  "map_sum id (map lr_time) (ListRequestLogsByTunnel (insert_all
     [(now, demo_log 2 (k * second)), (now, demo_log 2 (k * second + 500 * millisecond))]
     (demo_store\<lparr>hits := 0\<rparr>)) 2 10) = Inr [k * second, k * second + 500 * millisecond]"
proof -
  let ?s = "demo_store\<lparr>hits := 0\<rparr>"
  have two: "2 \<in> t_id ` set (tunnels demo_store)" unfolding set_map [symmetric] demo_counts by simp
  have none: "filter (\<lambda>l. lg_tunnel l = 2) (logs demo_store) = []" by code_simp
  have ten: "clamp_limit 10 = 10" by (simp add: clamp_limit_def)
  have "insert_all [(now, demo_log 2 (k * second)), (now, demo_log 2 (k * second + 500 * millisecond))] ?s =
    snd (InsertRequestLog (snd (InsertRequestLog ?s now (demo_log 2 (k * second)))) now
      (demo_log 2 (k * second + 500 * millisecond)))" by simp
  then show ?thesis
    using two none ten stamp_order_quirk [of k]
    by (simp add: insert_log_quiet demo_log_def ListRequestLogsByTunnel_def list_logs_def order_desc_pair
        scan_log_def log_row_of_def format_time_def millisecond_def)
qed

end
