(* ===== verification/AccessClaims.thy ===== *)
theory AccessClaims
  imports LogClaims
begin

text \<open>
  The properties of access rules: what every stored rule looks like, what a stored
  credential accepts, what a blank field of an update keeps, and what an IP restriction
  admits.
\<close>

section \<open>Stored rules are well formed\<close>

definition values_ok :: "rule_values \<Rightarrow> bool" where
  "values_ok v \<longleftrightarrow>
     (\<forall>c \<in> set (rv_allowed v). c \<noteq> [] \<and> trim_space c = c \<and> parse_prefix c \<noteq> None) \<and>
     httpCanonicalHeaderKey (rv_header v) = rv_header v \<and>
     (rv_mode v = public_mode \<and> rv_user v = [] \<and> rv_pass v = [] \<and> rv_header v = [] \<and> rv_secret v = [] \<or>
      rv_mode v = basic_mode \<and> rv_user v \<noteq> [] \<and> rv_pass v \<noteq> [] \<and> rv_header v = [] \<and> rv_secret v = [] \<or>
      rv_mode v = secret_mode \<and> rv_user v = [] \<and> rv_pass v = [] \<and> rv_header v \<noteq> [] \<and> rv_secret v \<noteq> [])"

definition row_values :: "rule_row \<Rightarrow> rule_values" where
  "row_values r = \<lparr>rv_mode = ru_mode r, rv_user = ru_user r, rv_pass = ru_pass r, rv_header = ru_header r,
     rv_secret = ru_secret r, rv_allowed = ru_allowed r\<rparr>"

lemma rule_values_eta [simp]:
  "\<lparr>rv_mode = rv_mode v, rv_user = rv_user v, rv_pass = rv_pass v, rv_header = rv_header v,
     rv_secret = rv_secret v, rv_allowed = rv_allowed v\<rparr> = (v :: rule_values)"
  by (cases v) simp

lemma set_rule_tunnel [simp]: "ru_tunnel (set_rule now v r) = ru_tunnel r"
  by (simp add: set_rule_def)

definition rules_ok :: "store \<Rightarrow> bool" where
  "rules_ok s \<longleftrightarrow> (\<forall>r \<in> set (rules s). values_ok (row_values r))"

lemma canonical_empty [simp]: "httpCanonicalHeaderKey [] = []"
  by (simp add: httpCanonicalHeaderKey_def trim_space_def to_lower_def capitalize_part_def)

lemma validate_values_ok:
  assumes "validateAccessRuleInput H inp existing = Inr v"
    and "\<And>r. existing = Some r \<Longrightarrow> httpCanonicalHeaderKey (ar_header r) = ar_header r"
  shows "values_ok v"
proof -
  have cidrs: "\<forall>c \<in> set (rv_allowed v). c \<noteq> [] \<and> trim_space c = c \<and> parse_prefix c \<noteq> None"
    using check_cidrs_sound [OF validate_allowed [OF assms(1)]] by blast
  have header: "httpCanonicalHeaderKey (or_existing (httpCanonicalHeaderKey h) ar_header existing) =
      or_existing (httpCanonicalHeaderKey h) ar_header existing" for h
    using assms(2) by (auto simp: or_existing_def httpCanonicalHeaderKey_idem split: option.split)
  from assms(1) show ?thesis
    by (rule validate_cases) (simp_all add: values_ok_def cidrs header)
qed

lemma rules_ok_lookup: "rules_ok s \<Longrightarrow> GetTunnelAccessRule s tid = Inr r \<Longrightarrow> httpCanonicalHeaderKey (ar_header r) = ar_header r"
  by (auto simp: GetTunnelAccessRule_def rules_ok_def values_ok_def row_values_def scan_rule_def
      split: if_splits option.splits dest!: find_SomeD)

lemma upsert_rule_row_rules_ok:
  "rules_ok s \<Longrightarrow> values_ok v \<Longrightarrow> upsert_rule_row s now tid v = Inr s' \<Longrightarrow> rules_ok s'"
  by (auto simp: upsert_rule_row_def rules_ok_def set_update_where row_values_def set_rule_def split: if_splits)

lemma upsertTx_rules_ok:
  assumes "rules_ok s" and "upsertTunnelAccessRuleTx H s now tid nm hn inp b ex = Inr s'"
    and "\<And>r. ex = Some r \<Longrightarrow> httpCanonicalHeaderKey (ar_header r) = ar_header r"
  shows "rules_ok s'"
proof -
  from assms(2) obtain t v where "validateAccessRuleInput H inp ex = Inr v" "upsert_rule_row s now t v = Inr s'"
    by (auto simp: upsertTunnelAccessRuleTx_def split: sum.splits)
  then show ?thesis
    using validate_values_ok [of H inp ex v] assms(3) upsert_rule_row_rules_ok [OF assms(1)] by blast
qed

lemma UpsertTunnelAccessRule_rules_ok: "rules_ok s \<Longrightarrow> rules_ok (snd (UpsertTunnelAccessRule H s now tid inp))"
  by (auto simp: UpsertTunnelAccessRule_def Let_def split: sum.splits go_err.splits
      intro: upsertTx_rules_ok rules_ok_lookup)

lemma insert_tunnel_row_rules: "insert_tunnel_row s r = Inr s' \<Longrightarrow> rules s' = rules s"
  by (auto simp: insert_tunnel_row_def split: if_splits)

lemma CreateTunnel_rules_ok: "rules_ok s \<Longrightarrow> rules_ok (snd (CreateTunnel H s now owner nm hn hint aid))"
proof -
  assume ok: "rules_ok s"
  then have "insert_tunnel_row s r = Inr s' \<Longrightarrow> rules_ok s'" for r s'
    by (simp add: rules_ok_def insert_tunnel_row_rules)
  then show ?thesis
    using ok by (auto simp: CreateTunnel_def split: sum.splits intro: upsertTx_rules_ok)
qed

lemma rules_frame [simp]:
  "rules (snd (update_tunnels P f s)) = rules s"
  "rules (snd (UpsertTunnelStatus s now hn hint ds as le seen)) = rules s"
  "rules (snd (MarkTunnelOffline s now hn le)) = rules s"
  "rules (snd (AssignTunnelToAgent s now nm aid)) = rules s"
  "rules (snd (SetTunnelDesiredState s now nm ds)) = rules s"
  "rules (snd (UpdateTunnelStateByName s now nm hint as le seen)) = rules s"
  "rules (snd (AddTunnelEvent s now hn et msg)) = rules s"
  by (auto simp: update_tunnels_def UpsertTunnelStatus_def MarkTunnelOffline_def AssignTunnelToAgent_def
      SetTunnelDesiredState_def UpdateTunnelStateByName_def AddTunnelEvent_def insert_event_row_def Let_def
      split: sum.splits dest: insert_tunnel_row_rules)

lemma rules_frame_log [simp]: "rules (snd (InsertRequestLog s now rec)) = rules s"
  by (auto simp: InsertRequestLog_def insert_log_row_def enforceLogRetention_def Let_def
      split: sum.splits if_splits)

lemma rules_frame_identity [simp]:
  "rules (snd (UpsertUserFromOIDC s now sub em dn gs ro)) = rules s"
  "rules (snd (CreateAgent s now uid nm h)) = rules s" "rules (snd (RevokeAgentByName s now nm)) = rules s"
  "rules (snd (TouchAgent s now aid st)) = rules s" "rules (snd (CreateSession s now uid h ex)) = rules s"
  "rules (snd (DeleteSession s h)) = rules s" "rules (snd (GetSessionByToken s now h)) = rules s"
  "rules (snd (CreateLoginState s now st v r ex)) = rules s" "rules (snd (ConsumeLoginState s now st)) = rules s"
  by (simp_all add: UpsertUserFromOIDC_def upsert_user_row_def CreateAgent_def RevokeAgentByName_def
      TouchAgent_def update_agents_def CreateSession_def DeleteSession_def GetSessionByToken_def
      touch_session_def CreateLoginState_def ConsumeLoginState_def Let_def split: option.split)

lemma exec_op_rules_ok: "rules_ok s \<Longrightarrow> rules_ok (exec_op H op s)"
proof (cases op)
  case (OpDeleteTunnel nm)
  then show "rules_ok s \<Longrightarrow> rules_ok (exec_op H op s)"
    by (simp add: DeleteTunnelByName_def rules_ok_def Let_def)
next
  case (OpCreateTunnel now owner nm hn hint aid)
  then show "rules_ok s \<Longrightarrow> rules_ok (exec_op H op s)" by (simp add: CreateTunnel_rules_ok)
next
  case (OpUpsertRule now tid inp)
  then show "rules_ok s \<Longrightarrow> rules_ok (exec_op H op s)" by (simp add: UpsertTunnelAccessRule_rules_ok)
qed (simp_all add: rules_ok_def)

text \<open>
  C16. In every reachable store every access rule is one of the three well-formed shapes:
  public with no credential, basic authentication with a user and a password digest and
  nothing else, or a shared secret with a canonical header name and a digest and nothing
  else; and each entry of its IP list is a trimmed text that parses as a CIDR.
\<close>

theorem stored_rules_well_formed:
  "reachable_store H s \<Longrightarrow> r \<in> set (rules s) \<Longrightarrow> values_ok (row_values r)"
proof -
  have "reachable_store H s \<Longrightarrow> rules_ok s"
  proof (induction rule: reachable_store.induct)
    case init
    then show ?case by (simp add: rules_ok_def empty_store_def)
  next
    case (step s op)
    then show ?case by (simp add: exec_op_rules_ok)
  qed
  then show "reachable_store H s \<Longrightarrow> r \<in> set (rules s) \<Longrightarrow> values_ok (row_values r)"
    by (simp add: rules_ok_def)
qed

theorem stored_rules_well_formed_witness:
  "hd (rules demo_store) \<in> set (rules demo_store) \<and> values_ok (row_values (hd (rules demo_store)))"
proof -
  have "hd (rules demo_store) \<in> set (rules demo_store)" by code_simp
  then show ?thesis using stored_rules_well_formed [OF demo_reachable] by blast
qed

section \<open>Updating and checking a rule\<close>

text \<open>After a successful update the rule that is looked up holds the validated values.\<close>

lemma find_rule_update:
  "find (\<lambda>r. ru_tunnel r = tid) (update_where (\<lambda>r. ru_tunnel r = tid) (set_rule now v) rs) =
   map_option (set_rule now v) (find (\<lambda>r. ru_tunnel r = tid) rs)"
  by (induction rs) (simp_all add: set_rule_def)

lemma upsert_rule_row_lookup:
  assumes "upsert_rule_row s now tid v = Inr s'" and "GetTunnelAccessRule s' tid = Inr r"
  shows "ar_mode r = rv_mode v \<and> ar_user r = rv_user v \<and> ar_pass r = rv_pass v \<and>
    ar_header r = rv_header v \<and> ar_secret r = rv_secret v \<and> ar_allowed r = rv_allowed v"
proof (cases "tid \<in> ru_tunnel ` set (rules s)")
  case True
  with assms show ?thesis
    by (auto simp: upsert_rule_row_def GetTunnelAccessRule_def find_rule_update scan_rule_def set_rule_def
        split: if_splits option.splits)
next
  case False
  then have none: "find (\<lambda>r. ru_tunnel r = tid) (rules s) = None" by (auto simp: find_None_iff)
  with False assms show ?thesis
    by (auto simp: upsert_rule_row_def GetTunnelAccessRule_def find_append scan_rule_def
        split: if_splits option.splits)
qed

definition existing_rule :: "store \<Rightarrow> int \<Rightarrow> access_rule option" where
  "existing_rule s tid = (case GetTunnelAccessRule s tid of Inr r \<Rightarrow> Some r | Inl _ \<Rightarrow> None)"

lemma UpsertTunnelAccessRule_lookup:
  assumes "UpsertTunnelAccessRule H s now tid inp = (Inr (), s')"
  obtains v r where "validateAccessRuleInput H inp (existing_rule s tid) = Inr v"
    "GetTunnelAccessRule s' tid = Inr r" "ar_mode r = rv_mode v" "ar_user r = rv_user v" "ar_pass r = rv_pass v"
    "ar_header r = rv_header v" "ar_secret r = rv_secret v" "ar_allowed r = rv_allowed v"
proof -
  from assms obtain v where v: "validateAccessRuleInput H inp (existing_rule s tid) = Inr v"
    and up: "upsert_rule_row s now tid v = Inr s'"
    by (auto simp: UpsertTunnelAccessRule_def upsertTunnelAccessRuleTx_def existing_rule_def Let_def
        split: sum.splits go_err.splits)
  have "\<not> fault s' AccessRules" "tid \<in> ru_tunnel ` set (rules s')"
    using up by (auto simp: upsert_rule_row_def image_update_where split: if_splits)
  then obtain r where r: "GetTunnelAccessRule s' tid = Inr r"
    by (cases "find (\<lambda>r. ru_tunnel r = tid) (rules s')") (auto simp: GetTunnelAccessRule_def find_None_iff)
  from that v r upsert_rule_row_lookup [OF up r] show thesis by blast
qed

text \<open>The mode a request is checked in: the typed one, or the existing one when blank.\<close>

lemma upsert_mode:
  assumes "UpsertTunnelAccessRule H s now tid inp = (Inr (), s')" and "GetTunnelAccessRule s' tid = Inr r"
  shows "ar_mode r = resolve_mode inp (existing_rule s tid)"
proof -
  from UpsertTunnelAccessRule_lookup [OF assms(1)] assms(2) obtain v
    where "validateAccessRuleInput H inp (existing_rule s tid) = Inr v" "ar_mode r = rv_mode v"
    by (metis Inr_inject)
  then show ?thesis by (simp add: validate_mode)
qed

text \<open>
  C13. Round trip of credentials: after an update that types a user and a password, the
  stored basic rule accepts a pair exactly when the user is the same up to surrounding
  blanks and the password has the same digest up to surrounding blanks; after an update
  that types a header and a secret, the stored rule names the canonical header and accepts
  exactly the values with the digest of the secret.
\<close>

theorem access_rule_roundtrip:
  assumes "UpsertTunnelAccessRule H s now tid inp = (Inr (), s')"
  shows "\<exists>r. GetTunnelAccessRule s' tid = Inr r \<and> ar_mode r = resolve_mode inp (existing_rule s tid) \<and>
    (ar_mode r = basic_mode \<longrightarrow> trim_space (in_user inp) \<noteq> [] \<longrightarrow> trim_space (in_pass inp) \<noteq> [] \<longrightarrow>
      (\<forall>u p. verifyAccessRuleBasicAuth H r u p \<longleftrightarrow>
         trim_space u = trim_space (in_user inp) \<and> H (trim_space p) = H (trim_space (in_pass inp)))) \<and>
    (ar_mode r = secret_mode \<longrightarrow> httpCanonicalHeaderKey (in_header inp) \<noteq> [] \<longrightarrow> trim_space (in_secret inp) \<noteq> [] \<longrightarrow>
      ar_header r = httpCanonicalHeaderKey (in_header inp) \<and>
      (\<forall>v. verifyAccessRuleSharedSecret H r v \<longleftrightarrow> H (trim_space v) = H (trim_space (in_secret inp))))"
proof -
  from UpsertTunnelAccessRule_lookup [OF assms] obtain v r
    where v: "validateAccessRuleInput H inp (existing_rule s tid) = Inr v"
      and look: "GetTunnelAccessRule s' tid = Inr r" "ar_mode r = rv_mode v" "ar_user r = rv_user v"
        "ar_pass r = rv_pass v" "ar_header r = rv_header v" "ar_secret r = rv_secret v"
    by blast
  have canon: "httpCanonicalHeaderKey (trim_space h) = httpCanonicalHeaderKey h" for h
    by (simp add: httpCanonicalHeaderKey_def)
  from v show ?thesis
  proof (cases rule: validate_cases)
    case public
    then show ?thesis using look upsert_mode [OF assms look(1)] by auto
  next
    case basic
    then show ?thesis
      using look upsert_mode [OF assms look(1)]
      by (auto simp: verifyAccessRuleBasicAuth_def or_existing_def secret_hash_def hashSecret_def)
  next
    case secret
    then show ?thesis
      using look upsert_mode [OF assms look(1)]
      by (auto simp: verifyAccessRuleSharedSecret_def or_existing_def secret_hash_def hashSecret_def canon)
  qed
qed

definition demo_basic :: access_input where
  "demo_basic = \<lparr>in_mode = '' Basic_Auth'', in_user = ''bob '', in_pass = ''s3cret'', in_header = [],
     in_secret = [], in_allowed = [[], '' '']\<rparr>"

lemma demo_basic_update:
  "UpsertTunnelAccessRule (\<lambda>x. x) demo_store 30 1 demo_basic =
   (Inr (), snd (UpsertTunnelAccessRule (\<lambda>x. x) demo_store 30 1 demo_basic))"
proof -
  have "fst (UpsertTunnelAccessRule (\<lambda>x. x) demo_store 30 1 demo_basic) = Inr ()" by code_simp
  then show ?thesis by (simp add: prod_eq_iff)
qed

theorem access_rule_roundtrip_witness:
  "\<exists>r. GetTunnelAccessRule (snd (UpsertTunnelAccessRule (\<lambda>x. x) demo_store 30 1 demo_basic)) 1 = Inr r \<and>
     verifyAccessRuleBasicAuth (\<lambda>x. x) r ''bob'' ''s3cret'' \<and> \<not> verifyAccessRuleBasicAuth (\<lambda>x. x) r ''bob'' ''other''"
proof -
  have "resolve_mode demo_basic (existing_rule demo_store 1) = basic_mode" "trim_space (in_user demo_basic) = ''bob''"
    "trim_space (in_pass demo_basic) = ''s3cret''" "trim_space ''s3cret'' = ''s3cret''" "trim_space ''bob'' = ''bob''"
    "trim_space ''other'' = ''other''"
    by code_simp+
  then show ?thesis using access_rule_roundtrip [OF demo_basic_update] by fastforce
qed

text \<open>
  An update that leaves the password and the secret blank keeps the stored digest when
  the mode stays the same, so an edit of the IP list or of the user never clears a
  credential; and the update never stores a credential that is empty.
\<close>

theorem blank_credential_kept:
  assumes "UpsertTunnelAccessRule H s now tid inp = (Inr (), s')"
    and "GetTunnelAccessRule s tid = Inr old" and "GetTunnelAccessRule s' tid = Inr new"
    and "trim_space (in_pass inp) = []" and "trim_space (in_secret inp) = []" and "ar_mode new = ar_mode old"
  shows "(ar_mode old = basic_mode \<longrightarrow> ar_pass new = ar_pass old \<and> ar_pass new \<noteq> []) \<and>
    (ar_mode old = secret_mode \<longrightarrow> ar_secret new = ar_secret old \<and> ar_secret new \<noteq> [])"
proof -
  have ex: "existing_rule s tid = Some old" using assms(2) by (simp add: existing_rule_def)
  from UpsertTunnelAccessRule_lookup [OF assms(1)] assms(3) obtain v
    where v: "validateAccessRuleInput H inp (Some old) = Inr v"
      and look: "ar_mode new = rv_mode v" "ar_pass new = rv_pass v" "ar_secret new = rv_secret v"
    unfolding ex by (metis Inr_inject)
  from v show ?thesis
    by (cases rule: validate_cases) (use look assms(4-6) in \<open>simp_all add: secret_hash_def\<close>)
qed

definition demo_keep :: access_input where
  "demo_keep = \<lparr>in_mode = [], in_user = ''alice'', in_pass = '' '', in_header = [], in_secret = [], in_allowed = []\<rparr>"

theorem blank_credential_kept_witness:
  "let H = (\<lambda>x. x); s1 = snd (UpsertTunnelAccessRule H demo_store 30 1 demo_basic);
       s2 = snd (UpsertTunnelAccessRule H s1 31 1 demo_keep)
   in \<exists>old new. GetTunnelAccessRule s1 1 = Inr old \<and> GetTunnelAccessRule s2 1 = Inr new \<and>
        ar_user new = ''alice'' \<and> ar_pass new = ar_pass old"
proof -
  let ?s1 = "snd (UpsertTunnelAccessRule (\<lambda>x. x) demo_store 30 1 demo_basic)"
  let ?s2 = "snd (UpsertTunnelAccessRule (\<lambda>x. x) ?s1 31 1 demo_keep)"
  have "fst (UpsertTunnelAccessRule (\<lambda>x. x) ?s1 31 1 demo_keep) = Inr ()" by code_simp
  then have up: "UpsertTunnelAccessRule (\<lambda>x. x) ?s1 31 1 demo_keep = (Inr (), ?s2)" by (simp add: prod_eq_iff)
  let ?old = "case GetTunnelAccessRule ?s1 1 of Inr r \<Rightarrow> r" and ?new = "case GetTunnelAccessRule ?s2 1 of Inr r \<Rightarrow> r"
  have "\<not> isl (GetTunnelAccessRule ?s1 1)" "\<not> isl (GetTunnelAccessRule ?s2 1)" by code_simp+
  then have gets: "GetTunnelAccessRule ?s1 1 = Inr ?old" "GetTunnelAccessRule ?s2 1 = Inr ?new"
    by (auto split: sum.split simp: isl_def)
  have vals: "ar_mode ?new = ar_mode ?old" "ar_mode ?old = basic_mode" "ar_user ?new = ''alice''"
    "trim_space (in_pass demo_keep) = []" "trim_space (in_secret demo_keep) = []"
    by code_simp+
  show ?thesis
    using blank_credential_kept [OF up gets vals(4,5,1)] gets vals by (auto simp: Let_def)
qed

section \<open>The IP list\<close>

text \<open>The text of an IPv4 prefix, and reading it back.\<close>

definition cidr_text :: "32 word \<Rightarrow> nat \<Rightarrow> string" where
  "cidr_text p n = v4_text p @ ''/'' @ num_text 10 n"

lemma num_text_digits: "c \<in> set (num_text 10 n) \<Longrightarrow> is_digit c"
  using num_text_decimal [of n] by (auto simp: list_all_iff)

lemma set_v4_text: "c \<in> set (v4_text w) \<Longrightarrow> is_digit c \<or> c = CHR ''.''"
  by (auto simp: v4_text_def dest: num_text_digits)

lemma digit_plain: "is_digit c \<Longrightarrow> c \<noteq> CHR ''/'' \<and> \<not> is_space c"
  by (auto simp: is_digit_def is_space_code Let_def)

lemma split_last_text: "c \<notin> set t \<Longrightarrow> split_last c (s @ c # t) = Some (s, t)"
proof -
  assume "c \<notin> set t"
  then have "\<And>x. x \<in> set (rev t) \<Longrightarrow> x \<noteq> c" by auto
  then have "dropWhile (\<lambda>x. x \<noteq> c) (rev t @ c # rev s) = c # rev s"
    "takeWhile (\<lambda>x. x \<noteq> c) (rev t @ c # rev s) = rev t"
    by (subst dropWhile_append2 takeWhile_append2; auto)+
  then show ?thesis by (simp add: split_last_def)
qed

lemma parse_cidr_text: "n \<le> 32 \<Longrightarrow> parse_prefix (cidr_text p n) = Some (Prefix (V4 p) n)"
proof -
  assume n: "n \<le> 32"
  have "CHR ''/'' \<notin> set (num_text 10 n)" using num_text_digits digit_plain by blast
  then have split: "split_last CHR ''/'' (cidr_text p n) = Some (v4_text p, num_text 10 n)"
    by (simp add: cidr_text_def split_last_text)
  have "parse_bits (num_text 10 n) = Some n"
    using num_text_decimal [of n] num_text_small [of 0] by (cases "n = 0") (auto simp: parse_bits_def)
  then show ?thesis
    using n by (simp add: parse_prefix_def split parse_addr_v4_text has_zone_def max_bits_def)
qed

lemma trim_no_space: "(\<And>c. c \<in> set s \<Longrightarrow> \<not> is_space c) \<Longrightarrow> trim_space s = s"
proof -
  assume no: "\<And>c. c \<in> set s \<Longrightarrow> \<not> is_space c"
  have "dropWhile is_space xs = xs" if "set xs = set s" for xs
    using that no by (cases xs) auto
  then show ?thesis by (simp add: trim_space_def)
qed

lemma is_space_dot: "\<not> is_space CHR ''.''" "\<not> is_space CHR ''/''"
  by (simp_all add: is_space_code)

lemma trim_v4_text [simp]: "trim_space (v4_text w) = v4_text w"
  using set_v4_text digit_plain is_space_dot by (intro trim_no_space) blast

lemma trim_cidr_text [simp]: "trim_space (cidr_text p n) = cidr_text p n"
proof (rule trim_no_space)
  fix c assume "c \<in> set (cidr_text p n)"
  then have "is_digit c \<or> c = CHR ''.'' \<or> c = CHR ''/''"
    using set_v4_text num_text_digits by (auto simp: cidr_text_def)
  then show "\<not> is_space c" using digit_plain is_space_dot by blast
qed

text \<open>
  C33. An IP restriction admits exactly its blocks of addresses: a rule whose list holds the
  texts of the IPv4 prefixes \<open>ps\<close> (each at most 32 long) admits the text of an address \<open>a\<close>
  exactly when the list is empty or \<open>a\<close> agrees with one of the bases after dropping the
  \<open>32 - n\<close> low bits; and it admits nothing that is not an address.
\<close>

theorem ip_list_admits_blocks:
  assumes "\<forall>(p, n) \<in> set ps. n \<le> 32" and "ar_allowed rule = map (\<lambda>(p, n). cidr_text p n) ps"
  shows "(allowedByIP rule (v4_text a) \<longleftrightarrow>
      ps = [] \<or> (\<exists>(p, n) \<in> set ps. unat a div 2 ^ (32 - n) = unat p div 2 ^ (32 - n))) \<and>
    (\<forall>txt. parse_addr (trim_space txt) = None \<longrightarrow> ps \<noteq> [] \<longrightarrow> \<not> allowedByIP rule txt)"
proof -
  have "prefix_text_contains (V4 a) (cidr_text p n) \<longleftrightarrow> unat a div 2 ^ (32 - n) = unat p div 2 ^ (32 - n)"
    if "(p, n) \<in> set ps" for p n
    using that assms(1) prefix_contains_v4 [of p n a]
    by (auto simp: prefix_text_contains_def parse_cidr_text simp del: prefix_contains.simps)
  then have "list_ex (prefix_text_contains (V4 a)) (ar_allowed rule) \<longleftrightarrow>
      (\<exists>(p, n) \<in> set ps. unat a div 2 ^ (32 - n) = unat p div 2 ^ (32 - n))"
    unfolding assms(2) by (force simp: list_ex_iff)
  then show ?thesis
    using assms(2) by (auto simp: allowedByIP_def parse_addr_v4_text)
qed

definition demo_rule :: access_rule where
  "demo_rule = \<lparr>ar_id = 1, ar_tunnel = 1, ar_mode = public_mode, ar_user = [], ar_pass = [], ar_header = [],
     ar_secret = [], ar_allowed = [cidr_text 0x0A000000 8], ar_created = 0, ar_updated = 0\<rparr>"

theorem ip_list_admits_blocks_witness:
  "allowedByIP demo_rule (v4_text 0x0A010203) \<and> \<not> allowedByIP demo_rule (v4_text 0x0B010203) \<and>
   \<not> allowedByIP demo_rule ''localhost''"
proof -
  have "parse_addr (trim_space ''localhost'') = None"
    by (simp add: trim_space_def is_space_def parse_addr_def)
  then show ?thesis
    using ip_list_admits_blocks [of "[(0x0A000000, 8)]" demo_rule] by (simp add: demo_rule_def)
qed

end
