(* ===== verification/AuthClaims.thy ===== *)
theory AuthClaims
  imports AuthHttp AccessClaims
begin

text \<open>
  The properties of authentication: who counts as an administrator, what a completed login
  gives, what a logout takes away, and which redirect targets the login accepts.
\<close>

section \<open>Administrators\<close>

text \<open>
  C8. The administrator's gate: \<open>authorizeAdmin\<close> answers yes exactly when the request carries
  the token of an unexpired session whose user has the role admin; a handler behind
  \<open>requireAdmin\<close> runs in exactly the same cases, and in the others the answer is a redirect
  to the login page, 401 or 403, and of the database only the session table may differ.
\<close>

theorem admin_gate:
  assumes "sessions_up s"
  shows "(fst (authorizeAdmin hmac a s now r) = (True, 200) \<longleftrightarrow>
      (\<exists>u. speaks_for hmac a s now r u \<and> ur_role u = ''admin'')) \<and>
    (if \<exists>u. speaks_for hmac a s now r u \<and> ur_role u = ''admin''
     then requireAdmin hmac a handler s now r = handler (snd (requestUser hmac a s now r)) r
     else rs_status (fst (requireAdmin hmac a handler s now r)) \<in> {302, 401, 403} \<and>
       snd (requireAdmin hmac a handler s now r) = s\<lparr>sessions := sessions (snd (requireAdmin hmac a handler s now r))\<rparr>)"
proof -
  obtain user st s' where q: "requestUser hmac a s now r = ((user, st), s')" by (metis prod.exhaust)
  have iff: "(user, st) = (Some u, 200) \<longleftrightarrow> speaks_for hmac a s now r u" for u
    using requestUser_iff [OF assms, of hmac a now r u] by (simp add: q)
  have only: "s' = s\<lparr>sessions := sessions s'\<rparr>"
    using requestUser_store [of hmac a s now r] by (simp add: q)
  show ?thesis
  proof (cases rule: requestUser_cases [of hmac a s now r])
    case (user u)
    then have su: "speaks_for hmac a s now r v \<longleftrightarrow> v = u" for v using iff [of v] by (auto simp: q)
    show ?thesis
      using user only by (auto simp: su q authorizeAdmin_def requireAdmin_def requireAdminOn_def Let_def)
  next
    case none
    then have "\<not> speaks_for hmac a s now r v" for v using iff [of v] by (auto simp: q)
    then show ?thesis
      using none only by (auto simp: q authorizeAdmin_def requireAdmin_def requireAdminOn_def Let_def)
  qed
qed

definition demo_config :: config where
  "demo_config = \<lparr>cf_hostname = ''example.com'', cf_web_port = 8080, cf_grpc_port = 4440, cf_cert = [], cf_key = [],
     cf_data_dir = [], cf_issuer = ''https://idp'', cf_client_id = ''cid'', cf_client_secret = [],
     cf_redirect_url = ''https://example.com/cb'', cf_scopes = [], cf_admin_emails = ['' Root@X''],
     cf_admin_subjects = [], cf_admin_groups = [''Ops'', []], cf_session_secret = ''k'', cf_device_client_id = [],
     cf_trusted = []\<rparr>"

definition demo_auth :: auth_manager where
  "demo_auth = \<lparr>am_cfg = demo_config,
     am_oidc = \<lparr>om_enabled = True, om_issuer = ''https://idp'', om_device_client = ''cid'', om_client_secret = [],
       om_scopes = [], om_client = ''cid'', om_redirect = [], om_discovery = zero_discovery\<lparr>dd_device := ''https://idp/dev'', dd_token := ''https://idp/token''\<rparr>\<rparr>,
     am_secure = False, am_key = ''k''\<rparr>"

definition demo_request :: "string \<Rightarrow> string \<Rightarrow> string \<Rightarrow> request" where
  "demo_request method path token = \<lparr>rq_method = method, rq_path = path, rq_query = [],
     rq_args = [(''state'', ''st''), (''code'', ''c0'')], rq_headers = [(''Authorization'', [''bearer '' @ token])],
     rq_cookies = [], rq_host = ''example.com'', rq_remote = ''10.0.0.1:5555'', rq_length = 0, rq_body = [], rq_json = None, rq_form = [], rq_form_bad = False\<rparr>"

lemma demo_sessions_up: "sessions_up demo_store"
  by (simp add: sessions_up_def demo_ok)

text \<open>The digest of the witnesses: the message itself.\<close>

abbreviation demo_hmac :: "string \<Rightarrow> string \<Rightarrow> string" where "demo_hmac \<equiv> \<lambda>k m. m"

theorem admin_gate_witness:
  "fst (authorizeAdmin demo_hmac demo_auth demo_store 20 (demo_request ''GET'' ''/admin/info'' ''h1'')) = (True, 200) \<and>
   fst (authorizeAdmin demo_hmac demo_auth demo_store 20 (demo_request ''GET'' ''/admin/info'' ''h2'')) = (False, 403) \<and>
   (\<exists>u. speaks_for demo_hmac demo_auth demo_store 20 (demo_request ''GET'' ''/admin/info'' ''h1'') u)"
proof -
  have "fst (authorizeAdmin demo_hmac demo_auth demo_store 20 (demo_request ''GET'' ''/admin/info'' ''h1'')) = (True, 200)"
    "fst (authorizeAdmin demo_hmac demo_auth demo_store 20 (demo_request ''GET'' ''/admin/info'' ''h2'')) = (False, 403)"
    by code_simp+
  then show ?thesis
    using admin_gate [OF demo_sessions_up, of demo_hmac demo_auth 20 "demo_request ''GET'' ''/admin/info'' ''h1''"]
    by blast
qed

text \<open>
  The role of a login: \<open>userRole\<close> is admin exactly when the email, the subject or one of
  the groups of the claims equals, up to case and surrounding blanks, a configured entry
  that is not blank; in all other cases it is member.
\<close>

theorem user_role_correct:
  "userRole a c =
    (if (\<exists>x \<in> set (cf_admin_emails (am_cfg a)). trim_lower x = trim_lower (cl_email c) \<and> trim_lower x \<noteq> []) \<or>
        (\<exists>x \<in> set (cf_admin_subjects (am_cfg a)). trim_lower x = trim_lower (cl_subject c) \<and> trim_lower x \<noteq> []) \<or>
        (\<exists>x \<in> set (cf_admin_groups (am_cfg a)). \<exists>g \<in> set (cl_groups c). trim_lower x = trim_lower g \<and> trim_lower x \<noteq> [])
     then ''admin'' else ''member'')"
proof -
  have "trim_lower (to_lower (trim_space e)) = trim_lower e" "trim_lower (trim_space e) = trim_lower e" for e
    by (simp_all add: trim_lower_def trim_space_to_lower)
  then show ?thesis
    by (auto simp: userRole_def Let_def containsStringFold_iff list_ex_iff)
qed

section \<open>Logging in and out\<close>

lemma fault_frame [simp]:
  "fault (snd (ConsumeLoginState s now st)) = fault s"
  "fault (snd (UpsertUserFromOIDC s now sub em dn gs ro)) = fault s"
  "fault (snd (CreateSession s now uid h ex)) = fault s"
  by (simp_all add: ConsumeLoginState_def UpsertUserFromOIDC_def upsert_user_row_def CreateSession_def Let_def
      split: option.split)

lemma sessions_up_frame:
  "sessions_up s \<Longrightarrow> sessions_up (snd (ConsumeLoginState s now st))"
  "sessions_up s \<Longrightarrow> sessions_up (snd (UpsertUserFromOIDC s now sub em dn gs ro))"
  by (simp_all add: sessions_up_def ConsumeLoginState_ok UpsertUserFromOIDC_ok)

text \<open>A user stored and a session issued for it: the token speaks for that user.\<close>

lemma issued_session_speaks:
  assumes up: "sessions_up s" and user: "UpsertUserFromOIDC s now sub em dn gs ro = (Inr u, s1)"
    and sess: "issueSession hmac a s1 now random (ur_id u) = (Inr (raw, ex), s2)"
    and tok: "requestSessionToken r = raw" "raw \<noteq> []" and live: "\<not> expired t ex"
  shows "speaks_for hmac a s2 t r u"
proof -
  note S = issueSession_success [OF sess]
  have up1: "sessions_up s1" using sessions_up_frame(2) [OF up, of now sub em dn gs ro] by (simp add: user)
  obtain row where row: "row \<in> set (users s1)" "scanUserRecord row = u"
    using UpsertUserFromOIDC_result [OF user] by blast
  obtain v where v: "v \<in> set (users s1)" "us_id v = ur_id u"
    and hold: "session_holder s2 (sessionHash hmac a raw) = Some (scanUserRecord v, ex)"
    using CreateSession_holder(1) [OF up1, of now "ur_id u" "sessionHash hmac a raw" ex] S(3) by auto
  have "v = row"
    using v row distinct_key_unique [of us_id "users s1"] up1 store_okD(7)
    by (auto simp: sessions_up_def scanUserRecord_def)
  then show ?thesis using hold row(2) tok live by (auto simp: speaks_for_def)
qed

lemma consume_gone:
  assumes "store_ok s" and "ConsumeLoginState s now st = (Inr l, s1)"
  shows "lo_state l = st" "\<not> expired now (lo_expires l)" "st \<in> login_states s" "st \<notin> login_states s1"
proof -
  obtain row where row: "row \<in> set (logins s)" "ls_state row = st" "l = scan_login row"
    and s1: "s1 = s\<lparr>logins := delete_where (\<lambda>x. ls_id x = ls_id row) (logins s)\<rparr>"
    and live: "\<not> expired now (lo_expires (scan_login row))"
    using assms(2) by (auto simp: ConsumeLoginState_def Let_def split: if_splits option.splits dest: find_SomeD)
  show "lo_state l = st" "\<not> expired now (lo_expires l)" "st \<in> login_states s"
    using row live by (auto simp: scan_login_def login_states_def)
  have "x = row" if "x \<in> set (logins s)" "ls_state x = st" for x
    using distinct_key_unique [OF store_okD(9) [OF assms(1)]] row that by simp
  then show "st \<notin> login_states s1" by (auto simp: login_states_def s1)
qed

text \<open>
  C18. The callback of a browser login: it answers with a redirect only when the state of
  the request is a pending, unexpired login, the provider accepted the code with the
  verifier stored for that state, and a user and a session were stored. Then the state is
  used up, the target is the one stored with the state, the cookie is the new token, and
  until twelve hours later every request with that token speaks for the user with the
  provider's subject and the role \<open>userRole\<close> gives to the claims.
\<close>

theorem callback_logs_in:
  assumes "sessions_up s"
    and "handleOIDCCallback drv hmac exchange a s now random r = (resp, s')" and "rs_status resp = 302"
  defines "st \<equiv> trim_space (query_get r ''state'')"
  shows "\<exists>(l :: login_record) c u raw. st \<in> login_states s \<and> st \<notin> login_states s' \<and> lo_state l = st \<and> \<not> expired now (lo_expires l) \<and>
    exchange (trim_space (query_get r ''code'')) (lo_verifier l) = Inr c \<and> random = Inr raw \<and>
    rs_headers resp = [(''Location'', lo_redirect l)] \<and>
    rs_cookies resp = [SetCookie userSessionCookieName raw (now + 12 * hour)] \<and>
    ur_subject u = cl_subject c \<and> ur_role u = userRole a c \<and>
    (\<forall>r' t. requestSessionToken r' = raw \<longrightarrow> raw \<noteq> [] \<longrightarrow> \<not> expired t (now + 12 * hour) \<longrightarrow>
       speaks_for hmac a s' t r' u)"
proof -
  from assms(2,3) obtain l s1 c u s2 raw ex
    where consume: "ConsumeLoginState s now st = (Inr l, s1)"
      and code: "exchange (trim_space (query_get r ''code'')) (lo_verifier l) = Inr c"
      and user: "UpsertUserFromOIDC s1 now (cl_subject c) (cl_email c) (cl_name c) (cl_groups c) (userRole a c) = (Inr u, s2)"
      and sess: "issueSession hmac a s2 now random (ur_id u) = (Inr (raw, ex), s')"
      and resp: "resp = setSessionCookie raw ex (redirect (lo_redirect l))"
    unfolding st_def
    by (auto simp: handleOIDCCallback_def Let_def split: if_splits prod.splits sum.splits)
  have ok: "store_ok s" using assms(1) by (simp add: sessions_up_def)
  have up1: "sessions_up s1" using sessions_up_frame(1) [OF assms(1), of now st] by (simp add: consume)
  note S = issueSession_success [OF sess]
  have role: "userRole a c \<noteq> []" using userRole_values [of a c] by auto
  have "logins s2 = logins s1" using users_agents_frame(2) [of s1 now] by (metis snd_conv user)
  moreover have "logins s' = logins s2" using session_login_frame(1) [of s2 now] S(3) by (metis snd_conv)
  ultimately have "login_states s' = login_states s1" by (simp add: login_states_def)
  then have gone: "st \<in> login_states s" "st \<notin> login_states s'" "lo_state l = st" "\<not> expired now (lo_expires l)"
    using consume_gone [OF ok consume] by simp_all
  have out: "rs_headers resp = [(''Location'', lo_redirect l)]"
    "rs_cookies resp = [SetCookie userSessionCookieName raw (now + 12 * hour)]"
    using S(2) by (simp_all add: resp setSessionCookie_def defaultSessionTTL_def)
  have who: "ur_subject u = cl_subject c" "ur_role u = userRole a c"
    using UpsertUserFromOIDC_result [OF user] role by auto
  have "speaks_for hmac a s' t r' u" if "requestSessionToken r' = raw" "raw \<noteq> []" "\<not> expired t (now + 12 * hour)" for r' t
    using issued_session_speaks [OF up1 user sess that(1,2)] that(3) S(2) by (simp add: defaultSessionTTL_def)
  with gone code S(1) out who show ?thesis by blast
qed

definition demo_claims :: claims where
  "demo_claims = \<lparr>cl_subject = ''sub-9'', cl_email = ''root@x'', cl_name = ''R'', cl_groups = []\<rparr>"

theorem callback_logs_in_witness:
  "let r = handleOIDCCallback (\<lambda>_. []) demo_hmac (\<lambda>c v. if v = ''ver'' then Inr demo_claims else Inl ''no'')
      demo_auth demo_store 20 (Inr ''tok'') (demo_request ''GET'' ''/cb'' [])
   in rs_headers (fst r) = [(''Location'', ''/x'')] \<and> ''st'' \<notin> login_states (snd r) \<and>
     (\<exists>u. ur_role u = ''admin'' \<and> speaks_for demo_hmac demo_auth (snd r) 30 (demo_request ''GET'' ''/'' ''tok'') u)"
proof -
  let ?ex = "\<lambda>c v. if v = ''ver'' then Inr demo_claims else Inl ''no''"
  let ?r = "handleOIDCCallback (\<lambda>_. []) demo_hmac ?ex demo_auth demo_store 20 (Inr ''tok'') (demo_request ''GET'' ''/cb'' [])"
  have facts: "rs_status (fst ?r) = 302" "rs_headers (fst ?r) = [(''Location'', ''/x'')]"
    "requestSessionToken (demo_request ''GET'' ''/'' ''tok'') = ''tok''"
    "trim_space (query_get (demo_request ''GET'' ''/cb'' []) ''state'') = ''st''" "userRole demo_auth demo_claims = ''admin''"
    "trim_space (query_get (demo_request ''GET'' ''/cb'' []) ''code'') = ''c0''"
    by code_simp+
  have live: "\<not> expired 30 (20 + 12 * hour)" by (simp add: expired_def is_zero_def hour_def minute_def second_def)
  obtain l :: login_record and c u raw where L: "''st'' \<notin> login_states (snd ?r)" "?ex ''c0'' (lo_verifier l) = Inr c"
      "Inr ''tok'' = (Inr raw :: string res)" "ur_role u = userRole demo_auth c"
      "\<forall>r' t. requestSessionToken r' = raw \<longrightarrow> raw \<noteq> [] \<longrightarrow> \<not> expired t (20 + 12 * hour) \<longrightarrow>
        speaks_for demo_hmac demo_auth (snd ?r) t r' u"
    using callback_logs_in [OF demo_sessions_up prod.collapse [symmetric] facts(1)]
    unfolding facts(4,6) by blast
  have "c = demo_claims" "raw = ''tok''" using L(2,3) by (auto split: if_splits)
  then have "ur_role u = ''admin'' \<and> speaks_for demo_hmac demo_auth (snd ?r) 30 (demo_request ''GET'' ''/'' ''tok'') u"
    using L(4,5) facts(3,5) live by simp
  with L(1) show ?thesis using facts(2) by (auto simp: Let_def)
qed

text \<open>
  C21. Logging out: a \<open>POST\<close> that carries a token clears the cookie and ends the session: on
  the store it leaves, and after any later run of operations that does not create a session
  with the same token hash, every request with that token is answered as unauthenticated.
\<close>

theorem logout_ends_session:
  assumes "sessions_up s" and "rq_method r = ''POST''" and "requestSessionToken r = tok" and "tok \<noteq> []"
    and "list_all (\<lambda>op. \<not> creates_session (sessionHash hmac a tok) op) ops" and "requestSessionToken r' = tok"
  shows "rs_cookies (fst (handleOIDCLogout hmac a s r)) = [ClearCookie userSessionCookieName] \<and>
    fst (requestUser hmac a (run_ops H ops (snd (handleOIDCLogout hmac a s r))) t r') = (None, 401)"
proof -
  let ?h = "sessionHash hmac a tok"
  let ?s = "snd (handleOIDCLogout hmac a s r)"
  have s': "?s = snd (DeleteSession s ?h)"
    using assms(2-4) by (simp add: handleOIDCLogout_def Let_def)
  have "?h \<notin> session_hashes ?s"
    using assms(1) by (auto simp: s' session_hashes_def DeleteSession_def sessions_up_def)
  then have "?h \<notin> session_hashes (run_ops H ops ?s)" by (rule run_session_absent [OF _ assms(5)])
  then have "find (\<lambda>x. se_hash x = ?h) (sessions (run_ops H ops ?s)) = None"
    unfolding find_None_iff session_hashes_def image_iff by metis
  then have "isl (fst (GetSessionByToken (run_ops H ops ?s) t ?h))" by (simp add: GetSessionByToken_def)
  then have "fst (requestUser hmac a (run_ops H ops ?s) t r') = (None, 401)"
    using assms(4,6) by (auto simp: requestUser_def Let_def isl_def split: prod.splits sum.splits)
  then show ?thesis
    using assms(2) by (simp add: handleOIDCLogout_def clearSessionCookie_def Let_def)
qed

theorem logout_ends_session_witness:
  "fst (requestUser demo_hmac demo_auth (run_ops (\<lambda>x. x) [OpGetSession 30 ''h2'', Restart]
     (snd (handleOIDCLogout demo_hmac demo_auth demo_store (demo_request ''POST'' ''/auth/oidc/logout'' ''h1''))))
     40 (demo_request ''GET'' ''/'' ''h1'')) = (None, 401)"
proof -
  have "requestSessionToken (demo_request ''POST'' ''/auth/oidc/logout'' ''h1'') = ''h1''"
    "requestSessionToken (demo_request ''GET'' ''/'' ''h1'') = ''h1''"
    "rq_method (demo_request ''POST'' ''/auth/oidc/logout'' ''h1'') = ''POST''"
    by code_simp+
  then show ?thesis
    using logout_ends_session [OF demo_sessions_up, of "demo_request ''POST'' ''/auth/oidc/logout'' ''h1''" "''h1''"
        demo_hmac demo_auth "[OpGetSession 30 ''h2'', Restart]" "demo_request ''GET'' ''/'' ''h1''" "\<lambda>x. x" 40]
    by simp
qed

section \<open>Where a login leads\<close>

lemma created_login_consumed:
  assumes "CreateLoginState s now st v redir ex = (Inr (), s1)" and "ConsumeLoginState s1 now' st = (Inr l, s2)"
  shows "lo_redirect l = (if redir = [] then ''/admin/ui'' else redir) \<and> lo_verifier l = v"
proof -
  let ?row = "\<lparr>ls_id = next_id s LoginStates, ls_state = st, ls_verifier = v,
    ls_redirect = (if redir = [] then ''/admin/ui'' else redir), ls_expires = format_time ex, ls_created = format_time now\<rparr>"
  have fresh: "st \<notin> ls_state ` set (logins s)" and s1: "s1 = bump LoginStates (s\<lparr>logins := logins s @ [?row]\<rparr>)"
    and up: "\<not> fault s LoginStates"
    using assms(1) by (auto simp: CreateLoginState_def Let_def split: if_splits)
  have "find (\<lambda>l. ls_state l = st) (logins s @ [?row]) = Some ?row"
    using fresh by (intro find_snoc_fresh) (auto simp: image_iff)
  then have "find (\<lambda>l. ls_state l = st) (logins s1) = Some ?row" by (simp add: s1)
  then show ?thesis
    using assms(2) up by (auto simp: ConsumeLoginState_def Let_def scan_login_def s1 split: if_splits)
qed

text \<open>
  Where a login leads: the callback that completes a login redirects to the \<open>redirect\<close>
  parameter of the request that started it, when that parameter begins with a slash, and to
  \<open>/admin/ui\<close> otherwise. No other check is made, so a parameter that begins with two slashes
  sends the browser to the host it names.
\<close>

theorem login_redirect_followed:
  assumes "handleOIDCLogin drv auth_url a s now (Inr st) rv r = (resp1, s1)" and "rs_status resp1 = 302"
    and "handleOIDCCallback drv hmac exchange a s1 now' random r2 = (resp2, s2)" and "rs_status resp2 = 302"
    and "trim_space (query_get r2 ''state'') = st"
  shows "rs_headers resp2 = [(''Location'', login_redirect r)] \<and> has_prefix (login_redirect r) ''/'' \<and>
    (\<forall>host. trim_space (query_get r ''redirect'') = ''//'' @ host \<longrightarrow> login_redirect r = ''//'' @ host)"
proof -
  from assms(1,2) obtain v where c: "CreateLoginState s now st v (login_redirect r) (now + 10 * minute) = (Inr (), s1)"
    by (auto simp: handleOIDCLogin_def split: if_splits sum.splits prod.splits)
  from assms(3-5) obtain l s3 raw ex where l: "ConsumeLoginState s1 now' st = (Inr l, s3)"
    and resp: "resp2 = setSessionCookie raw ex (redirect (lo_redirect l))"
    by (auto simp: handleOIDCCallback_def Let_def split: if_splits prod.splits sum.splits)
  have slash: "has_prefix (login_redirect r) ''/''"
    by (simp add: login_redirect_def Let_def default_redirect_def has_prefix_def)
  then have "login_redirect r \<noteq> []" by (auto simp: has_prefix_def)
  then have "rs_headers resp2 = [(''Location'', login_redirect r)]"
    using created_login_consumed [OF c l] by (simp add: resp setSessionCookie_def)
  moreover have "login_redirect r = ''//'' @ host" if "trim_space (query_get r ''redirect'') = ''//'' @ host" for host
    using that by (simp add: login_redirect_def has_prefix_def)
  ultimately show ?thesis using slash by blast
qed

definition demo_login :: request where
  "demo_login = (demo_request ''GET'' ''/auth/oidc/login'' [])\<lparr>rq_args := [(''redirect'', ''//evil.example'')]\<rparr>"

definition demo_callback :: request where
  "demo_callback = (demo_request ''GET'' ''/auth/oidc/callback'' [])\<lparr>rq_args := [(''state'', ''s2''), (''code'', ''c'')]\<rparr>"

theorem login_redirect_followed_witness:
  "rs_headers (fst (handleOIDCCallback (\<lambda>_. []) demo_hmac (\<lambda>c v. Inr demo_claims) demo_auth
     (snd (handleOIDCLogin (\<lambda>_. []) (\<lambda>st v. ''https://idp'') demo_auth demo_store 20 (Inr ''s2'') (Inr ''v2'') demo_login))
     30 (Inr ''tok'') demo_callback)) = [(''Location'', ''//evil.example'')]"
proof -
  let ?l = "handleOIDCLogin (\<lambda>_. []) (\<lambda>st v. ''https://idp'') demo_auth demo_store 20 (Inr ''s2'') (Inr ''v2'') demo_login"
  let ?c = "handleOIDCCallback (\<lambda>_. []) demo_hmac (\<lambda>c v. Inr demo_claims) demo_auth (snd ?l) 30 (Inr ''tok'') demo_callback"
  have "rs_status (fst ?l) = 302" "rs_status (fst ?c) = 302" "trim_space (query_get demo_callback ''state'') = ''s2''"
    "trim_space (query_get demo_login ''redirect'') = ''//'' @ ''evil.example''"
    by code_simp+
  then show ?thesis
    using login_redirect_followed [OF prod.collapse [symmetric] _ prod.collapse [symmetric], of _ _ demo_auth demo_store 20]
    by simp
qed

section \<open>The device flow\<close>


definition demo_poll :: request where
  "demo_poll = (demo_request ''POST'' ''/auth/device/poll'' [])\<lparr>rq_json := Some (JObject [(''device_code'', JString '' d1 '')])\<rparr>"


end
