(* ===== verification/GrpcConn.thy ===== *)
theory GrpcConn
  imports Http
begin

text \<open>
  One tunnel connection: \<open>GrpcTunnelConn\<close> of internal/server/grpc_tunnel.go. Requests
  (\<open>EnqueueRequest\<close>) run in their own goroutines against the shared pending map, the bounded
  send channel and \<open>Close\<close>, so the component is a step relation: every step is a piece of
  code that runs without releasing its locks, \<open>cn_req\<close> holds where each request stands.
  Response channels have one slot and live in the heap \<open>cn_chan\<close>.
\<close>

section \<open>Messages\<close>

record proxy_request =
  pq_id :: string
  pq_method :: string
  pq_path :: string
  pq_query :: string
  pq_headers :: "(string \<times> string list) list"
  pq_body :: string

record proxy_response =
  ps_id :: string
  ps_status :: int
  ps_headers :: "(string \<times> string list) list"
  ps_body :: string

text \<open>The protobuf message: one string per header name.\<close>

record wire_request =
  wq_id :: string
  wq_method :: string
  wq_path :: string
  wq_query :: string
  wq_headers :: "(string \<times> string) list"
  wq_body :: string

record wire_response =
  wr_id :: string
  wr_status :: int
  wr_headers :: "(string \<times> string) list"
  wr_body :: string

text \<open>\<open>strings.Join(vv, ", ")\<close> for every header with a value.\<close>

definition wire_headers :: "(string \<times> string list) list \<Rightarrow> (string \<times> string) list" where
  "wire_headers hs = map (\<lambda>(k, vv). (k, join_with '', '' vv)) (filter (\<lambda>(k, vv). vv \<noteq> []) hs)"

definition message_of :: "string \<Rightarrow> proxy_request \<Rightarrow> wire_request" where
  "message_of i pr = \<lparr>wq_id = i, wq_method = pq_method pr, wq_path = pq_path pr, wq_query = pq_query pr,
     wq_headers = wire_headers (pq_headers pr), wq_body = pq_body pr\<rparr>"

text \<open>\<open>headers.Set(k, v)\<close> for every entry of the map.\<close>

definition http_headers :: "(string \<times> string) list \<Rightarrow> (string \<times> string list) list" where
  "http_headers hs = foldl (\<lambda>acc (k, v). put_key (mime_key k) [v] acc) [] hs"

definition response_of :: "wire_response \<Rightarrow> proxy_response" where
  "response_of w = \<lparr>ps_id = wr_id w, ps_status = wr_status w, ps_headers = http_headers (wr_headers w), ps_body = wr_body w\<rparr>"

section \<open>The connection\<close>

datatype pc =
    Idle                         \<comment> \<open>not yet called\<close>
  | Checked                      \<comment> \<open>past the first closed check\<close>
  | Registered string nat        \<comment> \<open>id and response channel in the pending map\<close>
  | Waiting string nat           \<comment> \<open>message sent, waiting for the response\<close>
  | Answered string "proxy_response option" bool
  | Panicked string              \<comment> \<open>send on the closed channel\<close>

record conn =
  cn_host :: string
  cn_remote :: string
  cn_queue :: "wire_request list"
  cn_pending :: "(string \<times> nat) list"
  cn_chan :: "nat \<Rightarrow> proxy_response option option"
  cn_next :: nat
  cn_closed :: bool
  cn_broadcast :: bool
  cn_req :: "nat \<Rightarrow> pc"
  cn_ids :: "string list"
  cn_sent :: "wire_request list"

definition new_conn :: "string \<Rightarrow> string \<Rightarrow> conn" where
  "new_conn hostname remoteAddr = \<lparr>cn_host = hostname, cn_remote = remoteAddr, cn_queue = [], cn_pending = [],
     cn_chan = (\<lambda>_. None), cn_next = 0, cn_closed = False, cn_broadcast = False, cn_req = (\<lambda>_. Idle),
     cn_ids = [], cn_sent = []\<rparr>"

definition send_capacity :: nat where
  "send_capacity = 64"

definition goto :: "nat \<Rightarrow> pc \<Rightarrow> conn \<Rightarrow> conn" where
  "goto t p c = c\<lparr>cn_req := (cn_req c)(t := p)\<rparr>"

text \<open>The deferred \<open>delete(c.pending, pr.ID)\<close>.\<close>

definition forget :: "string \<Rightarrow> conn \<Rightarrow> conn" where
  "forget i c = c\<lparr>cn_pending := drop_key i (cn_pending c)\<rparr>"

text \<open>The closed check that opens \<open>EnqueueRequest\<close>.\<close>

definition check_closed :: "nat \<Rightarrow> conn \<Rightarrow> conn" where
  "check_closed t c = goto t (if cn_closed c then Answered [] None True else Checked) c"

definition register_request :: "nat \<Rightarrow> string \<Rightarrow> conn \<Rightarrow> conn" where
  "register_request t i c = goto t (Registered i (cn_next c))
     (c\<lparr>cn_pending := put_key i (cn_next c) (cn_pending c), cn_chan := (cn_chan c)(cn_next c := None),
        cn_next := Suc (cn_next c), cn_ids := i # cn_ids c\<rparr>)"

definition send_message :: "nat \<Rightarrow> string \<Rightarrow> nat \<Rightarrow> proxy_request \<Rightarrow> conn \<Rightarrow> conn" where
  "send_message t i ch pr c =
     (if cn_closed c then goto t (Panicked i) (forget i c)
      else goto t (Waiting i ch) (c\<lparr>cn_queue := cn_queue c @ [message_of i pr]\<rparr>))"

definition give_up :: "nat \<Rightarrow> string \<Rightarrow> conn \<Rightarrow> conn" where
  "give_up t i c = goto t (Answered i None True) (forget i c)"

definition take_response :: "nat \<Rightarrow> string \<Rightarrow> nat \<Rightarrow> proxy_response option \<Rightarrow> conn \<Rightarrow> conn" where
  "take_response t i ch r c = goto t (Answered i r (r = None)) (forget i (c\<lparr>cn_chan := (cn_chan c)(ch := None)\<rparr>))"

text \<open>A non-blocking send on a one-slot channel.\<close>

definition offer :: "nat \<Rightarrow> proxy_response option \<Rightarrow> (nat \<Rightarrow> proxy_response option option) \<Rightarrow> nat \<Rightarrow> proxy_response option option" where
  "offer ch r h = (if h ch = None then h(ch := Some r) else h)"

text \<open>\<open>Close\<close>: the flag and the channel first, then the wake-up of every pending request.\<close>

definition close_mark :: "conn \<Rightarrow> conn" where
  "close_mark c = c\<lparr>cn_closed := True\<rparr>"

definition close_broadcast :: "conn \<Rightarrow> conn" where
  "close_broadcast c = c\<lparr>cn_chan := fold (\<lambda>(i, ch) h. offer ch None h) (cn_pending c) (cn_chan c), cn_broadcast := True\<rparr>"

text \<open>A response that arrives on the stream.\<close>

definition deliver :: "wire_response \<Rightarrow> conn \<Rightarrow> conn" where
  "deliver w c =
     (case map_of (cn_pending c) (wr_id w) of
        None \<Rightarrow> c
      | Some ch \<Rightarrow> c\<lparr>cn_pending := drop_key (wr_id w) (cn_pending c),
                     cn_chan := offer ch (Some (response_of w)) (cn_chan c)\<rparr>)"

inductive conn_step :: "conn \<Rightarrow> conn \<Rightarrow> bool" where
  Check: "cn_req c t = Idle \<Longrightarrow> cn_closed c = cn_broadcast c \<Longrightarrow> conn_step c (check_closed t c)"
| Register: "cn_req c t = Checked \<Longrightarrow> i \<notin> set (cn_ids c) \<Longrightarrow> i \<noteq> [] \<Longrightarrow> conn_step c (register_request t i c)"
| Send: "cn_req c t = Registered i ch \<Longrightarrow> cn_closed c \<or> length (cn_queue c) < send_capacity \<Longrightarrow>
    conn_step c (send_message t i ch pr c)"
| CancelSend: "cn_req c t = Registered i ch \<Longrightarrow> conn_step c (give_up t i c)"
| CancelWait: "cn_req c t = Waiting i ch \<Longrightarrow> conn_step c (give_up t i c)"
| Receive: "cn_req c t = Waiting i ch \<Longrightarrow> cn_chan c ch = Some r \<Longrightarrow> conn_step c (take_response t i ch r c)"
| CloseMark: "\<not> cn_closed c \<Longrightarrow> conn_step c (close_mark c)"
| CloseBroadcast: "cn_closed c \<Longrightarrow> \<not> cn_broadcast c \<Longrightarrow> conn_step c (close_broadcast c)"
| Drain: "cn_queue c = m # ms \<Longrightarrow> conn_step c (c\<lparr>cn_queue := ms, cn_sent := cn_sent c @ [m]\<rparr>)"
| Deliver: "conn_step c (deliver w c)"

inductive_cases conn_stepE: "conn_step c c'"

inductive reachable_conn :: "conn \<Rightarrow> bool" where
  init: "reachable_conn (new_conn hostname remoteAddr)"
| step: "reachable_conn c \<Longrightarrow> conn_step c c' \<Longrightarrow> reachable_conn c'"

lemmas conn_defs = goto_def forget_def check_closed_def register_request_def send_message_def give_up_def
  take_response_def close_mark_def close_broadcast_def deliver_def

section \<open>The invariant\<close>

text \<open>A request between registration and answer, with its id and channel.\<close>

fun active :: "pc \<Rightarrow> string \<Rightarrow> nat \<Rightarrow> bool" where
  "active (Registered i ch) j ch' = (i = j \<and> ch = ch')"
| "active (Waiting i ch) j ch' = (i = j \<and> ch = ch')"
| "active _ _ _ = False"

fun pc_id :: "pc \<Rightarrow> string option" where
  "pc_id (Registered i ch) = Some i"
| "pc_id (Waiting i ch) = Some i"
| "pc_id (Answered i r b) = (if i = [] then None else Some i)"
| "pc_id (Panicked i) = Some i"
| "pc_id _ = None"

definition ids_inv :: "conn \<Rightarrow> bool" where
  "ids_inv c \<longleftrightarrow> [] \<notin> set (cn_ids c) \<and> (\<forall>t i. pc_id (cn_req c t) = Some i \<longrightarrow> i \<in> set (cn_ids c)) \<and>
     (\<forall>t u i. pc_id (cn_req c t) = Some i \<longrightarrow> pc_id (cn_req c u) = Some i \<longrightarrow> t = u)"

definition chan_inv :: "conn \<Rightarrow> bool" where
  "chan_inv c \<longleftrightarrow>
     (\<forall>t i ch. active (cn_req c t) i ch \<longrightarrow> ch < cn_next c) \<and>
     (\<forall>t u i j ch. active (cn_req c t) i ch \<longrightarrow> active (cn_req c u) j ch \<longrightarrow> t = u)"

definition pending_inv :: "conn \<Rightarrow> bool" where
  "pending_inv c \<longleftrightarrow> distinct (map fst (cn_pending c)) \<and>
     (\<forall>i ch. (i, ch) \<in> set (cn_pending c) \<longrightarrow> (\<exists>t. active (cn_req c t) i ch))"

definition slot_inv :: "conn \<Rightarrow> bool" where
  "slot_inv c \<longleftrightarrow> (\<forall>t i ch. active (cn_req c t) i ch \<longrightarrow>
     ((i, ch) \<in> set (cn_pending c) \<or> cn_chan c ch \<noteq> None) \<and>
     (\<forall>r. cn_chan c ch = Some (Some r) \<longrightarrow> ps_id r = i))"

definition answer_inv :: "conn \<Rightarrow> bool" where
  "answer_inv c \<longleftrightarrow> (\<forall>t i r b. cn_req c t = Answered i r b \<longrightarrow> b = (r = None) \<and> (\<forall>x. r = Some x \<longrightarrow> ps_id x = i \<and> i \<noteq> []))"

definition close_inv :: "conn \<Rightarrow> bool" where
  "close_inv c \<longleftrightarrow> (cn_broadcast c \<longrightarrow> cn_closed c \<and> (\<forall>t i ch. cn_req c t = Waiting i ch \<longrightarrow> cn_chan c ch \<noteq> None))"

definition conn_inv :: "conn \<Rightarrow> bool" where
  "conn_inv c \<longleftrightarrow> ids_inv c \<and> chan_inv c \<and> pending_inv c \<and> slot_inv c \<and> answer_inv c \<and> close_inv c"

lemma conn_inv_new: "conn_inv (new_conn h a)"
  by (simp add: conn_inv_def new_conn_def ids_inv_def chan_inv_def pending_inv_def slot_inv_def answer_inv_def close_inv_def)

lemma goto_req [simp]: "cn_req (goto t p c) = (cn_req c)(t := p)"
  by (simp add: goto_def)

lemma goto_simps [simp]:
  "cn_pending (goto t p c) = cn_pending c" "cn_chan (goto t p c) = cn_chan c" "cn_next (goto t p c) = cn_next c"
  "cn_closed (goto t p c) = cn_closed c" "cn_broadcast (goto t p c) = cn_broadcast c" "cn_ids (goto t p c) = cn_ids c"
  "cn_queue (goto t p c) = cn_queue c" "cn_sent (goto t p c) = cn_sent c"
  by (simp_all add: goto_def)

lemma forget_simps [simp]:
  "cn_pending (forget i c) = drop_key i (cn_pending c)" "cn_chan (forget i c) = cn_chan c" "cn_next (forget i c) = cn_next c"
  "cn_closed (forget i c) = cn_closed c" "cn_broadcast (forget i c) = cn_broadcast c" "cn_ids (forget i c) = cn_ids c"
  "cn_queue (forget i c) = cn_queue c" "cn_sent (forget i c) = cn_sent c" "cn_req (forget i c) = cn_req c"
  by (simp_all add: forget_def)

lemma active_id: "active p i ch \<Longrightarrow> pc_id p = Some i"
  by (cases p) auto

section \<open>Every step keeps the invariant\<close>

lemma conn_invD:
  assumes "conn_inv c"
  shows "[] \<notin> set (cn_ids c)" "pc_id (cn_req c t) = Some i \<Longrightarrow> i \<in> set (cn_ids c)"
    "pc_id (cn_req c t) = Some i \<Longrightarrow> pc_id (cn_req c u) = Some i \<Longrightarrow> t = u"
    "active (cn_req c t) i ch \<Longrightarrow> ch < cn_next c"
    "active (cn_req c t) i ch \<Longrightarrow> active (cn_req c u) j ch \<Longrightarrow> t = u"
    "distinct (map fst (cn_pending c))"
    "(i, ch) \<in> set (cn_pending c) \<Longrightarrow> \<exists>t. active (cn_req c t) i ch"
    "active (cn_req c t) i ch \<Longrightarrow> (i, ch) \<in> set (cn_pending c) \<or> cn_chan c ch \<noteq> None"
    "active (cn_req c t) i ch \<Longrightarrow> cn_chan c ch = Some (Some x) \<Longrightarrow> ps_id x = i"
    "cn_req c t = Answered i r b \<Longrightarrow> b = (r = None)"
    "cn_req c t = Answered i (Some x) b \<Longrightarrow> ps_id x = i"
    "cn_req c t = Answered i (Some x) b \<Longrightarrow> i \<noteq> []"
    "cn_broadcast c \<Longrightarrow> cn_closed c"
    "cn_broadcast c \<Longrightarrow> cn_req c t = Waiting i ch \<Longrightarrow> cn_chan c ch \<noteq> None"
  using assms by (auto simp: conn_inv_def ids_inv_def chan_inv_def pending_inv_def slot_inv_def answer_inv_def close_inv_def)

lemma conn_invI:
  assumes "[] \<notin> set (cn_ids c)" "\<And>t i. pc_id (cn_req c t) = Some i \<Longrightarrow> i \<in> set (cn_ids c)"
    "\<And>t u i. pc_id (cn_req c t) = Some i \<Longrightarrow> pc_id (cn_req c u) = Some i \<Longrightarrow> t = u"
    "\<And>t i ch. active (cn_req c t) i ch \<Longrightarrow> ch < cn_next c"
    "\<And>t u i j ch. active (cn_req c t) i ch \<Longrightarrow> active (cn_req c u) j ch \<Longrightarrow> t = u"
    "distinct (map fst (cn_pending c))"
    "\<And>i ch. (i, ch) \<in> set (cn_pending c) \<Longrightarrow> \<exists>t. active (cn_req c t) i ch"
    "\<And>t i ch. active (cn_req c t) i ch \<Longrightarrow> (i, ch) \<in> set (cn_pending c) \<or> cn_chan c ch \<noteq> None"
    "\<And>t i ch x. active (cn_req c t) i ch \<Longrightarrow> cn_chan c ch = Some (Some x) \<Longrightarrow> ps_id x = i"
    "\<And>t i r b. cn_req c t = Answered i r b \<Longrightarrow> b = (r = None)"
    "\<And>t i x b. cn_req c t = Answered i (Some x) b \<Longrightarrow> ps_id x = i \<and> i \<noteq> []"
    "cn_broadcast c \<Longrightarrow> cn_closed c"
    "\<And>t i ch. cn_broadcast c \<Longrightarrow> cn_req c t = Waiting i ch \<Longrightarrow> cn_chan c ch \<noteq> None"
  shows "conn_inv c"
  unfolding conn_inv_def ids_inv_def chan_inv_def pending_inv_def slot_inv_def answer_inv_def close_inv_def
  using assms by (intro conjI allI impI) (auto 0 3 intro: assms)

text \<open>Leaving: the request ends, forgets its id and touches at most its own channel.\<close>

lemma leave_inv:
  assumes inv: "conn_inv c" and t: "active (cn_req c t) i ch" and p: "\<And>j ch. \<not> active p j ch" "pc_id p = Some i"
    and ans: "\<And>j r b. p = Answered j r b \<Longrightarrow> b = (r = None) \<and> (\<forall>x. r = Some x \<longrightarrow> ps_id x = j)"
    and h: "\<And>k. k \<noteq> ch \<Longrightarrow> h k = cn_chan c k"
  shows "conn_inv (goto t p (forget i (c\<lparr>cn_chan := h\<rparr>)))"
proof (rule conn_invI)
  note D = conn_invD [OF inv]
  have ti: "pc_id (cn_req c t) = Some i" using t by (rule active_id)
  let ?c = "goto t p (forget i (c\<lparr>cn_chan := h\<rparr>))"
  have ni: "i \<noteq> []" using D(1) D(2) [OF ti] by metis
  show "[] \<notin> set (cn_ids ?c)" using D(1) by simp
  have ID: "pc_id (cn_req ?c u) = pc_id (cn_req c u)" for u using ti p(2) by simp
  show "pc_id (cn_req ?c u) = Some j \<Longrightarrow> j \<in> set (cn_ids ?c)" for u j
    using D(2) [of u j] unfolding ID by simp
  show "pc_id (cn_req ?c u) = Some j \<Longrightarrow> pc_id (cn_req ?c v) = Some j \<Longrightarrow> u = v" for u v j
    using D(3) [of u j v] unfolding ID .
  have other: "u \<noteq> t \<and> active (cn_req c u) j k \<and> j \<noteq> i \<and> k \<noteq> ch" if a: "active (cn_req ?c u) j k" for u j k
  proof -
    have ut: "u \<noteq> t" using a p(1) by auto
    then have old: "active (cn_req c u) j k" using a by simp
    have "j \<noteq> i" using D(3) [OF ti, of u] active_id [OF old] ut by auto
    moreover have "k \<noteq> ch" using D(5) [OF t, of u j] old ut by auto
    ultimately show ?thesis using ut old by simp
  qed
  show "k < cn_next ?c" if "active (cn_req ?c u) j k" for u j k
    using D(4) [of u j k] other [OF that] by simp
  show "u = v" if "active (cn_req ?c u) j k" "active (cn_req ?c v) j' k" for u v j j' k
    using D(5) [of u j k v j'] other [OF that(1)] other [OF that(2)] by blast
  show "distinct (map fst (cn_pending ?c))" using D(6) by auto
  show "\<exists>u. active (cn_req ?c u) j k" if jk: "(j, k) \<in> set (cn_pending ?c)" for j k
  proof -
    from jk D(7) [of j k] obtain u where u: "active (cn_req c u) j k" and "j \<noteq> i" by auto
    then have "u \<noteq> t" using ti active_id [OF u] by auto
    with u show ?thesis by (intro exI [of _ u]) simp
  qed
  show "(j, k) \<in> set (cn_pending ?c) \<or> cn_chan ?c k \<noteq> None" if "active (cn_req ?c u) j k" for u j k
    using other [OF that] D(8) [of u j k] h [of k] by simp
  show "ps_id x = j" if "active (cn_req ?c u) j k" "cn_chan ?c k = Some (Some x)" for u j k x
    using other [OF that(1)] D(9) [of u j k x] h [of k] that(2) by simp
  show "cn_req ?c u = Answered j r b \<Longrightarrow> b = (r = None)" for u j r b
    using D(10) [of u j r b] ans by (auto split: if_splits)
  show "cn_req ?c u = Answered j (Some x) b \<Longrightarrow> ps_id x = j \<and> j \<noteq> []" for u j x b
    using D(11,12) [of u j x b] ans [of j "Some x" b] p(2) ni by (auto split: if_splits)
  show "cn_broadcast ?c \<Longrightarrow> cn_closed ?c" using D(13) by simp
  show "cn_chan ?c k \<noteq> None" if w: "cn_broadcast ?c" "cn_req ?c u = Waiting j k" for u j k
  proof -
    have "active (cn_req ?c u) j k" using w(2) by simp
    note O = other [OF this]
    then have "cn_req c u = Waiting j k" using w(2) by simp
    then show ?thesis using D(14) [of u j k] O h [of k] w(1) by simp
  qed
qed


text \<open>Staying: no request enters or leaves the pending phase.\<close>

lemma stay_inv:
  assumes inv: "conn_inv c" and P: "\<And>u. pc_id (cn_req d u) = pc_id (cn_req c u)" "\<And>u. active (cn_req d u) = active (cn_req c u)"
    and "cn_ids d = cn_ids c" and "cn_next d = cn_next c"
    and ans: "\<And>u i r b. cn_req d u = Answered i r b \<Longrightarrow> cn_req c u = Answered i r b \<or> r = None \<and> b"
    and pend: "distinct (map fst (cn_pending d))" "set (cn_pending d) \<subseteq> set (cn_pending c)"
    and slot: "\<And>u i ch. active (cn_req c u) i ch \<Longrightarrow> (i, ch) \<in> set (cn_pending d) \<or> cn_chan d ch \<noteq> None"
    and own: "\<And>u i ch x. active (cn_req c u) i ch \<Longrightarrow> cn_chan d ch = Some (Some x) \<Longrightarrow> ps_id x = i"
    and cls: "cn_broadcast d \<Longrightarrow> cn_closed d"
      "\<And>u i ch. cn_broadcast d \<Longrightarrow> cn_req d u = Waiting i ch \<Longrightarrow> cn_chan d ch \<noteq> None"
  shows "conn_inv d"
proof (rule conn_invI)
  note D = conn_invD [OF inv]
  show "[] \<notin> set (cn_ids d)" using D(1) assms(4) by simp
  show "pc_id (cn_req d u) = Some j \<Longrightarrow> j \<in> set (cn_ids d)" for u j using D(2) [of u j] P(1) assms(4) by simp
  show "pc_id (cn_req d u) = Some j \<Longrightarrow> pc_id (cn_req d v) = Some j \<Longrightarrow> u = v" for u v j
    using D(3) [of u j v] P(1) by simp
  show "active (cn_req d u) j k \<Longrightarrow> k < cn_next d" for u j k using D(4) [of u j k] P(2) assms(5) by simp
  show "active (cn_req d u) j k \<Longrightarrow> active (cn_req d v) j' k \<Longrightarrow> u = v" for u v j j' k
    using D(5) [of u j k v j'] P(2) by simp
  show "distinct (map fst (cn_pending d))" by (rule pend)
  show "(j, k) \<in> set (cn_pending d) \<Longrightarrow> \<exists>u. active (cn_req d u) j k" for j k
    using D(7) [of j k] pend(2) P(2) by auto
  show "active (cn_req d u) j k \<Longrightarrow> (j, k) \<in> set (cn_pending d) \<or> cn_chan d k \<noteq> None" for u j k
    using slot [of u j k] P(2) by simp
  show "active (cn_req d u) j k \<Longrightarrow> cn_chan d k = Some (Some x) \<Longrightarrow> ps_id x = j" for u j k x
    using own [of u j k x] P(2) by simp
  show "cn_req d u = Answered j r b \<Longrightarrow> b = (r = None)" for u j r b
    using ans [of u j r b] D(10) [of u j r b] by auto
  show "cn_req d u = Answered j (Some x) b \<Longrightarrow> ps_id x = j \<and> j \<noteq> []" for u j x b
    using ans [of u j "Some x" b] D(11,12) [of u j x b] by auto
  show "cn_broadcast d \<Longrightarrow> cn_closed d" by (rule cls)
  show "cn_broadcast d \<Longrightarrow> cn_req d u = Waiting j k \<Longrightarrow> cn_chan d k \<noteq> None" for u j k by (rule cls(2))
qed

lemma check_inv: "conn_inv c \<Longrightarrow> cn_req c t = Idle \<Longrightarrow> conn_inv (check_closed t c)"
  by (rule stay_inv [of c]) (auto simp: check_closed_def fun_eq_iff conn_invD split: if_splits dest: conn_invD(6,8,9,13,14))

lemma send_inv:
  assumes inv: "conn_inv c" and t: "cn_req c t = Registered i ch"
  shows "conn_inv (send_message t i ch pr c)"
proof (cases "cn_closed c")
  case True
  then show ?thesis
    using leave_inv [OF inv, of t i ch "Panicked i" "cn_chan c"] t by (simp add: send_message_def)
next
  case False
  then have "\<not> cn_broadcast c" using conn_invD(13) [OF inv] by blast
  with False t show ?thesis
    by (intro stay_inv [OF inv]) (auto simp: send_message_def fun_eq_iff split: if_splits
        intro: conn_invD(6,9) [OF inv] dest: conn_invD(8) [OF inv])
qed

lemma active_nonempty: "conn_inv c \<Longrightarrow> active (cn_req c t) i ch \<Longrightarrow> i \<noteq> []"
  using conn_invD(1) [of c] conn_invD(2) [of c t i] active_id [of "cn_req c t" i ch] by auto

lemma give_up_inv: "conn_inv c \<Longrightarrow> active (cn_req c t) i ch \<Longrightarrow> conn_inv (give_up t i c)"
  using leave_inv [of c t i ch "Answered i None True" "cn_chan c"] active_nonempty [of c t i ch] by (simp add: give_up_def)

lemma take_response_inv:
  assumes inv: "conn_inv c" and t: "cn_req c t = Waiting i ch" and r: "cn_chan c ch = Some r"
  shows "conn_inv (take_response t i ch r c)"
proof -
  have a: "active (cn_req c t) i ch" using t by simp
  then have "i \<noteq> []" by (rule active_nonempty [OF inv])
  then show ?thesis
    unfolding take_response_def using conn_invD(9) [OF inv a] r
    by (intro leave_inv [OF inv a]) auto
qed

lemma close_mark_inv: "conn_inv c \<Longrightarrow> conn_inv (close_mark c)"
  by (rule stay_inv [of c]) (auto simp: close_mark_def dest: conn_invD(6,8,9,13,14))

lemma offer_apply: "offer ch r h k = (if k = ch \<and> h ch = None then Some r else h k)"
  by (simp add: offer_def)

lemma fold_offer:
  "fold (\<lambda>(i, ch) h. offer ch None h) ps h k = (if h k = None \<and> k \<in> snd ` set ps then Some None else h k)"
proof (induction ps arbitrary: h)
  case (Cons p ps)
  then show ?case by (cases p; cases "h k") (auto simp: offer_apply image_iff)
qed simp

lemma close_broadcast_inv:
  assumes inv: "conn_inv c" and "cn_closed c"
  shows "conn_inv (close_broadcast c)"
proof (rule stay_inv [OF inv])
  let ?d = "close_broadcast c"
  have chan: "cn_chan ?d k = (if cn_chan c k = None \<and> k \<in> snd ` set (cn_pending c) then Some None else cn_chan c k)" for k
    by (simp add: close_broadcast_def fold_offer)
  have full: "cn_chan ?d k \<noteq> None" if "active (cn_req c u) j k" for u j k
    using conn_invD(8) [OF inv that] by (force simp: chan)
  show "(j, k) \<in> set (cn_pending ?d) \<or> cn_chan ?d k \<noteq> None" if "active (cn_req c u) j k" for u j k
    using full [OF that] by simp
  show "ps_id x = j" if "active (cn_req c u) j k" "cn_chan ?d k = Some (Some x)" for u j k x
    using conn_invD(9) [OF inv that(1)] that(2) by (auto simp: chan split: if_splits)
  show "cn_chan ?d k \<noteq> None" if "cn_req ?d u = Waiting j k" for u j k
    using full [of u j k] that by (simp add: close_broadcast_def)
  show "distinct (map fst (cn_pending ?d))" using conn_invD(6) [OF inv] by (simp add: close_broadcast_def)
qed (simp_all add: close_broadcast_def assms(2))

lemma deliver_inv:
  assumes inv: "conn_inv c"
  shows "conn_inv (deliver w c)"
proof (cases "map_of (cn_pending c) (wr_id w)")
  case None
  then show ?thesis using inv by (simp add: deliver_def)
next
  case (Some ch)
  let ?d = "deliver w c"
  have d: "?d = c\<lparr>cn_pending := drop_key (wr_id w) (cn_pending c),
      cn_chan := offer ch (Some (response_of w)) (cn_chan c)\<rparr>"
    using Some by (simp add: deliver_def)
  have mem: "(wr_id w, ch) \<in> set (cn_pending c)" using Some by (rule map_of_SomeD)
  then obtain v where v: "active (cn_req c v) (wr_id w) ch" using conn_invD(7) [OF inv] by blast
  have chan: "cn_chan ?d k = (if k = ch \<and> cn_chan c k = None then Some (Some (response_of w)) else cn_chan c k)" for k
    by (auto simp: d offer_def)
  show ?thesis
  proof (rule stay_inv [OF inv])
    show "(j, k) \<in> set (cn_pending ?d) \<or> cn_chan ?d k \<noteq> None" if a: "active (cn_req c u) j k" for u j k
    proof (cases "j = wr_id w")
      case True
      then have "u = v" using conn_invD(3) [OF inv active_id [OF a]] active_id [OF v] by simp
      then have "k = ch" using a v by (cases "cn_req c v") auto
      then show ?thesis by (simp add: chan)
    next
      case False
      then show ?thesis using conn_invD(8) [OF inv a] by (auto simp: d chan offer_def)
    qed
    show "ps_id x = j" if a: "active (cn_req c u) j k" and x: "cn_chan ?d k = Some (Some x)" for u j k x
    proof (cases "k = ch \<and> cn_chan c k = None")
      case True
      then have "u = v" using conn_invD(5) [OF inv v] a by auto
      then have "j = wr_id w" using active_id [OF a] active_id [OF v] by simp
      with True x show ?thesis by (auto simp: chan response_of_def)
    next
      case False
      then show ?thesis using conn_invD(9) [OF inv a] x by (auto simp: chan split: if_splits)
    qed
    show "cn_chan ?d k \<noteq> None" if "cn_broadcast ?d" "cn_req ?d u = Waiting j k" for u j k
      using conn_invD(14) [OF inv, of u j k] that by (auto simp: d offer_def)
    show "distinct (map fst (cn_pending ?d))" using conn_invD(6) [OF inv] by (auto simp: d)
    show "set (cn_pending ?d) \<subseteq> set (cn_pending c)" by (auto simp: d)
    show "cn_broadcast ?d \<Longrightarrow> cn_closed ?d" using conn_invD(13) [OF inv] by (simp add: d)
  qed (simp_all add: d)
qed

lemma drain_inv: "conn_inv c \<Longrightarrow> conn_inv (c\<lparr>cn_queue := q, cn_sent := ss\<rparr>)"
  by (rule stay_inv [of c]) (auto dest: conn_invD(6,8,9,13,14))

lemma register_inv:
  assumes inv: "conn_inv c" and t: "cn_req c t = Checked" and i: "i \<notin> set (cn_ids c)" "i \<noteq> []"
  shows "conn_inv (register_request t i c)"
proof (rule conn_invI)
  note D = conn_invD [OF inv]
  let ?d = "register_request t i c" and ?n = "cn_next c"
  have R: "cn_req ?d u = (if u = t then Registered i ?n else cn_req c u)" for u
    by (simp add: register_request_def)
  have F [simp]: "cn_pending ?d = put_key i ?n (cn_pending c)" "cn_chan ?d = (cn_chan c)(?n := None)"
    "cn_next ?d = Suc ?n" "cn_ids ?d = i # cn_ids c" "cn_closed ?d = cn_closed c" "cn_broadcast ?d = cn_broadcast c"
    by (simp_all add: register_request_def)
  have act: "u = t \<and> j = i \<and> k = ?n \<or> u \<noteq> t \<and> active (cn_req c u) j k \<and> j \<noteq> i \<and> k \<noteq> ?n \<and> k < ?n"
    if "active (cn_req ?d u) j k" for u j k
  proof (cases "u = t")
    case False
    then have old: "active (cn_req c u) j k" using that by (simp add: R)
    then show ?thesis using False D(4) [OF old] D(2) [OF active_id [OF old]] i(1) by auto
  qed (use that R in auto)
  show "[] \<notin> set (cn_ids ?d)" using D(1) i(2) by simp
  show "j \<in> set (cn_ids ?d)" if "pc_id (cn_req ?d u) = Some j" for u j
    using that D(2) [of u j] by (auto simp: R split: if_splits)
  show "u = v" if "pc_id (cn_req ?d u) = Some j" "pc_id (cn_req ?d v) = Some j" for u v j
    using that D(2) [of u j] D(2) [of v j] D(3) [of u j v] i(1) by (auto simp: R split: if_splits)
  show "k < cn_next ?d" if "active (cn_req ?d u) j k" for u j k using act [OF that] by auto
  show "u = v" if "active (cn_req ?d u) j k" "active (cn_req ?d v) j' k" for u v j j' k
    using act [OF that(1)] act [OF that(2)] D(5) [of u j k v j'] by auto
  show "distinct (map fst (cn_pending ?d))" using D(6) by (simp add: distinct_put_key)
  show "\<exists>u. active (cn_req ?d u) j k" if jk: "(j, k) \<in> set (cn_pending ?d)" for j k
  proof (cases "j = i")
    case True
    then have "active (cn_req ?d t) j k" using jk by (auto simp: R)
    then show ?thesis ..
  next
    case False
    then obtain u where u: "active (cn_req c u) j k" using jk D(7) [of j k] by auto
    then have "u \<noteq> t" using t by auto
    with u show ?thesis by (intro exI [of _ u]) (simp add: R)
  qed
  show "(j, k) \<in> set (cn_pending ?d) \<or> cn_chan ?d k \<noteq> None" if "active (cn_req ?d u) j k" for u j k
    using act [OF that] D(8) [of u j k] by auto
  show "ps_id x = j" if "active (cn_req ?d u) j k" "cn_chan ?d k = Some (Some x)" for u j k x
    using act [OF that(1)] that(2) D(9) [of u j k x] by auto
  show "cn_req ?d u = Answered j r b \<Longrightarrow> b = (r = None)" for u j r b
    using D(10) [of u j r b] by (simp add: R split: if_splits)
  show "cn_req ?d u = Answered j (Some x) b \<Longrightarrow> ps_id x = j \<and> j \<noteq> []" for u j x b
    using D(11,12) [of u j x b] by (simp add: R split: if_splits)
  show "cn_broadcast ?d \<Longrightarrow> cn_closed ?d" using D(13) by simp
  show "cn_chan ?d k \<noteq> None" if "cn_broadcast ?d" "cn_req ?d u = Waiting j k" for u j k
    using that D(14) [of u j k] D(4) [of u j k] by (auto simp: R split: if_splits)
qed

lemma conn_step_inv: "conn_step c c' \<Longrightarrow> conn_inv c \<Longrightarrow> conn_inv c'"
  by (induction rule: conn_step.induct)
    (simp_all add: check_inv register_inv send_inv give_up_inv take_response_inv close_mark_inv
      close_broadcast_inv deliver_inv drain_inv)

lemma reachable_conn_inv: "reachable_conn c \<Longrightarrow> conn_inv c"
  by (induction rule: reachable_conn.induct) (auto intro: conn_inv_new conn_step_inv)

end
