(* ===== verification/GrpcClaims.thy ===== *)
theory GrpcClaims
  imports GrpcConn
begin

text \<open>
  The properties of a tunnel connection, over every interleaving of requests, responses and
  \<open>Close\<close>: answers belong to their requests, the send buffer is bounded, nothing stays
  blocked after \<open>Close\<close>, and a request can still meet the closed channel.
\<close>

section \<open>Answers\<close>

text \<open>
  C6. Whatever the interleaving and whatever the client sends, the response a request
  returns carries the id that request registered, it is returned with \<open>closed = false\<close>, and
  no two requests return a response to the same id.
\<close>

theorem answers_match_requests:
  assumes "reachable_conn c" and "cn_req c t = Answered i (Some x) b"
  shows "ps_id x = i \<and> \<not> b \<and> (\<forall>u j y b'. u \<noteq> t \<longrightarrow> cn_req c u = Answered j (Some y) b' \<longrightarrow> j \<noteq> i)"
proof -
  note D = conn_invD [OF reachable_conn_inv [OF assms(1)]]
  have "i \<noteq> []" using D(12) [OF assms(2)] .
  then have ti: "pc_id (cn_req c t) = Some i" using assms(2) by simp
  have "j \<noteq> i" if "u \<noteq> t" "cn_req c u = Answered j (Some y) b'" for u j y b'
    using D(3) [OF ti, of u] D(12) [OF that(2)] that by auto
  then show ?thesis using D(10,11) [OF assms(2)] by auto
qed

text \<open>One request, answered, for the witnesses.\<close>

definition demo_pr :: proxy_request where
  "demo_pr = \<lparr>pq_id = [], pq_method = ''GET'', pq_path = ''/'', pq_query = [],
     pq_headers = [(''Accept'', [''a'', ''b'']), (''Empty'', [])], pq_body = []\<rparr>"

definition demo_reply :: wire_response where
  "demo_reply = \<lparr>wr_id = ''u1'', wr_status = 200, wr_headers = [(''x-a'', ''1'')], wr_body = ''ok''\<rparr>"

definition demo_waiting :: conn where
  "demo_waiting = send_message 0 ''u1'' 0 demo_pr (register_request 0 ''u1'' (check_closed 0 (new_conn ''h'' ''r'')))"

definition demo_answered :: conn where
  "demo_answered = take_response 0 ''u1'' 0 (Some (response_of demo_reply)) (deliver demo_reply demo_waiting)"

lemma demo_waiting_reachable: "reachable_conn demo_waiting"
proof -
  let ?c0 = "new_conn ''h'' ''r''"
  let ?c1 = "check_closed 0 ?c0"
  let ?c2 = "register_request 0 ''u1'' ?c1"
  have "conn_step ?c0 ?c1" by (rule Check) (simp_all add: new_conn_def)
  moreover have "conn_step ?c1 ?c2" by (rule Register) (simp_all add: check_closed_def new_conn_def)
  moreover have "conn_step ?c2 demo_waiting" unfolding demo_waiting_def
    by (rule Send) (simp_all add: register_request_def check_closed_def new_conn_def send_capacity_def)
  ultimately show ?thesis by (blast intro: reachable_conn.intros)
qed

lemma demo_answered_reachable: "reachable_conn demo_answered"
proof -
  let ?c = "deliver demo_reply demo_waiting"
  have "reachable_conn ?c" by (rule reachable_conn.step [OF demo_waiting_reachable Deliver])
  moreover have "conn_step ?c demo_answered" unfolding demo_answered_def
    by (rule Receive) (simp_all add: deliver_def demo_waiting_def demo_reply_def send_message_def
        register_request_def check_closed_def new_conn_def offer_def)
  ultimately show ?thesis by (rule reachable_conn.step)
qed

lemma demo_answered_pc: "cn_req demo_answered 0 = Answered ''u1'' (Some (response_of demo_reply)) False"
  by (simp add: demo_answered_def take_response_def)

theorem answers_match_requests_witness:
  "cn_req demo_answered 0 = Answered ''u1'' (Some (response_of demo_reply)) False \<and> ps_id (response_of demo_reply) = ''u1''"
  using answers_match_requests [OF demo_answered_reachable demo_answered_pc] demo_answered_pc by blast

section \<open>Bounds\<close>

lemma conn_step_queue:
  assumes "conn_step c c'" and "length (cn_queue c) \<le> send_capacity"
  shows "length (cn_queue c') \<le> send_capacity \<and> (cn_closed c \<longrightarrow> length (cn_queue c') \<le> length (cn_queue c) \<and> cn_closed c')"
  using assms
  by (cases rule: conn_step.cases)
    (auto simp: check_closed_def register_request_def send_message_def give_up_def take_response_def
      close_mark_def close_broadcast_def deliver_def split: option.splits)

text \<open>
  Back pressure: the send buffer of a connection never holds more than 64 messages, and
  once the connection is closed it stays closed and the buffer never grows again.
\<close>

theorem send_buffer_bounded:
  assumes "reachable_conn c"
  shows "length (cn_queue c) \<le> 64 \<and>
    (cn_closed c \<longrightarrow> (\<forall>d. conn_step\<^sup>*\<^sup>* c d \<longrightarrow> cn_closed d \<and> length (cn_queue d) \<le> length (cn_queue c)))"
proof -
  have cap: "length (cn_queue c) \<le> send_capacity"
    using assms
    by (induction rule: reachable_conn.induct) (auto simp: new_conn_def send_capacity_def dest: conn_step_queue)
  have "cn_closed d \<and> length (cn_queue d) \<le> length (cn_queue c)" if "cn_closed c" "conn_step\<^sup>*\<^sup>* c d" for d
    using that(2)
  proof (induction rule: rtranclp_induct)
    case base
    then show ?case using that(1) by simp
  next
    case (step d e)
    then show ?case using conn_step_queue [OF step.hyps(2)] cap by linarith
  qed
  then show ?thesis using cap by (simp add: send_capacity_def)
qed

theorem send_buffer_bounded_witness: "length (cn_queue demo_waiting) = 1 \<and> length (cn_queue demo_waiting) \<le> 64"
  using send_buffer_bounded [OF demo_waiting_reachable]
  by (simp add: demo_waiting_def send_message_def register_request_def check_closed_def new_conn_def)

section \<open>Closing\<close>

text \<open>How far a request has come; every step of its own code goes up.\<close>

fun progress :: "pc \<Rightarrow> nat" where
  "progress Idle = 0"
| "progress Checked = 1"
| "progress (Registered i ch) = 2"
| "progress (Waiting i ch) = 3"
| "progress (Answered i r b) = 4"
| "progress (Panicked i) = 4"

lemma fresh_id: "\<exists>i. i \<notin> set (xs :: string list) \<and> i \<noteq> []"
proof -
  have "infinite (UNIV :: string set)" by (rule infinite_UNIV_listI)
  then obtain i where "i \<notin> insert [] (set xs)" by (metis ex_new_if_finite finite_insert finite_set)
  then show ?thesis by auto
qed

text \<open>
  C30. \<open>Close\<close> leaves nothing blocked: once it has returned, every request that is not yet
  over has a step of its own that is enabled and takes it further, so it is over after at
  most four such steps; a request that was waiting finds a value in its channel, which is
  its response or the nil that \<open>Close\<close> put there.
\<close>

theorem close_unblocks:
  assumes "reachable_conn c" and "cn_broadcast c" and "progress (cn_req c t) < 4"
  shows "(\<exists>c'. conn_step c c' \<and> progress (cn_req c t) < progress (cn_req c' t)) \<and>
    (\<forall>i ch. cn_req c t = Waiting i ch \<longrightarrow>
       (\<exists>r. cn_chan c ch = Some r \<and> (\<forall>x. r = Some x \<longrightarrow> ps_id x = i) \<and> conn_step c (take_response t i ch r c)))"
proof -
  note D = conn_invD [OF reachable_conn_inv [OF assms(1)]]
  have closed: "cn_closed c" by (rule D(13) [OF assms(2)])
  have wait: "\<exists>r. cn_chan c ch = Some r \<and> (\<forall>x. r = Some x \<longrightarrow> ps_id x = i) \<and> conn_step c (take_response t i ch r c)"
    if w: "cn_req c t = Waiting i ch" for i ch
  proof -
    obtain r where r: "cn_chan c ch = Some r" using D(14) [OF assms(2) w] by auto
    moreover have "\<forall>x. r = Some x \<longrightarrow> ps_id x = i" using D(9) [of t i ch] w r by auto
    ultimately show ?thesis using Receive [OF w r] by blast
  qed
  have "\<exists>c'. conn_step c c' \<and> progress (cn_req c t) < progress (cn_req c' t)"
  proof (cases "cn_req c t")
    case Idle
    then show ?thesis using Check [of c t] closed assms(2) by (intro exI [of _ "check_closed t c"]) (simp add: check_closed_def)
  next
    case Checked
    obtain i where "i \<notin> set (cn_ids c)" "i \<noteq> []" using fresh_id by blast
    then show ?thesis using Register [OF Checked] Checked
      by (intro exI [of _ "register_request t i c"]) (simp add: register_request_def)
  next
    case (Registered i ch)
    then show ?thesis using Send [OF Registered, of demo_pr] closed
      by (intro exI [of _ "send_message t i ch demo_pr c"]) (simp add: send_message_def)
  next
    case (Waiting i ch)
    then obtain r where "conn_step c (take_response t i ch r c)" using wait by blast
    then show ?thesis using Waiting by (intro exI [of _ "take_response t i ch r c"]) (simp add: take_response_def)
  qed (use assms(3) in simp_all)
  with wait show ?thesis by blast
qed

theorem close_unblocks_witness:
  "let c = close_broadcast (close_mark demo_waiting) in cn_broadcast c \<and> (\<exists>c'. conn_step c c' \<and> 3 < progress (cn_req c' 0))"
proof -
  let ?c = "close_broadcast (close_mark demo_waiting)"
  have w: "cn_req demo_waiting 0 = Waiting ''u1'' 0" "\<not> cn_closed demo_waiting" "\<not> cn_broadcast demo_waiting"
    by (simp_all add: demo_waiting_def send_message_def register_request_def check_closed_def new_conn_def)
  have "conn_step demo_waiting (close_mark demo_waiting)" using w by (intro CloseMark) simp
  moreover have "conn_step (close_mark demo_waiting) ?c"
    using w by (intro CloseBroadcast) (simp_all add: close_mark_def)
  ultimately have r: "reachable_conn ?c" using demo_waiting_reachable by (blast intro: reachable_conn.step)
  have "cn_broadcast ?c" "cn_req ?c 0 = Waiting ''u1'' 0" using w by (simp_all add: close_broadcast_def close_mark_def)
  then show ?thesis using close_unblocks [OF r, of 0] by (auto simp: Let_def)
qed

text \<open>
  The race that is left: on any open connection a request that has not started can pass
  the closed check, register, and reach its send after \<open>Close\<close> has closed the channel; the
  send then panics instead of returning \<open>closed = true\<close>.
\<close>

theorem enqueue_can_panic:
  assumes "\<not> cn_closed c" and "\<not> cn_broadcast c" and "cn_req c t = Idle"
  shows "\<exists>d i. conn_step\<^sup>*\<^sup>* c d \<and> cn_req d t = Panicked i"
proof -
  obtain i where i: "i \<notin> set (cn_ids c)" "i \<noteq> []" using fresh_id by blast
  let ?c1 = "check_closed t c"
  let ?c2 = "register_request t i ?c1"
  let ?c3 = "close_mark ?c2"
  let ?c4 = "send_message t i (cn_next ?c1) demo_pr ?c3"
  have "conn_step c ?c1" using assms by (intro Check) simp_all
  moreover have "conn_step ?c1 ?c2"
    using assms i by (intro Register) (simp_all add: check_closed_def)
  moreover have "conn_step ?c2 ?c3"
    using assms by (intro CloseMark) (simp add: check_closed_def register_request_def)
  moreover have "conn_step ?c3 ?c4"
    using assms by (intro Send) (simp_all add: close_mark_def register_request_def)
  ultimately have "conn_step\<^sup>*\<^sup>* c ?c4" by (blast intro: converse_rtranclp_into_rtranclp)
  moreover have "cn_req ?c4 t = Panicked i" by (simp add: send_message_def close_mark_def)
  ultimately show ?thesis by blast
qed

theorem enqueue_can_panic_witness: "\<exists>d i. conn_step\<^sup>*\<^sup>* (new_conn ''h'' ''r'') d \<and> cn_req d 0 = Panicked i"
  by (rule enqueue_can_panic) (simp_all add: new_conn_def)

end
