(* ===== verification/Registry.thy ===== *)
theory Registry
  imports GrpcClaims
begin

text \<open>
  The table of live tunnels: \<open>Registry\<close> of internal/server/registry.go, hostname to
  connection. Connections are objects shared with their handler, so the table holds
  references into a heap of connections; the interface \<open>live_table\<close> is what the callers
  rely on.
\<close>

record hub =
  hb_tunnels :: "(string \<times> nat) list"
  hb_conns :: "nat \<Rightarrow> conn"
  hb_next :: nat

definition NewRegistry :: hub where
  "NewRegistry = \<lparr>hb_tunnels = [], hb_conns = (\<lambda>_. new_conn [] []), hb_next = 0\<rparr>"

text \<open>Allocating a connection object.\<close>

definition alloc :: "conn \<Rightarrow> hub \<Rightarrow> nat \<times> hub" where
  "alloc c h = (hb_next h, h\<lparr>hb_conns := (hb_conns h)(hb_next h := c), hb_next := Suc (hb_next h)\<rparr>)"

definition close_conn :: "conn \<Rightarrow> conn" where
  "close_conn c = (if cn_closed c then c else close_broadcast (close_mark c))"

definition close_at :: "nat \<Rightarrow> hub \<Rightarrow> hub" where
  "close_at i h = h\<lparr>hb_conns := (hb_conns h)(i := close_conn (hb_conns h i))\<rparr>"

definition Get :: "hub \<Rightarrow> string \<Rightarrow> nat option" where
  "Get h hostname = map_of (hb_tunnels h) hostname"

definition Register_conn :: "hub \<Rightarrow> string \<Rightarrow> nat \<Rightarrow> hub" where
  "Register_conn h hostname i =
     (let h1 = (case Get h hostname of Some old \<Rightarrow> close_at old h | None \<Rightarrow> h)
      in h1\<lparr>hb_tunnels := put_key hostname i (hb_tunnels h1)\<rparr>)"

definition RegisterIfAbsent :: "hub \<Rightarrow> string \<Rightarrow> nat \<Rightarrow> bool \<times> hub" where
  "RegisterIfAbsent h hostname i =
     (case Get h hostname of
        Some _ \<Rightarrow> (False, h)
      | None \<Rightarrow> (True, h\<lparr>hb_tunnels := put_key hostname i (hb_tunnels h)\<rparr>))"

definition Unregister :: "hub \<Rightarrow> string \<Rightarrow> hub" where
  "Unregister h hostname =
     (case Get h hostname of
        Some i \<Rightarrow> (close_at i h)\<lparr>hb_tunnels := drop_key hostname (hb_tunnels h)\<rparr>
      | None \<Rightarrow> h)"

definition Disconnect :: "hub \<Rightarrow> string \<Rightarrow> bool \<times> hub" where
  "Disconnect h hostname =
     (case Get h hostname of
        Some i \<Rightarrow> (True, (close_at i h)\<lparr>hb_tunnels := drop_key hostname (hb_tunnels h)\<rparr>)
      | None \<Rightarrow> (False, h))"

definition List_live :: "hub \<Rightarrow> (string \<times> string) list" where
  "List_live h = map (\<lambda>(hostname, i). (hostname, cn_remote (hb_conns h i))) (hb_tunnels h)"

section \<open>The interface\<close>

locale live_table =
  fixes get :: "'s \<Rightarrow> string \<Rightarrow> 'c option"
    and claim :: "'s \<Rightarrow> string \<Rightarrow> 'c \<Rightarrow> bool \<times> 's"
    and release :: "'s \<Rightarrow> string \<Rightarrow> 's"
  assumes claim_free: "get s h = None \<Longrightarrow> fst (claim s h c) \<and> get (snd (claim s h c)) k = (if k = h then Some c else get s k)"
    and claim_busy: "get s h = Some d \<Longrightarrow> claim s h c = (False, s)"
    and release_get: "get (release s h) k = (if k = h then None else get s k)"
begin

text \<open>What a caller does with the table.\<close>

fun run :: "(string \<times> 'c option) list \<Rightarrow> 's \<Rightarrow> 's" where
  "run [] s = s"
| "run ((h, Some c) # ops) s = run ops (snd (claim s h c))"
| "run ((h, None) # ops) s = run ops (release s h)"

text \<open>A claim of a free name holds until the name is released, whatever else happens.\<close>

lemma claim_holds:
  assumes "get s h = Some c" and "(h, None) \<notin> set ops"
  shows "get (run ops s) h = Some c"
  using assms
proof (induction ops s rule: run.induct)
  case (2 k d ops s)
  have "get (snd (claim s k d)) h = Some c"
  proof (cases "get s k")
    case None
    then show ?thesis using claim_free [OF None, of d h] 2(2) by auto
  next
    case (Some e)
    then show ?thesis using claim_busy [OF Some] 2(2) by simp
  qed
  then show ?case using 2 by simp
next
  case (3 k ops s)
  then have "k \<noteq> h" by auto
  then show ?case using 3 by (simp add: release_get)
qed simp

lemma second_claim_fails:
  assumes "get s h = None" and "(h, None) \<notin> set ops"
  shows "\<not> fst (claim (run ops (snd (claim s h c))) h d) \<and> get (run ops (snd (claim s h c))) h = Some c"
proof -
  have "get (snd (claim s h c)) h = Some c" using claim_free [OF assms(1), of c h] by simp
  then have "get (run ops (snd (claim s h c))) h = Some c" by (rule claim_holds [OF _ assms(2)])
  then show ?thesis using claim_busy by simp
qed

end

lemma Get_close_at [simp]: "Get (close_at i h) = Get h"
  by (rule ext) (simp add: Get_def close_at_def)

interpretation live: live_table Get RegisterIfAbsent Unregister
proof
  fix h hostname i k d
  show "Get h hostname = None \<Longrightarrow> fst (RegisterIfAbsent h hostname i) \<and>
      Get (snd (RegisterIfAbsent h hostname i)) k = (if k = hostname then Some i else Get h k)"
    by (simp add: RegisterIfAbsent_def Get_def)
  show "Get h hostname = Some d \<Longrightarrow> RegisterIfAbsent h hostname i = (False, h)"
    by (simp add: RegisterIfAbsent_def)
  show "Get (Unregister h hostname) k = (if k = hostname then None else Get h k)"
    by (auto simp: Unregister_def Get_def split: option.split)
qed

section \<open>Facts\<close>

lemma close_conn_closed: "cn_closed (close_conn c)"
  by (simp add: close_conn_def close_broadcast_def close_mark_def)

lemma close_conn_idem [simp]: "close_conn (close_conn c) = close_conn c"
  using close_conn_closed [of c] by (simp add: close_conn_def)

lemma close_conn_reachable:
  assumes "reachable_conn c"
  shows "reachable_conn (close_conn c)"
proof (cases "cn_closed c")
  case False
  then have b: "\<not> cn_broadcast c" using conn_invD(13) [OF reachable_conn_inv [OF assms]] by blast
  have "reachable_conn (close_mark c)" using assms CloseMark [OF False] by (rule reachable_conn.step)
  moreover have "conn_step (close_mark c) (close_broadcast (close_mark c))"
    using b by (intro CloseBroadcast) (simp_all add: close_mark_def)
  ultimately have "reachable_conn (close_broadcast (close_mark c))" by (rule reachable_conn.step)
  then show ?thesis using False by (simp add: close_conn_def)
qed (use assms in \<open>simp add: close_conn_def\<close>)

lemma close_at_other [simp]: "j \<noteq> i \<Longrightarrow> hb_conns (close_at i h) j = hb_conns h j"
  by (simp add: close_at_def)

lemma close_at_same [simp]: "hb_conns (close_at i h) i = close_conn (hb_conns h i)"
  by (simp add: close_at_def)

lemma Disconnect_spec:
  "Get (snd (Disconnect h hostname)) k = (if k = hostname then None else Get h k) \<and>
   (fst (Disconnect h hostname) \<longleftrightarrow> Get h hostname \<noteq> None) \<and>
   (\<forall>i. Get h hostname = Some i \<longrightarrow> cn_closed (hb_conns (snd (Disconnect h hostname)) i))"
  by (auto simp: Disconnect_def Get_def close_conn_closed split: option.split)

lemma List_live_keys: "map_of (List_live h) hostname = map_option (\<lambda>i. cn_remote (hb_conns h i)) (Get h hostname)"
proof -
  have "map_of (map (\<lambda>(k, i). (k, f i)) al) hostname = map_option f (map_of al hostname)" for f :: "nat \<Rightarrow> string" and al
    by (induction al) auto
  then show ?thesis by (simp add: List_live_def Get_def)
qed

end
