(* ===== verification/GrpcServer.thy ===== *)
theory GrpcServer
  imports Registry StoreUsers
begin

text \<open>
  The tunnel service of internal/server/grpc_tunnel.go: \<open>Connect\<close> from the first message to
  the acknowledgement, its deferred teardown, and the messages it routes to its connection.
  The world of these operations is the store with the table of live tunnels.
\<close>

record world =
  wd_store :: store
  wd_hub :: hub

record registration =
  rg_tunnel :: string
  rg_local :: string

datatype ack = AckOk | AckError string

text \<open>What a running \<open>Connect\<close> remembers for its teardown.\<close>

record stream =
  st_conn :: nat
  st_host :: string
  st_tunnel :: string
  st_agent :: agent_record

definition hashCredential :: "(string \<Rightarrow> string) \<Rightarrow> string \<Rightarrow> string" where
  "hashCredential H raw = H (trim_space raw)"

text \<open>The token of the \<open>authorization\<close> metadata: only the first value counts.\<close>

definition metadata_token :: "string list \<Rightarrow> string" where
  "metadata_token vs =
     (case vs of
        v # _ \<Rightarrow> if 7 < length v \<and> equal_fold (take 7 v) ''Bearer '' then trim_space (drop 7 v) else []
      | [] \<Rightarrow> [])"

text \<open>The checks before the hostname is claimed: a reason to refuse, or agent and tunnel.\<close>

definition admit ::
  "(string \<Rightarrow> string) \<Rightarrow> store option \<Rightarrow> registration option \<Rightarrow> string list \<Rightarrow>
   string + (agent_record \<times> tunnel_record)" where
  "admit H store reg auth =
     (case reg of
        None \<Rightarrow> Inl ''first message must be Register''
      | Some r \<Rightarrow>
          (let tunnelName = trim_lower (rg_tunnel r); localURL = trim_space (rg_local r)
           in if tunnelName = [] \<or> localURL = [] then Inl ''tunnel_name and local_url required''
              else case store of
                  None \<Rightarrow> Inl ''store unavailable''
                | Some s \<Rightarrow>
                    (let token = metadata_token auth
                     in if token = [] then Inl ''unauthorized''
                        else case GetAgentByCredentialHash s (hashCredential H token) of
                            Inl _ \<Rightarrow> Inl ''unauthorized''
                          | Inr agent \<Rightarrow>
                              if gr_status agent = ''revoked'' then Inl ''unauthorized''
                              else case GetTunnelForAgent s tunnelName (gr_id agent) of
                                  Inl _ \<Rightarrow> Inl ''tunnel not assigned to this agent''
                                | Inr t \<Rightarrow> Inr (agent, t))))"

text \<open>The four statements after a successful claim; their errors are ignored.\<close>

definition announce :: "store \<Rightarrow> time \<Rightarrow> agent_record \<Rightarrow> string \<Rightarrow> string \<Rightarrow> string \<Rightarrow> string \<Rightarrow> store" where
  "announce s now agent tunnelName localURL hostname peer =
     (let s1 = snd (TouchAgent s now (gr_id agent) ''connected'');
          s2 = snd (SetTunnelDesiredState s1 now tunnelName ''running'');
          s3 = snd (UpdateTunnelStateByName s2 now tunnelName localURL ''running'' [] now)
      in snd (AddTunnelEvent s3 now hostname ''register'' (''tunnel registered from '' @ peer)))"

definition Connect ::
  "(string \<Rightarrow> string) \<Rightarrow> world \<Rightarrow> time \<Rightarrow> registration option \<Rightarrow> string list \<Rightarrow> string option \<Rightarrow>
   ack \<times> stream option \<times> world" where
  "Connect H w now reg auth peer =
     (case admit H (Some (wd_store w)) reg auth of
        Inl e \<Rightarrow> (AckError e, None, w)
      | Inr (agent, t) \<Rightarrow>
          (let tunnelName = trim_lower (rg_tunnel (the reg)); localURL = trim_space (rg_local (the reg));
               hostname = trim_lower (tr_hostname t);
               peerAddr = (case peer of Some a \<Rightarrow> a | None \<Rightarrow> ''unknown'');
               (i, hub1) = alloc (new_conn hostname peerAddr) (wd_hub w)
           in case RegisterIfAbsent hub1 hostname i of
               (False, hub2) \<Rightarrow> (AckError ''hostname_conflict: hostname already active'', None, w\<lparr>wd_hub := hub2\<rparr>)
             | (True, hub2) \<Rightarrow>
                 (AckOk, Some \<lparr>st_conn = i, st_host = hostname, st_tunnel = tunnelName, st_agent = agent\<rparr>,
                  w\<lparr>wd_hub := hub2, wd_store := announce (wd_store w) now agent tunnelName localURL hostname peerAddr\<rparr>)))"

text \<open>The deferred function: it runs when the stream ends, for whatever reason.\<close>

definition teardown :: "world \<Rightarrow> time \<Rightarrow> stream \<Rightarrow> world" where
  "teardown w now st =
     (let hub1 = Unregister (close_at (st_conn st) (wd_hub w)) (st_host st);
          s1 = snd (TouchAgent (wd_store w) now (gr_id (st_agent st)) ''offline'');
          s2 = snd (UpdateTunnelStateByName s1 now (st_tunnel st) [] ''offline'' ''stream closed'' now)
      in w\<lparr>wd_hub := hub1, wd_store := snd (AddTunnelEvent s2 now (st_host st) ''disconnect'' ''tunnel stream closed'')\<rparr>)"

text \<open>A message received on the stream after the acknowledgement.\<close>

definition route_message :: "world \<Rightarrow> stream \<Rightarrow> wire_response option \<Rightarrow> world" where
  "route_message w st msg =
     (case msg of
        None \<Rightarrow> w
      | Some m \<Rightarrow> w\<lparr>wd_hub := (wd_hub w)\<lparr>hb_conns := (hb_conns (wd_hub w))(st_conn st := deliver m (hb_conns (wd_hub w) (st_conn st)))\<rparr>\<rparr>)"

section \<open>Facts\<close>

lemma admit_accepted:
  assumes "admit H (Some s) reg auth = Inr (agent, t)"
  obtains r row trow where "reg = Some r" "trim_lower (rg_tunnel r) \<noteq> []" "trim_space (rg_local r) \<noteq> []"
    "metadata_token auth \<noteq> []" "row \<in> set (agents s)" "agent = scanAgentRecord row"
    "ag_hash row = hashCredential H (metadata_token auth)" "ag_status row \<noteq> ''revoked''"
    "trow \<in> set (tunnels s)" "t = scan_tunnel s trow" "t_name trow = trim_lower (rg_tunnel r)" "t_agent trow = ag_id row"
  using assms
  by (auto simp: admit_def Let_def GetAgentByCredentialHash_def select_agent_def GetTunnelForAgent_def select_tunnel_def
      scanAgentRecord_def split: option.splits if_splits sum.splits dest!: find_SomeD)

lemma alloc_Get [simp]: "Get (snd (alloc c h)) = Get h"
  by (rule ext) (simp add: alloc_def Get_def)

end
