(* ===== verification/GrpcServerClaims.thy ===== *)
theory GrpcServerClaims
  imports GrpcServer AccessClaims
begin

text \<open>
  The properties of the tunnel service: who gets a hostname, that it is held exclusively,
  what the end of a stream does, and two ways in which that end undoes a decision taken
  while the stream was open.
\<close>

section \<open>The table of live tunnels\<close>

text \<open>A run of claims (with a connection) and releases on the table.\<close>

fun hub_run :: "(string \<times> nat option) list \<Rightarrow> hub \<Rightarrow> hub" where
  "hub_run [] h = h"
| "hub_run ((hostname, Some i) # ops) h = hub_run ops (snd (RegisterIfAbsent h hostname i))"
| "hub_run ((hostname, None) # ops) h = hub_run ops (Unregister h hostname)"

lemma hub_run_live: "hub_run ops h = live.run ops h"
  by (induction ops h rule: hub_run.induct) simp_all

text \<open>
  C14. A hostname is held exclusively: once \<open>RegisterIfAbsent\<close> has given a free hostname to a
  connection, it stays with that connection through any claims and releases of other names
  and any further claims of its own, and every second claim is refused, until the hostname
  itself is released.
\<close>

theorem hostname_exclusive:
  fixes i :: nat
  assumes "Get h hostname = None" and "(hostname, None) \<notin> set ops"
  defines "h' \<equiv> hub_run ops (snd (RegisterIfAbsent h hostname i))"
  shows "fst (RegisterIfAbsent h hostname i) \<and> Get h' hostname = Some i \<and> \<not> fst (RegisterIfAbsent h' hostname j)"
  using live.second_claim_fails [OF assms(1,2), of i j] live.claim_free [OF assms(1), of i hostname]
  by (simp add: h'_def hub_run_live)

theorem hostname_exclusive_witness:
  "Get (hub_run [(''b'', Some 2), (''a'', Some 3), (''b'', None)] (snd (RegisterIfAbsent NewRegistry ''a'' 1))) ''a'' = Some 1"
  using hostname_exclusive [of NewRegistry "''a''" "[(''b'', Some 2), (''a'', Some 3), (''b'', None)]" 1 0]
  by (simp add: Get_def NewRegistry_def)

section \<open>Connecting\<close>

lemma AddTunnelEvent_tunnels [simp]:
  "tunnels (snd (AddTunnelEvent s now hn et msg)) = tunnels s" "agents (snd (AddTunnelEvent s now hn et msg)) = agents s"
  "fault (snd (AddTunnelEvent s now hn et msg)) = fault s" "users (snd (AddTunnelEvent s now hn et msg)) = users s"
  by (simp_all add: AddTunnelEvent_def insert_event_row_def split: sum.split)

lemma announce_tunnels:
  assumes "\<not> fault s Tunnels" and "\<not> fault s Agents"
  shows "tunnels (announce s now agent nm url hn peer) =
      update_where (\<lambda>t. t_name t = nm)
        (\<lambda>t. t\<lparr>t_local := (if url \<noteq> [] then url else t_local t), t_actual := ''running'', t_error := [],
               t_seen := format_seen now, t_updated := format_time now\<rparr>)
        (update_where (\<lambda>t. t_name t = nm) (\<lambda>t. t\<lparr>t_desired := ''running'', t_updated := format_time now\<rparr>) (tunnels s))"
    "agents (announce s now agent nm url hn peer) =
      update_where (\<lambda>a. ag_id a = gr_id agent) (\<lambda>a. a\<lparr>ag_status := ''connected'', ag_seen := format_time now\<rparr>) (agents s)"
    "fault (announce s now agent nm url hn peer) = fault s"
  using assms
  by (simp_all add: announce_def Let_def TouchAgent_def SetTunnelDesiredState_def UpdateTunnelStateByName_def
      update_agents_def update_tunnels_def)

text \<open>
  C4. \<open>Connect\<close> accepts a stream only for an agent whose credential digest is the digest of
  the bearer token, that is not revoked, and for a tunnel assigned to that agent under the
  requested name, and only when no live connection holds the tunnel's hostname; then the
  hostname is held by the new connection, all other hostnames are as before, the tunnel is
  desired and recorded as running with the offered local target, and the agent as
  connected. A refusal changes neither the store nor any hostname.
\<close>

theorem connect_sound:
  assumes "\<not> fault (wd_store w) Tunnels" and "\<not> fault (wd_store w) Agents"
    and "Connect H w now (Some reg) auth peer = (a, st, w')"
  shows "(case st of
      None \<Rightarrow> a \<noteq> AckOk \<and> wd_store w' = wd_store w \<and> Get (wd_hub w') = Get (wd_hub w)
    | Some st \<Rightarrow> a = AckOk \<and>
        (\<exists>row \<in> set (agents (wd_store w)). \<exists>t \<in> set (tunnels (wd_store w)).
           ag_hash row = H (trim_space (metadata_token auth)) \<and> metadata_token auth \<noteq> [] \<and> ag_status row \<noteq> ''revoked'' \<and>
           t_name t = trim_lower (rg_tunnel reg) \<and> t_agent t = ag_id row \<and> st_host st = trim_lower (t_hostname t) \<and>
           Get (wd_hub w) (st_host st) = None \<and>
           (\<forall>k. Get (wd_hub w') k = (if k = st_host st then Some (st_conn st) else Get (wd_hub w) k)) \<and>
           (\<forall>u \<in> set (tunnels (wd_store w')). t_name u = t_name t \<longrightarrow>
              t_desired u = ''running'' \<and> t_actual u = ''running'' \<and> t_local u = trim_space (rg_local reg)) \<and>
           (\<forall>g \<in> set (agents (wd_store w')). ag_id g = ag_id row \<longrightarrow> ag_status g = ''connected'')))"
proof (cases "admit H (Some (wd_store w)) (Some reg) auth")
  case (Inl e)
  then show ?thesis using assms(3) by (auto simp: Connect_def)
next
  case (Inr p)
  obtain agent t where p: "p = (agent, t)" by (cases p)
  obtain row trow where A: "trim_lower (rg_tunnel reg) \<noteq> []" "trim_space (rg_local reg) \<noteq> []"
    "metadata_token auth \<noteq> []" "row \<in> set (agents (wd_store w))" "agent = scanAgentRecord row"
    "ag_hash row = hashCredential H (metadata_token auth)" "ag_status row \<noteq> ''revoked''"
    "trow \<in> set (tunnels (wd_store w))" "t = scan_tunnel (wd_store w) trow" "t_name trow = trim_lower (rg_tunnel reg)"
    "t_agent trow = ag_id row"
    using admit_accepted [OF Inr [unfolded p]] by (metis option.inject)
  let ?host = "trim_lower (tr_hostname t)"
  let ?peer = "case peer of Some a \<Rightarrow> a | None \<Rightarrow> ''unknown''"
  obtain i hub1 where al: "alloc (new_conn ?host ?peer) (wd_hub w) = (i, hub1)" by fastforce
  have get1: "Get hub1 = Get (wd_hub w)" using alloc_Get [of "new_conn ?host ?peer" "wd_hub w"] by (simp add: al)
  have host: "tr_hostname t = t_hostname trow" "gr_id agent = ag_id row" using A by (simp_all add: scan_tunnel_def scanAgentRecord_def)
  show ?thesis
  proof (cases "Get (wd_hub w) ?host")
    case None
    then have claim: "RegisterIfAbsent hub1 ?host i = (True, hub1\<lparr>hb_tunnels := put_key ?host i (hb_tunnels hub1)\<rparr>)"
      by (simp add: RegisterIfAbsent_def get1)
    have st: "st = Some \<lparr>st_conn = i, st_host = ?host, st_tunnel = trim_lower (rg_tunnel reg), st_agent = agent\<rparr>"
      and a: "a = AckOk" and w': "w' = w\<lparr>wd_hub := hub1\<lparr>hb_tunnels := put_key ?host i (hb_tunnels hub1)\<rparr>,
        wd_store := announce (wd_store w) now agent (trim_lower (rg_tunnel reg)) (trim_space (rg_local reg)) ?host ?peer\<rparr>"
      using assms(3) Inr p al claim by (auto simp: Connect_def Let_def)
    have get: "Get (wd_hub w') k = (if k = ?host then Some i else Get (wd_hub w) k)" for k
      using fun_cong [OF get1, of k] by (simp add: w' Get_def)
    note N = announce_tunnels [OF assms(1,2)]
    have tun: "t_desired u = ''running'' \<and> t_actual u = ''running'' \<and> t_local u = trim_space (rg_local reg)"
      if "u \<in> set (tunnels (wd_store w'))" "t_name u = trim_lower (rg_tunnel reg)" for u
      using that A(2) by (auto simp: w' N set_update_where)
    have ag: "ag_status g = ''connected''" if "g \<in> set (agents (wd_store w'))" "ag_id g = ag_id row" for g
      using that by (auto simp: w' N set_update_where host)
    show ?thesis
      using A(3,4,6-8,10,11) None get tun ag a st host(1)
      by (auto simp: hashCredential_def intro!: bexI [of _ row] bexI [of _ trow])
  next
    case (Some j)
    then show ?thesis using assms(3) Inr p al get1 by (auto simp: Connect_def Let_def RegisterIfAbsent_def)
  qed
qed

definition demo_world :: world where
  "demo_world = \<lparr>wd_store = demo_store, wd_hub = NewRegistry\<rparr>"

definition demo_reg :: registration where
  "demo_reg = \<lparr>rg_tunnel = '' App'', rg_local = ''localhost:9''\<rparr>"

lemma demo_connect:
  "\<exists>st w'. Connect (\<lambda>x. x) demo_world 40 (Some demo_reg) [''bearer k1''] None = (AckOk, Some st, w') \<and>
     st_host st = ''app.example.com'' \<and> st_conn st = 0 \<and> gr_name (st_agent st) = ''box''"
proof -
  let ?c = "Connect (\<lambda>x. x) demo_world 40 (Some demo_reg) [''bearer k1''] None"
  have "(case ?c of (AckOk, Some st, w') \<Rightarrow>
      st_host st = ''app.example.com'' \<and> st_conn st = 0 \<and> gr_name (st_agent st) = ''box'' | _ \<Rightarrow> False)"
    by code_simp
  then show ?thesis by (auto split: prod.splits ack.splits option.splits)
qed

theorem connect_sound_witness:
  "\<exists>st w'. Connect (\<lambda>x. x) demo_world 40 (Some demo_reg) [''bearer k1''] None = (AckOk, Some st, w') \<and>
     Get (wd_hub w') ''app.example.com'' = Some 0"
proof -
  obtain st w' where c: "Connect (\<lambda>x. x) demo_world 40 (Some demo_reg) [''bearer k1''] None = (AckOk, Some st, w')"
    "st_host st = ''app.example.com''" "st_conn st = 0"
    using demo_connect by blast
  then show ?thesis using connect_sound [OF _ _ c(1)] by (auto simp: demo_world_def)
qed

section \<open>The end of a stream\<close>

lemma teardown_hub:
  "Get (wd_hub (teardown w now st)) k = (if k = st_host st then None else Get (wd_hub w) k)"
  "cn_closed (hb_conns (wd_hub (teardown w now st)) (st_conn st))"
  "Get (wd_hub w) (st_host st) = Some j \<Longrightarrow> cn_closed (hb_conns (wd_hub (teardown w now st)) j)"
  by (auto simp: teardown_def Let_def live.release_get Unregister_def close_at_def close_conn_closed Get_def
      split: option.split)

text \<open>
  The end of a stream releases its hostname and closes its connection; but it does so by
  name, so when an administrator disconnected the stream before and another connection has
  taken the hostname since, the end of the old stream closes that newer connection and
  takes the hostname away from it.
\<close>

theorem teardown_closes_successor:
  assumes "Get h hostname = Some old" and "st_conn st = old" and "st_host st = hostname"
    and "RegisterIfAbsent (snd (Disconnect h hostname)) hostname new = (True, h2)"
    and "wd_hub w = h2" and "k \<noteq> hostname"
  shows "Get (wd_hub w) hostname = Some new \<and> Get (wd_hub (teardown w now st)) hostname = None \<and>
    cn_closed (hb_conns (wd_hub (teardown w now st)) new) \<and> cn_closed (hb_conns (wd_hub (teardown w now st)) old) \<and>
    Get (wd_hub (teardown w now st)) k = Get h k"
proof -
  have d: "Get (snd (Disconnect h hostname)) l = (if l = hostname then None else Get h l)" for l
    using Disconnect_spec [of h hostname l] by blast
  have "Get h2 l = (if l = hostname then Some new else Get h l)" for l
    using live.claim_free [of "snd (Disconnect h hostname)" hostname new l] d assms(4) by simp
  then show ?thesis
    using teardown_hub [where w = w and now = now and st = st] assms by auto
qed

theorem teardown_closes_successor_witness:
  "let h = snd (RegisterIfAbsent NewRegistry ''a'' 0); h2 = snd (RegisterIfAbsent (snd (Disconnect h ''a'')) ''a'' 1);
       w = \<lparr>wd_store = demo_store, wd_hub = h2\<rparr>;
       st = \<lparr>st_conn = 0, st_host = ''a'', st_tunnel = ''app'', st_agent = scanAgentRecord (hd (agents demo_store))\<rparr>
   in Get h2 ''a'' = Some 1 \<and> Get (wd_hub (teardown w 50 st)) ''a'' = None \<and>
      cn_closed (hb_conns (wd_hub (teardown w 50 st)) 1)"
proof -
  let ?h = "snd (RegisterIfAbsent NewRegistry ''a'' 0)"
  let ?h2 = "snd (RegisterIfAbsent (snd (Disconnect ?h ''a'')) ''a'' 1)"
  let ?w = "\<lparr>wd_store = demo_store, wd_hub = ?h2\<rparr>"
  let ?st = "\<lparr>st_conn = 0, st_host = ''a'', st_tunnel = ''app'', st_agent = scanAgentRecord (hd (agents demo_store))\<rparr>"
  have "Get ?h ''a'' = Some 0" "RegisterIfAbsent (snd (Disconnect ?h ''a'')) ''a'' 1 = (True, ?h2)"
    by (simp_all add: RegisterIfAbsent_def Get_def NewRegistry_def Disconnect_def)
  then show ?thesis
    using teardown_closes_successor [of ?h "''a''" 0 ?st 1 ?h2 ?w "''b''" 50] by (simp add: Let_def)
qed

text \<open>The agent row of a credential, followed through the operations on agents.\<close>

lemma agent_by_hash_update:
  assumes "\<And>a. ag_hash (f a) = ag_hash a" and "\<not> fault s Agents"
  shows "find (\<lambda>a. ag_hash a = h) (agents (snd (update_agents P f s))) =
    map_option (\<lambda>a. if P a then f a else a) (find (\<lambda>a. ag_hash a = h) (agents s))"
  using assms(2) by (simp add: update_agents_def find_update_where [of ag_hash, OF assms(1)])

lemma find_tunnel_update:
  assumes "\<And>t. t_name (f t) = t_name t" and "\<And>t. t_agent (f t) = t_agent t"
  shows "find (\<lambda>t. t_name t = nm \<and> t_agent t = g) (update_where P f ts) =
    map_option (\<lambda>t. if P t then f t else t) (find (\<lambda>t. t_name t = nm \<and> t_agent t = g) ts)"
  by (rule find_update_where_pred) (simp add: assms)

lemma teardown_store:
  assumes "\<not> fault (wd_store w) Agents" and "\<not> fault (wd_store w) Tunnels"
  shows "agents (wd_store (teardown w now st)) =
      update_where (\<lambda>a. ag_id a = gr_id (st_agent st)) (\<lambda>a. a\<lparr>ag_status := ''offline'', ag_seen := format_time now\<rparr>) (agents (wd_store w))"
    "tunnels (wd_store (teardown w now st)) =
      update_where (\<lambda>t. t_name t = st_tunnel st)
        (\<lambda>t. t\<lparr>t_local := (if [] \<noteq> ([] :: string) then [] else t_local t), t_actual := ''offline'', t_error := ''stream closed'',
               t_seen := format_seen now, t_updated := format_time now\<rparr>) (tunnels (wd_store w))"
    "fault (wd_store (teardown w now st)) = fault (wd_store w)"
  using assms by (simp_all add: teardown_def Let_def TouchAgent_def UpdateTunnelStateByName_def update_agents_def update_tunnels_def)

text \<open>
  The end of a stream revives a revoked agent: when an agent is revoked while its stream
  is open, its credential is refused as long as the stream lasts, but the teardown writes
  the status offline over revoked, and from then on the same credential is admitted again
  for the same tunnel.
\<close>

theorem revoked_agent_returns:
  fixes t2 :: time
  assumes up: "\<not> tunnel_read_fault (wd_store w)"
    and conn: "Connect H w now (Some reg) auth peer = (AckOk, Some st, w1)"
  defines "w2 \<equiv> w1\<lparr>wd_store := snd (RevokeAgentByName (wd_store w1) t2 (gr_name (st_agent st)))\<rparr>"
  shows "admit H (Some (wd_store w2)) (Some reg) auth = Inl ''unauthorized'' \<and>
    (\<exists>agent t. admit H (Some (wd_store (teardown w2 t3 st))) (Some reg) auth = Inr (agent, t) \<and>
       gr_name agent = gr_name (st_agent st) \<and> gr_status agent = ''offline'')"
proof -
  let ?s = "wd_store w" and ?h = "hashCredential H (metadata_token auth)" and ?nm = "trim_lower (rg_tunnel reg)"
  have f: "\<not> fault ?s Agents" "\<not> fault ?s Tunnels" "\<not> fault ?s Users" using up by (auto simp: tunnel_read_fault_def)
  obtain agent t hn pa where ad: "admit H (Some ?s) (Some reg) auth = Inr (agent, t)" and st: "st_tunnel st = ?nm" "st_agent st = agent"
    and w1: "wd_store w1 = announce ?s now agent ?nm (trim_space (rg_local reg)) hn pa"
    using conn by (auto simp: Connect_def Let_def split: sum.splits prod.splits bool.splits)
  from ad obtain row trow where row: "find (\<lambda>a. ag_hash a = ?h) (agents ?s) = Some row" "agent = scanAgentRecord row"
    and trow: "find (\<lambda>t. t_name t = ?nm \<and> t_agent t = ag_id row) (tunnels ?s) = Some trow"
    and nonempty: "?nm \<noteq> []" "trim_space (rg_local reg) \<noteq> []" "metadata_token auth \<noteq> []"
    by (auto simp: admit_def Let_def GetAgentByCredentialHash_def select_agent_def GetTunnelForAgent_def select_tunnel_def
        scanAgentRecord_def split: if_splits sum.splits option.splits)
  note N = announce_tunnels [OF f(2,1), of now agent ?nm "trim_space (rg_local reg)" hn pa]
  have ids: "gr_id agent = ag_id row" "gr_name agent = ag_name row" by (simp_all add: row(2) scanAgentRecord_def)
  have f1: "fault (wd_store w1) = fault ?s" by (simp add: w1 N)
  have a1: "find (\<lambda>a. ag_hash a = ?h) (agents (wd_store w1)) = Some (row\<lparr>ag_status := ''connected'', ag_seen := format_time now\<rparr>)"
    by (simp add: w1 N find_update_where row(1) ids)
  have w2: "wd_store w2 = (wd_store w1)\<lparr>agents := update_where (\<lambda>a. ag_name a = ag_name row)
      (\<lambda>a. a\<lparr>ag_status := ''revoked'', ag_revoked := format_time t2, ag_seen := NoStamp\<rparr>) (agents (wd_store w1))\<rparr>"
    using f(1) by (simp add: w2_def RevokeAgentByName_def update_agents_def f1 st ids)
  have a2: "\<exists>r. find (\<lambda>a. ag_hash a = ?h) (agents (wd_store w2)) = Some r \<and> ag_status r = ''revoked'' \<and>
      ag_id r = ag_id row \<and> ag_name r = ag_name row"
    by (simp add: w2 find_update_where a1)
  then obtain r where r: "find (\<lambda>a. ag_hash a = ?h) (agents (wd_store w2)) = Some r" "ag_status r = ''revoked''"
    "ag_id r = ag_id row" "ag_name r = ag_name row" by blast
  have f2: "fault (wd_store w2) = fault ?s" by (simp add: w2 f1)
  have refused: "admit H (Some (wd_store w2)) (Some reg) auth = Inl ''unauthorized''"
    using nonempty f f2 r(1,2) by (simp add: admit_def Let_def GetAgentByCredentialHash_def select_agent_def scanAgentRecord_def)
  let ?s3 = "wd_store (teardown w2 t3 st)"
  have T: "agents ?s3 = update_where (\<lambda>a. ag_id a = ag_id row) (\<lambda>a. a\<lparr>ag_status := ''offline'', ag_seen := format_time t3\<rparr>) (agents (wd_store w2))"
    "fault ?s3 = fault ?s"
    using teardown_store [of w2 t3 st] f f2 by (simp_all add: st ids)
  have a3: "find (\<lambda>a. ag_hash a = ?h) (agents ?s3) = Some (r\<lparr>ag_status := ''offline'', ag_seen := format_time t3\<rparr>)"
    by (simp add: T find_update_where r)
  have "tunnels (wd_store w2) = tunnels (wd_store w1)" by (simp add: w2)
  then have "\<exists>t3. find (\<lambda>t. t_name t = ?nm \<and> t_agent t = ag_id row) (tunnels ?s3) = Some t3"
    using teardown_store(2) [of w2 t3 st] f f2 trow by (simp add: w1 N find_tunnel_update)
  then have "\<exists>agent t. admit H (Some ?s3) (Some reg) auth = Inr (agent, t) \<and> gr_name agent = ag_name row \<and> gr_status agent = ''offline''"
    using nonempty f a3 r up
    by (auto simp: admit_def Let_def GetAgentByCredentialHash_def select_agent_def scanAgentRecord_def T
        GetTunnelForAgent_def select_tunnel_def tunnel_read_fault_def)
  with refused show ?thesis by (simp add: st ids)
qed

theorem revoked_agent_returns_witness:
  "\<exists>st w1. Connect (\<lambda>x. x) demo_world 40 (Some demo_reg) [''bearer k1''] None = (AckOk, Some st, w1) \<and>
     (let w2 = w1\<lparr>wd_store := snd (RevokeAgentByName (wd_store w1) 41 ''box'')\<rparr>
      in admit (\<lambda>x. x) (Some (wd_store w2)) (Some demo_reg) [''bearer k1''] = Inl ''unauthorized'' \<and>
         \<not> isl (admit (\<lambda>x. x) (Some (wd_store (teardown w2 42 st))) (Some demo_reg) [''bearer k1'']))"
proof -
  obtain st w1 where c: "Connect (\<lambda>x. x) demo_world 40 (Some demo_reg) [''bearer k1''] None = (AckOk, Some st, w1)"
    "gr_name (st_agent st) = ''box''" using demo_connect by blast
  have up: "\<not> tunnel_read_fault (wd_store demo_world)"
    by (simp add: demo_world_def tunnel_read_fault_def)
  show ?thesis
    using revoked_agent_returns [OF up c(1), of 41 42] c by (auto simp: Let_def)
qed

end
