(* ===== verification/Mux.thy ===== *)
theory Mux
  imports Http
begin

text \<open>
  \<open>http.ServeMux\<close> for the patterns the program registers, which name neither a method nor a
  host: a pattern that ends in a slash matches the paths below it, every other one only
  itself, the longest match wins; a path that is not clean, or that only lacks the slash of
  a registered pattern, is redirected. Paths are taken as text without escapes.
\<close>

section \<open>Clean paths\<close>

fun clean_segments :: "string list \<Rightarrow> string list \<Rightarrow> string list" where
  "clean_segments acc [] = rev acc"
| "clean_segments acc (w # ws) =
     (if w = [] \<or> w = ''.'' then clean_segments acc ws
      else if w = ''..'' then clean_segments (drop 1 acc) ws
      else clean_segments (w # acc) ws)"

text \<open>\<open>cleanPath\<close> of net/http: \<open>path.Clean\<close> with the trailing slash put back.\<close>

definition clean_path :: "string \<Rightarrow> string" where
  "clean_path p =
     (let segs = clean_segments [] (split_on CHR ''/'' p); np = ''/'' @ join_with ''/'' segs
      in if segs \<noteq> [] \<and> has_suffix p ''/'' then np @ ''/'' else np)"

section \<open>Dispatch\<close>

datatype 'h route = Serve 'h | MovedTo string | NoRoute

definition pattern_matches :: "string \<Rightarrow> string \<Rightarrow> bool" where
  "pattern_matches pat p \<longleftrightarrow> (if has_suffix pat ''/'' then has_prefix p pat else p = pat)"

definition longest_match :: "(string \<times> 'h) list \<Rightarrow> string \<Rightarrow> (string \<times> 'h) option" where
  "longest_match routes p =
     fold (\<lambda>(pat, h) best. if \<not> pattern_matches pat p then best
        else case best of Some (pat', _) \<Rightarrow> if length pat' < length pat then Some (pat, h) else best
             | None \<Rightarrow> Some (pat, h)) routes None"

definition serve_mux :: "(string \<times> 'h) list \<Rightarrow> string \<Rightarrow> 'h route" where
  "serve_mux routes p =
     (let path = clean_path p; best = longest_match routes path
      in if map_option fst best \<noteq> Some path \<and> \<not> has_suffix path ''/'' \<and> path @ ''/'' \<in> fst ` set routes
         then MovedTo (path @ ''/'')
         else if path \<noteq> p then MovedTo path
         else case best of Some (pat, h) \<Rightarrow> Serve h | None \<Rightarrow> NoRoute)"

definition moved :: "request \<Rightarrow> string \<Rightarrow> 'p response" where
  "moved r target =
     (plain_response 301 NoBody)\<lparr>rs_headers := [(''Location'', target @ (if rq_query r = [] then [] else ''?'' @ rq_query r))]\<rparr>"

lemma moved_status [simp]: "rs_status (moved r t) = 301" "rs_cookies (moved r t) = []"
  by (simp_all add: moved_def plain_response_def)

section \<open>Facts\<close>

text \<open>A served request went to a registered handler whose pattern matches.\<close>

lemma longest_match_mem:
  assumes "longest_match routes p = Some (pat, h)"
  shows "(pat, h) \<in> set routes \<and> pattern_matches pat p"
proof -
  let ?step = "\<lambda>(pat, h) best. if \<not> pattern_matches pat p then best
        else case best of Some (pat', _) \<Rightarrow> if length pat' < length pat then Some (pat, h) else best
             | None \<Rightarrow> Some (pat, h)"
  have one: "?step x best \<in> {best, Some x} \<and> (?step x best = Some x \<longrightarrow> best = Some x \<or> pattern_matches (fst x) p)" for x best
    by (cases x; cases best) auto
  have "fold ?step rs best = Some (pat, h) \<Longrightarrow>
      best = Some (pat, h) \<or> ((pat, h) \<in> set rs \<and> pattern_matches pat p)" for rs best
  proof (induction rs arbitrary: best)
    case (Cons x rs)
    then have "?step x best = Some (pat, h) \<or> ((pat, h) \<in> set rs \<and> pattern_matches pat p)" by simp
    then show ?case using one [of x best] by auto
  qed simp
  then show ?thesis using assms unfolding longest_match_def by blast
qed

text \<open>No matching pattern is longer than the chosen one.\<close>

definition better :: "string \<Rightarrow> (string \<times> 'h) \<Rightarrow> (string \<times> 'h) option \<Rightarrow> (string \<times> 'h) option" where
  "better p x best = (if \<not> pattern_matches (fst x) p then best
     else case best of Some y \<Rightarrow> if length (fst y) < length (fst x) then Some x else best | None \<Rightarrow> Some x)"

lemma longest_match_better: "longest_match routes p = fold (better p) routes None"
  unfolding longest_match_def
  by (intro arg_cong2 [where f = "\<lambda>g b. fold g routes b"] ext refl)
    (auto simp: better_def split: option.splits prod.splits)

lemma better_longest:
  "fold (better p) rs best = Some y \<Longrightarrow>
    (\<forall>x. best = Some x \<longrightarrow> length (fst x) \<le> length (fst y)) \<and>
    (\<forall>x \<in> set rs. pattern_matches (fst x) p \<longrightarrow> length (fst x) \<le> length (fst y))"
proof (induction rs arbitrary: best)
  case (Cons z rs)
  then have *: "\<And>x. better p z best = Some x \<Longrightarrow> length (fst x) \<le> length (fst y)"
    "\<forall>x \<in> set rs. pattern_matches (fst x) p \<longrightarrow> length (fst x) \<le> length (fst y)"
    by fastforce+
  have "pattern_matches (fst z) p \<Longrightarrow> \<exists>x. better p z best = Some x \<and> length (fst z) \<le> length (fst x)"
    "best = Some x \<Longrightarrow> \<exists>x'. better p z best = Some x' \<and> length (fst x) \<le> length (fst x')" for x
    by (auto simp: better_def simp del: split_paired_Ex split: option.splits)
  with * show ?case by (metis (no_types, lifting) le_trans set_ConsD)
qed simp

lemma better_None:
  "fold (better p) rs best = None \<longleftrightarrow> best = None \<and> (\<forall>x \<in> set rs. \<not> pattern_matches (fst x) p)"
  by (induction rs arbitrary: best) (auto simp: better_def split: option.splits)

lemma longest_match_longest:
  "longest_match routes p = Some y \<Longrightarrow> x \<in> set routes \<Longrightarrow> pattern_matches (fst x) p \<Longrightarrow> length (fst x) \<le> length (fst y)"
  using better_longest [of p routes None y] by (simp add: longest_match_better)

lemma longest_match_None: "longest_match routes p = None \<longleftrightarrow> (\<forall>x \<in> set routes. \<not> pattern_matches (fst x) p)"
  by (simp add: longest_match_better better_None)

lemma serve_mux_served:
  "serve_mux routes p = Serve h \<Longrightarrow> clean_path p = p \<and> (\<exists>pat. (pat, h) \<in> set routes \<and> pattern_matches pat p)"
  by (auto simp: serve_mux_def Let_def split: if_splits option.splits dest: longest_match_mem)

end
