(* ===== verification/Domains.thy ===== *)
theory Domains
  imports GoStrings
begin

text \<open>
  The allowed domains: \<open>DomainStore\<close> of internal/server/domains.go, the list in memory and
  the file that keeps it, the interface \<open>domain_set\<close> its callers rely on, and the
  refinement of that interface by the list.
\<close>

section \<open>The store\<close>

text \<open>
  What \<open>os.ReadFile\<close> and \<open>json.Unmarshal\<close> make of the file: it does not exist, it cannot be
  read, it is not a JSON array, or its elements (\<open>None\<close> for one that is not a string).
\<close>

datatype domain_file = Missing | Unreadable string | Malformed string | Elements "string option list"

record domain_store =
  ds_domains :: "string list"
  ds_file :: domain_file

text \<open>
  \<open>saveLocked\<close>; \<open>disk\<close> is the outcome of \<open>os.WriteFile\<close>: nothing, or the error with what
  the failed write left of the file.
\<close>

type_synonym disk = "(string \<times> domain_file) option"

definition saveLocked :: "disk \<Rightarrow> domain_store \<Rightarrow> (string + unit) \<times> domain_store" where
  "saveLocked disk d =
     (case disk of
        None \<Rightarrow> (Inr (), d\<lparr>ds_file := Elements (map Some (ds_domains d))\<rparr>)
      | Some (e, f) \<Rightarrow> (Inl e, d\<lparr>ds_file := f\<rparr>))"

definition Load :: "domain_store \<Rightarrow> (string + unit) \<times> domain_store" where
  "Load d =
     (case ds_file d of
        Missing \<Rightarrow> (Inr (), d\<lparr>ds_domains := []\<rparr>)
      | Unreadable e \<Rightarrow> (Inl e, d)
      | Malformed e \<Rightarrow> (Inl e, d)
      | Elements es \<Rightarrow>
          (if None \<in> set es then Inl ''json: cannot unmarshal into Go value of type string'' else Inr (),
           d\<lparr>ds_domains := map (\<lambda>e. case e of Some x \<Rightarrow> x | None \<Rightarrow> []) es\<rparr>))"

definition NewDomainStore :: "domain_file \<Rightarrow> domain_store" where
  "NewDomainStore f = snd (Load \<lparr>ds_domains = [], ds_file = f\<rparr>)"

definition List_domains :: "domain_store \<Rightarrow> string list" where
  "List_domains d = ds_domains d"

definition Add :: "disk \<Rightarrow> domain_store \<Rightarrow> string \<Rightarrow> (string + unit) \<times> domain_store" where
  "Add disk d v =
     (let domain = trim_lower v
      in if domain = [] then (Inr (), d)
         else if list_ex (\<lambda>e. e = domain) (ds_domains d) then (Inr (), d)
         else saveLocked disk (d\<lparr>ds_domains := ds_domains d @ [domain]\<rparr>))"

text \<open>Only the first occurrence is removed.\<close>

fun cut_domain :: "string \<Rightarrow> string list \<Rightarrow> string list option" where
  "cut_domain x [] = None"
| "cut_domain x (e # es) = (if e = x then Some es else map_option ((#) e) (cut_domain x es))"

definition Remove :: "disk \<Rightarrow> domain_store \<Rightarrow> string \<Rightarrow> (string + unit) \<times> domain_store" where
  "Remove disk d v =
     (case cut_domain (trim_lower v) (ds_domains d) of
        Some es \<Rightarrow> saveLocked disk (d\<lparr>ds_domains := es\<rparr>)
      | None \<Rightarrow> (Inr (), d))"

section \<open>The interface\<close>

locale domain_set =
  fixes names :: "'s \<Rightarrow> string set"
    and valid :: "'s \<Rightarrow> bool"
    and add :: "'e \<Rightarrow> 's \<Rightarrow> string \<Rightarrow> 's"
    and remove :: "'e \<Rightarrow> 's \<Rightarrow> string \<Rightarrow> 's"
  assumes add_valid: "valid s \<Longrightarrow> valid (add e s v)"
    and remove_valid: "valid s \<Longrightarrow> valid (remove e s v)"
    and add_names: "valid s \<Longrightarrow> names (add e s v) = names s \<union> ({trim_lower v} - {[]})"
    and remove_names: "valid s \<Longrightarrow> names (remove e s v) = names s - {trim_lower v}"
begin

text \<open>An administrator's edits, each with what the environment did: \<open>True\<close> adds, \<open>False\<close> removes.\<close>

fun edit :: "('e \<times> bool \<times> string) list \<Rightarrow> 's \<Rightarrow> 's" where
  "edit [] s = s"
| "edit ((e, True, v) # es) s = edit es (add e s v)"
| "edit ((e, False, v) # es) s = edit es (remove e s v)"

lemma edit_valid: "valid s \<Longrightarrow> valid (edit es s)"
  by (induction es s rule: edit.induct) (simp_all add: add_valid remove_valid)

text \<open>The last edit that names a domain decides whether it is allowed.\<close>

lemma edit_names:
  "valid s \<Longrightarrow> x \<noteq> [] \<Longrightarrow>
    x \<in> names (edit es s) \<longleftrightarrow>
      (case find (\<lambda>(e, b, v). trim_lower v = x) (rev es) of Some (e, b, v) \<Rightarrow> b | None \<Rightarrow> x \<in> names s)"
  by (induction es s rule: edit.induct)
    (auto simp: add_valid remove_valid add_names remove_names find_append split: option.splits)

end

section \<open>The list implements the set\<close>

definition domains_ok :: "domain_store \<Rightarrow> bool" where
  "domains_ok d \<longleftrightarrow> distinct (ds_domains d) \<and> (\<forall>e \<in> set (ds_domains d). trim_lower e = e \<and> e \<noteq> [])"

lemma cut_domain_spec:
  "cut_domain x es = (if x \<in> set es then Some (remove1 x es) else None)"
  by (induction es) auto

lemma saveLocked_domains [simp]: "ds_domains (snd (saveLocked disk d)) = ds_domains d"
  by (auto simp: saveLocked_def split: option.split)

lemma Add_domains:
  "ds_domains (snd (Add disk d v)) =
    (if trim_lower v = [] \<or> trim_lower v \<in> set (ds_domains d) then ds_domains d
     else ds_domains d @ [trim_lower v])"
  by (auto simp: Add_def Let_def list_ex_iff)

lemma Remove_domains: "ds_domains (snd (Remove disk d v)) = remove1 (trim_lower v) (ds_domains d)"
  by (auto simp: Remove_def cut_domain_spec remove1_idem)

interpretation dom: domain_set "\<lambda>d. set (ds_domains d)" domains_ok
  "\<lambda>disk d v. snd (Add disk d v)" "\<lambda>disk d v. snd (Remove disk d v)"
proof
  fix disk d v
  assume ok: "domains_ok d"
  show "domains_ok (snd (Add disk d v))" using ok by (auto simp: domains_ok_def Add_domains)
  show "domains_ok (snd (Remove disk d v))"
    using ok notin_set_remove1 by (fastforce simp: domains_ok_def Remove_domains)
  show "set (ds_domains (snd (Add disk d v))) = set (ds_domains d) \<union> ({trim_lower v} - {[]})"
    by (auto simp: Add_domains)
  show "set (ds_domains (snd (Remove disk d v))) = set (ds_domains d) - {trim_lower v}"
    using ok by (auto simp: Remove_domains domains_ok_def)
qed

text \<open>The same edits on the code's own operations.\<close>

fun edit_domains :: "(disk \<times> bool \<times> string) list \<Rightarrow> domain_store \<Rightarrow> domain_store" where
  "edit_domains [] d = d"
| "edit_domains ((disk, b, v) # es) d = edit_domains es (snd ((if b then Add else Remove) disk d v))"

lemma edit_domains_dom: "edit_domains es d = dom.edit es d"
  by (induction es d rule: dom.edit.induct) simp_all

text \<open>The file holds what the memory holds.\<close>

definition saved :: "domain_store \<Rightarrow> bool" where
  "saved d \<longleftrightarrow> ds_domains (NewDomainStore (ds_file d)) = ds_domains d"

lemma load_elements: "ds_domains (NewDomainStore (Elements (map Some xs))) = xs"
  by (simp add: NewDomainStore_def Load_def map_idI)

lemma edit_saved:
  "saved d \<Longrightarrow> \<forall>(disk, b, v) \<in> set es. disk = None \<Longrightarrow> saved (edit_domains es d)"
proof (induction es d rule: edit_domains.induct)
  case (2 disk b v es d)
  have w: "saved (snd (saveLocked None d'))" for d'
    by (simp add: saveLocked_def saved_def load_elements)
  have "saved (snd ((if b then Add else Remove) None d v))"
    using 2(2) w by (simp add: Add_def Remove_def Let_def split: option.split)
  then show ?case using 2 by simp
qed simp

section \<open>The property\<close>

text \<open>
  C22. The domain list implements a set: whatever the edits and whatever the disk does, the
  list stays duplicate free and in lower case, and a domain is in it exactly when the last
  edit that names it (up to case and surrounding blanks) added it, or none names it and it
  was there before. While the writes succeed, the file gives the same list after a restart.
\<close>

theorem domain_list_implements_set:
  assumes "domains_ok d"
  shows "domains_ok (edit_domains es d) \<and>
    (\<forall>x. x \<noteq> [] \<longrightarrow> (x \<in> set (List_domains (edit_domains es d)) \<longleftrightarrow>
       (case find (\<lambda>(disk, b, v). trim_lower v = x) (rev es) of Some (disk, b, v) \<Rightarrow> b | None \<Rightarrow> x \<in> set (List_domains d)))) \<and>
    (saved d \<and> (\<forall>(disk, b, v) \<in> set es. disk = None) \<longrightarrow>
       List_domains (NewDomainStore (ds_file (edit_domains es d))) = List_domains (edit_domains es d))"
  using dom.edit_valid [OF assms, of es] dom.edit_names [OF assms, of _ es] edit_saved [of d es]
  by (simp add: edit_domains_dom List_domains_def saved_def cong: option.case_cong)

theorem domain_list_implements_set_witness:
  "List_domains (NewDomainStore (ds_file (edit_domains [(None, True, '' A.Dev''), (None, True, ''b.dev''), (None, False, ''a.dev'')]
     (NewDomainStore Missing)))) = [''b.dev'']"
proof -
  have "domains_ok (NewDomainStore Missing)" "saved (NewDomainStore Missing)" by code_simp+
  moreover have "List_domains (edit_domains [(None, True, '' A.Dev''), (None, True, ''b.dev''), (None, False, ''a.dev'')]
      (NewDomainStore Missing)) = [''b.dev'']"
    by code_simp
  ultimately show ?thesis
    using domain_list_implements_set [of "NewDomainStore Missing"
        "[(None, True, '' A.Dev''), (None, True, ''b.dev''), (None, False, ''a.dev'')]"] by simp
qed

text \<open>
  An addition whose write fails is in force although it was reported as an error, and
  repeating it reports success without writing, so the domain is gone after a restart.
\<close>

theorem failed_add_never_saved:
  assumes "trim_lower v \<noteq> []" and "trim_lower v \<notin> set (List_domains d)"
    and "Add (Some (e, ds_file d)) d v = (r1, d1)" and "Add disk d1 v = (r2, d2)"
  shows "r1 = Inl e \<and> trim_lower v \<in> set (List_domains d1) \<and> r2 = Inr () \<and> d2 = d1 \<and> ds_file d2 = ds_file d"
  using assms by (auto simp: Add_def Let_def List_domains_def saveLocked_def list_ex_iff)

theorem failed_add_never_saved_witness:
  "fst (Add None (snd (Add (Some (''disk full'', Missing)) (NewDomainStore Missing) ''a.dev'')) ''a.dev'') = Inr () \<and>
   ds_file (snd (Add None (snd (Add (Some (''disk full'', Missing)) (NewDomainStore Missing) ''a.dev'')) ''a.dev'')) = Missing"
proof -
  have "trim_lower ''a.dev'' \<noteq> []" "trim_lower ''a.dev'' \<notin> set (List_domains (NewDomainStore Missing))"
    "ds_file (NewDomainStore Missing) = Missing"
    by code_simp+
  then show ?thesis
    using failed_add_never_saved [of "''a.dev''" "NewDomainStore Missing" "''disk full''" _ _ None,
        OF _ _ prod.collapse [symmetric] prod.collapse [symmetric]] by metis
qed

end
