(* ===== verification/ControlPlane.thy ===== *)
theory ControlPlane
  imports Mux AuthHttp Domains StoreFrame GrpcServer
begin

text \<open>
  The control-plane API of internal/server/controlplane_api.go: every handler of
  \<open>ControlPlaneRouter\<close> as a function from the request and the store to the response and the
  new store. What the process gives a handler is the record \<open>env\<close>: the clock reading, the
  outcome of \<open>randomString\<close>, the digest functions, and the text of driver errors.
\<close>

record env =
  en_now :: time
  en_random :: "string res"
  en_sha :: "string \<Rightarrow> string"
  en_hmac :: "string \<Rightarrow> string \<Rightarrow> string"
  en_drv :: "go_err \<Rightarrow> string"

datatype api_payload =
    AgentList "agent_record list"
  | AgentCreated agent_record string
  | TunnelList "tunnel_record list"
  | Tunnel tunnel_record
  | Status string
  | LogList "log_record list"
  | EventList "event_record list"
  | Rule access_rule

type_synonym api_response = "api_payload response"

definition fail_with :: "env \<Rightarrow> go_err \<Rightarrow> int \<Rightarrow> 'p response" where
  "fail_with en e code = http_error (err_text (en_drv en) e) code"

definition bad_method :: "'p response" where
  "bad_method = http_error ''method not allowed'' 405"

section \<open>Names and hostnames\<close>

definition normalizeName :: "string \<Rightarrow> string" where
  "normalizeName v = replace_char CHR '' '' CHR ''-'' (trim_lower v)"

definition resolveTunnelHostname :: "string \<Rightarrow> string list \<Rightarrow> string \<Rightarrow> string \<Rightarrow> string + string" where
  "resolveTunnelHostname serverHostname allowedDomains subdomain customURL =
     (if subdomain \<noteq> [] then Inr (subdomain @ ''.'' @ to_lower (trim_space serverHostname))
      else let hostname = trim_lower customURL
      in if hostname = [] then Inl ''hostname required''
         else if hostname = serverHostname \<or> has_suffix hostname (''.'' @ serverHostname) then Inr hostname
         else if list_ex (\<lambda>d0. let d = trim_lower d0 in d \<noteq> [] \<and> (hostname = d \<or> has_suffix hostname (''.'' @ d))) allowedDomains
         then Inr hostname
         else Inl ''domain not allowed'')"

section \<open>The caller\<close>

definition requireSessionUser ::
  "env \<Rightarrow> auth_manager option \<Rightarrow> store \<Rightarrow> request \<Rightarrow> ('p response + user_record) \<times> store" where
  "requireSessionUser en auth s r =
     (case auth of
        None \<Rightarrow> (Inl (http_error ''auth not configured'' 503), s)
      | Some a \<Rightarrow>
          (case requestUser (en_hmac en) a s (en_now en) r of
             ((user, status), s') \<Rightarrow>
               (if status \<noteq> 200 then (Inl (http_error (status_text status) status), s')
                else case user of
                    None \<Rightarrow> (Inl (http_error (status_text status) status), s')
                  | Some u \<Rightarrow> (Inr u, s'))))"

text \<open>The guard \<open>user.Role != "admin" && owner != user.ID\<close>, negated.\<close>

definition may_manage :: "user_record \<Rightarrow> int \<Rightarrow> bool" where
  "may_manage u owner \<longleftrightarrow> ur_role u = ''admin'' \<or> owner = ur_id u"

section \<open>Agents\<close>

definition agents_handler :: "env \<Rightarrow> user_record \<Rightarrow> store \<Rightarrow> request \<Rightarrow> api_response \<times> store" where
  "agents_handler en user s r =
     (if rq_method r = ''GET'' then
        (case ListAgentsForUser s (ur_id user) (ur_role user = ''admin'') of
           Inl e \<Rightarrow> (fail_with en e 500, s)
         | Inr l \<Rightarrow> (writeJSON 200 (AgentList l), s))
      else if rq_method r = ''POST'' then
        (case body_string (rq_json r) ''name'' of
           None \<Rightarrow> (http_error ''invalid json'' 400, s)
         | Some n \<Rightarrow>
             (let name = normalizeName n
              in if name = [] then (http_error ''name required'' 400, s)
                 else case en_random en of
                     Inl e \<Rightarrow> (fail_with en e 500, s)
                   | Inr raw \<Rightarrow>
                       (case CreateAgent s (en_now en) (ur_id user) name (hashCredential (en_sha en) raw) of
                          (Inl e, s') \<Rightarrow> (fail_with en e 409, s')
                        | (Inr agent, s') \<Rightarrow> (writeJSON 201 (AgentCreated agent raw), s'))))
      else (bad_method, s))"

definition agent_handler :: "env \<Rightarrow> user_record \<Rightarrow> store \<Rightarrow> request \<Rightarrow> api_response \<times> store" where
  "agent_handler en user s r =
     (let parts = split_on CHR ''/'' (trim_prefix (rq_path r) ''/api/agents/'')
      in if length parts \<noteq> 2 \<or> parts ! 1 \<noteq> ''revoke'' \<or> rq_method r \<noteq> ''POST'' then (not_found, s)
         else let agentName = normalizeName (parts ! 0)
         in case GetAgentByName s agentName of
             Inl _ \<Rightarrow> (http_error ''agent not found'' 404, s)
           | Inr agent \<Rightarrow>
               if \<not> may_manage user (gr_owner agent) then (http_error ''forbidden'' 403, s)
               else case RevokeAgentByName s (en_now en) agentName of
                   (Inl e, s') \<Rightarrow> (fail_with en e 500, s')
                 | (Inr _, s') \<Rightarrow> (writeJSON 200 (Status ''revoked''), s'))"

section \<open>Tunnels\<close>

text \<open>
  The agent a request names: nothing when the name is empty, otherwise its id, provided that
  the caller may manage it.
\<close>

definition named_agent :: "user_record \<Rightarrow> store \<Rightarrow> bool \<Rightarrow> string \<Rightarrow> api_response + int" where
  "named_agent user s given agentName =
     (if \<not> given then Inr 0
      else case GetAgentByName s agentName of
          Inl _ \<Rightarrow> Inl (http_error ''agent not found'' 400)
        | Inr agent \<Rightarrow>
            if \<not> may_manage user (gr_owner agent) then Inl (http_error ''forbidden'' 403) else Inr (gr_id agent))"

record tunnel_body =
  tb_name :: string
  tb_subdomain :: string
  tb_url :: string
  tb_local :: string
  tb_agent :: string

definition decode_tunnel_body :: "json option \<Rightarrow> tunnel_body option" where
  "decode_tunnel_body b =
     (case (body_string b ''name'', body_string b ''subdomain'', body_string b ''url'',
            body_string b ''local'', body_string b ''agent_name'') of
        (Some n, Some sd, Some u, Some l, Some a) \<Rightarrow>
          Some \<lparr>tb_name = n, tb_subdomain = sd, tb_url = u, tb_local = l, tb_agent = a\<rparr>
      | _ \<Rightarrow> None)"

definition create_handler ::
  "env \<Rightarrow> config \<Rightarrow> string list \<Rightarrow> user_record \<Rightarrow> store \<Rightarrow> request \<Rightarrow> api_response \<times> store" where
  "create_handler en cfg allowed user s r =
     (case decode_tunnel_body (rq_json r) of
        None \<Rightarrow> (http_error ''invalid json'' 400, s)
      | Some b \<Rightarrow>
          (let name = normalizeName (tb_name b); subdomain = normalizeName (tb_subdomain b); url = trim_lower (tb_url b)
           in if name = [] \<or> trim_space (tb_local b) = [] then (http_error ''name and local are required'' 400, s)
              else if (subdomain = []) = (url = []) then (http_error ''use exactly one of subdomain or url'' 400, s)
              else case resolveTunnelHostname (cf_hostname cfg) allowed subdomain url of
                  Inl e \<Rightarrow> (http_error e 400, s)
                | Inr hostname \<Rightarrow>
                    (case named_agent user s (tb_agent b \<noteq> []) (normalizeName (tb_agent b)) of
                       Inl resp \<Rightarrow> (resp, s)
                     | Inr agentID \<Rightarrow>
                         (case CreateTunnel (en_sha en) s (en_now en) (ur_id user) name hostname (tb_local b) agentID of
                            (Inl e, s') \<Rightarrow> (fail_with en e 409, s')
                          | (Inr tun, s') \<Rightarrow> (writeJSON 201 (Tunnel tun), s')))))"

definition tunnels_handler ::
  "env \<Rightarrow> config \<Rightarrow> string list \<Rightarrow> user_record \<Rightarrow> store \<Rightarrow> request \<Rightarrow> api_response \<times> store" where
  "tunnels_handler en cfg allowed user s r =
     (if rq_method r = ''GET'' then
        (case ListTunnelsForUser s (ur_id user) (ur_role user = ''admin'') of
           Inl e \<Rightarrow> (fail_with en e 500, s)
         | Inr l \<Rightarrow> (writeJSON 200 (TunnelList l), s))
      else if rq_method r = ''POST'' then create_handler en cfg allowed user s r
      else (bad_method, s))"

text \<open>\<open>_ = store.AddTunnelEvent(...)\<close>: the error is dropped.\<close>

definition note_event :: "env \<Rightarrow> store \<Rightarrow> tunnel_record \<Rightarrow> string \<Rightarrow> string \<Rightarrow> store" where
  "note_event en s tun kind message = snd (AddTunnelEvent s (en_now en) (tr_hostname tun) kind message)"

definition assign_handler ::
  "env \<Rightarrow> user_record \<Rightarrow> string \<Rightarrow> tunnel_record \<Rightarrow> store \<Rightarrow> request \<Rightarrow> api_response \<times> store" where
  "assign_handler en user name tun s r =
     (if rq_method r \<noteq> ''POST'' then (bad_method, s)
      else case body_string (rq_json r) ''agent_name'' of
          None \<Rightarrow> (http_error ''invalid json'' 400, s)
        | Some v \<Rightarrow>
            (let agentName = normalizeName v
             in case named_agent user s (agentName \<noteq> []) agentName of
                 Inl resp \<Rightarrow> (resp, s)
               | Inr agentID \<Rightarrow>
                   (case AssignTunnelToAgent s (en_now en) name agentID of
                      (Inl e, s') \<Rightarrow> (fail_with en e 500, s')
                    | (Inr _, s') \<Rightarrow>
                        if agentName = []
                        then (writeJSON 200 (Status ''cleared''), note_event en s' tun ''assignment_changed'' ''assignment cleared'')
                        else (writeJSON 200 (Status ''assigned''),
                              note_event en s' tun ''assignment_changed'' (''assigned to '' @ agentName)))))"

definition logs_handler :: "env \<Rightarrow> tunnel_record \<Rightarrow> store \<Rightarrow> request \<Rightarrow> api_response \<times> store" where
  "logs_handler en tun s r =
     (if rq_method r \<noteq> ''GET'' then (bad_method, s)
      else case ListRequestLogsByTunnel s (tr_id tun) 100 of
          Inl e \<Rightarrow> (fail_with en e 500, s)
        | Inr l \<Rightarrow> (writeJSON 200 (LogList l), s))"

definition events_handler :: "env \<Rightarrow> tunnel_record \<Rightarrow> store \<Rightarrow> request \<Rightarrow> api_response \<times> store" where
  "events_handler en tun s r =
     (if rq_method r \<noteq> ''GET'' then (bad_method, s)
      else case ListTunnelEventsByTunnel s (tr_id tun) 100 of
          Inl e \<Rightarrow> (fail_with en e 500, s)
        | Inr l \<Rightarrow> (writeJSON 200 (EventList l), s))"

definition decode_access_input :: "json option \<Rightarrow> access_input option" where
  "decode_access_input b =
     (case (body_string b ''auth_mode'', body_string b ''basic_auth_username'', body_string b ''basic_auth_password'',
            body_string b ''shared_secret_header_name'', body_string b ''shared_secret_value'', body_strings b ''allowed_ips'') of
        (Some m, Some u, Some p, Some h, Some v, Some ips) \<Rightarrow>
          Some \<lparr>in_mode = m, in_user = u, in_pass = p, in_header = h, in_secret = v, in_allowed = ips\<rparr>
      | _ \<Rightarrow> None)"

definition show_rule :: "env \<Rightarrow> tunnel_record \<Rightarrow> store \<Rightarrow> api_response" where
  "show_rule en tun s =
     (case GetTunnelAccessRule s (tr_id tun) of Inl e \<Rightarrow> fail_with en e 500 | Inr rule \<Rightarrow> writeJSON 200 (Rule rule))"

definition access_handler :: "env \<Rightarrow> tunnel_record \<Rightarrow> store \<Rightarrow> request \<Rightarrow> api_response \<times> store" where
  "access_handler en tun s r =
     (if rq_method r = ''GET'' then (show_rule en tun s, s)
      else if rq_method r = ''PATCH'' then
        (case decode_access_input (rq_json r) of
           None \<Rightarrow> (http_error ''invalid json'' 400, s)
         | Some b \<Rightarrow>
             (case UpsertTunnelAccessRule (en_sha en) s (en_now en) (tr_id tun) b of
                (Inl e, s') \<Rightarrow>
                  (fail_with en e 400, note_event en s' tun ''access_rule_invalid'' (err_text (en_drv en) e))
              | (Inr _, s') \<Rightarrow>
                  (let s'' = note_event en s' tun ''access_rule_changed'' ''access rule updated''
                   in (show_rule en tun s'', s''))))
      else (bad_method, s))"

text \<open>\<open>UpdateTunnelStateByName(name, "", "offline", tun.LastError, tun.LastSeenAt)\<close>\<close>

definition mark_stopped :: "env \<Rightarrow> string \<Rightarrow> tunnel_record \<Rightarrow> store \<Rightarrow> store" where
  "mark_stopped en name tun s = snd (UpdateTunnelStateByName s (en_now en) name [] ''offline'' (tr_error tun) (tr_seen tun))"

definition set_state :: "env \<Rightarrow> string \<Rightarrow> tunnel_record \<Rightarrow> string \<Rightarrow> store \<Rightarrow> api_response \<times> store" where
  "set_state en name tun desired s =
     (case SetTunnelDesiredState s (en_now en) name desired of
        (Inl e, s') \<Rightarrow> (fail_with en e 500, s')
      | (Inr _, s') \<Rightarrow>
          (let s'' = (if desired = ''stopped'' then mark_stopped en name tun s' else s')
           in (writeJSON 200 (Status desired), note_event en s'' tun ''desired_state_changed'' (''desired state set to '' @ desired))))"

definition state_handler :: "env \<Rightarrow> string \<Rightarrow> tunnel_record \<Rightarrow> store \<Rightarrow> request \<Rightarrow> api_response \<times> store" where
  "state_handler en name tun s r =
     (if rq_method r \<noteq> ''PATCH'' then (bad_method, s)
      else case body_string (rq_json r) ''desired_state'' of
          None \<Rightarrow> (http_error ''invalid json'' 400, s)
        | Some v \<Rightarrow>
            (let desired = trim_lower v
             in if desired \<noteq> ''running'' \<and> desired \<noteq> ''stopped''
                then (http_error ''desired_state must be running or stopped'' 400, s)
                else if desired = ''running'' \<and> tr_agent tun = 0 then (http_error ''tunnel has no assigned agent'' 409, s)
                else set_state en name tun desired s))"

definition start_handler :: "env \<Rightarrow> string \<Rightarrow> tunnel_record \<Rightarrow> store \<Rightarrow> request \<Rightarrow> api_response \<times> store" where
  "start_handler en name tun s r =
     (if rq_method r \<noteq> ''POST'' then (bad_method, s)
      else if tr_agent tun = 0 then (http_error ''tunnel has no assigned agent'' 409, s)
      else set_state en name tun ''running'' s)"

definition stop_handler :: "env \<Rightarrow> string \<Rightarrow> tunnel_record \<Rightarrow> store \<Rightarrow> request \<Rightarrow> api_response \<times> store" where
  "stop_handler en name tun s r =
     (if rq_method r \<noteq> ''POST'' then (bad_method, s) else set_state en name tun ''stopped'' s)"

definition delete_handler :: "env \<Rightarrow> string \<Rightarrow> store \<Rightarrow> api_response \<times> store" where
  "delete_handler en name s =
     (case DeleteTunnelByName s name of
        (Inl e, s') \<Rightarrow> (fail_with en e 500, s')
      | (Inr _, s') \<Rightarrow> (no_content, s'))"

text \<open>The handler of \<open>/api/tunnels/\<close>, once the tunnel is found and the caller may manage it.\<close>

definition tunnel_action ::
  "env \<Rightarrow> user_record \<Rightarrow> string list \<Rightarrow> string \<Rightarrow> tunnel_record \<Rightarrow> store \<Rightarrow> request \<Rightarrow> api_response \<times> store" where
  "tunnel_action en user parts name tun s r =
     (if length parts = 1 then
        (if rq_method r = ''GET'' then (writeJSON 200 (Tunnel tun), s)
         else if rq_method r = ''DELETE'' then delete_handler en name s
         else (bad_method, s))
      else if length parts \<noteq> 2 then (not_found, s)
      else let act = parts ! 1
      in if act = ''assign'' then assign_handler en user name tun s r
         else if act = ''logs'' then logs_handler en tun s r
         else if act = ''events'' then events_handler en tun s r
         else if act = ''access'' then access_handler en tun s r
         else if act = ''state'' then state_handler en name tun s r
         else if act = ''start'' then start_handler en name tun s r
         else if act = ''stop'' then stop_handler en name tun s r
         else (not_found, s))"

definition tunnel_handler :: "env \<Rightarrow> user_record \<Rightarrow> store \<Rightarrow> request \<Rightarrow> api_response \<times> store" where
  "tunnel_handler en user s r =
     (let parts = split_on CHR ''/'' (trim_prefix (rq_path r) ''/api/tunnels/''); name = normalizeName (parts ! 0)
      in if name = [] then (not_found, s)
         else case GetTunnelByName s name of
             Inl _ \<Rightarrow> (http_error ''tunnel not found'' 404, s)
           | Inr tun \<Rightarrow>
               if \<not> may_manage user (tr_owner tun) then (http_error ''forbidden'' 403, s)
               else tunnel_action en user parts name tun s r)"

section \<open>The router\<close>

datatype api_route = Agents_ep | Agent_ep | Tunnels_ep | Tunnel_ep

definition api_routes :: "(string \<times> api_route) list" where
  "api_routes = [(''/api/agents'', Agents_ep), (''/api/agents/'', Agent_ep),
     (''/api/tunnels'', Tunnels_ep), (''/api/tunnels/'', Tunnel_ep)]"

definition api_dispatch ::
  "env \<Rightarrow> config \<Rightarrow> string list \<Rightarrow> api_route \<Rightarrow> user_record \<Rightarrow> store \<Rightarrow> request \<Rightarrow> api_response \<times> store" where
  "api_dispatch en cfg allowed ep user s r =
     (case ep of
        Agents_ep \<Rightarrow> agents_handler en user s r
      | Agent_ep \<Rightarrow> agent_handler en user s r
      | Tunnels_ep \<Rightarrow> tunnels_handler en cfg allowed user s r
      | Tunnel_ep \<Rightarrow> tunnel_handler en user s r)"

definition ControlPlaneRouter ::
  "env \<Rightarrow> config \<Rightarrow> domain_store \<Rightarrow> auth_manager option \<Rightarrow> store \<Rightarrow> request \<Rightarrow> api_response \<times> store" where
  "ControlPlaneRouter en cfg domains auth s r =
     (case serve_mux api_routes (rq_path r) of
        NoRoute \<Rightarrow> (not_found, s)
      | MovedTo p \<Rightarrow> (moved r p, s)
      | Serve ep \<Rightarrow>
          (case requireSessionUser en auth s r of
             (Inl resp, s') \<Rightarrow> (resp, s')
           | (Inr user, s') \<Rightarrow> api_dispatch en cfg (List_domains domains) ep user s' r))"

end
