(* ===== verification/ControlFrame.thy ===== *)
theory ControlFrame
  imports ControlPlane
begin

text \<open>
  What the control-plane handlers leave alone. \<open>keeps_others I J s s'\<close>: every tunnel whose id
  is not in \<open>I\<close>, with its rule, logs and events, and every agent whose id is not in \<open>J\<close>, is in
  \<open>s'\<close> as it was in \<open>s\<close>. The relation composes, so that each handler is a chain of statements.
\<close>

section \<open>Keeping the others\<close>

definition keeps_others :: "int set \<Rightarrow> int set \<Rightarrow> store \<Rightarrow> store \<Rightarrow> bool" where
  "keeps_others I J s s' \<longleftrightarrow>
     (\<forall>t \<in> set (tunnels s). t_id t \<notin> I \<longrightarrow> t \<in> set (tunnels s')) \<and>
     (\<forall>x \<in> set (rules s). ru_tunnel x \<notin> I \<longrightarrow> x \<in> set (rules s')) \<and>
     (\<forall>x \<in> set (logs s). lg_tunnel x \<notin> I \<longrightarrow> x \<in> set (logs s')) \<and>
     (\<forall>x \<in> set (events s). ev_tunnel x \<notin> I \<longrightarrow> x \<in> set (events s')) \<and>
     (\<forall>a \<in> set (agents s). ag_id a \<notin> J \<longrightarrow> a \<in> set (agents s')) \<and>
     set (users s) = set (users s')"

named_theorems keeps_intros \<open>what the statements of the store keep\<close>

lemma keeps_refl [intro!, simp]: "keeps_others I J s s"
  by (simp add: keeps_others_def)

lemma keeps_trans [trans]: "keeps_others I J s s1 \<Longrightarrow> keeps_others I J s1 s2 \<Longrightarrow> keeps_others I J s s2"
  by (simp add: keeps_others_def)

lemma keeps_sessions [simp]: "keeps_others I J s (s\<lparr>sessions := x\<rparr>)"
  by (simp add: keeps_others_def)

text \<open>The rows with the name are those with an id in \<open>I\<close>.\<close>

definition confined :: "string \<Rightarrow> int set \<Rightarrow> store \<Rightarrow> bool" where
  "confined name I s \<longleftrightarrow> (\<forall>t \<in> set (tunnels s). t_name t = name \<longrightarrow> t_id t \<in> I)"

lemma confined_update:
  assumes "confined name I s" "\<And>t. t_id (f t) = t_id t" "\<And>t. t_name (f t) = t_name t"
  shows "confined name I (snd (update_tunnels P f s))"
  using assms by (auto simp: confined_def update_tunnels_def set_update_where)

lemma keeps_update_tunnels:
  assumes "confined name I s"
  shows "keeps_others I J s (snd (update_tunnels (\<lambda>t. t_name t = name) f s))"
  using assms by (auto simp: keeps_others_def confined_def update_tunnels_def set_update_where)

lemma keeps_tunnel_updates [keeps_intros]:
  assumes "confined name I s"
  shows "keeps_others I J s (snd (AssignTunnelToAgent s now name aid))"
    "keeps_others I J s (snd (SetTunnelDesiredState s now name ds))"
    "keeps_others I J s (snd (UpdateTunnelStateByName s now name hint st le seen))"
  using keeps_update_tunnels [OF assms]
  by (simp_all add: AssignTunnelToAgent_def SetTunnelDesiredState_def UpdateTunnelStateByName_def)

lemma confined_tunnel_updates [keeps_intros]:
  assumes "confined name I s"
  shows "confined name I (snd (AssignTunnelToAgent s now n aid))"
    "confined name I (snd (SetTunnelDesiredState s now n ds))"
    "confined name I (snd (UpdateTunnelStateByName s now n hint st le seen))"
  using assms
  by (simp_all add: AssignTunnelToAgent_def SetTunnelDesiredState_def UpdateTunnelStateByName_def confined_update)

lemma keeps_event [keeps_intros]: "keeps_others I J s (snd (AddTunnelEvent s now hn kind msg))"
  by (auto simp: keeps_others_def AddTunnelEvent_def insert_event_row_def split: sum.split)

lemma keeps_note_event [keeps_intros]: "keeps_others I J s (note_event en s tun kind msg)"
  by (simp add: note_event_def keeps_event)

lemma keeps_then_event: "keeps_others I J s s1 \<Longrightarrow> keeps_others I J s (note_event en s1 tun kind msg)"
  by (rule keeps_trans [OF _ keeps_note_event])

lemma keeps_delete [keeps_intros]:
  assumes "confined name I s"
  shows "keeps_others I J s (snd (DeleteTunnelByName s name))"
  using assms by (auto simp: keeps_others_def confined_def DeleteTunnelByName_def Let_def)

lemma keeps_upsert_rule [keeps_intros]:
  assumes "tid \<in> I"
  shows "keeps_others I J s (snd (UpsertTunnelAccessRule H s now tid inp))"
proof -
  have row: "keeps_others I J s s'" if "upsert_rule_row s now tid v = Inr s'" for v s'
    using that assms
    by (auto simp: keeps_others_def upsert_rule_row_def bump_def set_update_where split: if_splits)
  have tx: "keeps_others I J s s'" if "upsertTunnelAccessRuleTx H s now tid [] [] inp False ex = Inr s'" for ex s'
    using that row by (auto simp: upsertTunnelAccessRuleTx_def split: sum.splits)
  show ?thesis
    using tx by (auto simp: UpsertTunnelAccessRule_def Let_def split: sum.splits go_err.splits)
qed

lemma keeps_insert_tunnel: "insert_tunnel_row s r = Inr s' \<Longrightarrow> keeps_others I J s s'"
  by (auto simp: keeps_others_def insert_tunnel_row_def bump_def split: if_splits)

text \<open>A tunnel that is created has a fresh id, so its new rule touches nobody else's.\<close>

lemma keeps_create [keeps_intros]:
  assumes "store_ok s"
  shows "keeps_others I J s (snd (CreateTunnel H s now owner nm hn hint aid))"
proof (cases "\<exists>e. CreateTunnel H s now owner nm hn hint aid = (Inl e, s)")
  case False
  have rej: "CreateTunnel H s now owner nm hn hint aid = (Inl ErrIO, s)" if "fault s Tunnels"
    using that by (simp add: CreateTunnel_def insert_tunnel_row_def)
  have free: "\<not> fault s Tunnels" "nm \<notin> t_name ` set (tunnels s)" "hn \<notin> t_hostname ` set (tunnels s)"
    using False rej CreateTunnel_taken [of s nm hn H now owner hint aid] by blast+
  show ?thesis
  proof (cases "fault s AccessRules")
    case True
    have "\<exists>e. CreateTunnel H s now owner nm hn hint aid = (Inl e, s)"
      using free True
      by (auto simp: CreateTunnel_def insert_tunnel_row_def upsertTunnelAccessRuleTx_def upsert_rule_row_def
          split: sum.split option.split)
    with False show ?thesis by simp
  next
    case ok: False
    show ?thesis
      using CreateTunnel_fresh [OF assms free(1) ok free(2,3), of H now owner hint aid]
      by (auto simp: keeps_others_def Let_def)
  qed
qed auto

lemma keeps_create_agent [keeps_intros]: "keeps_others I J s (snd (CreateAgent s now uid nm h))"
  by (auto simp: keeps_others_def CreateAgent_def Let_def split: option.split)

lemma keeps_revoke [keeps_intros]:
  assumes "\<And>a. a \<in> set (agents s) \<Longrightarrow> ag_name a = nm \<Longrightarrow> ag_id a \<in> J"
  shows "keeps_others I J s (snd (RevokeAgentByName s now nm))"
  using assms by (auto simp: keeps_others_def RevokeAgentByName_def update_agents_def set_update_where)

section \<open>The handlers\<close>

lemma keeps_assign:
  assumes "confined name I s"
  shows "keeps_others I J s (snd (assign_handler en user name tun s r))"
proof -
  have "keeps_others I J s s'" if "AssignTunnelToAgent s (en_now en) name aid = (x, s')" for aid x s'
    using keeps_tunnel_updates(1) [OF assms, of J "en_now en" aid] that by simp
  then show ?thesis
    by (auto simp: assign_handler_def Let_def intro!: keeps_then_event
        split: option.split sum.split prod.split)
qed

lemma keeps_set_state:
  assumes "confined name I s"
  shows "keeps_others I J s (snd (set_state en name tun desired s))"
proof -
  obtain x s' where set: "SetTunnelDesiredState s (en_now en) name desired = (x, s')" by force
  have 1: "keeps_others I J s s'" "confined name I s'"
    using keeps_tunnel_updates(2) [OF assms, of J "en_now en" desired]
      confined_tunnel_updates(2) [OF assms, of "en_now en" name desired] by (simp_all add: set)
  then have "keeps_others I J s (mark_stopped en name tun s')"
    unfolding mark_stopped_def by (blast intro: keeps_trans keeps_tunnel_updates(3))
  with 1 show ?thesis
    by (auto simp: set_state_def set Let_def intro!: keeps_then_event split: sum.split)
qed

lemma keeps_access:
  assumes "tr_id tun \<in> I"
  shows "keeps_others I J s (snd (access_handler en tun s r))"
proof -
  have "keeps_others I J s s'" if "UpsertTunnelAccessRule (en_sha en) s (en_now en) (tr_id tun) b = (x, s')" for b x s'
    using keeps_upsert_rule [OF assms, of J s "en_sha en" "en_now en" b] that by simp
  then show ?thesis
    by (auto simp: access_handler_def Let_def intro!: keeps_then_event
        split: option.split sum.split prod.split)
qed

lemma keeps_action:
  assumes "confined name I s" and "tr_id tun \<in> I"
  shows "keeps_others I J s (snd (tunnel_action en user parts name tun s r))"
proof -
  have del: "keeps_others I J s (snd (delete_handler en name s))"
    using keeps_delete [OF assms(1), of J] by (auto simp: delete_handler_def split: prod.split sum.split)
  note H = keeps_assign [OF assms(1)] keeps_set_state [OF assms(1)] keeps_access [OF assms(2)] del
  show ?thesis
    by (simp add: tunnel_action_def logs_handler_def events_handler_def state_handler_def start_handler_def
        stop_handler_def Let_def H split: sum.split option.split)
qed

text \<open>The tunnel or agent that the request names, if the caller may manage it.\<close>

lemma keeps_tunnel_handler:
  assumes "store_ok s"
  shows "keeps_others {t_id t | t. t \<in> set (tunnels s) \<and> may_manage user (t_owner t)} J s (snd (tunnel_handler en user s r))"
    (is "keeps_others ?I J s _")
proof -
  let ?parts = "split_on CHR ''/'' (trim_prefix (rq_path r) ''/api/tunnels/'')"
  let ?name = "normalizeName (?parts ! 0)"
  have "keeps_others ?I J s (snd (tunnel_action en user ?parts ?name tun s r))"
    if get: "GetTunnelByName s ?name = Inr tun" and may: "may_manage user (tr_owner tun)" for tun
  proof -
    obtain t where t: "t \<in> set (tunnels s)" "t_name t = ?name" "tun = scan_tunnel s t"
      using select_tunnel_SomeD [OF get [unfolded GetTunnelByName_def]] by blast
    have I: "t_id t \<in> ?I" using t may by (auto simp: scan_tunnel_def)
    have "u = t" if "u \<in> set (tunnels s)" "t_name u = ?name" for u
      using distinct_key_unique [OF store_okD(2) [OF assms]] t(1,2) that by simp
    then have "confined ?name ?I s" using I by (auto simp: confined_def)
    then show ?thesis using I t(3) by (intro keeps_action) (simp_all add: scan_tunnel_def)
  qed
  then show ?thesis
    by (auto simp: tunnel_handler_def Let_def split: sum.split)
qed

lemma keeps_agent_handler:
  assumes "store_ok s"
  shows "keeps_others I {ag_id a | a. a \<in> set (agents s) \<and> may_manage user (ag_owner a)} s (snd (agent_handler en user s r))"
    (is "keeps_others I ?J s _")
proof -
  have "keeps_others I ?J s s'"
    if get: "GetAgentByName s nm = Inr ag" "may_manage user (gr_owner ag)" and rev: "RevokeAgentByName s (en_now en) nm = (x, s')"
    for nm ag x s'
  proof -
    obtain a where a: "a \<in> set (agents s)" "ag_name a = nm" "ag = scanAgentRecord a"
      using get(1) by (auto simp: GetAgentByName_def select_agent_def split: if_splits option.splits dest: find_SomeD)
    have "distinct (map ag_name (agents s))" using assms by (simp add: store_ok_defs)
    then have "b = a" if "b \<in> set (agents s)" "ag_name b = nm" for b
      using distinct_key_unique a(1,2) that by metis
    then have "ag_id b \<in> ?J" if "b \<in> set (agents s)" "ag_name b = nm" for b
      using a get(2) that by (auto simp: scanAgentRecord_def)
    then have "keeps_others I ?J s (snd (RevokeAgentByName s (en_now en) nm))" by (rule keeps_revoke)
    then show ?thesis by (simp add: rev)
  qed
  then show ?thesis
    by (auto simp: agent_handler_def Let_def split: sum.split prod.split)
qed

lemma keeps_collections:
  assumes "store_ok s"
  shows "keeps_others I J s (snd (agents_handler en user s r))"
    "keeps_others I J s (snd (tunnels_handler en cfg allowed user s r))"
proof -
  have "keeps_others I J s s'" if "CreateAgent s now uid nm h = (x, s')" for now uid nm h x s'
    using keeps_create_agent [of I J s now uid nm h] that by simp
  then show "keeps_others I J s (snd (agents_handler en user s r))"
    by (auto simp: agents_handler_def Let_def split: sum.split option.split prod.split)
  have "keeps_others I J s s'" if "CreateTunnel H s now uid nm hn hint aid = (x, s')" for H now uid nm hn hint aid x s'
    using keeps_create [OF assms, of I J H now uid nm hn hint aid] that by simp
  then show "keeps_others I J s (snd (tunnels_handler en cfg allowed user s r))"
    by (auto simp: tunnels_handler_def create_handler_def Let_def split: sum.split option.split prod.split)
qed

section \<open>Names\<close>

text \<open>Only the creation of a tunnel brings a new name.\<close>

definition tunnel_names :: "store \<Rightarrow> string set" where
  "tunnel_names s = t_name ` set (tunnels s)"

lemma names_update [simp]:
  "(\<And>t. t_name (f t) = t_name t) \<Longrightarrow> tunnel_names (snd (update_tunnels P f s)) = tunnel_names s"
  by (simp add: tunnel_names_def update_tunnels_def image_update_where)

lemma names_statements [simp]:
  "tunnel_names (snd (AssignTunnelToAgent s now n aid)) = tunnel_names s"
  "tunnel_names (snd (SetTunnelDesiredState s now n ds)) = tunnel_names s"
  "tunnel_names (snd (UpdateTunnelStateByName s now n hint st le seen)) = tunnel_names s"
  "tunnel_names (snd (AddTunnelEvent s now hn kind msg)) = tunnel_names s"
  "tunnel_names (note_event en s tun kind msg) = tunnel_names s"
  "tunnel_names (snd (CreateAgent s now uid nm h)) = tunnel_names s"
  "tunnel_names (snd (RevokeAgentByName s now nm)) = tunnel_names s"
  by (auto simp: AssignTunnelToAgent_def SetTunnelDesiredState_def UpdateTunnelStateByName_def note_event_def)
    (auto simp: tunnel_names_def AddTunnelEvent_def insert_event_row_def CreateAgent_def RevokeAgentByName_def
      update_agents_def Let_def split: sum.splits option.splits if_splits)

lemma names_upsert [simp]: "tunnel_names (snd (UpsertTunnelAccessRule H s now tid inp)) = tunnel_names s"
proof -
  have "tunnel_names s' = tunnel_names s" if "upsertTunnelAccessRuleTx H s now tid [] [] inp False ex = Inr s'" for ex s'
    using that
    by (auto simp: tunnel_names_def upsertTunnelAccessRuleTx_def upsert_rule_row_def split: sum.splits if_splits)
  then show ?thesis by (auto simp: UpsertTunnelAccessRule_def Let_def split: sum.splits go_err.splits)
qed

lemma names_delete: "tunnel_names (snd (DeleteTunnelByName s n)) \<subseteq> tunnel_names s"
  by (auto simp: tunnel_names_def DeleteTunnelByName_def Let_def)

lemma names_set_state: "tunnel_names (snd (set_state en name tun desired s)) = tunnel_names s"
proof -
  obtain x s' where set: "SetTunnelDesiredState s (en_now en) name desired = (x, s')" by force
  have "tunnel_names s' = tunnel_names s"
    using names_statements(2) [of s "en_now en" name desired] by (simp add: set)
  then show ?thesis by (simp add: set_state_def set mark_stopped_def Let_def split: sum.split)
qed

lemma names_action: "tunnel_names (snd (tunnel_action en user parts name tun s r)) \<subseteq> tunnel_names s"
proof -
  have assign: "tunnel_names (snd (assign_handler en user name tun s r)) = tunnel_names s"
  proof -
    have "tunnel_names s' = tunnel_names s" if "AssignTunnelToAgent s (en_now en) name aid = (x, s')" for aid x s'
      using names_statements(1) [of s "en_now en" name aid] that by simp
    then show ?thesis
      by (auto simp: assign_handler_def Let_def split: option.split sum.split prod.split)
  qed
  have access: "tunnel_names (snd (access_handler en tun s r)) = tunnel_names s"
  proof -
    have "tunnel_names s' = tunnel_names s" if "UpsertTunnelAccessRule (en_sha en) s (en_now en) (tr_id tun) b = (x, s')" for b x s'
      using names_upsert [of "en_sha en" s "en_now en" "tr_id tun" b] that by simp
    then show ?thesis
      by (auto simp: access_handler_def Let_def split: option.split sum.split prod.split)
  qed
  have del: "tunnel_names (snd (delete_handler en name s)) \<subseteq> tunnel_names s"
    using names_delete [of s name] by (auto simp: delete_handler_def split: prod.split sum.split)
  show ?thesis
    by (simp add: tunnel_action_def logs_handler_def events_handler_def state_handler_def start_handler_def
        stop_handler_def Let_def assign access del names_set_state split: sum.split option.split)
qed

lemma names_tunnel_handler: "tunnel_names (snd (tunnel_handler en user s r)) \<subseteq> tunnel_names s"
  using names_action by (auto simp: tunnel_handler_def Let_def split: sum.split)

lemma names_agents:
  "tunnel_names (snd (agents_handler en user s r)) = tunnel_names s"
  "tunnel_names (snd (agent_handler en user s r)) = tunnel_names s"
proof -
  have "tunnel_names s' = tunnel_names s" if "CreateAgent s now uid nm h = (x, s')" for now uid nm h x s'
    using names_statements(6) [of s now uid nm h] that by simp
  then show "tunnel_names (snd (agents_handler en user s r)) = tunnel_names s"
    by (auto simp: agents_handler_def Let_def split: sum.split option.split prod.split)
  have "tunnel_names s' = tunnel_names s" if "RevokeAgentByName s now nm = (x, s')" for now nm x s'
    using names_statements(7) [of s now nm] that by simp
  then show "tunnel_names (snd (agent_handler en user s r)) = tunnel_names s"
    by (auto simp: agent_handler_def Let_def split: sum.split prod.split)
qed

text \<open>The one branch that creates.\<close>

lemma create_branch:
  assumes "tunnel_names (snd (tunnels_handler en cfg allowed user s r)) \<noteq> tunnel_names s"
  obtains b hostname agentID where "rq_method r = ''POST''" "decode_tunnel_body (rq_json r) = Some b"
    "normalizeName (tb_name b) \<noteq> []" "trim_space (tb_local b) \<noteq> []"
    "resolveTunnelHostname (cf_hostname cfg) allowed (normalizeName (tb_subdomain b)) (trim_lower (tb_url b)) = Inr hostname"
    "named_agent user s (tb_agent b \<noteq> []) (normalizeName (tb_agent b)) = Inr agentID"
    "snd (tunnels_handler en cfg allowed user s r) =
      snd (CreateTunnel (en_sha en) s (en_now en) (ur_id user) (normalizeName (tb_name b)) hostname (tb_local b) agentID)"
  using assms
  by (auto simp: tunnels_handler_def create_handler_def Let_def split: if_splits option.splits sum.splits prod.splits)

text \<open>What a creation adds: nothing, or one tunnel with a public rule.\<close>

lemma create_adds:
  assumes "store_ok s" and "t \<in> set (tunnels (snd (CreateTunnel H s now owner nm hn hint aid)))" and "t_name t \<notin> tunnel_names s"
  shows "t = new_tunnel_row s now owner nm hn hint aid \<and> hn \<notin> t_hostname ` set (tunnels s) \<and>
    new_public_rule s now \<in> set (rules (snd (CreateTunnel H s now owner nm hn hint aid)))"
proof -
  have nochange: "CreateTunnel H s now owner nm hn hint aid \<noteq> (Inl e, s)" for e
    using assms(2,3) by (auto simp: tunnel_names_def)
  have "CreateTunnel H s now owner nm hn hint aid = (Inl ErrIO, s)" if "fault s Tunnels"
    using that by (simp add: CreateTunnel_def insert_tunnel_row_def)
  then have ft: "\<not> fault s Tunnels" using nochange by blast
  have free: "nm \<notin> t_name ` set (tunnels s)" "hn \<notin> t_hostname ` set (tunnels s)"
    using CreateTunnel_taken [OF ft, of nm hn H now owner hint aid] nochange by blast+
  have "\<exists>e. CreateTunnel H s now owner nm hn hint aid = (Inl e, s)" if "fault s AccessRules"
    using that ft free
    by (auto simp: CreateTunnel_def insert_tunnel_row_def upsertTunnelAccessRuleTx_def upsert_rule_row_def
        split: sum.split option.split)
  then have fr: "\<not> fault s AccessRules" using nochange by blast
  show ?thesis
    using assms(2,3) free(2) unfolding CreateTunnel_fresh [OF assms(1) ft fr free]
    by (auto simp: Let_def tunnel_names_def)
qed

end
