(* ===== verification/ControlClaims.thy ===== *)
theory ControlClaims
  imports ControlFrame AuthClaims
begin

text \<open>
  The properties of the control-plane API: who may change what, where a created tunnel can
  live, and what an error leaves behind.
\<close>

section \<open>The caller\<close>

text \<open>A request either gets no handler, or fails to identify its caller, or runs as a user.\<close>

lemma router_cases:
  assumes "ControlPlaneRouter en cfg domains (Some a) s r = (resp, s')"
  obtains (refused) "s' = s\<lparr>sessions := sessions s'\<rparr>" "rs_status resp \<in> {301, 401, 404}"
  | (served) u s1 ep where "fst (requestUser (en_hmac en) a s (en_now en) r) = (Some u, 200)"
      "s1 = s\<lparr>sessions := sessions s1\<rparr>" "s1 = snd (requestUser (en_hmac en) a s (en_now en) r)"
      "serve_mux api_routes (rq_path r) = Serve ep"
      "api_dispatch en cfg (List_domains domains) ep u s1 r = (resp, s')"
proof -
  let ?q = "requestUser (en_hmac en) a s (en_now en) r"
  have only: "snd ?q = s\<lparr>sessions := sessions (snd ?q)\<rparr>"
    using requestUser_store [of "en_hmac en" a s "en_now en" r] by simp
  show thesis
  proof (cases "serve_mux api_routes (rq_path r)")
    case (Serve ep)
    show thesis
    proof (cases rule: requestUser_cases [of "en_hmac en" a s "en_now en" r])
      case (user u)
      then obtain s1 where q: "?q = ((Some u, 200), s1)" by (metis prod.collapse)
      show thesis
        by (rule served [of u s1 ep])
          (use assms only in \<open>simp_all add: ControlPlaneRouter_def Serve requireSessionUser_def q\<close>)
    next
      case none
      then obtain s1 where q: "?q = ((None, 401), s1)" by (metis prod.collapse)
      show thesis
        by (rule refused) (use assms only in \<open>auto simp: ControlPlaneRouter_def Serve requireSessionUser_def q\<close>)
    qed
  qed (use assms refused in \<open>auto simp: ControlPlaneRouter_def\<close>)
qed

section \<open>Ownership\<close>

text \<open>
  C5. Ownership: a request to the control plane changes or removes no tunnel, rule, log,
  event or agent but those of tunnels and agents that the session it carries may manage (its
  user is an administrator, or owns them); without a valid session it changes at most the
  session table and is answered 301, 401 or 404.
\<close>

theorem api_changes_only_own:
  assumes "sessions_up s" and "ControlPlaneRouter en cfg domains (Some a) s r = (resp, s')"
  shows "(\<exists>u. speaks_for (en_hmac en) a s (en_now en) r u \<and>
      keeps_others {t_id t | t. t \<in> set (tunnels s) \<and> may_manage u (t_owner t)}
        {ag_id g | g. g \<in> set (agents s) \<and> may_manage u (ag_owner g)} s s') \<or>
    s' = s\<lparr>sessions := sessions s'\<rparr> \<and> rs_status resp \<in> {301, 401, 404}"
  using assms(2)
proof (cases rule: router_cases)
  case (served u s1 ep)
  have who: "speaks_for (en_hmac en) a s (en_now en) r u"
    using requestUser_iff [OF assms(1)] served(1) by blast
  have ok: "store_ok s1"
    using requestUser_ok [of s] assms(1) by (simp add: served(3) sessions_up_def)
  have same: "tunnels s1 = tunnels s" "agents s1 = agents s" "keeps_others I J s s1" for I J
    by (subst served(2), simp)+
  have "keeps_others {t_id t | t. t \<in> set (tunnels s1) \<and> may_manage u (t_owner t)}
      {ag_id g | g. g \<in> set (agents s1) \<and> may_manage u (ag_owner g)} s1 (snd (api_dispatch en cfg (List_domains domains) ep u s1 r))"
    by (cases ep) (simp_all add: api_dispatch_def keeps_collections keeps_tunnel_handler keeps_agent_handler ok)
  with who show ?thesis using same(3) keeps_trans unfolding served(5) same(1,2) snd_conv by blast
qed blast

definition demo_env :: env where
  "demo_env = \<lparr>en_now = 20, en_random = Inr ''r1'', en_sha = (\<lambda>x. x), en_hmac = demo_hmac, en_drv = (\<lambda>_. [])\<rparr>"

text \<open>The member \<open>h2\<close> owns the tunnel app; the tunnel web is the administrator's.\<close>

definition demo_api :: "string \<Rightarrow> string \<Rightarrow> string \<Rightarrow> (string \<times> json) list \<Rightarrow> api_response \<times> store" where
  "demo_api token method path ms =
     ControlPlaneRouter demo_env demo_config (NewDomainStore (Elements [Some ''a.dev''])) (Some demo_auth) demo_store
       ((demo_request method path token)\<lparr>rq_json := Some (JObject ms)\<rparr>)"

theorem api_changes_only_own_witness:
  "rs_status (fst (demo_api ''h2'' ''DELETE'' ''/api/tunnels/app'' [])) = 204 \<and>
   (\<exists>u. ur_role u = ''member'' \<and> keeps_others {t_id t | t. t \<in> set (tunnels demo_store) \<and> may_manage u (t_owner t)}
      {ag_id g | g. g \<in> set (agents demo_store) \<and> may_manage u (ag_owner g)} demo_store
      (snd (demo_api ''h2'' ''DELETE'' ''/api/tunnels/app'' [])))"
proof -
  let ?r = "(demo_request ''DELETE'' ''/api/tunnels/app'' ''h2'')\<lparr>rq_json := Some (JObject [])\<rparr>"
  have st: "rs_status (fst (demo_api ''h2'' ''DELETE'' ''/api/tunnels/app'' [])) = 204"
    and role: "map_option ur_role (fst (fst (requestUser demo_hmac demo_auth demo_store 20 ?r))) = Some ''member''"
    by code_simp+
  have "ur_role u = ''member''" if "speaks_for demo_hmac demo_auth demo_store 20 ?r u" for u
    using role requestUser_iff [OF demo_sessions_up, of demo_hmac demo_auth 20 ?r u] that by auto
  moreover obtain u where "speaks_for (en_hmac demo_env) demo_auth demo_store (en_now demo_env) ?r u"
      "keeps_others {t_id t | t. t \<in> set (tunnels demo_store) \<and> may_manage u (t_owner t)}
      {ag_id g | g. g \<in> set (agents demo_store) \<and> may_manage u (ag_owner g)} demo_store
      (snd (demo_api ''h2'' ''DELETE'' ''/api/tunnels/app'' []))"
    using api_changes_only_own [OF demo_sessions_up prod.collapse [symmetric], where en = demo_env and cfg = demo_config
        and domains = "NewDomainStore (Elements [Some ''a.dev''])" and a = demo_auth and r = ?r] st
    unfolding demo_api_def by auto
  ultimately show ?thesis using st by (auto simp: demo_env_def)
qed

section \<open>Creating tunnels\<close>

text \<open>The names under which the server and the allowed domains let a tunnel live.\<close>

definition hostname_allowed :: "string \<Rightarrow> string list \<Rightarrow> string \<Rightarrow> bool" where
  "hostname_allowed server allowed h \<longleftrightarrow>
     (\<exists>base \<in> {server, to_lower (trim_space server)} \<union> (trim_lower ` set allowed - {[]}).
        h = base \<or> (\<exists>sub. h = sub @ ''.'' @ base))"

lemma resolve_allowed:
  assumes "resolveTunnelHostname server allowed sub url = Inr h"
  shows "hostname_allowed server allowed h"
proof -
  from assms consider (sub) "\<exists>q. h = q @ ''.'' @ to_lower (trim_space server)" | (host) "h = server \<or> has_suffix h (''.'' @ server)"
    | (allowed) d where "d \<in> trim_lower ` set allowed - {[]}" "h = d \<or> has_suffix h (''.'' @ d)"
    by (auto simp: resolveTunnelHostname_def Let_def list_ex_iff split: if_splits)
  then show ?thesis
  proof cases
    case sub
    then show ?thesis unfolding hostname_allowed_def by blast
  next
    case host
    then show ?thesis unfolding hostname_allowed_def has_suffix_iff by blast
  next
    case (allowed d)
    then show ?thesis unfolding hostname_allowed_def has_suffix_iff by blast
  qed
qed

lemma named_agent_owned:
  assumes "named_agent user s given nm = Inr i"
  shows "i = 0 \<or> (\<exists>g \<in> set (agents s). ag_id g = i \<and> may_manage user (ag_owner g))"
  using assms
  by (auto simp: named_agent_def GetAgentByName_def select_agent_def scanAgentRecord_def
      split: if_splits sum.splits option.splits dest!: find_SomeD)

text \<open>
  C27. Creation: a tunnel with a new name appears only through a request whose session speaks
  for a user, and then it belongs to that user, its name is not empty, its hostname was free
  and lies under the server's name or an allowed domain, it is stopped and offline, it is
  assigned to no agent or to one the user may manage, and its access rule is public.
\<close>

theorem api_create_confined:
  assumes "sessions_up s" and "ControlPlaneRouter en cfg domains (Some a) s r = (resp, s')"
    and "t \<in> set (tunnels s')" and "t_name t \<notin> t_name ` set (tunnels s)"
  shows "\<exists>u. speaks_for (en_hmac en) a s (en_now en) r u \<and> t_owner t = ur_id u \<and> t_name t \<noteq> [] \<and>
    hostname_allowed (cf_hostname cfg) (List_domains domains) (t_hostname t) \<and>
    t_hostname t \<notin> t_hostname ` set (tunnels s) \<and> t_desired t = ''stopped'' \<and> t_actual t = ''offline'' \<and>
    (t_agent t = 0 \<or> (\<exists>g \<in> set (agents s). ag_id g = t_agent t \<and> may_manage u (ag_owner g))) \<and>
    (\<exists>x \<in> set (rules s'). ru_tunnel x = t_id t \<and> ru_mode x = public_mode)"
  using assms(2)
proof (cases rule: router_cases)
  case refused
  have "tunnels s' = tunnels s" using arg_cong [OF refused(1), of tunnels] by simp
  then show ?thesis using assms(3,4) by auto
next
  case (served u s1 ep)
  have who: "speaks_for (en_hmac en) a s (en_now en) r u"
    using requestUser_iff [OF assms(1)] served(1) by blast
  have ok: "store_ok s1"
    using requestUser_ok [of s] assms(1) by (simp add: served(3) sessions_up_def)
  have same: "tunnels s1 = tunnels s" "agents s1 = agents s" by (subst served(2), simp)+
  have new: "t_name t \<in> tunnel_names s'" "t_name t \<notin> tunnel_names s1"
    using assms(3,4) by (auto simp: tunnel_names_def same)
  have s': "s' = snd (api_dispatch en cfg (List_domains domains) ep u s1 r)" by (simp add: served(5))
  have "ep = Tunnels_ep"
    using new names_agents [of en u s1 r] names_tunnel_handler [of en u s1 r]
    by (cases ep) (auto simp: s' api_dispatch_def)
  then have h: "s' = snd (tunnels_handler en cfg (List_domains domains) u s1 r)" by (simp add: s' api_dispatch_def)
  with new have "tunnel_names (snd (tunnels_handler en cfg (List_domains domains) u s1 r)) \<noteq> tunnel_names s1" by blast
  then show ?thesis
  proof (cases rule: create_branch)
    case (1 b hostname agentID)
    have B: "s' = snd (CreateTunnel (en_sha en) s1 (en_now en) (ur_id u) (normalizeName (tb_name b)) hostname (tb_local b) agentID)"
      unfolding h by (rule 1(7))
    note add = create_adds [OF ok assms(3) [unfolded B] new(2)]
    have t: "t_owner t = ur_id u" "t_name t \<noteq> []" "t_hostname t = hostname" "t_desired t = ''stopped''"
      "t_actual t = ''offline''" "t_agent t = agentID" "t_id t = next_id s1 Tunnels"
      using add 1(3) by (simp_all add: new_tunnel_row_def)
    have "\<exists>x \<in> set (rules s'). ru_tunnel x = t_id t \<and> ru_mode x = public_mode"
      using add unfolding B [symmetric] t(7) by (intro bexI [of _ "new_public_rule s1 (en_now en)"]) (simp_all add: new_public_rule_def)
    then show ?thesis
      using who conjunct1 [OF conjunct2 [OF add]] resolve_allowed [OF 1(5)] named_agent_owned [OF 1(6)] unfolding same
      by (intro exI [of _ u]) (simp add: t)
  qed
qed

theorem api_create_confined_witness:
  "let res = demo_api ''h2'' ''POST'' ''/api/tunnels'' [(''name'', JString ''My App''), (''url'', JString ''x.A.dev''), (''local'', JString ''l'')]
   in \<exists>t \<in> set (tunnels (snd res)). t_name t = ''my-app'' \<and> hostname_allowed ''example.com'' [''a.dev''] (t_hostname t)"
proof -
  let ?fs = "[(''name'', JString ''My App''), (''url'', JString ''x.A.dev''), (''local'', JString ''l'')]"
  let ?r = "(demo_request ''POST'' ''/api/tunnels'' ''h2'')\<lparr>rq_json := Some (JObject ?fs)\<rparr>"
  have names: "map t_name (tunnels (snd (demo_api ''h2'' ''POST'' ''/api/tunnels'' ?fs))) = [''app'', ''web'', ''my-app'']"
    "map t_name (tunnels demo_store) = [''app'', ''web'']" "cf_hostname demo_config = ''example.com''"
    "List_domains (NewDomainStore (Elements [Some ''a.dev''])) = [''a.dev'']"
    by code_simp+
  have "''my-app'' \<in> set (map t_name (tunnels (snd (demo_api ''h2'' ''POST'' ''/api/tunnels'' ?fs))))"
    unfolding names(1) by simp
  from in_set_mapD [OF this] obtain t where t: "t \<in> set (tunnels (snd (demo_api ''h2'' ''POST'' ''/api/tunnels'' ?fs)))" "t_name t = ''my-app''"
    by (elim exE conjE)
  have "t_name t \<notin> t_name ` set (tunnels demo_store)"
    using arg_cong [OF names(2), of set] t(2) by simp
  with t have "hostname_allowed ''example.com'' [''a.dev''] (t_hostname t)"
    using api_create_confined [OF demo_sessions_up prod.collapse [symmetric], where t = t and en = demo_env and cfg = demo_config
        and domains = "NewDomainStore (Elements [Some ''a.dev''])" and a = demo_auth and r = ?r] unfolding demo_api_def names(3,4) by blast
  with t show ?thesis by (auto simp: Let_def)
qed

end
