(* ===== verification/ControlErrors.thy ===== *)
theory ControlErrors
  imports ControlClaims
begin

text \<open>
  The errors of the control-plane API on a database that answers: which codes occur and what
  they leave behind.
\<close>

definition clean_error :: "request \<Rightarrow> store \<Rightarrow> 'p response \<times> store \<Rightarrow> bool" where
  "clean_error r s out \<longleftrightarrow>
     (400 \<le> rs_status (fst out) \<longrightarrow>
        rs_status (fst out) \<in> {400, 401, 403, 404, 405, 409} \<and>
        snd out = s\<lparr>events := events (snd out), seqs := seqs (snd out)\<rparr> \<and>
        (events (snd out) \<noteq> events s \<longrightarrow> rq_method r = ''PATCH'' \<and> rs_status (fst out) = 400))"

lemma clean_refusal [simp]:
  "clean_error r s (http_error m c, s) \<longleftrightarrow> (400 \<le> c \<longrightarrow> c \<in> {400, 401, 403, 404, 405, 409})"
  "clean_error r s (bad_method, s)" "clean_error r s (not_found, s)"
  by (auto simp: clean_error_def bad_method_def)

lemma clean_success [simp]:
  "c < 400 \<Longrightarrow> clean_error r s (writeJSON c v, s')" "clean_error r s (no_content, s')"
  by (simp_all add: clean_error_def)

lemma clean_fail [simp]:
  "clean_error r s (fail_with en e c, s) \<longleftrightarrow> (400 \<le> c \<longrightarrow> c \<in> {400, 401, 403, 404, 405, 409})"
  by (simp add: fail_with_def)

definition quiet :: "store \<Rightarrow> bool" where
  "quiet s \<longleftrightarrow> (\<forall>tb. \<not> fault s tb)"

lemma quietD [simp]: "quiet s \<Longrightarrow> \<not> fault s tb"
  by (simp add: quiet_def)

lemma quiet_reads [simp]: "quiet s \<Longrightarrow> \<not> tunnel_read_fault s"
  by (simp add: tunnel_read_fault_def)

section \<open>The collections\<close>

lemma CreateAgent_quiet:
  assumes "quiet s" and "CreateAgent s now uid nm h = (Inl e, s')"
  shows "s' = s"
proof -
  have "find (\<lambda>a. ag_name a = nm) (agents s @ [row]) = Some row"
    if "nm \<notin> ag_name ` set (agents s)" "ag_name row = nm" for row
    using that by (intro find_snoc_fresh) (auto simp: image_iff)
  then show ?thesis
    using assms
    by (auto simp: CreateAgent_def GetAgentByName_def select_agent_def Let_def split: if_splits)
qed

lemma CreateTunnel_quiet:
  assumes "quiet s" and "store_ok s" and "CreateTunnel H s now owner nm hn hint aid = (Inl e, s')"
  shows "s' = s"
proof (cases "nm \<in> t_name ` set (tunnels s) \<or> hn \<in> t_hostname ` set (tunnels s)")
  case True
  then show ?thesis using CreateTunnel_taken [of s nm hn H now owner hint aid] assms by auto
next
  case False
  let ?row = "new_tunnel_row s now owner nm hn hint aid"
  have "find (\<lambda>t. t_name t = nm) (tunnels s @ [?row]) = Some ?row"
    using False by (intro find_snoc_fresh) (auto simp: new_tunnel_row_def)
  then have "isl (fst (CreateTunnel H s now owner nm hn hint aid)) = False"
    using CreateTunnel_fresh [OF assms(2), of nm hn H now owner hint aid] False assms(1)
    by (simp add: GetTunnelByName_def select_tunnel_def tunnel_read_fault_def Let_def)
  then show ?thesis using assms(3) by simp
qed

lemma clean_agents:
  assumes "quiet s" and "en_random en = Inr raw"
  shows "clean_error r s (agents_handler en user s r)"
  using assms
  by (auto simp: agents_handler_def ListAgentsForUser_def Let_def dest!: CreateAgent_quiet [OF assms(1)]
      split: option.split prod.split sum.split)

lemma clean_named_agent:
  "named_agent user s given nm = Inl resp \<Longrightarrow> clean_error r s (resp, s)"
  by (auto simp: named_agent_def split: if_splits sum.splits)

lemma resolve_error_clean: "clean_error r s (http_error e 400, s)"
  by simp

lemma clean_tunnels:
  assumes "quiet s" and "store_ok s"
  shows "clean_error r s (tunnels_handler en cfg allowed user s r)"
  using assms
  by (auto simp: tunnels_handler_def create_handler_def ListTunnelsForUser_def ListTunnels_def Let_def
      dest!: CreateTunnel_quiet [OF assms] split: option.split prod.split sum.split intro: clean_named_agent)

lemma clean_agent:
  assumes "quiet s"
  shows "clean_error r s (agent_handler en user s r)"
  using assms
  by (auto simp: agent_handler_def RevokeAgentByName_def update_agents_def Let_def split: sum.split prod.split)

section \<open>One tunnel\<close>

lemma update_quiet: "quiet s \<Longrightarrow> fst (update_tunnels P f s) = Inr ()"
  by (simp add: update_tunnels_def)

lemma clean_set_state: "quiet s \<Longrightarrow> clean_error r s (set_state en name tun desired s)"
  by (simp add: set_state_def SetTunnelDesiredState_def update_tunnels_def Let_def)

lemma clean_assign: "quiet s \<Longrightarrow> clean_error r s (assign_handler en user name tun s r)"
  by (auto simp: assign_handler_def AssignTunnelToAgent_def update_tunnels_def Let_def
      split: option.split sum.split intro: clean_named_agent)

lemma rule_found:
  assumes "\<not> fault s AccessRules" and "tid \<in> ru_tunnel ` set (rules s)"
  shows "\<exists>x. GetTunnelAccessRule s tid = Inr x"
proof -
  have "find (\<lambda>r. ru_tunnel r = tid) (rules s) \<noteq> None" using assms(2) by (auto simp: find_None_iff)
  then show ?thesis using assms(1) by (auto simp: GetTunnelAccessRule_def)
qed

lemma event_frame [simp]:
  "rules (snd (AddTunnelEvent s now hn k m)) = rules s" "fault (snd (AddTunnelEvent s now hn k m)) = fault s"
  by (auto simp: AddTunnelEvent_def insert_event_row_def bump_def split: sum.split)

lemma event_only:
  "s\<lparr>events := events (snd (AddTunnelEvent s now hn k m)), seqs := seqs (snd (AddTunnelEvent s now hn k m))\<rparr> =
    snd (AddTunnelEvent s now hn k m)"
  by (auto simp: AddTunnelEvent_def insert_event_row_def bump_def split: sum.split)

lemma Upsert_cases:
  assumes "UpsertTunnelAccessRule H s now tid inp = (x, s')"
  shows "(isl x \<longrightarrow> s' = s) \<and> ru_tunnel ` set (rules s) \<subseteq> ru_tunnel ` set (rules s') \<and> fault s' = fault s"
proof -
  have row: "ru_tunnel ` set (rules s) \<subseteq> ru_tunnel ` set (rules s1) \<and> fault s1 = fault s"
    if "upsertTunnelAccessRuleTx H s now tid [] [] inp False ex = Inr s1" for ex s1
    using that by (auto simp: upsertTunnelAccessRuleTx_def upsert_rule_row_def image_update_where split: sum.splits if_splits)
  then show ?thesis
    using assms by (auto simp: UpsertTunnelAccessRule_def Let_def split: sum.splits go_err.splits)
qed

lemma clean_access:
  assumes "quiet s" and "tr_id tun \<in> ru_tunnel ` set (rules s)"
  shows "clean_error r s (access_handler en tun s r)"
proof -
  have shown: "400 \<le> rs_status (show_rule en tun s') \<longrightarrow> False"
    if "tr_id tun \<in> ru_tunnel ` set (rules s')" "\<not> fault s' AccessRules" for s'
    using rule_found [OF that(2,1)] by (auto simp: show_rule_def)
  have get: "clean_error r s (show_rule en tun s, s)"
    using shown [OF assms(2)] assms(1) by (simp add: clean_error_def)
  have patch: "clean_error r s
      (case UpsertTunnelAccessRule (en_sha en) s (en_now en) (tr_id tun) b of
         (Inl e, s') \<Rightarrow> (fail_with en e 400, note_event en s' tun ''access_rule_invalid'' (err_text (en_drv en) e))
       | (Inr _, s') \<Rightarrow> (let s'' = note_event en s' tun ''access_rule_changed'' ''access rule updated'' in (show_rule en tun s'', s'')))"
    if "rq_method r = ''PATCH''" for b
  proof (cases "UpsertTunnelAccessRule (en_sha en) s (en_now en) (tr_id tun) b")
    case (Pair x s')
    note C = Upsert_cases [OF Pair]
    show ?thesis
    proof (cases x)
      case (Inl e)
      with C have "s' = s" by simp
      with that show ?thesis by (simp add: Pair Inl clean_error_def note_event_def fail_with_def event_only)
    next
      case (Inr y)
      let ?s2 = "note_event en s' tun ''access_rule_changed'' ''access rule updated''"
      have "rules ?s2 = rules s'" "fault ?s2 = fault s'" by (simp_all add: note_event_def)
      then have "\<not> 400 \<le> rs_status (show_rule en tun ?s2)"
        using shown [of ?s2] C assms by auto
      then show ?thesis by (simp add: Pair Inr clean_error_def Let_def)
    qed
  qed
  show ?thesis using get patch by (auto simp: access_handler_def split: option.split)
qed

lemma clean_tunnel:
  assumes "quiet s" and "t_id ` set (tunnels s) \<subseteq> ru_tunnel ` set (rules s)"
  shows "clean_error r s (tunnel_handler en user s r)"
proof -
  have act: "clean_error r s (tunnel_action en user parts name tun s r)" if "tr_id tun \<in> ru_tunnel ` set (rules s)" for parts name tun
    using assms(1) that
    by (simp add: tunnel_action_def clean_assign clean_set_state clean_access logs_handler_def events_handler_def
        state_handler_def start_handler_def stop_handler_def delete_handler_def DeleteTunnelByName_def
        ListRequestLogsByTunnel_def list_logs_def ListTunnelEventsByTunnel_def Let_def split: option.split)
  have "tr_id tun \<in> ru_tunnel ` set (rules s)" if "GetTunnelByName s n = Inr tun" for n tun
    using select_tunnel_SomeD [OF that [unfolded GetTunnelByName_def]] assms(2) by (auto simp: scan_tunnel_def)
  then show ?thesis
    using act by (auto simp: tunnel_handler_def Let_def split: sum.split)
qed

section \<open>The property\<close>



end
