(* ===== verification/Stats.thy ===== *)
theory Stats
  imports GoTime "HOL-Library.Signed_Division"
begin

text \<open>
  The in-memory traffic statistics: \<open>StatsStore\<close> of internal/server/stats.go. Counters are
  Go's \<open>int64\<close>: an int whose arithmetic is wrapped by \<open>i64\<close> where the code computes. The
  abstract specification is the history of the recorded requests.
\<close>

section \<open>The store\<close>

definition i64 :: "int \<Rightarrow> int" where
  "i64 n = signed_take_bit 63 n"

lemma i64_id: "- (2 ^ 63) \<le> n \<Longrightarrow> n < 2 ^ 63 \<Longrightarrow> i64 n = n"
  by (simp add: i64_def signed_take_bit_int_eq_self)

definition statsRetainAfterInactive :: int where "statsRetainAfterInactive = 10 * minute"

definition recentErrorWindow :: int where "recentErrorWindow = 5 * minute"

record tunnel_stats =
  ts_hostname :: string
  ts_requests :: int
  ts_errors :: int
  ts_in :: int
  ts_out :: int
  ts_status :: int
  ts_seen :: time
  ts_count :: int
  ts_sum :: int
  ts_max :: int
  ts_avg :: int
  ts_remote :: string
  ts_active :: bool

record tunnel_stat = tunnel_stats +
  ts_active_seen :: time

record stats_store =
  sx_hosts :: "(string \<times> tunnel_stat) list"
  sx_errors :: "time list"

definition NewStatsStore :: stats_store where
  "NewStatsStore = \<lparr>sx_hosts = [], sx_errors = []\<rparr>"

definition zero_stat :: "string \<Rightarrow> tunnel_stat" where
  "zero_stat h = \<lparr>ts_hostname = h, ts_requests = 0, ts_errors = 0, ts_in = 0, ts_out = 0, ts_status = 0,
     ts_seen = 0, ts_count = 0, ts_sum = 0, ts_max = 0, ts_avg = 0, ts_remote = [], ts_active = False,
     ts_active_seen = 0\<rparr>"

text \<open>\<open>Duration.Milliseconds\<close>\<close>

definition milliseconds :: "int \<Rightarrow> int" where
  "milliseconds d = d sdiv millisecond"

record hit =
  ht_host :: string
  ht_remote :: string
  ht_in :: int
  ht_out :: int
  ht_status :: int
  ht_dur :: int
  ht_err :: bool

text \<open>What \<open>Record\<close> does to the entry of its host.\<close>

definition count_hit :: "time \<Rightarrow> hit \<Rightarrow> tunnel_stat \<Rightarrow> tunnel_stat" where
  "count_hit now x st =
     (let ms = milliseconds (ht_dur x); count = i64 (ts_count st + 1); total = i64 (ts_sum st + ms)
      in st\<lparr>ts_requests := i64 (ts_requests st + 1), ts_in := i64 (ts_in st + ht_in x),
            ts_out := i64 (ts_out st + ht_out x), ts_status := ht_status x, ts_seen := now,
            ts_count := count, ts_sum := total, ts_max := (if ms > ts_max st then ms else ts_max st),
            ts_avg := (if count > 0 then total sdiv count else ts_avg st),
            ts_remote := (if ht_remote x \<noteq> [] then ht_remote x else ts_remote st),
            ts_errors := (if ht_err x then i64 (ts_errors st + 1) else ts_errors st)\<rparr>)"

definition Record :: "stats_store \<Rightarrow> time \<Rightarrow> hit \<Rightarrow> stats_store" where
  "Record s now x =
     (if ht_host x = [] then s
      else let st = (case map_of (sx_hosts s) (ht_host x) of Some st \<Rightarrow> st | None \<Rightarrow> zero_stat (ht_host x))
      in s\<lparr>sx_hosts := put_key (ht_host x) (count_hit now x st) (sx_hosts s),
           sx_errors := (if ht_err x then sx_errors s @ [now] else sx_errors s)\<rparr>)"

text \<open>\<open>Snapshot\<close>: \<open>active\<close> maps the live hostnames to their peers.\<close>

definition mark :: "time \<Rightarrow> (string \<times> string) list \<Rightarrow> string \<Rightarrow> tunnel_stat \<Rightarrow> tunnel_stat" where
  "mark now active h st =
     (case map_of active h of
        Some addr \<Rightarrow> st\<lparr>ts_active := True, ts_active_seen := now,
                       ts_remote := (if addr \<noteq> [] then addr else ts_remote st)\<rparr>
      | None \<Rightarrow> st\<lparr>ts_active := False\<rparr>)"

definition retained :: "time \<Rightarrow> tunnel_stat \<Rightarrow> bool" where
  "retained now st \<longleftrightarrow> \<not> (\<not> ts_active st \<and> \<not> is_zero (ts_seen st) \<and> now - ts_seen st > statsRetainAfterInactive)"

definition Snapshot :: "stats_store \<Rightarrow> time \<Rightarrow> (string \<times> string) list \<Rightarrow> tunnel_stats list \<times> stats_store" where
  "Snapshot s now active =
     (let hosts = filter (\<lambda>(h, st). retained now st) (map (\<lambda>(h, st). (h, mark now active h st)) (sx_hosts s))
      in (sort_key ts_hostname (map (\<lambda>(h, st). tunnel_stats.truncate st) hosts), s\<lparr>sx_hosts := hosts\<rparr>))"

definition RecentErrors :: "stats_store \<Rightarrow> time \<Rightarrow> int \<Rightarrow> nat \<times> stats_store" where
  "RecentErrors s now window =
     (let w = (if window \<le> 0 then recentErrorWindow else window);
          keep = filter (\<lambda>t. t > now - w) (sx_errors s)
      in (length keep, s\<lparr>sx_errors := keep\<rparr>))"

section \<open>The specification\<close>

text \<open>The statistics of a host, computed from the whole history of its requests.\<close>

definition last_remote :: "hit list \<Rightarrow> string" where
  "last_remote xs = (case find (\<lambda>r. r \<noteq> []) (rev (map ht_remote xs)) of Some r \<Rightarrow> r | None \<Rightarrow> [])"

definition summary :: "string \<Rightarrow> (time \<times> hit) list \<Rightarrow> tunnel_stat" where
  "summary h ys =
     (let xs = map snd ys; ms = map (\<lambda>x. milliseconds (ht_dur x)) xs
      in \<lparr>ts_hostname = h, ts_requests = int (length xs), ts_errors = int (length (filter ht_err xs)),
          ts_in = sum_list (map ht_in xs), ts_out = sum_list (map ht_out xs), ts_status = ht_status (last xs),
          ts_seen = fst (last ys), ts_count = int (length xs), ts_sum = sum_list ms, ts_max = fold max ms 0,
          ts_avg = sum_list ms div int (length xs), ts_remote = last_remote xs, ts_active = False,
          ts_active_seen = 0\<rparr>)"

definition hits_of :: "string \<Rightarrow> (time \<times> hit) list \<Rightarrow> (time \<times> hit) list" where
  "hits_of h ys = filter (\<lambda>(now, x). ht_host x = h) ys"

text \<open>No counter of the host leaves the range of \<open>int64\<close>.\<close>

definition in_range :: "hit list \<Rightarrow> bool" where
  "in_range xs \<longleftrightarrow> (\<forall>x \<in> set xs. 0 \<le> ht_in x \<and> 0 \<le> ht_out x \<and> 0 \<le> ht_dur x) \<and>
     sum_list (map ht_in xs) < 2 ^ 63 \<and> sum_list (map ht_out xs) < 2 ^ 63 \<and>
     sum_list (map (\<lambda>x. milliseconds (ht_dur x)) xs) < 2 ^ 63 \<and> length xs < 2 ^ 63"

definition record_all :: "(time \<times> hit) list \<Rightarrow> stats_store" where
  "record_all ys = foldl (\<lambda>s (now, x). Record s now x) NewStatsStore ys"

section \<open>Facts\<close>

lemma sdiv_nonneg: "0 \<le> a \<Longrightarrow> 0 \<le> b \<Longrightarrow> a sdiv b = a div (b :: int)"
  by (cases "a = 0"; cases "b = 0") (auto simp: signed_divide_int_def sgn_if)

lemma milliseconds_nonneg: "0 \<le> d \<Longrightarrow> 0 \<le> milliseconds d"
  by (simp add: milliseconds_def millisecond_def sdiv_nonneg)

lemma in_range_snoc: "in_range (xs @ [x]) \<Longrightarrow> in_range xs \<and> 0 \<le> ht_in x \<and> 0 \<le> ht_out x \<and> 0 \<le> milliseconds (ht_dur x)"
  using milliseconds_nonneg [of "ht_dur x"] by (auto simp: in_range_def)

lemma in_range_sums:
  assumes "in_range xs"
  shows "0 \<le> sum_list (map ht_in xs)" "0 \<le> sum_list (map ht_out xs)"
    "0 \<le> sum_list (map (\<lambda>x. milliseconds (ht_dur x)) xs)"
  using assms by (auto simp: in_range_def milliseconds_nonneg intro!: sum_list_nonneg)

lemma last_remote_snoc:
  "last_remote (xs @ [x]) = (if ht_remote x \<noteq> [] then ht_remote x else last_remote xs)"
  by (simp add: last_remote_def)

lemma summary_Nil: "summary h [] = (zero_stat h)\<lparr>ts_status := ts_status (summary h []), ts_seen := ts_seen (summary h [])\<rparr>"
  by (simp add: summary_def zero_stat_def last_remote_def)

text \<open>One more request: the incremental update agrees with the summary.\<close>

lemma count_hit_summary:
  assumes "in_range (map snd (ys @ [(now, x)]))"
    and "st = (if ys = [] then zero_stat h else summary h ys)"
  shows "count_hit now x st = summary h (ys @ [(now, x)])"
proof -
  let ?xs = "map snd ys" and ?ms = "\<lambda>xs. sum_list (map (\<lambda>x. milliseconds (ht_dur x)) xs)"
  have r: "in_range (?xs @ [x])" using assms(1) by simp
  note R = in_range_snoc [OF r] in_range_sums [OF r] in_range_sums [OF conjunct1 [OF in_range_snoc [OF r]]]
  have len: "int (length ys) + 1 < 2 ^ 63" "0 \<le> int (length ys)"
    using r by (simp_all add: in_range_def)
  have errs: "length (filter ht_err ?xs) \<le> length ys"
    using length_filter_le [of ht_err ?xs] by simp
  have e: "i64 (int (length (filter ht_err ?xs)) + 1) = int (length (filter ht_err ?xs)) + 1"
    using len errs by (intro i64_id) linarith+
  have i: "i64 (int (length ys) + 1) = int (length ys) + 1"
    "i64 (sum_list (map ht_in ?xs) + ht_in x) = sum_list (map ht_in ?xs) + ht_in x"
    "i64 (sum_list (map ht_out ?xs) + ht_out x) = sum_list (map ht_out ?xs) + ht_out x"
    "i64 (?ms ?xs + milliseconds (ht_dur x)) = ?ms ?xs + milliseconds (ht_dur x)"
    using R r len by (intro i64_id; simp add: in_range_def)+
  have avg: "(?ms ?xs + milliseconds (ht_dur x)) sdiv (int (length ys) + 1) =
      (?ms ?xs + milliseconds (ht_dur x)) div (int (length ys) + 1)"
    using R(3) R(4-) by (intro sdiv_nonneg) auto
  have mx: "fold max (map (\<lambda>x. milliseconds (ht_dur x)) (?xs @ [x])) 0 =
      max (milliseconds (ht_dur x)) (fold max (map (\<lambda>x. milliseconds (ht_dur x)) ?xs) 0)"
    by simp
  show ?thesis
  proof (cases "ys = []")
    case True
    then show ?thesis
      using assms(2) i e avg R by (simp add: count_hit_def summary_def zero_stat_def last_remote_def Let_def max_def)
  next
    case False
    then show ?thesis
      using assms(2) i e avg mx
      by (simp add: count_hit_def summary_def last_remote_snoc Let_def comp_def max_def add.commute)
  qed
qed

lemma hits_of_snoc: "hits_of h (ys @ [(now, x)]) = hits_of h ys @ (if ht_host x = h then [(now, x)] else [])"
  by (simp add: hits_of_def)

lemma record_all_snoc: "record_all (ys @ [(now, x)]) = Record (record_all ys) now x"
  by (simp add: record_all_def)

section \<open>Invariant\<close>

datatype stats_op = SRecord time hit | SSnapshot time "(string \<times> string) list" | SErrors time int

fun exec_stats :: "stats_op \<Rightarrow> stats_store \<Rightarrow> stats_store" where
  "exec_stats (SRecord now x) s = Record s now x"
| "exec_stats (SSnapshot now active) s = snd (Snapshot s now active)"
| "exec_stats (SErrors now w) s = snd (RecentErrors s now w)"

definition run_stats :: "stats_op list \<Rightarrow> stats_store" where
  "run_stats ops = fold exec_stats ops NewStatsStore"

definition stats_ok :: "stats_store \<Rightarrow> bool" where
  "stats_ok s \<longleftrightarrow> distinct (map fst (sx_hosts s)) \<and> (\<forall>(h, st) \<in> set (sx_hosts s). ts_hostname st = h \<and> h \<noteq> [])"

lemma Record_ok: "stats_ok s \<Longrightarrow> stats_ok (Record s now x)"
  by (auto simp: stats_ok_def Record_def Let_def count_hit_def zero_stat_def split: option.split dest!: map_of_SomeD)

lemma mark_hostname [simp]: "ts_hostname (mark now active h st) = ts_hostname st"
  by (simp add: mark_def split: option.split)

lemma Snapshot_hosts:
  "sx_hosts (snd (Snapshot s now active)) =
    filter (\<lambda>(h, st). retained now st) (map (\<lambda>(h, st). (h, mark now active h st)) (sx_hosts s))"
  by (simp add: Snapshot_def Let_def)

lemma Snapshot_ok:
  assumes "stats_ok s"
  shows "stats_ok (snd (Snapshot s now active))"
proof -
  have "map fst (map (\<lambda>(h, st). (h, mark now active h st)) (sx_hosts s)) = map fst (sx_hosts s)"
    by (simp add: case_prod_beta comp_def)
  then have "distinct (map fst (sx_hosts (snd (Snapshot s now active))))"
    using assms unfolding Snapshot_hosts stats_ok_def by (intro distinct_map_filter) (simp only:)
  then show ?thesis using assms by (auto simp: stats_ok_def Snapshot_hosts)
qed

lemma exec_stats_ok: "stats_ok s \<Longrightarrow> stats_ok (exec_stats op s)"
  by (cases op) (simp_all add: Record_ok Snapshot_ok, simp add: RecentErrors_def stats_ok_def Let_def)

lemma run_stats_ok: "stats_ok (run_stats ops)"
proof -
  have "stats_ok s \<Longrightarrow> stats_ok (fold exec_stats ops s)" for s
    by (induction ops arbitrary: s) (simp_all add: exec_stats_ok)
  from this [of NewStatsStore] show ?thesis
    by (simp add: run_stats_def) (simp add: NewStatsStore_def stats_ok_def)
qed

lemma image_pairs: "(\<lambda>(a, b). f b) ` {(a, g a b) | a b. P a b} = {f (g a b) | a b. P a b}"
  by force

lemma distinct_map_sort_key: "distinct (map k (sort_key k xs)) = distinct (map k xs)"
  by (simp add: distinct_map)

lemma snapshot_row:
  "ts_hostname (tunnel_stats.truncate (mark now active h st)) = ts_hostname st"
    "ts_requests (tunnel_stats.truncate (mark now active h st)) = ts_requests st"
    "ts_errors (tunnel_stats.truncate (mark now active h st)) = ts_errors st"
    "ts_in (tunnel_stats.truncate (mark now active h st)) = ts_in st"
    "ts_out (tunnel_stats.truncate (mark now active h st)) = ts_out st"
    "ts_avg (tunnel_stats.truncate (mark now active h st)) = ts_avg st"
    "ts_max (tunnel_stats.truncate (mark now active h st)) = ts_max st"
    "ts_status (tunnel_stats.truncate (mark now active h st)) = ts_status st"
    "ts_active (tunnel_stats.truncate (mark now active h st)) = (map_of active h \<noteq> None)"
  by (auto simp: tunnel_stats.truncate_def mark_def split: option.split)

section \<open>The properties\<close>

text \<open>
  C23. The incremental counters refine the history: while no counter of a host exceeds an
  \<open>int64\<close>, the entry of the host is the summary of all its recorded requests (their number,
  errors, bytes, latency sum, maximum and truncated average, last status and last known
  peer), a host without requests has no entry, and the error times are those of all failed
  requests in order.
\<close>

theorem stats_match_history:
  assumes "in_range (map snd (hits_of h ys))"
  shows "map_of (sx_hosts (record_all ys)) h =
      (if h = [] \<or> hits_of h ys = [] then None else Some (summary h (hits_of h ys))) \<and>
    sx_errors (record_all ys) = map fst (filter (\<lambda>(now, x). ht_err x \<and> ht_host x \<noteq> []) ys)"
  using assms
proof (induction ys rule: rev_induct)
  case Nil
  then show ?case by (simp add: record_all_def NewStatsStore_def hits_of_def)
next
  case (snoc y ys)
  obtain now x where y: "y = (now, x)" by force
  have r: "in_range (map snd (hits_of h ys))"
    using snoc.prems in_range_snoc [of "map snd (hits_of h ys)" x] by (auto simp: y hits_of_snoc split: if_splits)
  note IH = snoc.IH [OF r]
  show ?case
  proof (cases "ht_host x = h \<and> h \<noteq> []")
    case True
    then have "in_range (map snd (hits_of h ys @ [(now, x)]))" using snoc.prems by (simp add: y hits_of_snoc)
    note step = count_hit_summary [OF this refl, of h]
    show ?thesis
      using IH True step
      by (cases "hits_of h ys = []") (simp_all add: y record_all_snoc Record_def hits_of_snoc Let_def)
  next
    case False
    then show ?thesis
      using IH by (auto simp: y record_all_snoc Record_def hits_of_snoc Let_def)
  qed
qed

definition demo_hit :: "string \<Rightarrow> int \<Rightarrow> bool \<Rightarrow> hit" where
  "demo_hit h ms err = \<lparr>ht_host = h, ht_remote = ''10.0.0.1'', ht_in = 5, ht_out = 7, ht_status = (if err then 502 else 200),
     ht_dur = ms * millisecond, ht_err = err\<rparr>"

theorem stats_match_history_witness:
  "map_option ts_avg (map_of (sx_hosts (record_all [(1, demo_hit ''a'' 3 False), (2, demo_hit ''b'' 9 True), (3, demo_hit ''a'' 4 True)])) ''a'') = Some 3"
proof -
  let ?ys = "[(1, demo_hit ''a'' 3 False), (2, demo_hit ''b'' 9 True), (3, demo_hit ''a'' 4 True)]"
  have h: "hits_of ''a'' ?ys = [(1, demo_hit ''a'' 3 False), (3, demo_hit ''a'' 4 True)]"
    by (simp add: hits_of_def demo_hit_def)
  have "in_range (map snd (hits_of ''a'' ?ys))"
    unfolding h by (simp add: in_range_def demo_hit_def milliseconds_def millisecond_def sdiv_nonneg)
  from conjunct1 [OF stats_match_history [OF this]] show ?thesis
    unfolding h by (simp add: summary_def demo_hit_def milliseconds_def millisecond_def sdiv_nonneg Let_def)
qed

text \<open>
  The snapshot: after any sequence of operations its rows are sorted by hostname without
  duplicates; a host has a row exactly when it has an entry and is live, or was last seen at
  most ten minutes ago; the row carries the counters of the entry and says whether the host
  is live; and the entries it leaves are those of its rows.
\<close>

theorem snapshot_correct:
  fixes ops :: "stats_op list" and now :: time and active :: "(string \<times> string) list"
  defines "s \<equiv> run_stats ops"
  defines "out \<equiv> fst (Snapshot s now active)"
  shows "sorted_wrt (<) (map ts_hostname out) \<and>
    (\<forall>h. (h \<in> ts_hostname ` set out) =
       (\<exists>st. map_of (sx_hosts s) h = Some st \<and>
          (map_of active h \<noteq> None \<or> is_zero (ts_seen st) \<or> now - ts_seen st \<le> 10 * minute))) \<and>
    (\<forall>r \<in> set out. \<exists>st. map_of (sx_hosts s) (ts_hostname r) = Some st \<and> ts_requests r = ts_requests st \<and>
       ts_errors r = ts_errors st \<and> ts_in r = ts_in st \<and> ts_out r = ts_out st \<and> ts_avg r = ts_avg st \<and>
       ts_max r = ts_max st \<and> ts_status r = ts_status st \<and> (ts_active r \<longleftrightarrow> map_of active (ts_hostname r) \<noteq> None)) \<and>
    fst ` set (sx_hosts (snd (Snapshot s now active))) = ts_hostname ` set out"
proof -
  have ok: "stats_ok s" unfolding s_def by (rule run_stats_ok)
  let ?hs = "filter (\<lambda>(h, st). retained now st) (map (\<lambda>(h, st). (h, mark now active h st)) (sx_hosts s))"
  let ?rows = "map (\<lambda>(h, st). tunnel_stats.truncate st) ?hs"
  have out: "out = sort_key ts_hostname ?rows" by (simp add: out_def Snapshot_def Let_def)
  have names: "map ts_hostname ?rows = map fst ?hs"
    using ok by (auto simp: stats_ok_def tunnel_stats.truncate_def)
  have ok': "stats_ok (snd (Snapshot s now active))" by (rule Snapshot_ok [OF ok])
  have "distinct (map ts_hostname ?rows)" unfolding names using ok' by (simp add: stats_ok_def Snapshot_hosts)
  then have "distinct (map ts_hostname out)" unfolding out by (simp only: distinct_map_sort_key)
  then have sorted: "sorted_wrt (<) (map ts_hostname out)"
    using sorted_sort_key [of ts_hostname ?rows] by (simp add: out strict_sorted_iff)
  have row: "(h, st) \<in> set (sx_hosts s) \<longleftrightarrow> map_of (sx_hosts s) h = Some st" for h st
    using ok by (simp add: stats_ok_def)
  have keep: "retained now (mark now active h st) \<longleftrightarrow>
      map_of active h \<noteq> None \<or> is_zero (ts_seen st) \<or> now - ts_seen st \<le> 10 * minute" for h st
    by (auto simp: retained_def mark_def statsRetainAfterInactive_def split: option.split)
  have key: "ts_hostname st = h" if "map_of (sx_hosts s) h = Some st" for h st
    using ok map_of_SomeD [OF that] by (auto simp: stats_ok_def)
  have set_out: "set out = {tunnel_stats.truncate (mark now active h st) | h st.
      map_of (sx_hosts s) h = Some st \<and> retained now (mark now active h st)}"
  proof -
    have "set ?hs = {(h, mark now active h st) | h st. (h, st) \<in> set (sx_hosts s) \<and> retained now (mark now active h st)}"
      by auto
    then have "set out = (\<lambda>(h, st). tunnel_stats.truncate st) `
        {(h, mark now active h st) | h st. (h, st) \<in> set (sx_hosts s) \<and> retained now (mark now active h st)}"
      by (simp only: out set_sort set_map)
    also have "\<dots> = {tunnel_stats.truncate (mark now active h st) | h st.
        (h, st) \<in> set (sx_hosts s) \<and> retained now (mark now active h st)}"
      by (rule image_pairs)
    finally show ?thesis by (simp only: row)
  qed
  have hosts: "(h \<in> ts_hostname ` set out) = (\<exists>st. map_of (sx_hosts s) h = Some st \<and> retained now (mark now active h st))" for h
    unfolding set_out using key snapshot_row(1) by (force simp: image_iff)
  have rows: "\<exists>st. map_of (sx_hosts s) (ts_hostname r) = Some st \<and> ts_requests r = ts_requests st \<and>
       ts_errors r = ts_errors st \<and> ts_in r = ts_in st \<and> ts_out r = ts_out st \<and> ts_avg r = ts_avg st \<and>
       ts_max r = ts_max st \<and> ts_status r = ts_status st \<and> (ts_active r \<longleftrightarrow> map_of active (ts_hostname r) \<noteq> None)"
    if "r \<in> set out" for r
  proof -
    from that obtain h st where "r = tunnel_stats.truncate (mark now active h st)" "map_of (sx_hosts s) h = Some st"
      unfolding set_out by blast
    then show ?thesis using key snapshot_row by auto
  qed
  have "fst ` set (sx_hosts (snd (Snapshot s now active))) = ts_hostname ` set out"
    unfolding Snapshot_hosts out using arg_cong [OF names, of set] by (simp only: set_map set_sort)
  with sorted hosts rows show ?thesis unfolding keep by blast
qed

theorem snapshot_correct_witness:
  "let s = run_stats [SRecord 1 (demo_hit ''b'' 3 False), SRecord 2 (demo_hit ''a'' 4 True), SErrors 2 0];
       out = fst (Snapshot s (20 * minute) [(''b'', ''10.0.0.9'')])
   in ''b'' \<in> ts_hostname ` set out \<and> ''a'' \<notin> ts_hostname ` set out \<and> (\<forall>r \<in> set out. ts_active r)"
proof -
  let ?ops = "[SRecord 1 (demo_hit ''b'' 3 False), SRecord 2 (demo_hit ''a'' 4 True), SErrors 2 0]"
  let ?out = "fst (Snapshot (run_stats ?ops) (20 * minute) [(''b'', ''10.0.0.9'')])"
  note T = snapshot_correct [where now = "20 * minute" and active = "[(''b'', ''10.0.0.9'')]" and ops = ?ops]
  have live: "map_of (sx_hosts (run_stats ?ops)) ''b'' \<noteq> None"
    and idle: "map_option ts_seen (map_of (sx_hosts (run_stats ?ops)) ''a'') = Some 2"
    and only: "fst ` set (sx_hosts (snd (Snapshot (run_stats ?ops) (20 * minute) [(''b'', ''10.0.0.9'')]))) = {''b''}"
    by code_simp+
  have b: "''b'' \<in> ts_hostname ` set ?out" using T live by auto
  have a: "''a'' \<notin> ts_hostname ` set ?out"
    using T idle by (auto simp: is_zero_def minute_def second_def)
  have "ts_hostname ` set ?out = {''b''}" using T only by simp
  then have "\<forall>r \<in> set ?out. ts_hostname r = ''b''" by blast
  moreover have "\<forall>r \<in> set ?out. ts_active r \<longleftrightarrow> map_of [(''b'', ''10.0.0.9'')] (ts_hostname r) \<noteq> None"
    using T by blast
  ultimately have "\<forall>r \<in> set ?out. ts_active r" by simp
  with a b show ?thesis by (simp add: Let_def)
qed

end
