(* ===== verification/Proxy.thy ===== *)
theory Proxy
  imports GrpcServer Oidc Stats
begin

text \<open>
  The public proxy: internal/server/proxy.go. \<open>ProxyHandlerWithConfig\<close> is a function of the
  request, the registry, the store and the statistics; \<open>enqueue\<close> is the outcome of
  \<open>EnqueueRequest\<close> on the connection the registry returns (its steps are the subject of
  \<open>GrpcConn\<close>). The result says what was answered (nothing, when \<open>WriteHeader\<close> panics), what
  was handed to a tunnel, and the statistics and store afterwards.
\<close>

section \<open>Limits\<close>

text \<open>\<open>strconv.ParseInt(s, 10, 64)\<close>\<close>

definition ParseInt :: "string \<Rightarrow> int option" where
  "ParseInt s =
     (let neg = has_prefix s ''-''; t = (if neg \<or> has_prefix s ''+'' then tl s else s)
      in if t = [] \<or> \<not> list_all is_digit t then None
         else let n = int (dec_val t)
         in if neg then (if n \<le> 2 ^ 63 then Some (- n) else None)
            else (if n < 2 ^ 63 then Some n else None))"

definition default_limit :: int where "default_limit = 67108864"

text \<open>The argument is the value of the environment variable.\<close>

definition maxRequestBodyBytes :: "string \<Rightarrow> int" where
  "maxRequestBodyBytes v0 =
     (let v = trim_space v0
      in if v = [] then default_limit
         else case ParseInt v of None \<Rightarrow> default_limit | Some n \<Rightarrow> if n \<le> 0 then default_limit else n)"

section \<open>Reading the request\<close>

definition isWebsocketUpgrade :: "request \<Rightarrow> bool" where
  "isWebsocketUpgrade r \<longleftrightarrow>
     equal_fold (header_get r ''Upgrade'') ''websocket'' \<and> contains_str (to_lower (header_get r ''Connection'')) ''upgrade''"

fun before_colon :: "string \<Rightarrow> string" where
  "before_colon [] = []"
| "before_colon (c # cs) = (if c = CHR '':'' then [] else c # before_colon cs)"

definition hostWithoutPort :: "string \<Rightarrow> string" where
  "hostWithoutPort host =
     (if host \<noteq> [] \<and> hd host = CHR ''['' \<and> CHR '']'' \<in> set host
      then takeWhile (\<lambda>c. c \<noteq> CHR '']'') host @ '']''
      else before_colon host)"

fun parseTrustedProxyCIDRs :: "string list \<Rightarrow> prefix list" where
  "parseTrustedProxyCIDRs [] = []"
| "parseTrustedProxyCIDRs (v # vs) =
     (let value = trim_space v
      in if value = [] then parseTrustedProxyCIDRs vs
         else case parse_prefix value of
             Some p \<Rightarrow> p # parseTrustedProxyCIDRs vs
           | None \<Rightarrow> parseTrustedProxyCIDRs vs)"

definition peerTrusted :: "addr \<Rightarrow> prefix list \<Rightarrow> bool" where
  "peerTrusted ip trusted \<longleftrightarrow> list_ex (\<lambda>p. prefix_contains p ip) trusted"

text \<open>The address a header gives, when it is not blank and parses.\<close>

definition header_ip :: "string \<Rightarrow> string option" where
  "header_ip v = (if trim_space v = [] then None else map_option addr_text (parse_addr (trim_space v)))"

definition first_forwarded :: "string \<Rightarrow> string" where
  "first_forwarded xff = trim_space (hd (split_on CHR '','' xff))"

definition resolveClientIP :: "request \<Rightarrow> prefix list \<Rightarrow> string" where
  "resolveClientIP r trusted =
     (let remote = trim_space (rq_remote r);
          host = (case split_host_port remote of Some h \<Rightarrow> h | None \<Rightarrow> remote)
      in case parse_addr host of
          None \<Rightarrow> host
        | Some peerIP \<Rightarrow>
            (if peerTrusted peerIP trusted then
               let xff = trim_space (header_get r ''X-Forwarded-For'')
               in case (if xff = [] then None else map_option addr_text (parse_addr (first_forwarded xff))) of
                   Some ip \<Rightarrow> ip
                 | None \<Rightarrow>
                     (case header_ip (header_get r ''X-Real-Ip'') of Some ip \<Rightarrow> ip | None \<Rightarrow> addr_text peerIP)
             else addr_text peerIP))"

section \<open>The handler\<close>

record proxy_env =
  pe_start :: time
  pe_done :: time
  pe_limit :: string
  pe_sha :: "string \<Rightarrow> string"

record proxy_result =
  px_response :: "unit response option"
  px_forwarded :: "(nat \<times> proxy_request) option"
  px_stats :: "stats_store option"
  px_store :: "store option"

text \<open>The closure \<open>record\<close>: one call of the statistics, one log entry.\<close>

definition log_entry ::
  "proxy_env \<Rightarrow> request \<Rightarrow> string \<Rightarrow> string \<Rightarrow> int \<Rightarrow> int \<Rightarrow> int \<Rightarrow> string \<Rightarrow> log_record" where
  "log_entry p r hostname clientIP tid status outBytes errText =
     \<lparr>lr_id = 0, lr_tunnel = tid, lr_hostname = hostname, lr_time = pe_done p, lr_method = rq_method r, lr_host = rq_host r,
      lr_path = rq_path r, lr_status = status, lr_latency = milliseconds (pe_done p - pe_start p),
      lr_in = max 0 (rq_length r), lr_out = outBytes, lr_client = clientIP, lr_error = errText, lr_ws = isWebsocketUpgrade r\<rparr>"

definition stat_entry :: "proxy_env \<Rightarrow> request \<Rightarrow> string \<Rightarrow> string \<Rightarrow> int \<Rightarrow> int \<Rightarrow> bool \<Rightarrow> hit" where
  "stat_entry p r hostname clientIP status outBytes isErr =
     \<lparr>ht_host = hostname, ht_remote = clientIP, ht_in = max 0 (rq_length r), ht_out = outBytes, ht_status = status,
      ht_dur = pe_done p - pe_start p, ht_err = isErr\<rparr>"

record proxy_ctx =
  pc_env :: proxy_env
  pc_request :: request
  pc_host :: string
  pc_client :: string
  pc_stats :: "stats_store option"
  pc_store :: "store option"

definition finish ::
  "proxy_ctx \<Rightarrow> int \<Rightarrow> (nat \<times> proxy_request) option \<Rightarrow> unit response \<Rightarrow> int \<Rightarrow> int \<Rightarrow> bool \<Rightarrow> string \<Rightarrow> proxy_result" where
  "finish c tid fwd resp status outBytes isErr errText =
     \<lparr>px_response = Some resp, px_forwarded = fwd,
      px_stats = map_option (\<lambda>st. Record st (pe_done (pc_env c))
        (stat_entry (pc_env c) (pc_request c) (pc_host c) (pc_client c) status outBytes isErr)) (pc_stats c),
      px_store = map_option (\<lambda>s. snd (InsertRequestLog s (pe_done (pc_env c))
        (log_entry (pc_env c) (pc_request c) (pc_host c) (pc_client c) tid status outBytes errText))) (pc_store c)\<rparr>"

text \<open>\<open>http.Error(w, msg, code)\<close> followed by \<open>record(code, len(msg)+1, true, errText)\<close>.\<close>

definition deny :: "proxy_ctx \<Rightarrow> int \<Rightarrow> string \<Rightarrow> int \<Rightarrow> string \<Rightarrow> proxy_result" where
  "deny c tid msg code errText = finish c tid None (http_error msg code) code (int (length msg) + 1) True errText"

definition lookup_tunnel :: "store option \<Rightarrow> string \<Rightarrow> go_err + int" where
  "lookup_tunnel store hostname =
     (case store of
        None \<Rightarrow> Inr 0
      | Some s \<Rightarrow>
          (case GetTunnelByHostname s hostname of
             Inr rec \<Rightarrow> Inr (tr_id rec)
           | Inl e \<Rightarrow> if e = ErrNoRows then Inr 0 else Inl e))"

definition server_info :: "config \<Rightarrow> unit response" where
  "server_info cfg =
     (plain_response 200 (Text (''fwdx server at '' @ cf_hostname cfg @ ''.'' @ [CHR 0x0A, CHR 0x0A] @
        ''Use a subdomain to reach your tunnel (e.g. myapp.'' @ cf_hostname cfg @ '').'' @ [CHR 0x0A] @
        ''Create a tunnel from your machine: fwdx tunnel create -l localhost:8080 -s myapp --name myapp && fwdx tunnel start myapp'' @
        [CHR 0x0A])))\<lparr>rs_headers := [(''Content-Type'', ''text/plain; charset=utf-8'')]\<rparr>"

definition no_connection :: "proxy_ctx \<Rightarrow> config \<Rightarrow> int \<Rightarrow> proxy_result" where
  "no_connection c cfg tid =
     (if pc_host c \<noteq> [] \<and> pc_host c = hostWithoutPort (cf_hostname cfg) \<and> tid = 0
      then finish c tid None (server_info cfg) 200 0 False []
      else if tid > 0 then deny c tid ''tunnel unavailable'' 502 ''tunnel unavailable''
      else deny c tid ''no tunnel for this hostname'' 404 ''no tunnel for this hostname'')"

text \<open>The access rule: nothing, or the answer, the text sent and the text logged.\<close>

definition basic_challenge :: "unit response" where
  "basic_challenge = (http_error ''unauthorized'' 401)\<lparr>rs_headers := [(''WWW-Authenticate'', ''Basic realm=\"fwdx\"'')]\<rparr>"

definition access_check :: "proxy_ctx \<Rightarrow> int \<Rightarrow> proxy_result option" where
  "access_check c tid =
     (case pc_store c of
        None \<Rightarrow> None
      | Some s \<Rightarrow>
          if tid \<le> 0 then None
          else case GetTunnelAccessRule s tid of
              Inl e \<Rightarrow>
                if e = ErrNoRows then None
                else Some (deny c tid ''tunnel access rule lookup failed'' 500 ''tunnel access rule lookup failed'')
            | Inr rule \<Rightarrow>
                if \<not> allowedByIP rule (pc_client c) then Some (deny c tid ''forbidden'' 403 ''ip not allowed'')
                else if ar_mode rule = basic_mode then
                  (case basic_auth (pc_request c) of
                     Some (user, pass) \<Rightarrow>
                       if verifyAccessRuleBasicAuth (pe_sha (pc_env c)) rule user pass then None
                       else Some (finish c tid None basic_challenge 401 13 True ''basic auth failed'')
                   | None \<Rightarrow> Some (finish c tid None basic_challenge 401 13 True ''basic auth failed''))
                else if ar_mode rule = secret_mode then
                  (if verifyAccessRuleSharedSecret (pe_sha (pc_env c)) rule (header_get (pc_request c) (ar_header rule)) then None
                   else Some (deny c tid ''unauthorized'' 401 ''shared secret failed''))
                else None)"

definition body_too_large :: "proxy_ctx \<Rightarrow> int \<Rightarrow> int \<Rightarrow> proxy_result" where
  "body_too_large c tid maxBody =
     finish c tid None
       (http_error (''request body too large (max '' @ num_text 10 (nat maxBody) @ '' bytes)'') 413) 413 0 True
       ''request body too large''"

text \<open>\<open>io.ReadAll(io.LimitReader(r.Body, maxBody+1))\<close>; the sum is an \<open>int64\<close>.\<close>

definition read_body :: "request \<Rightarrow> int \<Rightarrow> string" where
  "read_body r maxBody = take (nat (i64 (maxBody + 1))) (rq_body r)"

definition request_of :: "request \<Rightarrow> string \<Rightarrow> proxy_request" where
  "request_of r body = \<lparr>pq_id = [], pq_method = rq_method r, pq_path = rq_path r, pq_query = rq_query r,
     pq_headers = rq_headers r, pq_body = body\<rparr>"

text \<open>
  What the server sends for the tunnel's response: an informational status is not final, and
  some statuses have no body. A status outside 100..999 makes \<open>WriteHeader\<close> panic.
\<close>

definition sent_response :: "proxy_response \<Rightarrow> unit response option" where
  "sent_response x =
     (let code = ps_status x
      in if code < 100 \<or> 999 < code then None
         else let final = (if code < 200 \<and> code \<noteq> 101 then 200 else code)
         in Some \<lparr>rs_status = final, rs_headers = concat (map (\<lambda>(k, vv). map (\<lambda>v. (mime_key k, v)) vv) (ps_headers x)),
               rs_cookies = [],
               rs_body = (if ps_body x = [] \<or> final < 200 \<or> final = 204 \<or> final = 304 then NoBody else Text (ps_body x))\<rparr>)"

definition forward ::
  "proxy_ctx \<Rightarrow> int \<Rightarrow> nat \<Rightarrow> (nat \<Rightarrow> proxy_request \<Rightarrow> proxy_response option \<times> bool) \<Rightarrow> string \<Rightarrow> proxy_result" where
  "forward c tid i enqueue body =
     (let pr = request_of (pc_request c) body
      in case enqueue i pr of
          (Some x, False) \<Rightarrow>
            (case sent_response x of
               None \<Rightarrow> \<lparr>px_response = None, px_forwarded = Some (i, pr), px_stats = pc_stats c, px_store = pc_store c\<rparr>
             | Some resp \<Rightarrow>
                 finish c tid (Some (i, pr)) resp (ps_status x) (int (length (ps_body x))) (ps_status x \<ge> 400) [])
        | _ \<Rightarrow> (deny c tid ''tunnel unavailable'' 502 ''tunnel unavailable'')\<lparr>px_forwarded := Some (i, pr)\<rparr>)"

text \<open>After the access rule: websockets and large bodies are refused, the rest is forwarded.\<close>

definition pass_request ::
  "proxy_ctx \<Rightarrow> int \<Rightarrow> nat \<Rightarrow> (nat \<Rightarrow> proxy_request \<Rightarrow> proxy_response option \<times> bool) \<Rightarrow> proxy_result" where
  "pass_request c tid i enqueue =
     (let r = pc_request c; maxBody = maxRequestBodyBytes (pe_limit (pc_env c)); body = read_body r maxBody
      in if isWebsocketUpgrade r
         then deny c tid ''websocket tunneling is not implemented in this release'' 501
                ''websocket tunneling is not implemented in this release''
         else if rq_length r > maxBody then body_too_large c tid maxBody
         else if int (length body) > maxBody then body_too_large c tid maxBody
         else forward c tid i enqueue body)"

text \<open>\<open>tunnelRec\<close> at the access check: a second look-up when the first found nothing.\<close>

definition relookup :: "store option \<Rightarrow> string \<Rightarrow> int \<Rightarrow> int" where
  "relookup store hostname tid =
     (if tid = 0 then (case lookup_tunnel store hostname of Inr n \<Rightarrow> n | Inl _ \<Rightarrow> 0) else tid)"

definition ProxyHandlerWithConfig ::
  "proxy_env \<Rightarrow> config \<Rightarrow> stats_store option \<Rightarrow> store option \<Rightarrow> hub \<Rightarrow>
   (nat \<Rightarrow> proxy_request \<Rightarrow> proxy_response option \<times> bool) \<Rightarrow> request \<Rightarrow> proxy_result" where
  "ProxyHandlerWithConfig p cfg stats store hub enqueue r =
     (let hostname = hostWithoutPort (rq_host r);
          c = \<lparr>pc_env = p, pc_request = r, pc_host = hostname,
               pc_client = resolveClientIP r (parseTrustedProxyCIDRs (cf_trusted cfg)), pc_stats = stats, pc_store = store\<rparr>
      in case lookup_tunnel store hostname of
          Inl _ \<Rightarrow> deny c 0 ''tunnel lookup failed'' 500 ''tunnel lookup failed''
        | Inr tid0 \<Rightarrow>
            (case Get hub hostname of
               None \<Rightarrow> no_connection c cfg tid0
             | Some i \<Rightarrow>
                 (let tid = relookup store hostname tid0
                  in case access_check c tid of
                      Some res \<Rightarrow> res
                    | None \<Rightarrow> pass_request c tid i enqueue)))"

text \<open>The two constructors without a configuration.\<close>

definition host_config :: "string \<Rightarrow> config" where
  "host_config h = \<lparr>cf_hostname = h, cf_web_port = 0, cf_grpc_port = 0, cf_cert = [], cf_key = [], cf_data_dir = [],
     cf_issuer = [], cf_client_id = [], cf_client_secret = [], cf_redirect_url = [], cf_scopes = [], cf_admin_emails = [],
     cf_admin_subjects = [], cf_admin_groups = [], cf_session_secret = [], cf_device_client_id = [], cf_trusted = []\<rparr>"

definition ProxyHandler ::
  "proxy_env \<Rightarrow> string \<Rightarrow> hub \<Rightarrow> (nat \<Rightarrow> proxy_request \<Rightarrow> proxy_response option \<times> bool) \<Rightarrow> request \<Rightarrow> proxy_result" where
  "ProxyHandler p h hub enqueue r = ProxyHandlerWithConfig p (host_config h) None None hub enqueue r"

definition ProxyHandlerWithStats ::
  "proxy_env \<Rightarrow> string \<Rightarrow> stats_store option \<Rightarrow> store option \<Rightarrow> hub \<Rightarrow>
   (nat \<Rightarrow> proxy_request \<Rightarrow> proxy_response option \<times> bool) \<Rightarrow> request \<Rightarrow> proxy_result" where
  "ProxyHandlerWithStats p h stats store hub enqueue r = ProxyHandlerWithConfig p (host_config h) stats store hub enqueue r"

text \<open>A helper of the file that nothing calls.\<close>

definition sharedSecretHeaderValue :: "string \<Rightarrow> string option" where
  "sharedSecretHeaderValue authHeader =
     (if \<not> has_prefix authHeader ''Basic '' then None else std_decode (trim_prefix authHeader ''Basic ''))"

end
