(* ===== verification/ProxyClaims.thy ===== *)
theory ProxyClaims
  imports Proxy ControlErrors
begin

text \<open>
  The properties of the public proxy: which requests reach a tunnel, what is recorded, whose
  address a request is taken to come from, and what remains of a deleted tunnel.
\<close>

section \<open>The access policy\<close>

text \<open>What an access rule asks of a request from \<open>clientIP\<close>.\<close>

definition rule_admits :: "(string \<Rightarrow> string) \<Rightarrow> access_rule \<Rightarrow> string \<Rightarrow> request \<Rightarrow> bool" where
  "rule_admits H rule clientIP r \<longleftrightarrow> allowedByIP rule clientIP \<and>
     (ar_mode rule = basic_mode \<longrightarrow>
        (case basic_auth r of Some (u, pw) \<Rightarrow> verifyAccessRuleBasicAuth H rule u pw | None \<Rightarrow> False)) \<and>
     (ar_mode rule = secret_mode \<longrightarrow> verifyAccessRuleSharedSecret H rule (header_get r (ar_header rule)))"

text \<open>The policy: the tables can be read, and every rule of the tunnel with that hostname admits.\<close>

definition policy_admits :: "(string \<Rightarrow> string) \<Rightarrow> store \<Rightarrow> string \<Rightarrow> string \<Rightarrow> request \<Rightarrow> bool" where
  "policy_admits H s hostname clientIP r \<longleftrightarrow> \<not> tunnel_read_fault s \<and>
     (\<forall>t \<in> set (tunnels s). t_hostname t = hostname \<longrightarrow> \<not> fault s AccessRules \<and>
        (\<forall>x \<in> set (rules s). ru_tunnel x = t_id t \<longrightarrow> rule_admits H (scan_rule x) clientIP r))"

lemma finish_not_forwarded [simp]:
  "px_forwarded (finish c tid None resp st n b e) = None" "px_forwarded (deny c tid m st e) = None"
  "px_forwarded (no_connection c cfg tid) = None" "px_forwarded (body_too_large c tid n) = None"
  by (simp_all add: finish_def deny_def no_connection_def body_too_large_def)

lemma access_check_refuses: "access_check c tid = Some res \<Longrightarrow> px_forwarded res = None"
  by (auto simp: access_check_def split: option.splits if_splits sum.splits prod.splits)

lemma forward_forwards: "px_forwarded (forward c tid i enq body) = Some (i, request_of (pc_request c) body)"
  by (auto simp: forward_def finish_def Let_def split: option.split prod.split bool.split)

lemma access_check_rule:
  assumes "pc_store c = Some s" and "0 < tid"
  shows "access_check c tid = None \<longleftrightarrow>
    (case GetTunnelAccessRule s tid of
       Inr rule \<Rightarrow> rule_admits (pe_sha (pc_env c)) rule (pc_client c) (pc_request c)
     | Inl e \<Rightarrow> e = ErrNoRows)"
  using assms
  by (auto simp: access_check_def rule_admits_def split: sum.split option.split)

lemma lookup_tunnel_cases:
  assumes "store_ok s"
  shows "lookup_tunnel (Some s) hn =
    (if tunnel_read_fault s then Inl ErrIO
     else case find (\<lambda>t. t_hostname t = hn) (tunnels s) of Some t \<Rightarrow> Inr (t_id t) | None \<Rightarrow> Inr 0)"
  by (simp add: lookup_tunnel_def GetTunnelByHostname_def select_tunnel_def scan_tunnel_def split: option.split)

lemma access_policy:
  assumes ok: "store_ok s" and c: "pc_store c = Some s" and read: "\<not> tunnel_read_fault s"
  shows "access_check c (case find (\<lambda>t. t_hostname t = hn) (tunnels s) of Some t \<Rightarrow> t_id t | None \<Rightarrow> 0) = None \<longleftrightarrow>
    policy_admits (pe_sha (pc_env c)) s hn (pc_client c) (pc_request c)"
proof (cases "find (\<lambda>t. t_hostname t = hn) (tunnels s)")
  case None
  then have "\<forall>t \<in> set (tunnels s). t_hostname t \<noteq> hn" by (simp add: find_None_iff)
  then have "policy_admits (pe_sha (pc_env c)) s hn (pc_client c) (pc_request c)"
    using read by (simp add: policy_admits_def)
  moreover have "access_check c 0 = None" by (simp add: access_check_def split: option.split)
  ultimately show ?thesis by (simp add: None)
next
  case (Some t)
  then have t: "t \<in> set (tunnels s)" "t_hostname t = hn" using find_SomeD [OF Some] by auto
  have unique: "u = t" if "u \<in> set (tunnels s)" "t_hostname u = hn" for u
    using distinct_key_unique [OF store_okD(3) [OF ok]] that t by simp
  have pos: "0 < t_id t" using ok t(1) by (auto simp: store_ok_defs ids_ok_def)
  have pol: "policy_admits H s hn ip r \<longleftrightarrow> \<not> fault s AccessRules \<and>
      (\<forall>x \<in> set (rules s). ru_tunnel x = t_id t \<longrightarrow> rule_admits H (scan_rule x) ip r)" for H ip r
  proof -
    have "(\<forall>u \<in> set (tunnels s). t_hostname u = hn \<longrightarrow> Q u) \<longleftrightarrow> Q t" for Q
      using t unique by blast
    then show ?thesis using read by (simp add: policy_admits_def)
  qed
  show ?thesis
  proof (cases "find (\<lambda>x. ru_tunnel x = t_id t) (rules s)")
    case None
    then have "\<forall>x \<in> set (rules s). ru_tunnel x \<noteq> t_id t" by (auto simp: find_None_iff)
    then show ?thesis
      using None by (simp add: Some access_check_rule [OF c pos] pol GetTunnelAccessRule_def)
  next
    case found: (Some x)
    then have x: "x \<in> set (rules s)" "ru_tunnel x = t_id t" using find_SomeD [OF found] by auto
    have "y = x" if "y \<in> set (rules s)" "ru_tunnel y = t_id t" for y
      using distinct_key_unique [OF store_okD(4) [OF ok]] that x by simp
    then have "(\<forall>y \<in> set (rules s). ru_tunnel y = t_id t \<longrightarrow> rule_admits H (scan_rule y) ip r) \<longleftrightarrow>
        rule_admits H (scan_rule x) ip r" for H ip r
      using x by blast
    then show ?thesis
      using found by (simp add: Some access_check_rule [OF c pos] pol GetTunnelAccessRule_def)
  qed
qed

lemma read_body_fits:
  assumes "0 < m" and "m < 2 ^ 63 - 1"
  shows "m < int (length (read_body r m)) \<longleftrightarrow> m < int (length (rq_body r))"
    and "int (length (rq_body r)) \<le> m \<Longrightarrow> read_body r m = rq_body r"
proof -
  have "i64 (m + 1) = m + 1" using assms by (intro i64_id) auto
  then show "m < int (length (read_body r m)) \<longleftrightarrow> m < int (length (rq_body r))"
    "int (length (rq_body r)) \<le> m \<Longrightarrow> read_body r m = rq_body r"
    using assms(1) by (auto simp: read_body_def)
qed

lemma limit_pos: "0 < maxRequestBodyBytes v"
  by (auto simp: maxRequestBodyBytes_def default_limit_def Let_def split: option.split)

lemma pass_forwards:
  assumes "maxRequestBodyBytes (pe_limit p) < 2 ^ 63 - 1" and "pc_env c = p"
  shows "px_forwarded (pass_request c tid j enq) = Some (i, pr) \<longleftrightarrow>
    \<not> isWebsocketUpgrade (pc_request c) \<and> rq_length (pc_request c) \<le> maxRequestBodyBytes (pe_limit p) \<and>
    int (length (rq_body (pc_request c))) \<le> maxRequestBodyBytes (pe_limit p) \<and>
    i = j \<and> pr = request_of (pc_request c) (rq_body (pc_request c))"
  using read_body_fits [OF limit_pos assms(1)]
  by (auto simp: pass_request_def Let_def assms(2) forward_forwards not_less)

lemma handler_forwards_iff:
  assumes "store_ok s" and "maxRequestBodyBytes (pe_limit p) < 2 ^ 63 - 1"
  shows "px_forwarded (ProxyHandlerWithConfig p cfg stats (Some s) hub enq r) = Some (i, pr) \<longleftrightarrow>
    Get hub (hostWithoutPort (rq_host r)) = Some i \<and>
    policy_admits (pe_sha p) s (hostWithoutPort (rq_host r))
      (resolveClientIP r (parseTrustedProxyCIDRs (cf_trusted cfg))) r \<and>
    \<not> isWebsocketUpgrade r \<and> rq_length r \<le> maxRequestBodyBytes (pe_limit p) \<and>
    int (length (rq_body r)) \<le> maxRequestBodyBytes (pe_limit p) \<and> pr = request_of r (rq_body r)"
proof -
  let ?hn = "hostWithoutPort (rq_host r)" and ?m = "maxRequestBodyBytes (pe_limit p)"
  let ?c = "\<lparr>pc_env = p, pc_request = r, pc_host = ?hn,
    pc_client = resolveClientIP r (parseTrustedProxyCIDRs (cf_trusted cfg)), pc_stats = stats, pc_store = Some s\<rparr>"
  note body = read_body_fits [OF limit_pos assms(2)]
  show ?thesis
  proof (cases "tunnel_read_fault s")
    case True
    then show ?thesis
      by (simp add: ProxyHandlerWithConfig_def Let_def lookup_tunnel_cases [OF assms(1)] policy_admits_def)
  next
    case False
    obtain n where n: "(case find (\<lambda>t. t_hostname t = ?hn) (tunnels s) of Some t \<Rightarrow> t_id t | None \<Rightarrow> 0) = n" by simp
    have look: "lookup_tunnel (Some s) ?hn = Inr n"
      using False n by (auto simp: lookup_tunnel_cases [OF assms(1)] split: option.splits)
    have pol: "access_check ?c n = None \<longleftrightarrow>
        policy_admits (pe_sha p) s ?hn (resolveClientIP r (parseTrustedProxyCIDRs (cf_trusted cfg))) r"
      using access_policy [OF assms(1) _ False, of ?c ?hn] n by simp
    have "relookup (Some s) ?hn n = n" by (simp add: relookup_def look)
    then have H: "ProxyHandlerWithConfig p cfg stats (Some s) hub enq r =
        (case Get hub ?hn of None \<Rightarrow> no_connection ?c cfg n
         | Some i \<Rightarrow> (case access_check ?c n of Some res \<Rightarrow> res | None \<Rightarrow> pass_request ?c n i enq))"
      by (simp add: ProxyHandlerWithConfig_def Let_def look cong: option.case_cong)
    show ?thesis
      unfolding H using pol access_check_refuses [of ?c n] pass_forwards [OF assms(2), of ?c n _ enq i pr]
      by (auto split: option.splits)
  qed
qed

section \<open>Which requests reach a tunnel\<close>

text \<open>
  C1. The proxy decides by the policy: on a consistent database, and with a body limit below
  the largest \<open>int64\<close>, a request is handed to a tunnel exactly when its host has a live
  connection, the tables can be read, every access rule of the tunnel with that hostname
  admits it, it asks for no websocket, and its declared length and its body are within the
  limit; then that connection gets its method, path, query, headers and whole body.
\<close>

theorem proxy_decides_by_policy:
  assumes "store_ok s" and "maxRequestBodyBytes (pe_limit p) < 2 ^ 63 - 1"
  shows "px_forwarded (ProxyHandlerWithConfig p cfg stats (Some s) hub enq r) = Some (i, pr) \<longleftrightarrow>
    Get hub (hostWithoutPort (rq_host r)) = Some i \<and>
    policy_admits (pe_sha p) s (hostWithoutPort (rq_host r))
      (resolveClientIP r (parseTrustedProxyCIDRs (cf_trusted cfg))) r \<and>
    \<not> isWebsocketUpgrade r \<and> rq_length r \<le> maxRequestBodyBytes (pe_limit p) \<and>
    int (length (rq_body r)) \<le> maxRequestBodyBytes (pe_limit p) \<and> pr = request_of r (rq_body r)"
  by (rule handler_forwards_iff [OF assms])

text \<open>The demonstration world: the tunnel app with basic authentication, and its live connection.\<close>

definition demo_proxy_env :: proxy_env where
  "demo_proxy_env = \<lparr>pe_start = 30, pe_done = 40, pe_limit = [], pe_sha = (\<lambda>x. x)\<rparr>"

definition demo_rule_store :: store where
  "demo_rule_store = snd (UpsertTunnelAccessRule (\<lambda>x. x) demo_store 25 1
     \<lparr>in_mode = basic_mode, in_user = ''bob'', in_pass = ''s3cret'', in_header = [], in_secret = [], in_allowed = []\<rparr>)"

definition demo_hub :: hub where
  "demo_hub = snd (RegisterIfAbsent (snd (alloc (new_conn ''app.example.com'' ''10.0.0.9:1'') NewRegistry)) ''app.example.com'' 0)"

definition demo_public_request :: "(string \<times> string list) list \<Rightarrow> request" where
  "demo_public_request hs = \<lparr>rq_method = ''GET'', rq_path = ''/x'', rq_query = [], rq_args = [], rq_headers = hs,
     rq_cookies = [], rq_host = ''app.example.com:443'', rq_remote = ''@'', rq_length = 0, rq_body = [], rq_json = None, rq_form = [], rq_form_bad = False\<rparr>"

definition demo_answer :: "nat \<Rightarrow> proxy_request \<Rightarrow> proxy_response option \<times> bool" where
  "demo_answer i pr = (Some \<lparr>ps_id = ''u'', ps_status = 200, ps_headers = [], ps_body = ''hi''\<rparr>, False)"

lemma demo_rule_ok: "store_ok demo_rule_store"
  unfolding demo_rule_store_def by (rule UpsertTunnelAccessRule_ok [OF demo_ok])

lemma demo_limit: "maxRequestBodyBytes (pe_limit demo_proxy_env) = 67108864"
  by (simp add: demo_proxy_env_def maxRequestBodyBytes_def default_limit_def)

theorem proxy_decides_by_policy_witness:
  "let run = (\<lambda>hs. px_forwarded (ProxyHandlerWithConfig demo_proxy_env (host_config ''example.com'') None (Some demo_rule_store)
       demo_hub demo_answer (demo_public_request hs)));
     hs = [(''Authorization'', [''Basic Ym9iOnMzY3JldA==''])]
   in run hs = Some (0, request_of (demo_public_request hs) []) \<and> run [] \<noteq> Some (0, request_of (demo_public_request []) [])"
proof -
  let ?hs = "[(''Authorization'', [''Basic Ym9iOnMzY3JldA==''])]"
  have pol: "policy_admits (\<lambda>x. x) demo_rule_store ''app.example.com'' ''@'' (demo_public_request ?hs)"
    "\<not> policy_admits (\<lambda>x. x) demo_rule_store ''app.example.com'' ''@'' (demo_public_request [])"
    and ip: "resolveClientIP (demo_public_request ?hs) (parseTrustedProxyCIDRs (cf_trusted (host_config ''example.com''))) = ''@''"
      "resolveClientIP (demo_public_request []) (parseTrustedProxyCIDRs (cf_trusted (host_config ''example.com''))) = ''@''"
    and live: "Get demo_hub ''app.example.com'' = Some 0" and ws: "\<not> isWebsocketUpgrade (demo_public_request ?hs)"
    by code_simp+
  have env: "hostWithoutPort (rq_host (demo_public_request hs)) = ''app.example.com''" "pe_sha demo_proxy_env = (\<lambda>x. x)"
    "rq_length (demo_public_request hs) = 0" "rq_body (demo_public_request hs) = []" for hs
    by (simp_all add: demo_public_request_def hostWithoutPort_def demo_proxy_env_def)
  have "maxRequestBodyBytes (pe_limit demo_proxy_env) < 2 ^ 63 - 1" by (simp add: demo_limit)
  note T = proxy_decides_by_policy [OF demo_rule_ok this, where cfg = "host_config ''example.com''" and stats = None and
      hub = demo_hub and enq = demo_answer, unfolded env]
  show ?thesis
    using T [where r = "demo_public_request ?hs" and i = 0] T [where r = "demo_public_request []" and i = 0] pol ws live
    unfolding ip by (simp add: Let_def env demo_limit)
qed

section \<open>A deleted tunnel\<close>

text \<open>
  Deleting a tunnel through the API neither closes its connection nor leaves a rule: while
  the connection lives, every request to its host that asks for no websocket and is within
  the limit is handed to it, whatever the access rule of the deleted tunnel demanded.
\<close>

theorem deleted_tunnel_served_publicly:
  assumes "store_ok s" and "\<And>tb. \<not> fault s tb" and "t \<in> set (tunnels s)"
    and "Get hub (t_hostname t) = Some i" and "hostWithoutPort (rq_host r) = t_hostname t"
    and "\<not> isWebsocketUpgrade r" and "maxRequestBodyBytes (pe_limit p) < 2 ^ 63 - 1"
    and "rq_length r \<le> maxRequestBodyBytes (pe_limit p)" and "int (length (rq_body r)) \<le> maxRequestBodyBytes (pe_limit p)"
  shows "rs_status (fst (delete_handler en (t_name t) s)) = 204 \<and>
    px_forwarded (ProxyHandlerWithConfig p cfg stats (Some (snd (delete_handler en (t_name t) s))) hub enq r) =
      Some (i, request_of r (rq_body r))"
proof -
  let ?s' = "snd (DeleteTunnelByName s (t_name t))"
  have del: "delete_handler en (t_name t) s = (no_content, ?s')"
    using assms(2) by (simp add: delete_handler_def DeleteTunnelByName_def)
  have "u = t" if "u \<in> set (tunnels s)" "t_hostname u = t_hostname t" for u
    using distinct_key_unique [OF store_okD(3) [OF assms(1)]] that assms(3) by simp
  then have gone: "\<forall>u \<in> set (tunnels ?s'). t_hostname u \<noteq> t_hostname t"
    using assms(2) by (auto simp: DeleteTunnelByName_def Let_def)
  have "\<not> tunnel_read_fault ?s'"
    using assms(2) by (simp add: DeleteTunnelByName_def tunnel_read_fault_def Let_def)
  with gone have "policy_admits H ?s' (t_hostname t) ip r" for H ip
    by (simp add: policy_admits_def)
  then show ?thesis
    using handler_forwards_iff [OF DeleteTunnelByName_ok [OF assms(1)] assms(7), where cfg = cfg and stats = stats and hub = hub
        and enq = enq and r = r and i = i]
      assms(4-6,8,9) by (simp add: del)
qed

theorem deleted_tunnel_served_publicly_witness:
  "px_forwarded (ProxyHandlerWithConfig demo_proxy_env (host_config ''example.com'') None
     (Some (snd (delete_handler demo_env ''app'' demo_rule_store))) demo_hub demo_answer (demo_public_request [])) =
   Some (0, request_of (demo_public_request []) [])"
proof -
  have names: "map t_name (tunnels demo_rule_store) = [''app'', ''web'']"
    "map t_hostname (tunnels demo_rule_store) = [''app.example.com'', ''web.example.com'']"
    and live: "Get demo_hub ''app.example.com'' = Some 0" and ws: "\<not> isWebsocketUpgrade (demo_public_request [])"
    by code_simp+
  have quiet: "\<not> fault demo_rule_store tb" for tb
    using Upsert_cases [of "\<lambda>x. x" demo_store 25 1] demo_fault unfolding demo_rule_store_def by (metis prod.collapse)
  obtain t u where ts: "tunnels demo_rule_store = [t, u]" using names(1) by (auto simp: Cons_eq_map_conv map_eq_Cons_conv)
  then have t: "t \<in> set (tunnels demo_rule_store)" "t_name t = ''app''" "t_hostname t = ''app.example.com''"
    using names by simp_all
  have "px_forwarded (ProxyHandlerWithConfig demo_proxy_env (host_config ''example.com'') None
     (Some (snd (delete_handler demo_env (t_name t) demo_rule_store))) demo_hub demo_answer (demo_public_request [])) =
     Some (0, request_of (demo_public_request []) (rq_body (demo_public_request [])))"
    using deleted_tunnel_served_publicly [OF demo_rule_ok quiet t(1), of demo_hub 0 "demo_public_request []" demo_proxy_env]
      live ws unfolding t(3) demo_limit by (simp add: demo_public_request_def hostWithoutPort_def)
  then show ?thesis unfolding t(2) by (simp add: demo_public_request_def)
qed

section \<open>What is recorded\<close>

text \<open>
  One record per answer: the statistics get one request and the log one entry, for the host
  and the client of the request, with the status of the answer (an informational status of
  the tunnel is answered with 200), counted as an error exactly from 400 on.
\<close>

definition accounted :: "proxy_ctx \<Rightarrow> unit response \<Rightarrow> proxy_result \<Rightarrow> bool" where
  "accounted c resp res \<longleftrightarrow>
     (\<exists>h e. px_stats res = map_option (\<lambda>st. Record st (pe_done (pc_env c)) h) (pc_stats c) \<and>
        px_store res = map_option (\<lambda>s. snd (InsertRequestLog s (pe_done (pc_env c)) e)) (pc_store c) \<and>
        ht_host h = pc_host c \<and> lr_hostname e = pc_host c \<and> ht_remote h = pc_client c \<and> lr_client e = pc_client c \<and>
        lr_method e = rq_method (pc_request c) \<and> lr_path e = rq_path (pc_request c) \<and>
        ht_status h = lr_status e \<and> (ht_err h \<longleftrightarrow> 400 \<le> lr_status e) \<and>
        (rs_status resp = lr_status e \<or> 100 \<le> lr_status e \<and> lr_status e < 200 \<and> rs_status resp = 200))"

lemma finish_accounted:
  assumes "st = rs_status resp \<or> 100 \<le> st \<and> st < 200 \<and> rs_status resp = 200" and "err \<longleftrightarrow> 400 \<le> st"
  shows "accounted c resp (finish c tid fwd resp st n err e)"
  unfolding accounted_def finish_def
  using assms
  by (intro exI [of _ "stat_entry (pc_env c) (pc_request c) (pc_host c) (pc_client c) st n err"]
      exI [of _ "log_entry (pc_env c) (pc_request c) (pc_host c) (pc_client c) tid st n e"])
    (auto simp: stat_entry_def log_entry_def)

lemma accounted_forwarded [simp]: "accounted c resp (res\<lparr>px_forwarded := f\<rparr>) = accounted c resp res"
  by (simp add: accounted_def)

lemma px_response_finish [simp]:
  "px_response (finish c tid fwd resp st n b e) = Some resp" "px_response (deny c tid m st e) = Some (http_error m st)"
  by (simp_all add: finish_def deny_def)

text \<open>A result is accounted for, or nothing was sent because the status cannot be sent.\<close>

definition answered :: "proxy_ctx \<Rightarrow> (nat \<Rightarrow> proxy_request \<Rightarrow> proxy_response option \<times> bool) \<Rightarrow> proxy_result \<Rightarrow> bool" where
  "answered c enq res \<longleftrightarrow>
     (case px_response res of
        Some resp \<Rightarrow> accounted c resp res
      | None \<Rightarrow> px_stats res = pc_stats c \<and> px_store res = pc_store c \<and>
          (\<exists>i pr x. px_forwarded res = Some (i, pr) \<and> enq i pr = (Some x, False) \<and> \<not> (100 \<le> ps_status x \<and> ps_status x \<le> 999)))"

lemma answered_finish:
  "st = rs_status resp \<or> 100 \<le> st \<and> st < 200 \<and> rs_status resp = 200 \<Longrightarrow> err \<longleftrightarrow> 400 \<le> st \<Longrightarrow>
    answered c enq (finish c tid fwd resp st n err e)"
  by (simp add: answered_def finish_accounted)

lemma answered_deny: "400 \<le> code \<Longrightarrow> answered c enq (deny c tid msg code e)"
  unfolding deny_def by (rule answered_finish) simp_all

lemma answered_deny_forwarded: "400 \<le> code \<Longrightarrow> answered c enq ((deny c tid msg code e)\<lparr>px_forwarded := f\<rparr>)"
  using answered_deny [of code c enq tid msg e] by (simp add: answered_def)

lemma answered_forward: "answered c enq (forward c tid i enq body)"
proof (cases "enq i (request_of (pc_request c) body)")
  case (Pair x closed)
  show ?thesis
  proof (cases "x = None \<or> closed")
    case True
    then show ?thesis
      using answered_deny_forwarded [of 502] by (auto simp: forward_def Let_def Pair split: option.split bool.split)
  next
    case False
    then obtain y where y: "x = Some y" "\<not> closed" by auto
    show ?thesis
    proof (cases "sent_response y")
      case None
      then show ?thesis
        using Pair y by (auto simp: forward_def Let_def answered_def sent_response_def split: if_splits)
    next
      case sent: (Some resp)
      then have "ps_status y = rs_status resp \<or> 100 \<le> ps_status y \<and> ps_status y < 200 \<and> rs_status resp = 200"
        by (auto simp: sent_response_def Let_def split: if_splits)
      then show ?thesis
        using Pair y sent by (simp add: forward_def Let_def answered_finish)
    qed
  qed
qed


section \<open>The client's address\<close>

lemma v4_text_no_comma: "CHR '','' \<notin> set (v4_text w)"
proof
  assume "CHR '','' \<in> set (v4_text w)"
  then have "is_digit CHR '','' \<or> CHR '','' = CHR ''.''" using set_v4_text by blast
  then show False by (simp add: is_digit_def)
qed

text \<open>
  Whose address it is: a peer outside the trusted prefixes is taken by its own address,
  whatever the headers say. For a peer inside them, when \<open>X-Forwarded-For\<close> is \<open>a,rest\<close> with an
  IPv4 address \<open>a\<close>, the client is \<open>a\<close>, however many addresses the proxies appended after it,
  so that IP restrictions are decided by the text the client itself may have sent.
\<close>

theorem client_address_from_header:
  assumes "split_host_port (trim_space (rq_remote r)) = Some h" and "parse_addr h = Some peer"
  shows "(\<not> peerTrusted peer trusted \<longrightarrow> resolveClientIP r trusted = addr_text peer) \<and>
    (\<forall>a rest. peerTrusted peer trusted \<longrightarrow> trim_space (header_get r ''X-Forwarded-For'') = v4_text a @ '','' @ rest \<longrightarrow>
       resolveClientIP r trusted = v4_text a \<and>
       (allowedByIP rule (resolveClientIP r trusted) \<longleftrightarrow>
          ar_allowed rule = [] \<or> list_ex (prefix_text_contains (V4 a)) (ar_allowed rule)))"
proof -
  have first: "first_forwarded (v4_text a @ '','' @ rest) = v4_text a" for a rest
    using split_on_append [of "CHR '',''" "v4_text a" rest] v4_text_no_comma by (simp add: first_forwarded_def)
  have "resolveClientIP r trusted = v4_text a"
    if "peerTrusted peer trusted" "trim_space (header_get r ''X-Forwarded-For'') = v4_text a @ '','' @ rest" for a rest
    using that assms first [of a rest]
    by (simp add: resolveClientIP_def Let_def parse_addr_v4_text addr_text_def)
  moreover have "allowedByIP rule (v4_text a) \<longleftrightarrow> ar_allowed rule = [] \<or> list_ex (prefix_text_contains (V4 a)) (ar_allowed rule)" for a
    by (simp add: allowedByIP_def parse_addr_v4_text)
  ultimately show ?thesis
    using assms by (auto simp: resolveClientIP_def Let_def)
qed

definition demo_forwarded :: request where
  "demo_forwarded = (demo_public_request [(''X-Forwarded-For'', [''10.0.0.1, 9.9.9.9''])])\<lparr>rq_remote := ''10.0.0.1:5555''\<rparr>"

lemma v4_text_example: "v4_text 167772161 = ''10.0.0.1''"
  by (simp add: v4_text_def octet_def num_text.simps digit_of_def)

theorem client_address_from_header_witness:
  "resolveClientIP demo_forwarded [Prefix (V4 167772160) 8] = ''10.0.0.1'' \<and> peerTrusted (V4 167772161) [Prefix (V4 167772160) 8]"
proof -
  have peer: "split_host_port (trim_space (rq_remote demo_forwarded)) = Some ''10.0.0.1''"
    "trim_space (header_get demo_forwarded ''X-Forwarded-For'') = ''10.0.0.1'' @ '','' @ '' 9.9.9.9''"
    by code_simp+
  have parse: "parse_addr ''10.0.0.1'' = Some (V4 167772161)"
    using parse_addr_v4_text [of 167772161] by (simp add: v4_text_example)
  have trust: "peerTrusted (V4 167772161) [Prefix (V4 167772160) 8]"
    by (simp add: peerTrusted_def prefix_contains_v4 del: prefix_contains.simps)
  show ?thesis
    using client_address_from_header [OF peer(1) parse, of "[Prefix (V4 167772160) 8]"] trust peer(2)
    unfolding v4_text_example [symmetric] by blast
qed

end
