(* ===== verification/AdminApi.thy ===== *)
theory AdminApi
  imports ControlPlane Stats
begin

text \<open>
  The JSON admin API of internal/server/admin.go. The world of the administration handlers is
  the store with the allowed domains, the table of live tunnels and the statistics; the
  router may have been built without a store or without statistics.
\<close>

record admin_world =
  aw_store :: store
  aw_domains :: domain_store
  aw_hub :: hub
  aw_stats :: stats_store

record admin_setup =
  as_hostname :: string
  as_auth :: "auth_manager option"
  as_has_store :: bool
  as_has_stats :: bool

datatype admin_payload =
    Info string
  | LiveTunnels "(string \<times> string) list"
  | TunnelStats "tunnel_stats list"
  | ControlTunnels "tunnel_record list"
  | RequestLogs_of "log_record list"
  | DomainList "string list"
  | DomainAdded string

type_synonym admin_response = "admin_payload response"

text \<open>\<open>json.NewEncoder(w).Encode(v)\<close> after setting the content type: status 200.\<close>

definition encode_ok :: "'p \<Rightarrow> 'p response" where
  "encode_ok v = writeJSON 200 v"

section \<open>The endpoints\<close>

definition admin_stats :: "admin_setup \<Rightarrow> env \<Rightarrow> admin_world \<Rightarrow> admin_response \<times> admin_world" where
  "admin_stats su en w =
     (if \<not> as_has_stats su then (encode_ok (TunnelStats []), w)
      else case Snapshot (aw_stats w) (en_now en) (List_live (aw_hub w)) of
          (rows, st) \<Rightarrow> (encode_ok (TunnelStats rows), w\<lparr>aw_stats := st\<rparr>))"

definition admin_control_tunnels :: "admin_setup \<Rightarrow> env \<Rightarrow> admin_world \<Rightarrow> admin_response \<times> admin_world" where
  "admin_control_tunnels su en w =
     (if \<not> as_has_store su then (http_error ''store unavailable'' 503, w)
      else case ListTunnels (aw_store w) of
          Inl e \<Rightarrow> (fail_with en e 500, w)
        | Inr l \<Rightarrow> (encode_ok (ControlTunnels l), w))"

definition admin_logs :: "admin_setup \<Rightarrow> env \<Rightarrow> admin_world \<Rightarrow> request \<Rightarrow> admin_response \<times> admin_world" where
  "admin_logs su en w r =
     (if \<not> as_has_store su then (http_error ''store unavailable'' 503, w)
      else let hostname = trim_lower (trim_prefix (rq_path r) ''/admin/logs/tunnels/'')
      in if hostname = [] then (http_error ''hostname required'' 400, w)
         else case ListRequestLogs (aw_store w) hostname 100 of
             Inl e \<Rightarrow> (fail_with en e 500, w)
           | Inr l \<Rightarrow> (encode_ok (RequestLogs_of l), w))"

definition admin_add_domain :: "disk \<Rightarrow> admin_world \<Rightarrow> request \<Rightarrow> admin_response \<times> admin_world" where
  "admin_add_domain disk w r =
     (case body_string (rq_json r) ''domain'' of
        None \<Rightarrow> (http_error ''invalid JSON'' 400, w)
      | Some v \<Rightarrow>
          (let domain = trim_lower v
           in if domain = [] then (http_error ''domain required'' 400, w)
              else case Add disk (aw_domains w) domain of
                  (Inl e, d) \<Rightarrow> (http_error e 500, w\<lparr>aw_domains := d\<rparr>)
                | (Inr _, d) \<Rightarrow> (encode_ok (DomainAdded domain), w\<lparr>aw_domains := d\<rparr>)))"

definition admin_remove_domain :: "disk \<Rightarrow> admin_world \<Rightarrow> request \<Rightarrow> admin_response \<times> admin_world" where
  "admin_remove_domain disk w r =
     (let domain = trim_lower (trim_prefix (rq_path r) ''/admin/domains/'')
      in if domain = [] then (http_error ''domain required'' 400, w)
         else case Remove disk (aw_domains w) domain of
             (Inl e, d) \<Rightarrow> (http_error e 500, w\<lparr>aw_domains := d\<rparr>)
           | (Inr _, d) \<Rightarrow> (no_content, w\<lparr>aw_domains := d\<rparr>))"

definition admin_dispatch ::
  "admin_setup \<Rightarrow> env \<Rightarrow> disk \<Rightarrow> admin_world \<Rightarrow> request \<Rightarrow> admin_response \<times> admin_world" where
  "admin_dispatch su en disk w r =
     (if rq_method r = ''GET'' \<and> rq_path r = ''/admin/info'' then (encode_ok (Info (as_hostname su)), w)
      else if rq_method r = ''GET'' \<and> rq_path r = ''/admin/tunnels'' then (encode_ok (LiveTunnels (List_live (aw_hub w))), w)
      else if rq_method r = ''GET'' \<and> rq_path r = ''/admin/stats/tunnels'' then admin_stats su en w
      else if rq_method r = ''GET'' \<and> rq_path r = ''/admin/control/tunnels'' then admin_control_tunnels su en w
      else if rq_method r = ''GET'' \<and> has_prefix (rq_path r) ''/admin/logs/tunnels/'' then admin_logs su en w r
      else if rq_method r = ''GET'' \<and> rq_path r = ''/admin/domains'' then (encode_ok (DomainList (List_domains (aw_domains w))), w)
      else if rq_method r = ''POST'' \<and> rq_path r = ''/admin/domains'' then admin_add_domain disk w r
      else if rq_method r = ''DELETE'' \<and> has_prefix (rq_path r) ''/admin/domains/'' then admin_remove_domain disk w r
      else (not_found, w))"

definition AdminRouter ::
  "admin_setup \<Rightarrow> env \<Rightarrow> disk \<Rightarrow> admin_world \<Rightarrow> request \<Rightarrow> admin_response \<times> admin_world" where
  "AdminRouter su en disk w r =
     (case as_auth su of
        None \<Rightarrow> (http_error ''auth not configured'' 503, w)
      | Some a \<Rightarrow>
          (case authorizeAdmin (en_hmac en) a (aw_store w) (en_now en) r of
             ((ok, status), s') \<Rightarrow>
               (let w' = w\<lparr>aw_store := s'\<rparr>
                in if \<not> ok then (http_error (status_text status) status, w')
                   else admin_dispatch su en disk w' r)))"

end
