(* ===== verification/AdminUi.thy ===== *)
theory AdminUi
  imports AdminApi Proxy
begin

text \<open>
  The page data of internal/server/admin_ui.go and the handlers of
  internal/server/admin_ui_tunnels.go. A page is the name of its template with the data it is
  executed on (the template engine and the HTML are not modelled). The world is that of the
  admin API.
\<close>

section \<open>Page data\<close>

record ui_tunnel_row =
  tu_name :: string
  tu_hostname :: string
  tu_desired :: string
  tu_actual :: string
  tu_agent :: string
  tu_owner_email :: string
  tu_owner :: int
  tu_requests :: int
  tu_errors :: int
  tu_seen :: time
  tu_active :: bool

record tunnel_detail =
  td_tunnel :: tunnel_record
  td_rule :: access_rule
  td_agents :: "agent_record list"
  td_logs :: "log_record list"
  td_events :: "event_record list"
  td_active :: bool
  td_remote :: string
  td_secret :: bool
  td_password :: bool

record config_data =
  cd_hostname :: string
  cd_web_port :: int
  cd_grpc_port :: int
  cd_uptime :: int
  cd_active :: nat
  cd_req_limit :: int
  cd_msg_limit :: int
  cd_resp_limit :: int
  cd_issuer :: string
  cd_scopes :: string
  cd_oidc :: bool

record health_data =
  hd_uptime :: int
  hd_active :: nat
  hd_domains :: nat
  hd_errors :: nat

datatype ui_content =
    NoContent
  | Dashboard nat "ui_tunnel_row list"
  | ConfigPage config_data
  | Domains_of "string list"
  | HealthPage health_data
  | LogsPage string "log_record list"
  | TunnelTable "ui_tunnel_row list"
  | StatsTable "tunnel_stats list"
  | Detail tunnel_detail

record view_data =
  vd_title :: string
  vd_page :: string
  vd_hostname :: string
  vd_email :: string
  vd_name :: string
  vd_role :: string
  vd_issuer :: string
  vd_content :: ui_content

datatype ui_payload = View view_data | Fragment ui_content

type_synonym ui_response = "ui_payload response"

section \<open>The server\<close>

text \<open>
  \<open>us_uptime\<close> is \<open>time.Since(started)\<close> rounded, \<open>us_pick\<close> the place of the entry that an
  iteration over a map meets first; the limits are environment variables.
\<close>

record ui_setup =
  us_cfg :: config
  us_auth :: "auth_manager option"
  us_store_given :: bool
  us_uptime :: int
  us_pick :: nat
  us_request_limit :: string
  us_proxy_limit :: string
  us_response_limit :: string

definition viewData :: "ui_setup \<Rightarrow> string \<Rightarrow> string \<Rightarrow> user_record option \<Rightarrow> ui_content \<Rightarrow> view_data" where
  "viewData su title page user content =
     (let v = \<lparr>vd_title = title, vd_page = page, vd_hostname = cf_hostname (us_cfg su), vd_email = [], vd_name = [],
               vd_role = [], vd_issuer = cf_issuer (us_cfg su), vd_content = content\<rparr>
      in case user of
          None \<Rightarrow> v
        | Some u \<Rightarrow> v\<lparr>vd_email := ur_email u, vd_name := ur_name u, vd_role := ur_role u\<rparr>)"

definition isHX :: "request \<Rightarrow> bool" where
  "isHX r \<longleftrightarrow> equal_fold (header_get r ''HX-Request'') ''true''"

text \<open>The same parsing of a limit as in the proxy, from another variable.\<close>

definition maxResponseLimit :: "string \<Rightarrow> int" where
  "maxResponseLimit v0 =
     (let v = trim_space v0
      in if v = [] then default_limit
         else case ParseInt v of None \<Rightarrow> default_limit | Some n \<Rightarrow> if n \<le> 0 then default_limit else n)"

definition maxProxyBodyBytes :: "string \<Rightarrow> int" where
  "maxProxyBodyBytes v0 =
     (let v = trim_space v0
      in if v = [] then default_limit
         else case ParseInt v of None \<Rightarrow> default_limit | Some n \<Rightarrow> if n \<le> 0 then default_limit else n)"

definition maskTokenValue :: "string \<Rightarrow> string" where
  "maskTokenValue s =
     (if length s \<le> 8 then (if s = [] then [] else ''********'')
      else take 4 s @ ''...'' @ drop (length s - 4) s)"

text \<open>\<open>currentAdmin\<close>: a second look-up of the session.\<close>

definition currentAdmin :: "ui_setup \<Rightarrow> env \<Rightarrow> admin_world \<Rightarrow> request \<Rightarrow> user_record option \<times> admin_world" where
  "currentAdmin su en w r =
     (case us_auth su of
        None \<Rightarrow> (None, w)
      | Some a \<Rightarrow>
          (case requestUser (en_hmac en) a (aw_store w) (en_now en) r of
             ((user, _), s') \<Rightarrow> (user, w\<lparr>aw_store := s'\<rparr>)))"

text \<open>\<open>errors.New("...").Error()\<close> or the text of a store error.\<close>

definition ui_error :: "env \<Rightarrow> go_err \<Rightarrow> int \<Rightarrow> ui_response" where
  "ui_error en e code = fail_with en e code"

text \<open>A page in the layout, or its fragment for a request of htmx.\<close>

definition show_page ::
  "ui_setup \<Rightarrow> env \<Rightarrow> string \<Rightarrow> string \<Rightarrow> string \<Rightarrow> ui_content \<Rightarrow> admin_world \<Rightarrow> request \<Rightarrow> ui_response \<times> admin_world" where
  "show_page su en title page fragment content w r =
     (if isHX r then (render fragment (Fragment content), w)
      else case currentAdmin su en w r of
          (user, w') \<Rightarrow> (render ''layout'' (View (viewData su title page user content)), w'))"

section \<open>Tunnels\<close>

definition stat_of :: "tunnel_stats list \<Rightarrow> string \<Rightarrow> int \<times> int" where
  "stat_of rows h = (case find (\<lambda>st. ts_hostname st = h) (rev rows) of Some st \<Rightarrow> (ts_requests st, ts_errors st) | None \<Rightarrow> (0, 0))"

definition tunnelRows ::
  "ui_setup \<Rightarrow> env \<Rightarrow> admin_world \<Rightarrow> user_record option \<Rightarrow> ui_tunnel_row list res \<times> admin_world" where
  "tunnelRows su en w user =
     (if \<not> us_store_given su then (Inl (ErrMsg ''store unavailable''), w)
      else case user of
          None \<Rightarrow> (Inl (ErrMsg ''user unavailable''), w)
        | Some u \<Rightarrow>
            (case ListTunnelsForUser (aw_store w) (ur_id u) (ur_role u = ''admin'') of
               Inl e \<Rightarrow> (Inl e, w)
             | Inr l \<Rightarrow>
                 (case Snapshot (aw_stats w) (en_now en) (List_live (aw_hub w)) of
                    (rows, st) \<Rightarrow>
                      (Inr (map (\<lambda>t. let (reqs, errs) = stat_of rows (tr_hostname t)
                         in \<lparr>tu_name = tr_name t, tu_hostname = tr_hostname t, tu_desired = tr_desired t, tu_actual = tr_actual t,
                             tu_agent = tr_agent_name t, tu_owner_email = tr_owner_email t, tu_owner = tr_owner t,
                             tu_requests = reqs, tu_errors = errs, tu_seen = tr_seen t,
                             tu_active = (Get (aw_hub w) (tr_hostname t) \<noteq> None)\<rparr>) l),
                       w\<lparr>aw_stats := st\<rparr>))))"

definition dashboardData ::
  "ui_setup \<Rightarrow> env \<Rightarrow> admin_world \<Rightarrow> user_record option \<Rightarrow> ui_content res \<times> admin_world" where
  "dashboardData su en w user =
     (case tunnelRows su en w user of
        (Inl e, w') \<Rightarrow> (Inl e, w')
      | (Inr rows, w') \<Rightarrow> (Inr (Dashboard (length (filter tu_active rows)) rows), w'))"

definition public_rule :: "int \<Rightarrow> access_rule" where
  "public_rule tid = \<lparr>ar_id = 0, ar_tunnel = tid, ar_mode = public_mode, ar_user = [], ar_pass = [], ar_header = [],
     ar_secret = [], ar_allowed = [], ar_created = 0, ar_updated = 0\<rparr>"

definition loadTunnelDetail ::
  "ui_setup \<Rightarrow> admin_world \<Rightarrow> user_record option \<Rightarrow> string \<Rightarrow> tunnel_detail res" where
  "loadTunnelDetail su w user name =
     (if \<not> us_store_given su then Inl (ErrMsg ''store unavailable'')
      else let s = aw_store w in case GetTunnelByName s name of
          Inl e \<Rightarrow> Inl e
        | Inr tun \<Rightarrow>
            (case user of
               None \<Rightarrow> Inl (ErrMsg ''forbidden'')
             | Some u \<Rightarrow>
                 if \<not> may_manage u (tr_owner tun) then Inl (ErrMsg ''forbidden'')
                 else case (case GetTunnelAccessRule s (tr_id tun) of
                              Inr rule \<Rightarrow> Inr rule
                            | Inl e \<Rightarrow> if e = ErrNoRows then Inr (public_rule (tr_id tun)) else Inl e) of
                     Inl e \<Rightarrow> Inl e
                   | Inr rule \<Rightarrow>
                       (case ListRequestLogsByTunnel s (tr_id tun) 25 of
                          Inl e \<Rightarrow> Inl e
                        | Inr ls \<Rightarrow>
                            (case ListTunnelEventsByTunnel s (tr_id tun) 25 of
                               Inl e \<Rightarrow> Inl e
                             | Inr es \<Rightarrow>
                                 (case ListAgentsForUser s (ur_id u) (ur_role u = ''admin'') of
                                    Inl e \<Rightarrow> Inl e
                                  | Inr gs \<Rightarrow>
                                      (let live = Get (aw_hub w) (tr_hostname tun)
                                       in Inr \<lparr>td_tunnel = tun, td_rule = rule, td_agents = gs, td_logs = ls, td_events = es,
                                            td_active = (live \<noteq> None),
                                            td_remote = (case live of Some i \<Rightarrow> cn_remote (hb_conns (aw_hub w) i) | None \<Rightarrow> []),
                                            td_secret = (ar_secret rule \<noteq> []), td_password = (ar_pass rule \<noteq> [])\<rparr>))))))"

text \<open>The handlers that only show: the method, the detail, a template.\<close>

type_synonym ui_handler = "ui_setup \<Rightarrow> env \<Rightarrow> string \<Rightarrow> admin_world \<Rightarrow> request \<Rightarrow> ui_response \<times> admin_world"

definition with_detail ::
  "string \<Rightarrow> ui_setup \<Rightarrow> env \<Rightarrow> string \<Rightarrow> admin_world \<Rightarrow> request \<Rightarrow>
   (user_record option \<Rightarrow> tunnel_detail \<Rightarrow> admin_world \<Rightarrow> ui_response \<times> admin_world) \<Rightarrow> ui_response \<times> admin_world" where
  "with_detail meth su en name w r k =
     (if rq_method r \<noteq> meth then (bad_method, w)
      else case currentAdmin su en w r of
          (user, w') \<Rightarrow>
            (case loadTunnelDetail su w' user name of
               Inl e \<Rightarrow> (ui_error en e 404, w')
             | Inr data \<Rightarrow> k user data w'))"

definition tunnelDetailPageHandler :: ui_handler where
  "tunnelDetailPageHandler su en name w r =
     with_detail ''GET'' su en name w r
       (\<lambda>user data w'. (render ''layout'' (View (viewData su (''Tunnel '' @ tr_name (td_tunnel data)) ''tunnel_detail'' user (Detail data))), w'))"

definition tunnelStatusHandler :: ui_handler where
  "tunnelStatusHandler su en name w r =
     with_detail ''GET'' su en name w r (\<lambda>user data w'. (render ''tunnel_status_card'' (Fragment (Detail data)), w'))"

definition tunnelAccessHandler :: ui_handler where
  "tunnelAccessHandler su en name w r =
     with_detail ''GET'' su en name w r (\<lambda>user data w'. (render ''tunnel_access_card'' (Fragment (Detail data)), w'))"

definition tunnelLogsHandler :: ui_handler where
  "tunnelLogsHandler su en name w r =
     with_detail ''GET'' su en name w r (\<lambda>user data w'. (render ''tunnel_request_logs_table'' (Fragment (Detail data)), w'))"

definition tunnelEventsHandler :: ui_handler where
  "tunnelEventsHandler su en name w r =
     with_detail ''GET'' su en name w r (\<lambda>user data w'. (render ''tunnel_events_list'' (Fragment (Detail data)), w'))"

text \<open>After a change: the detail is loaded again and shown in a card.\<close>

definition show_card ::
  "ui_setup \<Rightarrow> env \<Rightarrow> string \<Rightarrow> string \<Rightarrow> user_record option \<Rightarrow> admin_world \<Rightarrow> ui_response \<times> admin_world" where
  "show_card su en tpl name user w =
     (case loadTunnelDetail su w user name of
        Inl e \<Rightarrow> (ui_error en e 404, w)
      | Inr updated \<Rightarrow> (render tpl (Fragment (Detail updated)), w))"

definition set_store :: "store \<Rightarrow> admin_world \<Rightarrow> admin_world" where
  "set_store s w = w\<lparr>aw_store := s\<rparr>"

text \<open>The agent chosen from the list the page offers.\<close>

definition chosen_agent :: "env \<Rightarrow> user_record \<Rightarrow> store \<Rightarrow> string \<Rightarrow> ui_response + int" where
  "chosen_agent en u s agentName =
     (if agentName = [] then Inr 0
      else case ListAgentsForUser s (ur_id u) (ur_role u = ''admin'') of
          Inl e \<Rightarrow> Inl (ui_error en e 500)
        | Inr gs \<Rightarrow>
            (case find (\<lambda>g. gr_name g = agentName) gs of
               Some g \<Rightarrow> Inr (gr_id g)
             | None \<Rightarrow> Inl (http_error ''agent not available'' 400)))"

definition tunnelAssignHandler :: ui_handler where
  "tunnelAssignHandler su en name w r =
     with_detail ''POST'' su en name w r
       (\<lambda>user data w1.
          if rq_form_bad r then (http_error ''invalid form'' 400, w1)
          else let agentName = normalizeName (form_value r ''agent_name'') in
          case chosen_agent en (the user) (aw_store w1) agentName of
            Inl resp \<Rightarrow> (resp, w1)
          | Inr agentID \<Rightarrow>
              (case AssignTunnelToAgent (aw_store w1) (en_now en) name agentID of
                 (Inl e, s') \<Rightarrow> (ui_error en e 500, set_store s' w1)
               | (Inr _, s') \<Rightarrow>
                   show_card su en ''tunnel_assignment_card'' name user
                     (set_store (note_event en s' (td_tunnel data) ''assignment_changed''
                        (if agentName = [] then ''assignment cleared'' else ''assigned to '' @ agentName)) w1)))"

text \<open>The lines of the text area, trimmed, without blank ones.\<close>

definition form_lines :: "string \<Rightarrow> string list" where
  "form_lines v = filter (\<lambda>l. l \<noteq> []) (map trim_space (split_on (CHR 0x0A) v))"

definition form_rule :: "request \<Rightarrow> access_input" where
  "form_rule r = \<lparr>in_mode = trim_space (form_value r ''auth_mode''), in_user = trim_space (form_value r ''basic_auth_username''),
     in_pass = form_value r ''basic_auth_password'', in_header = trim_space (form_value r ''shared_secret_header_name''),
     in_secret = form_value r ''shared_secret_value'', in_allowed = form_lines (form_value r ''allowed_ips'')\<rparr>"

definition tunnelAccessUpdateHandler :: ui_handler where
  "tunnelAccessUpdateHandler su en name w r =
     with_detail ''POST'' su en name w r
       (\<lambda>user data w1.
          if rq_form_bad r then (http_error ''invalid form'' 400, w1)
          else case UpsertTunnelAccessRule (en_sha en) (aw_store w1) (en_now en) (tr_id (td_tunnel data)) (form_rule r) of
              (Inl e, s') \<Rightarrow>
                (ui_error en e 400,
                 set_store (note_event en s' (td_tunnel data) ''access_rule_invalid'' (err_text (en_drv en) e)) w1)
            | (Inr _, s') \<Rightarrow>
                show_card su en ''tunnel_access_card'' name user
                  (set_store (note_event en s' (td_tunnel data) ''access_rule_changed'' ''access rule updated'') w1))"

definition tunnelStateHandler :: ui_handler where
  "tunnelStateHandler su en name w r =
     with_detail ''POST'' su en name w r
       (\<lambda>user data w1.
          if rq_form_bad r then (http_error ''invalid form'' 400, w1)
          else let desired = trim_lower (form_value r ''desired_state''); tun = td_tunnel data in
          if desired \<noteq> ''running'' \<and> desired \<noteq> ''stopped'' then (http_error ''desired_state must be running or stopped'' 400, w1)
          else if desired = ''running'' \<and> tr_agent tun = 0 then (http_error ''tunnel has no assigned agent'' 409, w1)
          else case SetTunnelDesiredState (aw_store w1) (en_now en) name desired of
              (Inl e, s') \<Rightarrow> (ui_error en e 500, set_store s' w1)
            | (Inr _, s') \<Rightarrow>
                (let s2 = (if desired = ''stopped'' then mark_stopped en name tun s' else s')
                 in show_card su en ''tunnel_status_card'' name user
                      (set_store (note_event en s2 tun ''desired_state_changed'' (''desired state set to '' @ desired)) w1)))"

definition tunnelDeleteHandler :: ui_handler where
  "tunnelDeleteHandler su en name w r =
     with_detail ''POST'' su en name w r
       (\<lambda>user data w1.
          let hn = tr_hostname (td_tunnel data);
              hub = (if Get (aw_hub w1) hn \<noteq> None then snd (Disconnect (aw_hub w1) hn) else aw_hub w1);
              w2 = w1\<lparr>aw_hub := hub\<rparr>
          in case DeleteTunnelByName (aw_store w2) name of
              (Inl e, s') \<Rightarrow> (ui_error en e 500, set_store s' w2)
            | (Inr _, s') \<Rightarrow> (redirect ''/admin/ui'', set_store s' w2))"

text \<open>\<open>strings.Trim(path, "/")\<close>\<close>

definition trim_slashes :: "string \<Rightarrow> string" where
  "trim_slashes s = rev (dropWhile (\<lambda>c. c = CHR ''/'') (rev (dropWhile (\<lambda>c. c = CHR ''/'') s)))"

definition tunnelRouteHandler :: "ui_setup \<Rightarrow> env \<Rightarrow> admin_world \<Rightarrow> request \<Rightarrow> ui_response \<times> admin_world" where
  "tunnelRouteHandler su en w r =
     (let parts = split_on CHR ''/'' (trim_slashes (trim_prefix (rq_path r) ''/admin/ui/tunnels/''))
      in if trim_space (hd parts) = [] then (not_found, w)
         else let name = normalizeName (hd parts); action = (if length parts > 1 then parts ! 1 else [])
         in if action = [] then tunnelDetailPageHandler su en name w r
            else if action = ''status'' then tunnelStatusHandler su en name w r
            else if action = ''access'' then
              (if rq_method r = ''GET'' then tunnelAccessHandler su en name w r
               else if rq_method r = ''POST'' then tunnelAccessUpdateHandler su en name w r
               else (bad_method, w))
            else if action = ''logs'' then tunnelLogsHandler su en name w r
            else if action = ''events'' then tunnelEventsHandler su en name w r
            else if action = ''assign'' then tunnelAssignHandler su en name w r
            else if action = ''state'' then tunnelStateHandler su en name w r
            else if action = ''delete'' then tunnelDeleteHandler su en name w r
            else (not_found, w))"

end
