(* ===== verification/AdminPages.thy ===== *)
theory AdminPages
  imports AdminUi Mux
begin

text \<open>
  The remaining pages of internal/server/admin_ui.go and its router. The endless event stream
  answers with its headers; what it writes every second is \<open>event_stream\<close> of the theory Output.
\<close>

section \<open>The pages\<close>

definition loginHandler :: "ui_setup \<Rightarrow> admin_world \<Rightarrow> request \<Rightarrow> ui_response \<times> admin_world" where
  "loginHandler su w r =
     (if rq_method r \<noteq> ''GET'' then (bad_method, w)
      else if trim_space (cf_issuer (us_cfg su)) = [] then (http_error ''oidc not configured'' 503, w)
      else (render ''login'' (View (viewData su ''Sign In'' ''login'' None NoContent)), w))"

definition dashboardHandler :: "ui_setup \<Rightarrow> env \<Rightarrow> admin_world \<Rightarrow> request \<Rightarrow> ui_response \<times> admin_world" where
  "dashboardHandler su en w r =
     (if rq_method r \<noteq> ''GET'' then (bad_method, w)
      else case currentAdmin su en w r of
          (user, w1) \<Rightarrow>
            (case dashboardData su en w1 user of
               (Inl e, w2) \<Rightarrow> (ui_error en e 500, w2)
             | (Inr data, w2) \<Rightarrow>
                 if isHX r then (render ''dashboard_content'' (Fragment data), w2)
                 else (render ''layout'' (View (viewData su ''Dashboard'' ''dashboard'' user data)), w2)))"

definition config_content :: "ui_setup \<Rightarrow> admin_world \<Rightarrow> config_data" where
  "config_content su w =
     \<lparr>cd_hostname = cf_hostname (us_cfg su), cd_web_port = cf_web_port (us_cfg su), cd_grpc_port = cf_grpc_port (us_cfg su),
      cd_uptime = us_uptime su, cd_active = length (List_live (aw_hub w)),
      cd_req_limit = maxRequestBodyBytes (us_request_limit su), cd_msg_limit = maxProxyBodyBytes (us_proxy_limit su),
      cd_resp_limit = maxResponseLimit (us_response_limit su), cd_issuer = cf_issuer (us_cfg su),
      cd_scopes = join_with '', '' (cf_scopes (us_cfg su)),
      cd_oidc = (case us_auth su of None \<Rightarrow> False | Some a \<Rightarrow> OIDCEnabled a)\<rparr>"

definition configPageHandler :: "ui_setup \<Rightarrow> env \<Rightarrow> admin_world \<Rightarrow> request \<Rightarrow> ui_response \<times> admin_world" where
  "configPageHandler su en w r =
     (if rq_method r \<noteq> ''GET'' then (bad_method, w)
      else show_page su en ''Config'' ''config'' ''config_content'' (ConfigPage (config_content su w)) w r)"

definition domainsPageHandler :: "ui_setup \<Rightarrow> env \<Rightarrow> admin_world \<Rightarrow> request \<Rightarrow> ui_response \<times> admin_world" where
  "domainsPageHandler su en w r =
     (if rq_method r \<noteq> ''GET'' then (bad_method, w)
      else show_page su en ''Domains'' ''domains'' ''domains_content'' (Domains_of (List_domains (aw_domains w))) w r)"

text \<open>The two edits differ in the operation; a form that does not parse is read as it is.\<close>

definition edit_domains_with ::
  "(domain_store \<Rightarrow> string \<Rightarrow> (string + unit) \<times> domain_store) \<Rightarrow> admin_world \<Rightarrow> request \<Rightarrow> ui_response \<times> admin_world" where
  "edit_domains_with operation w r =
     (if rq_method r \<noteq> ''POST'' then (bad_method, w)
      else let domain = trim_lower (form_value r ''domain'')
      in if domain = [] then (http_error ''domain required'' 400, w)
         else case operation (aw_domains w) domain of
             (Inl e, d) \<Rightarrow> (http_error e 500, w\<lparr>aw_domains := d\<rparr>)
           | (Inr _, d) \<Rightarrow> (render ''domains_list'' (Fragment (Domains_of (List_domains d))), w\<lparr>aw_domains := d\<rparr>))"

definition domainsAddHandler :: "disk \<Rightarrow> admin_world \<Rightarrow> request \<Rightarrow> ui_response \<times> admin_world" where
  "domainsAddHandler disk w r = edit_domains_with (Add disk) w r"

definition domainsRemoveHandler :: "disk \<Rightarrow> admin_world \<Rightarrow> request \<Rightarrow> ui_response \<times> admin_world" where
  "domainsRemoveHandler disk w r = edit_domains_with (Remove disk) w r"

text \<open>\<open>5 * time.Minute\<close> in nanoseconds.\<close>

definition health_window :: int where
  "health_window = 300000000000"

definition healthPageHandler :: "ui_setup \<Rightarrow> env \<Rightarrow> admin_world \<Rightarrow> request \<Rightarrow> ui_response \<times> admin_world" where
  "healthPageHandler su en w r =
     (if rq_method r \<noteq> ''GET'' then (bad_method, w)
      else case RecentErrors (aw_stats w) (en_now en) health_window of
          (errs, st) \<Rightarrow>
            show_page su en ''Health'' ''health'' ''health_content''
              (HealthPage \<lparr>hd_uptime = us_uptime su, hd_active = length (List_live (aw_hub w)),
                 hd_domains = length (List_domains (aw_domains w)), hd_errors = errs\<rparr>)
              (w\<lparr>aw_stats := st\<rparr>) r)"

definition some_live :: "ui_setup \<Rightarrow> hub \<Rightarrow> string" where
  "some_live su h =
     (case List_live h of [] \<Rightarrow> [] | l \<Rightarrow> fst (l ! (us_pick su mod length l)))"

definition logsPageHandler :: "ui_setup \<Rightarrow> env \<Rightarrow> admin_world \<Rightarrow> request \<Rightarrow> ui_response \<times> admin_world" where
  "logsPageHandler su en w r =
     (if rq_method r \<noteq> ''GET'' then (bad_method, w)
      else if \<not> us_store_given su then (http_error ''store unavailable'' 503, w)
      else let asked = trim_lower (query_get r ''hostname'');
               hostname = (if asked = [] then some_live su (aw_hub w) else asked)
      in case ListRequestLogs (aw_store w) hostname 100 of
          Inl e \<Rightarrow> (ui_error en e 500, w)
        | Inr l \<Rightarrow> show_page su en ''Logs'' ''logs'' ''logs_content'' (LogsPage hostname l) w r)"

definition tunnelsTableHandler :: "ui_setup \<Rightarrow> env \<Rightarrow> admin_world \<Rightarrow> request \<Rightarrow> ui_response \<times> admin_world" where
  "tunnelsTableHandler su en w r =
     (if rq_method r \<noteq> ''GET'' then (bad_method, w)
      else case currentAdmin su en w r of
          (user, w1) \<Rightarrow>
            (case tunnelRows su en w1 user of
               (Inl e, w2) \<Rightarrow> (ui_error en e 500, w2)
             | (Inr rows, w2) \<Rightarrow> (render ''tunnels_table'' (Fragment (TunnelTable rows)), w2)))"

definition disconnectHandler :: "env \<Rightarrow> admin_world \<Rightarrow> request \<Rightarrow> ui_response \<times> admin_world" where
  "disconnectHandler en w r =
     (if rq_method r \<noteq> ''POST'' then (bad_method, w)
      else let hostname = trim_lower (form_value r ''hostname'')
      in if hostname = [] then (http_error ''hostname required'' 400, w)
         else case Disconnect (aw_hub w) hostname of
             (False, h) \<Rightarrow> (http_error ''tunnel not found'' 404, w\<lparr>aw_hub := h\<rparr>)
           | (True, h) \<Rightarrow>
               (case Snapshot (aw_stats w) (en_now en) (List_live h) of
                  (rows, st) \<Rightarrow> (render ''tunnels_table'' (Fragment (StatsTable rows)), w\<lparr>aw_hub := h, aw_stats := st\<rparr>)))"

definition eventsHandler :: "admin_world \<Rightarrow> request \<Rightarrow> ui_response \<times> admin_world" where
  "eventsHandler w r =
     (if rq_method r \<noteq> ''GET'' then (bad_method, w)
      else ((plain_response 200 NoBody)\<lparr>rs_headers := [(''Content-Type'', ''text/event-stream''),
              (''Cache-Control'', ''no-cache''), (''Connection'', ''keep-alive'')]\<rparr>, w))"

section \<open>The router\<close>

definition ui_require_admin ::
  "ui_setup \<Rightarrow> env \<Rightarrow> (admin_world \<Rightarrow> request \<Rightarrow> ui_response \<times> admin_world) \<Rightarrow> admin_world \<Rightarrow> request \<Rightarrow> ui_response \<times> admin_world" where
  "ui_require_admin su en handler w r =
     (case us_auth su of
        None \<Rightarrow> (http_error ''oidc not configured'' 503, w)
      | Some a \<Rightarrow> requireAdminOn aw_store set_store (en_hmac en) a handler w (en_now en) r)"

definition ui_routes ::
  "ui_setup \<Rightarrow> env \<Rightarrow> disk \<Rightarrow> (string \<times> (admin_world \<Rightarrow> request \<Rightarrow> ui_response \<times> admin_world)) list" where
  "ui_routes su en disk =
     [(''/admin/ui/login'', loginHandler su),
      (''/admin/ui/events'', ui_require_admin su en eventsHandler),
      (''/admin/ui/tunnels/'', ui_require_admin su en (tunnelRouteHandler su en)),
      (''/admin/ui/tunnels/table'', ui_require_admin su en (tunnelsTableHandler su en)),
      (''/admin/ui/tunnels/disconnect'', ui_require_admin su en (disconnectHandler en)),
      (''/admin/ui/domains/add'', ui_require_admin su en (domainsAddHandler disk)),
      (''/admin/ui/domains/remove'', ui_require_admin su en (domainsRemoveHandler disk)),
      (''/admin/ui/config'', ui_require_admin su en (configPageHandler su en)),
      (''/admin/ui/domains'', ui_require_admin su en (domainsPageHandler su en)),
      (''/admin/ui/health'', ui_require_admin su en (healthPageHandler su en)),
      (''/admin/ui/logs'', ui_require_admin su en (logsPageHandler su en)),
      (''/admin/ui'', ui_require_admin su en (dashboardHandler su en)),
      (''/admin/ui/'', ui_require_admin su en (dashboardHandler su en))]"

definition AdminUIRouter :: "ui_setup \<Rightarrow> env \<Rightarrow> disk \<Rightarrow> admin_world \<Rightarrow> request \<Rightarrow> ui_response \<times> admin_world" where
  "AdminUIRouter su en disk w r =
     (case serve_mux (ui_routes su en disk) (rq_path r) of
        Serve handler \<Rightarrow> handler w r
      | MovedTo target \<Rightarrow> (moved r target, w)
      | NoRoute \<Rightarrow> (not_found, w))"

end
