(* ===== verification/Server.thy ===== *)
theory Server
  imports AdminPages AuthHttp Proxy
begin

text \<open>
  The web server of internal/server/server.go: construction, the routing of every request to
  the administration pages, the admin API, the control plane, the login handlers or the public
  proxy, and the parts of \<open>Run\<close> that decide something. Listening and TLS are the libraries'.
\<close>

section \<open>Construction\<close>

record server =
  sv_cfg :: config
  sv_world :: admin_world

text \<open>\<open>opened\<close> is the outcome of \<open>NewStore\<close>, which opens and migrates the database file.\<close>

definition New :: "config \<Rightarrow> domain_file \<Rightarrow> string + store \<Rightarrow> string + server" where
  "New cfg0 file opened =
     (if cf_hostname cfg0 = [] then Inl ''hostname is required''
      else let cfg = (if cf_data_dir cfg0 = [] then cfg0\<lparr>cf_data_dir := ''.fwdx-server''\<rparr> else cfg0)
      in case opened of
          Inl e \<Rightarrow> Inl (''open store: '' @ e)
        | Inr s \<Rightarrow> Inr \<lparr>sv_cfg = cfg, sv_world = \<lparr>aw_store = s, aw_domains = NewDomainStore file,
                        aw_hub = NewRegistry, aw_stats = NewStatsStore\<rparr>\<rparr>)"

definition use_tls :: "config \<Rightarrow> bool" where
  "use_tls cfg \<longleftrightarrow> cf_cert cfg \<noteq> [] \<and> cf_key cfg \<noteq> []"

definition loadTLS :: "string + 'c \<Rightarrow> string + 'c" where
  "loadTLS pair = (case pair of Inl e \<Rightarrow> Inl (''load TLS: '' @ e) | Inr c \<Rightarrow> Inr c)"

text \<open>
  \<open>Run\<close> up to the start of the two servers: the auth manager, the certificate and the gRPC
  port, each with its error; the arguments are the outcomes of the library calls.
\<close>

definition Run_setup ::
  "server \<Rightarrow> string + oidc_manager \<Rightarrow> string + 'c \<Rightarrow> string + unit \<Rightarrow> string + auth_manager" where
  "Run_setup sv oidc pair listen =
     (case NewAuthManager (sv_cfg sv) True (use_tls (sv_cfg sv)) oidc of
        Inl e \<Rightarrow> Inl e
      | Inr a \<Rightarrow>
          (case (if use_tls (sv_cfg sv) then map_sum id (\<lambda>_. ()) (loadTLS pair) else Inr ()) of
             Inl e \<Rightarrow> Inl e
           | Inr _ \<Rightarrow> (case listen of Inl e \<Rightarrow> Inl e | Inr _ \<Rightarrow> Inr a)))"

text \<open>The errors of the two servers; \<open>Closed\<close> is \<open>http.ErrServerClosed\<close>.\<close>

datatype serve_error = Closed | Failed string

definition firstErr :: "serve_error option \<Rightarrow> serve_error option \<Rightarrow> serve_error option" where
  "firstErr prev err = (case err of Some (Failed e) \<Rightarrow> Some (Failed e) | _ \<Rightarrow> prev)"

section \<open>Routing\<close>

datatype endpoint =
    AdminUI_ep | Admin_ep | Api_ep | Login_ep | Callback_ep | Logout_ep | DeviceStart_ep | DevicePoll_ep | WhoAmI_ep | Proxy_ep

definition server_routes :: "(string \<times> endpoint) list" where
  "server_routes =
     [(''/admin/ui/'', AdminUI_ep), (''/admin/ui'', AdminUI_ep), (''/admin/'', Admin_ep), (''/api/'', Api_ep),
      (''/auth/oidc/login'', Login_ep), (''/auth/oidc/callback'', Callback_ep), (''/auth/oidc/logout'', Logout_ep),
      (''/auth/device/start'', DeviceStart_ep), (''/auth/device/poll'', DevicePoll_ep),
      (''/api/users/me'', WhoAmI_ep), (''/'', Proxy_ep)]"

text \<open>What a request meets outside the program, as the handlers take it.\<close>

record outside =
  os_env :: env
  os_verifier :: "string res"
  os_auth_url :: "string \<Rightarrow> string \<Rightarrow> string"
  os_exchange :: "string \<Rightarrow> string \<Rightarrow> string + claims"
  os_device :: "device_authorization post"
  os_poll :: "string \<Rightarrow> string + poll_result"
  os_disk :: disk
  os_proxy :: proxy_env
  os_ui :: ui_setup
  os_enqueue :: "nat \<Rightarrow> proxy_request \<Rightarrow> proxy_response option \<times> bool"

datatype answer =
    FromUI ui_response
  | FromAdmin admin_response
  | FromApi api_response
  | FromAuth auth_response
  | FromWhoAmI "(string \<times> string) list response"
  | FromProxy proxy_result
  | FromMux "unit response"

definition with_store :: "admin_world \<Rightarrow> ('a \<Rightarrow> answer) \<Rightarrow> 'a \<times> store \<Rightarrow> answer \<times> admin_world" where
  "with_store w wrap res = (wrap (fst res), w\<lparr>aw_store := snd res\<rparr>)"

definition proxy_world :: "admin_world \<Rightarrow> proxy_result \<Rightarrow> admin_world" where
  "proxy_world w x = w\<lparr>aw_store := (case px_store x of Some s \<Rightarrow> s | None \<Rightarrow> aw_store w),
                       aw_stats := (case px_stats x of Some st \<Rightarrow> st | None \<Rightarrow> aw_stats w)\<rparr>"

definition call_endpoint ::
  "config \<Rightarrow> auth_manager \<Rightarrow> outside \<Rightarrow> endpoint \<Rightarrow> admin_world \<Rightarrow> request \<Rightarrow> answer \<times> admin_world" where
  "call_endpoint cfg a out ep w r =
     (let en = os_env out; s = aw_store w; drv = en_drv en; hmac = en_hmac en; now = en_now en; rand = en_random en in
      case ep of
        AdminUI_ep \<Rightarrow>
          (case AdminUIRouter ((os_ui out)\<lparr>us_cfg := cfg, us_auth := Some a, us_store_given := True\<rparr>) en (os_disk out) w r of
             (resp, w') \<Rightarrow> (FromUI resp, w'))
      | Admin_ep \<Rightarrow>
          (case AdminRouter \<lparr>as_hostname = cf_hostname cfg, as_auth = Some a, as_has_store = True, as_has_stats = True\<rparr>
                  en (os_disk out) w r of
             (resp, w') \<Rightarrow> (FromAdmin resp, w'))
      | Api_ep \<Rightarrow> with_store w FromApi (ControlPlaneRouter en cfg (aw_domains w) (Some a) s r)
      | Login_ep \<Rightarrow> with_store w FromAuth (handleOIDCLogin drv (os_auth_url out) a s now rand (os_verifier out) r)
      | Callback_ep \<Rightarrow> with_store w FromAuth (handleOIDCCallback drv hmac (os_exchange out) a s now rand r)
      | Logout_ep \<Rightarrow> with_store w FromAuth (handleOIDCLogout hmac a s r)
      | DeviceStart_ep \<Rightarrow> with_store w FromAuth (handleDeviceStart a s (os_device out) r)
      | DevicePoll_ep \<Rightarrow> with_store w FromAuth (handleDevicePoll drv hmac (os_poll out) a s now rand r)
      | WhoAmI_ep \<Rightarrow> with_store w FromWhoAmI (handleWhoAmI hmac a s now r)
      | Proxy_ep \<Rightarrow>
          (let x = ProxyHandlerWithConfig (os_proxy out) cfg (Some (aw_stats w)) (Some s) (aw_hub w) (os_enqueue out) r
           in (FromProxy x, proxy_world w x)))"

text \<open>One request to the web server.\<close>

definition serve_http :: "config \<Rightarrow> auth_manager \<Rightarrow> outside \<Rightarrow> admin_world \<Rightarrow> request \<Rightarrow> answer \<times> admin_world" where
  "serve_http cfg a out w r =
     (case serve_mux server_routes (rq_path r) of
        Serve ep \<Rightarrow> call_endpoint cfg a out ep w r
      | MovedTo target \<Rightarrow> (FromMux (moved r target), w)
      | NoRoute \<Rightarrow> (FromMux not_found, w))"

section \<open>Which paths reach the tunnels\<close>

text \<open>The paths the server keeps for itself.\<close>

definition reserved :: "string \<Rightarrow> bool" where
  "reserved p \<longleftrightarrow>
     p = ''/admin'' \<or> has_prefix p ''/admin/'' \<or> p = ''/api'' \<or> has_prefix p ''/api/'' \<or>
     p \<in> {''/auth/oidc/login'', ''/auth/oidc/callback'', ''/auth/oidc/logout'', ''/auth/device/start'', ''/auth/device/poll''}"

definition from_proxy :: "answer \<Rightarrow> bool" where
  "from_proxy ans \<longleftrightarrow> (case ans of FromProxy _ \<Rightarrow> True | _ \<Rightarrow> False)"

text \<open>A request reaches the tunnels exactly when its path is clean and not reserved.\<close>

lemma clean_path_slash: "has_prefix (clean_path p) ''/''"
  by (simp add: clean_path_def Let_def has_prefix_def)

lemma server_match:
  "(\<exists>x \<in> set server_routes. snd x \<noteq> Proxy_ep \<and> pattern_matches (fst x) p) \<or> p = ''/admin'' \<or> p = ''/api'' \<longleftrightarrow> reserved p"
proof -
  have routes: "(\<exists>x \<in> set server_routes. snd x \<noteq> Proxy_ep \<and> pattern_matches (fst x) p) \<longleftrightarrow>
      has_prefix p ''/admin/ui/'' \<or> p = ''/admin/ui'' \<or> has_prefix p ''/admin/'' \<or> has_prefix p ''/api/'' \<or>
      p = ''/auth/oidc/login'' \<or> p = ''/auth/oidc/callback'' \<or> p = ''/auth/oidc/logout'' \<or>
      p = ''/auth/device/start'' \<or> p = ''/auth/device/poll'' \<or> p = ''/api/users/me''"
    by (simp add: server_routes_def pattern_matches_def has_suffix_def)
  have sub: "has_prefix p ''/admin/ui/'' \<longrightarrow> has_prefix p ''/admin/''" "p = ''/admin/ui'' \<longrightarrow> has_prefix p ''/admin/''"
    "p = ''/api/users/me'' \<longrightarrow> has_prefix p ''/api/''"
    by (auto simp: has_prefix_iff)
  have core: "(u \<or> v \<or> ad \<or> ap \<or> l1 \<or> l2 \<or> l3 \<or> d1 \<or> d2 \<or> m) \<or> x \<or> y \<longleftrightarrow> x \<or> ad \<or> y \<or> ap \<or> l1 \<or> l2 \<or> l3 \<or> d1 \<or> d2"
    if "u \<longrightarrow> ad" "v \<longrightarrow> ad" "m \<longrightarrow> ap" for u v ad ap l1 l2 l3 d1 d2 m x y
    using that by blast
  show ?thesis
    unfolding routes reserved_def insert_iff empty_iff simp_thms by (rule core [OF sub])
qed

lemma server_root: "x \<in> set server_routes \<Longrightarrow> snd x = Proxy_ep \<longleftrightarrow> fst x = ''/''"
  "x \<in> set server_routes \<Longrightarrow> fst x \<noteq> ''/'' \<Longrightarrow> 1 < length (fst x)"
  unfolding server_routes_def by (auto simp only: list.set insert_iff prod.inject empty_iff fst_conv snd_conv) simp_all

lemma server_slash: "p @ ''/'' \<in> fst ` set server_routes \<longleftrightarrow> p \<in> {''/admin/ui'', ''/admin'', ''/api'', []}"
proof -
  have "fst ` set server_routes = {''/admin/ui'' @ ''/'', ''/admin/ui'', ''/admin'' @ ''/'', ''/api'' @ ''/'',
      ''/auth/oidc/login'', ''/auth/oidc/callback'', ''/auth/oidc/logout'', ''/auth/device/start'', ''/auth/device/poll'',
      ''/api/users/me'', [] @ ''/''}"
    by (simp add: server_routes_def)
  moreover have "p @ ''/'' \<noteq> q" if "last q \<noteq> CHR ''/''" for q using that by auto
  ultimately show ?thesis by (auto simp only: insert_iff append_same_eq empty_iff) simp_all
qed

lemma routes_to_proxy:
  "serve_mux server_routes p = Serve Proxy_ep \<longleftrightarrow> clean_path p = p \<and> \<not> reserved p"
proof
  assume served: "serve_mux server_routes p = Serve Proxy_ep"
  then obtain pat where clean: "clean_path p = p" and best: "longest_match server_routes p = Some (pat, Proxy_ep)"
    and stay: "pat = p \<or> has_suffix p ''/'' \<or> p @ ''/'' \<notin> fst ` set server_routes"
    by (auto simp: serve_mux_def Let_def split: if_splits option.splits)
  have pat: "pat = ''/''" using longest_match_mem [OF best] server_root(1) by fastforce
  have "\<not> pattern_matches (fst x) p" if "x \<in> set server_routes" "snd x \<noteq> Proxy_ep" for x
    using longest_match_longest [OF best that(1)] server_root [OF that(1)] that(2) pat by fastforce
  moreover have "p \<noteq> ''/admin'' \<and> p \<noteq> ''/api''" using stay pat unfolding server_slash by (auto simp: has_suffix_def)
  ultimately have "\<not> reserved p" unfolding server_match [symmetric] by fast
  with clean show "clean_path p = p \<and> \<not> reserved p" by simp
next
  assume free: "clean_path p = p \<and> \<not> reserved p"
  have root: "(''/'', Proxy_ep) \<in> set server_routes" "pattern_matches ''/'' p"
    using clean_path_slash [of p] free by (simp_all add: server_routes_def pattern_matches_def has_suffix_def)
  obtain pat ep where y: "longest_match server_routes p = Some (pat, ep)"
  proof (cases "longest_match server_routes p")
    case None
    then have "\<not> pattern_matches (fst (''/'', Proxy_ep)) p"
      using longest_match_None [of server_routes p] root(1) by blast
    with root(2) show thesis by simp
  next
    case (Some x)
    then show thesis using that [of "fst x" "snd x"] by simp
  qed
  note mem = longest_match_mem [OF y]
  have "\<not> reserved p" using free by simp
  then have "\<forall>x \<in> set server_routes. pattern_matches (fst x) p \<longrightarrow> snd x = Proxy_ep"
    unfolding server_match [symmetric] by fast
  with mem have "ep = Proxy_ep" by fastforce
  with mem server_root(1) [of "(pat, ep)"] have best: "longest_match server_routes p = Some (''/'', Proxy_ep)"
    using y by simp
  have nonempty: "p \<noteq> []" using clean_path_slash [of p] free by (auto simp: has_prefix_def)
  have kept: "reserved ''/admin/ui''" "reserved ''/admin''" "reserved ''/api''" by code_simp+
  have ne: "p \<noteq> q" if "reserved q" for q using that free by auto
  have "p @ ''/'' \<notin> fst ` set server_routes"
    unfolding server_slash insert_iff empty_iff by (simp only: ne [OF kept(1)] ne [OF kept(2)] ne [OF kept(3)] nonempty simp_thms)
  then show "serve_mux server_routes p = Serve Proxy_ep" using free best by (simp add: serve_mux_def)
qed

lemma serve_http_from_proxy:
  "from_proxy (fst (serve_http cfg a out w r)) \<longleftrightarrow> serve_mux server_routes (rq_path r) = Serve Proxy_ep"
proof (cases "serve_mux server_routes (rq_path r)")
  case (Serve ep)
  then show ?thesis
    by (cases ep) (simp_all add: serve_http_def call_endpoint_def from_proxy_def with_store_def Let_def split_beta)
qed (simp_all add: serve_http_def from_proxy_def)

end
