(* ===== verification/ServerInv.thy ===== *)
theory ServerInv
  imports Server GrpcServer
begin

text \<open>
  What every request leaves intact. The store is changed through its operations only, so any
  predicate that all operations preserve (the interface \<open>store_invariant\<close>) holds after every
  handler of the web server and every stream of the tunnel service; of the table of live tunnels
  the web server only cuts entries; the statistics and the allowed domains have invariants of
  their own.
\<close>

section \<open>The parts of the world\<close>

text \<open>
  The table of live tunnels: one entry per hostname, to an open connection that was allocated
  for this hostname; every connection is in a state its own steps reach.
\<close>

definition hub_ok :: "hub \<Rightarrow> bool" where
  "hub_ok h \<longleftrightarrow> distinct (map fst (hb_tunnels h)) \<and> (\<forall>i. reachable_conn (hb_conns h i)) \<and>
     (\<forall>(k, i) \<in> set (hb_tunnels h). i < hb_next h \<and> cn_host (hb_conns h i) = k \<and> \<not> cn_closed (hb_conns h i))"

definition world_ok :: "(store \<Rightarrow> bool) \<Rightarrow> (hub \<Rightarrow> bool) \<Rightarrow> admin_world \<Rightarrow> bool" where
  "world_ok P Q w \<longleftrightarrow> P (aw_store w) \<and> stats_ok (aw_stats w) \<and> domains_ok (aw_domains w) \<and> Q (aw_hub w)"

lemma close_conn_host [simp]: "cn_host (close_conn c) = cn_host c"
  by (simp add: close_conn_def close_broadcast_def close_mark_def)

text \<open>Closing a connection and dropping the hostname it was made for.\<close>

lemma hub_ok_drop:
  assumes "hub_ok h" and "cn_host (hb_conns h i) = k"
  shows "hub_ok ((close_at i h)\<lparr>hb_tunnels := drop_key k (hb_tunnels h)\<rparr>)"
  using assms by (auto simp: hub_ok_def close_at_def close_conn_reachable distinct_drop_key)

lemma hub_ok_Get: "hub_ok h \<Longrightarrow> Get h k = Some i \<Longrightarrow> cn_host (hb_conns h i) = k"
  by (auto simp: hub_ok_def Get_def dest!: map_of_SomeD)

lemma hub_ok_Disconnect [simp]: "hub_ok h \<Longrightarrow> hub_ok (snd (Disconnect h k))"
  using hub_ok_drop [of h] hub_ok_Get [of h k] by (auto simp: Disconnect_def split: option.split)

lemma hub_ok_Unregister [simp]: "hub_ok h \<Longrightarrow> hub_ok (Unregister h k)"
  using hub_ok_drop [of h] hub_ok_Get [of h k] by (auto simp: Unregister_def split: option.split)

section \<open>The store\<close>

locale store_invariant =
  fixes P :: "store \<Rightarrow> bool" and H :: "string \<Rightarrow> string" and Q :: "hub \<Rightarrow> bool"
  assumes keep: "P s \<Longrightarrow> P (exec_op H op s)"
    and cut: "Q h \<Longrightarrow> Q (snd (Disconnect h k))"
begin

lemma op_keeps [simp]:
  assumes "P s"
  shows "P (snd (CreateTunnel H s now owner nm hn hint aid))" "P (snd (UpsertTunnelAccessRule H s now tid inp))"
    "P (snd (AssignTunnelToAgent s now nm aid))" "P (snd (SetTunnelDesiredState s now nm ds))"
    "P (snd (UpdateTunnelStateByName s now nm hint as le seen))" "P (snd (DeleteTunnelByName s nm))"
    "P (snd (AddTunnelEvent s now hn et msg))" "P (snd (InsertRequestLog s now rec))"
    "P (snd (UpsertUserFromOIDC s now sub em dn gs ro))" "P (snd (CreateSession s now uid h ex))"
    "P (snd (GetSessionByToken s now h))" "P (snd (DeleteSession s h))" "P (snd (CreateLoginState s now st v r ex))"
    "P (snd (ConsumeLoginState s now st))" "P (snd (CreateAgent s now uid nm h))" "P (snd (RevokeAgentByName s now nm))"
    "P (snd (TouchAgent s now aid st))"
  using keep [OF assms, of "OpCreateTunnel now owner nm hn hint aid"] keep [OF assms, of "OpUpsertRule now tid inp"]
    keep [OF assms, of "OpAssign now nm aid"] keep [OF assms, of "OpSetDesired now nm ds"]
    keep [OF assms, of "OpUpdateState now nm hint as le seen"] keep [OF assms, of "OpDeleteTunnel nm"]
    keep [OF assms, of "OpAddEvent now hn et msg"] keep [OF assms, of "OpInsertLog now rec"]
    keep [OF assms, of "OpUpsertUser now sub em dn gs ro"] keep [OF assms, of "OpCreateSession now uid h ex"]
    keep [OF assms, of "OpGetSession now h"] keep [OF assms, of "OpDeleteSession h"] keep [OF assms, of "OpCreateLogin now st v r ex"]
    keep [OF assms, of "OpConsumeLogin now st"] keep [OF assms, of "OpCreateAgent now uid nm h"]
    keep [OF assms, of "OpRevokeAgent now nm"] keep [OF assms, of "OpTouchAgent now aid st"]
  by simp_all

text \<open>An operation whose result is taken apart.\<close>

lemma op_keepsD:
  assumes "P s"
  shows "CreateTunnel H s now owner nm hn hint aid = (r1, s') \<Longrightarrow> P s'" "UpsertTunnelAccessRule H s now tid inp = (r2, s') \<Longrightarrow> P s'"
    "AssignTunnelToAgent s now nm aid = (r2, s') \<Longrightarrow> P s'" "SetTunnelDesiredState s now nm ds = (r2, s') \<Longrightarrow> P s'"
    "DeleteTunnelByName s nm = (r2, s') \<Longrightarrow> P s'" "CreateAgent s now uid nm h = (r3, s') \<Longrightarrow> P s'"
    "RevokeAgentByName s now nm = (r2, s') \<Longrightarrow> P s'" "UpsertUserFromOIDC s now sub em dn gs ro = (r4, s') \<Longrightarrow> P s'"
    "CreateSession s now uid h ex = (r2, s') \<Longrightarrow> P s'" "GetSessionByToken s now h = (r5, s') \<Longrightarrow> P s'"
    "CreateLoginState s now st v r ex = (r2, s') \<Longrightarrow> P s'" "ConsumeLoginState s now st = (r6, s') \<Longrightarrow> P s'"
  using op_keeps [OF assms] by (metis snd_conv)+

subsection \<open>Sessions and logins\<close>

lemma requestUser_keeps [simp]: "P s \<Longrightarrow> P (snd (requestUser hmac a s now r))"
  by (auto simp: requestUser_def Let_def split: prod.splits sum.splits dest: op_keepsD)

lemma issueSession_keeps [simp]: "P s \<Longrightarrow> P (snd (issueSession hmac a s now random uid))"
  by (auto simp: issueSession_def Let_def split: prod.splits sum.splits dest: op_keepsD)

lemma requestUser_keepsD: "requestUser hmac a s now r = (u, s') \<Longrightarrow> P s \<Longrightarrow> P s'"
  using requestUser_keeps [of s hmac a now r] by simp

lemma issueSession_keepsD: "issueSession hmac a s now random uid = (u, s') \<Longrightarrow> P s \<Longrightarrow> P s'"
  using issueSession_keeps [of s hmac a now random uid] by simp

lemma login_keeps [simp]:
  assumes "P s"
  shows "P (snd (handleOIDCLogin drv auth_url a s now r1 r2 r))" "P (snd (handleOIDCCallback drv hmac exchange a s now random r))"
    "P (snd (handleOIDCLogout hmac a s r))" "P (snd (handleDeviceStart a s post r))"
    "P (snd (handleDevicePoll drv hmac poll a s now random r))" "P (snd (handleWhoAmI hmac a s now r))"
  using assms
  by (auto simp: handleOIDCLogin_def handleOIDCCallback_def handleOIDCLogout_def handleDeviceStart_def handleDevicePoll_def
      handleWhoAmI_def Let_def split: prod.splits sum.splits option.splits poll_result.splits
      dest: op_keepsD requestUser_keepsD issueSession_keepsD)

subsection \<open>The control plane\<close>

lemma note_keeps [simp]: "P s \<Longrightarrow> P (note_event en s tun k m)"
  by (simp add: note_event_def)

lemma mark_keeps [simp]: "P s \<Longrightarrow> P (mark_stopped en nm tun s)"
  by (simp add: mark_stopped_def)

lemma set_state_keeps [simp]: "P s \<Longrightarrow> P (snd (set_state en nm tun desired s))"
  by (auto simp: set_state_def Let_def split: prod.splits sum.splits dest: op_keepsD)

lemma agents_keeps [simp]: "P s \<Longrightarrow> P (snd (agents_handler en u s r))" "P s \<Longrightarrow> P (snd (agent_handler en u s r))"
  by (auto simp: agents_handler_def agent_handler_def Let_def split: prod.splits sum.splits option.splits dest: op_keepsD)

lemma assign_keeps [simp]: "P s \<Longrightarrow> P (snd (assign_handler en u nm tun s r))"
  by (auto simp: assign_handler_def Let_def split: prod.splits sum.splits option.splits dest: op_keepsD)

lemma access_keeps [simp]: "en_sha en = H \<Longrightarrow> P s \<Longrightarrow> P (snd (access_handler en tun s r))"
  by (auto simp: access_handler_def Let_def split: prod.splits sum.splits option.splits dest: op_keepsD)

lemma delete_keeps [simp]: "P s \<Longrightarrow> P (snd (delete_handler en nm s))"
  by (auto simp: delete_handler_def split: prod.splits sum.splits dest: op_keepsD)

lemma create_keeps [simp]: "en_sha en = H \<Longrightarrow> P s \<Longrightarrow> P (snd (create_handler en cfg allowed u s r))"
  by (auto simp: create_handler_def Let_def split: prod.splits sum.splits option.splits dest: op_keepsD)

lemma action_keeps [simp]: "en_sha en = H \<Longrightarrow> P s \<Longrightarrow> P (snd (tunnel_action en u parts nm tun s r))"
  by (simp add: tunnel_action_def logs_handler_def events_handler_def state_handler_def start_handler_def stop_handler_def Let_def
      split: sum.split option.split)

lemma dispatch_keeps [simp]: "en_sha en = H \<Longrightarrow> P s \<Longrightarrow> P (snd (api_dispatch en cfg allowed ep u s r))"
  by (cases ep) (simp_all add: api_dispatch_def tunnels_handler_def tunnel_handler_def Let_def split: sum.split)

lemma api_keeps [simp]:
  assumes "en_sha en = H" and "P s"
  shows "P (snd (ControlPlaneRouter en cfg domains auth s r))"
proof -
  have "P s'" if "requireSessionUser en auth s r = (x, s')" for x :: "api_response + user_record" and s'
    using that assms(2) by (auto simp: requireSessionUser_def split: option.splits prod.splits if_splits dest: requestUser_keepsD)
  then show ?thesis
    using assms by (auto simp: ControlPlaneRouter_def split: route.split prod.split sum.split)
qed

subsection \<open>The administration\<close>

lemma currentAdmin_keepsD: "currentAdmin su en w r = (u, w') \<Longrightarrow> world_ok P Q w \<Longrightarrow> world_ok P Q w'"
  by (auto simp: currentAdmin_def world_ok_def split: option.splits prod.splits dest: requestUser_keepsD)

lemma with_detail_keeps:
  assumes "world_ok P Q w" and "\<And>user data w'. world_ok P Q w' \<Longrightarrow> world_ok P Q (snd (k user data w'))"
  shows "world_ok P Q (snd (with_detail meth su en name w r k))"
  using assms by (auto simp: with_detail_def split: prod.splits sum.splits dest: currentAdmin_keepsD)

lemma set_store_keeps [simp]: "world_ok P Q w \<Longrightarrow> P s \<Longrightarrow> world_ok P Q (set_store s w)"
  by (simp add: set_store_def world_ok_def)

lemma world_store: "world_ok P Q w \<Longrightarrow> P (aw_store w)"
  by (simp add: world_ok_def)

lemma show_card_world [simp]: "snd (show_card su en tpl name user w) = w"
  by (simp add: show_card_def split: sum.split)

lemma tunnel_pages_keep [simp]:
  assumes "en_sha en = H" and "world_ok P Q w"
  shows "world_ok P Q (snd (tunnelDetailPageHandler su en nm w r))" "world_ok P Q (snd (tunnelStatusHandler su en nm w r))"
    "world_ok P Q (snd (tunnelAccessHandler su en nm w r))" "world_ok P Q (snd (tunnelLogsHandler su en nm w r))"
    "world_ok P Q (snd (tunnelEventsHandler su en nm w r))" "world_ok P Q (snd (tunnelAssignHandler su en nm w r))"
    "world_ok P Q (snd (tunnelAccessUpdateHandler su en nm w r))" "world_ok P Q (snd (tunnelStateHandler su en nm w r))"
  unfolding tunnelDetailPageHandler_def tunnelStatusHandler_def tunnelAccessHandler_def tunnelLogsHandler_def
    tunnelEventsHandler_def tunnelAssignHandler_def tunnelAccessUpdateHandler_def tunnelStateHandler_def
  by (rule with_detail_keeps [OF assms(2)],
      use assms(1) in \<open>simp add: Let_def split_beta world_store split: sum.split\<close>)+

lemma delete_page_keeps [simp]: "world_ok P Q w \<Longrightarrow> world_ok P Q (snd (tunnelDeleteHandler su en nm w r))"
  unfolding tunnelDeleteHandler_def
  by (rule with_detail_keeps)
    (auto simp: Let_def world_ok_def set_store_def cut split: prod.splits sum.splits dest: op_keepsD)

lemma tunnelRoute_keeps [simp]: "en_sha en = H \<Longrightarrow> world_ok P Q w \<Longrightarrow> world_ok P Q (snd (tunnelRouteHandler su en w r))"
  by (simp add: tunnelRouteHandler_def Let_def)

text \<open>The statistics and the allowed domains, as the pages change them.\<close>

lemma world_parts [simp]:
  assumes "world_ok P Q w"
  shows "world_ok P Q (w\<lparr>aw_stats := snd (Snapshot (aw_stats w) now l)\<rparr>)" "world_ok P Q (w\<lparr>aw_stats := snd (RecentErrors (aw_stats w) now i)\<rparr>)"
    "world_ok P Q (w\<lparr>aw_domains := snd (Add disk (aw_domains w) v)\<rparr>)" "world_ok P Q (w\<lparr>aw_domains := snd (Remove disk (aw_domains w) v)\<rparr>)"
    "world_ok P Q (w\<lparr>aw_hub := snd (Disconnect (aw_hub w) k)\<rparr>)"
    "world_ok P Q (w\<lparr>aw_hub := snd (Disconnect (aw_hub w) k), aw_stats := snd (Snapshot (aw_stats w) now l)\<rparr>)"
    "world_ok P Q (w\<lparr>aw_store := snd (requestUser hmac a (aw_store w) now r)\<rparr>)"
  using assms dom.add_valid [of "aw_domains w" disk v] dom.remove_valid [of "aw_domains w" disk v]
    exec_stats_ok [of "aw_stats w" "SErrors now i"]
  by (simp_all add: world_ok_def Snapshot_ok cut)

lemma currentAdmin_keeps [simp]: "world_ok P Q w \<Longrightarrow> world_ok P Q (snd (currentAdmin su en w r))"
  using currentAdmin_keepsD [of su en w r] by (metis prod.collapse)

lemma tunnelRows_keeps [simp]: "world_ok P Q w \<Longrightarrow> world_ok P Q (snd (tunnelRows su en w user))"
  by (simp add: tunnelRows_def split_beta Let_def split: option.split sum.split)

lemma show_page_keeps [simp]: "world_ok P Q w \<Longrightarrow> world_ok P Q (snd (show_page su en title page fragment content w r))"
  by (simp add: show_page_def split_beta)

lemma dashboardData_keeps [simp]: "world_ok P Q w \<Longrightarrow> world_ok P Q (snd (dashboardData su en w user))"
  by (simp add: dashboardData_def split_beta split: sum.split)

lemma pages_keep [simp]:
  assumes "world_ok P Q w"
  shows "world_ok P Q (snd (loginHandler su w r))" "world_ok P Q (snd (dashboardHandler su en w r))"
    "world_ok P Q (snd (configPageHandler su en w r))" "world_ok P Q (snd (domainsPageHandler su en w r))"
    "world_ok P Q (snd (domainsAddHandler disk w r))" "world_ok P Q (snd (domainsRemoveHandler disk w r))"
    "world_ok P Q (snd (healthPageHandler su en w r))" "world_ok P Q (snd (logsPageHandler su en w r))"
    "world_ok P Q (snd (tunnelsTableHandler su en w r))" "world_ok P Q (snd (disconnectHandler en w r))" "world_ok P Q (snd (eventsHandler w r))"
  using assms
  by (simp_all add: loginHandler_def dashboardHandler_def configPageHandler_def domainsPageHandler_def domainsAddHandler_def
      domainsRemoveHandler_def edit_domains_with_def healthPageHandler_def logsPageHandler_def tunnelsTableHandler_def
      disconnectHandler_def eventsHandler_def split_beta Let_def split: sum.split bool.split)

lemma gate_keeps:
  assumes "world_ok P Q w" and "\<And>w'. world_ok P Q w' \<Longrightarrow> world_ok P Q (snd (handler w' r))"
  shows "world_ok P Q (snd (ui_require_admin su en handler w r))"
  using assms by (simp add: ui_require_admin_def requireAdminOn_def set_store_def split_beta Let_def split: option.split)

lemma ui_keeps [simp]:
  assumes "en_sha en = H" and "world_ok P Q w"
  shows "world_ok P Q (snd (AdminUIRouter su en disk w r))"
proof (cases "serve_mux (ui_routes su en disk) (rq_path r)")
  case (Serve h)
  obtain pat where "(pat, h) \<in> set (ui_routes su en disk)" using serve_mux_served [OF Serve] by blast
  then have "world_ok P Q (snd (h w r))"
    unfolding ui_routes_def using assms
    by (simp only: list.set insert_iff prod.inject empty_iff) (elim disjE conjE FalseE; simp add: gate_keeps)
  then show ?thesis by (simp add: AdminUIRouter_def Serve)
qed (use assms in \<open>simp_all add: AdminUIRouter_def\<close>)

lemma admin_api_keeps [simp]:
  assumes "world_ok P Q w"
  shows "world_ok P Q (snd (AdminRouter su en disk w r))"
proof -
  have "world_ok P Q (snd (admin_dispatch su en disk w' r))" if "world_ok P Q w'" for w'
    using that
    by (simp add: admin_dispatch_def admin_stats_def admin_control_tunnels_def admin_logs_def admin_add_domain_def
        admin_remove_domain_def split_beta Let_def split: sum.split option.split)
  moreover have "world_ok P Q (w\<lparr>aw_store := snd (authorizeAdmin hmac a (aw_store w) now r)\<rparr>)" for hmac a now
    using assms by (simp add: authorizeAdmin_def split_beta split: option.split)
  ultimately show ?thesis using assms by (simp add: AdminRouter_def split_beta Let_def split: option.split)
qed

subsection \<open>The proxy\<close>

lemma proxy_keeps:
  assumes "P s" and "stats_ok st" and "x = ProxyHandlerWithConfig p cfg (Some st) (Some s) hub enqueue r"
  shows "(case px_store x of Some s' \<Rightarrow> P s' | None \<Rightarrow> True) \<and> (case px_stats x of Some st' \<Rightarrow> stats_ok st' | None \<Rightarrow> True)"
proof -
  define good where "good y \<longleftrightarrow> (case px_store y of Some s' \<Rightarrow> P s' | None \<Rightarrow> True) \<and>
      (case px_stats y of Some st' \<Rightarrow> stats_ok st' | None \<Rightarrow> True)" for y :: proxy_result
  have fin: "good (finish c tid fwd resp status n e t)" "good (deny c tid msg code t)" "good ((deny c tid msg code t)\<lparr>px_forwarded := f\<rparr>)"
    if "pc_store c = Some s" "pc_stats c = Some st" for c tid fwd resp status n e t msg code f
    using that assms by (simp_all add: good_def finish_def deny_def Record_ok)
  have "good (pass_request c tid i enqueue)" if "pc_store c = Some s" "pc_stats c = Some st" for c tid i
    using that fin [OF that] assms
    by (auto simp: pass_request_def body_too_large_def forward_def Let_def good_def [of "\<lparr>px_response = _, px_forwarded = _, px_stats = _, px_store = _\<rparr>"]
        split: prod.splits option.splits bool.splits)
  moreover have "good y" if "access_check c tid = Some y" "pc_store c = Some s" "pc_stats c = Some st" for c tid y
    using that(1) fin [OF that(2,3)]
    by (auto simp: access_check_def that(2) split: option.splits if_splits sum.splits prod.splits)
  moreover have "good (no_connection c cfg tid)" if "pc_store c = Some s" "pc_stats c = Some st" for c tid
    using fin [OF that] by (simp add: no_connection_def)
  ultimately have "good x"
    using fin unfolding assms(3) ProxyHandlerWithConfig_def Let_def
    by (auto split: sum.splits option.splits)
  then show ?thesis by (simp add: good_def)
qed

lemma proxy_world_keeps [simp]:
  "world_ok P Q w \<Longrightarrow> world_ok P Q (proxy_world w (ProxyHandlerWithConfig p cfg (Some (aw_stats w)) (Some (aw_store w)) hub enqueue r))"
  using proxy_keeps [of "aw_store w" "aw_stats w" _ p cfg hub enqueue r, OF _ _ refl]
  by (auto simp: proxy_world_def world_ok_def split: option.splits)

subsection \<open>A request\<close>

lemma serve_keeps [simp]:
  assumes "en_sha (os_env out) = H" and "world_ok P Q w"
  shows "world_ok P Q (snd (serve_http cfg a out w r))"
proof -
  have put: "world_ok P Q (snd (with_store w wrap res))" if "P (snd res)" for wrap and res :: "'a \<times> store"
    using that assms(2) by (simp add: with_store_def world_ok_def)
  show ?thesis
    using assms world_store [OF assms(2)]
    by (simp add: serve_http_def call_endpoint_def put split_beta Let_def split: route.split endpoint.split)
qed

subsection \<open>The tunnel service\<close>

lemma announce_keeps [simp]: "P s \<Longrightarrow> P (announce s now agent nm url hn peer)"
  by (simp add: announce_def Let_def)

lemma Connect_keeps [simp]: "P (wd_store w) \<Longrightarrow> P (wd_store (snd (snd (Connect H' w now reg auth peer))))"
  by (auto simp: Connect_def Let_def split: sum.split prod.split bool.split)

lemma teardown_keeps [simp]: "P (wd_store w) \<Longrightarrow> P (wd_store (teardown w now st))"
  by (simp add: teardown_def Let_def)

end

end
