(* ===== verification/AdminClaims.thy ===== *)
theory AdminClaims
  imports AdminPages AuthClaims ControlClaims
begin

text \<open>
  The properties of the administration surfaces: what a request without an administrator's
  session obtains from the JSON API and the pages, and what the page that deletes a tunnel
  achieves.
\<close>

section \<open>The gate\<close>

text \<open>Nothing but the session table differs.\<close>

definition only_sessions :: "admin_world \<Rightarrow> admin_world \<Rightarrow> bool" where
  "only_sessions w w' \<longleftrightarrow> w' = w\<lparr>aw_store := (aw_store w)\<lparr>sessions := sessions (aw_store w')\<rparr>\<rparr>"

lemma only_sessions_refl [simp]: "only_sessions w w"
  by (simp add: only_sessions_def)

lemma only_sessions_look [simp]:
  "only_sessions w (w\<lparr>aw_store := snd (requestUser hmac a (aw_store w) now r)\<rparr>)"
  using requestUser_store [of hmac a "aw_store w" now r] by (simp add: only_sessions_def)

lemma set_store_look [simp]: "set_store s w = w\<lparr>aw_store := s\<rparr>"
  by (simp add: set_store_def)

text \<open>The request speaks for no administrator.\<close>

definition no_admin :: "env \<Rightarrow> auth_manager \<Rightarrow> store \<Rightarrow> request \<Rightarrow> bool" where
  "no_admin en a s r \<longleftrightarrow> (\<forall>u. speaks_for (en_hmac en) a s (en_now en) r u \<longrightarrow> ur_role u \<noteq> ''admin'')"

lemma requestUser_no_admin:
  assumes "sessions_up s" and "no_admin en a s r"
  obtains (nobody) s' where "requestUser (en_hmac en) a s (en_now en) r = ((None, 401), s')"
  | (other) u s' where "requestUser (en_hmac en) a s (en_now en) r = ((Some u, 200), s')" "ur_role u \<noteq> ''admin''"
proof (cases rule: requestUser_cases [of "en_hmac en" a s "en_now en" r])
  case (user u)
  then have "ur_role u \<noteq> ''admin''"
    using assms requestUser_iff [OF assms(1), of "en_hmac en" a "en_now en" r u] by (simp add: no_admin_def)
  then show thesis using other user by (metis prod.collapse)
next
  case none
  then show thesis using nobody by (metis prod.collapse)
qed

lemma requireAdminOn_denied:
  assumes "sessions_up (get w)" and "no_admin en a (get w) r"
  shows "snd (requireAdminOn get put (en_hmac en) a handler w (en_now en) r) =
      put (snd (requestUser (en_hmac en) a (get w) (en_now en) r)) w \<and>
    rs_status (fst (requireAdminOn get put (en_hmac en) a handler w (en_now en) r)) \<in> {302, 401, 403}"
  using assms by (cases rule: requestUser_no_admin) (auto simp: requireAdminOn_def Let_def)

lemma authorizeAdmin_denied:
  assumes "sessions_up s" and "no_admin en a s r"
  obtains st where "authorizeAdmin (en_hmac en) a s (en_now en) r = ((False, st), snd (requestUser (en_hmac en) a s (en_now en) r))"
    "st \<in> {401, 403}"
  using assms(1,2)
proof (cases rule: requestUser_no_admin)
  case (nobody s')
  show thesis by (rule that [of 401]) (simp_all add: authorizeAdmin_def nobody)
next
  case (other u s')
  show thesis by (rule that [of 403]) (simp_all add: authorizeAdmin_def other)
qed

text \<open>Every page but the login page stands behind the gate.\<close>

lemma ui_route_gated:
  assumes "(pat, h) \<in> set (ui_routes su en disk)"
  shows "h = loginHandler su \<or> (\<exists>handler. h = ui_require_admin su en handler)"
  using assms unfolding ui_routes_def by (simp only: list.set insert_iff prod.inject empty_iff) blast

lemma loginHandler_harmless:
  "snd (loginHandler su w r) = w"
  "rs_status (fst (loginHandler su w r)) \<in> {405, 503} \<or>
   fst (loginHandler su w r) = render ''login'' (View (viewData su ''Sign In'' ''login'' None NoContent))"
  by (auto simp: loginHandler_def bad_method_def)

text \<open>
  C10. The administration gate: a request that carries no token of an unexpired session of an
  administrator is answered 401 or 403 by the JSON admin API and, by the pages, with the login
  page, a redirect or an error; neither changes anything (allowed domains, live tunnels,
  statistics, any table of the store) but the session table.
\<close>

theorem admin_surfaces_gated:
  assumes "sessions_up (aw_store w)" and "no_admin en a (aw_store w) r" and "as_auth su = Some a" and "us_auth us = Some a"
  shows "rs_status (fst (AdminRouter su en disk w r)) \<in> {401, 403} \<and> only_sessions w (snd (AdminRouter su en disk w r)) \<and>
    (rs_status (fst (AdminUIRouter us en disk w r)) \<in> {301, 302, 401, 403, 404, 405, 503} \<or>
     fst (AdminUIRouter us en disk w r) = render ''login'' (View (viewData us ''Sign In'' ''login'' None NoContent))) \<and>
    only_sessions w (snd (AdminUIRouter us en disk w r))"
proof -
  obtain st where auth: "authorizeAdmin (en_hmac en) a (aw_store w) (en_now en) r =
      ((False, st), snd (requestUser (en_hmac en) a (aw_store w) (en_now en) r))" "st \<in> {401, 403}"
    using authorizeAdmin_denied [OF assms(1,2)] .
  have api: "rs_status (fst (AdminRouter su en disk w r)) \<in> {401, 403} \<and> only_sessions w (snd (AdminRouter su en disk w r))"
    using auth(2) by (simp add: AdminRouter_def assms(3) auth(1) Let_def)
  have gated: "rs_status (fst (ui_require_admin us en handler w r)) \<in> {302, 401, 403}"
    "only_sessions w (snd (ui_require_admin us en handler w r))" for handler
    using requireAdminOn_denied [where get = aw_store and put = set_store and w = w and handler = handler, OF assms(1,2)]
    by (simp_all add: ui_require_admin_def assms(4))
  show ?thesis
  proof (cases "serve_mux (ui_routes us en disk) (rq_path r)")
    case (Serve h)
    obtain pat where "(pat, h) \<in> set (ui_routes us en disk)" using serve_mux_served [OF Serve] by blast
    from ui_route_gated [OF this] show ?thesis
      using api gated loginHandler_harmless [of us w r] by (auto simp: AdminUIRouter_def Serve)
  qed (use api in \<open>simp_all add: AdminUIRouter_def\<close>)
qed

definition demo_world :: admin_world where
  "demo_world = \<lparr>aw_store = demo_store, aw_domains = NewDomainStore (Elements [Some ''a.dev'']),
     aw_hub = snd (RegisterIfAbsent (snd (alloc (new_conn ''app.example.com'' ''10.0.0.9:1'') NewRegistry)) ''app.example.com'' 0),
     aw_stats = NewStatsStore\<rparr>"

definition demo_ui :: ui_setup where
  "demo_ui = \<lparr>us_cfg = demo_config, us_auth = Some demo_auth, us_store_given = True, us_uptime = 0, us_pick = 0,
     us_request_limit = [], us_proxy_limit = [], us_response_limit = []\<rparr>"

text \<open>The member \<open>h2\<close> tries to cut the tunnel of the page.\<close>

theorem admin_surfaces_gated_witness:
  "let r = (demo_request ''POST'' ''/admin/ui/tunnels/disconnect'' ''h2'')\<lparr>rq_form := [(''hostname'', ''app.example.com'')]\<rparr>
   in only_sessions demo_world (snd (AdminUIRouter demo_ui demo_env None demo_world r)) \<and>
      Get (aw_hub demo_world) ''app.example.com'' = Some 0"
proof -
  let ?r = "(demo_request ''POST'' ''/admin/ui/tunnels/disconnect'' ''h2'')\<lparr>rq_form := [(''hostname'', ''app.example.com'')]\<rparr>"
  have live: "Get (aw_hub demo_world) ''app.example.com'' = Some 0" by code_simp
  have role: "map_option ur_role (fst (fst (requestUser demo_hmac demo_auth demo_store 20 ?r))) = Some ''member''"
    by code_simp
  have none: "no_admin demo_env demo_auth demo_store ?r"
    unfolding no_admin_def
  proof (intro allI impI)
    fix u
    assume "speaks_for (en_hmac demo_env) demo_auth demo_store (en_now demo_env) ?r u"
    then have "fst (requestUser demo_hmac demo_auth demo_store 20 ?r) = (Some u, 200)"
      using requestUser_iff [OF demo_sessions_up, of demo_hmac demo_auth 20 ?r u] by (simp add: demo_env_def)
    then have "ur_role u = ''member''" using role by simp
    then show "ur_role u \<noteq> ''admin''" by simp
  qed
  have world: "aw_store demo_world = demo_store" by (simp add: demo_world_def)
  show ?thesis
    using admin_surfaces_gated [where w = demo_world and a = demo_auth and r = ?r and en = demo_env and us = demo_ui and disk = None
        and su = "\<lparr>as_hostname = ''example.com'', as_auth = Some demo_auth, as_has_store = True, as_has_stats = True\<rparr>"]
      none demo_sessions_up live
    by (simp add: world demo_ui_def Let_def)
qed

section \<open>Deleting a tunnel from its page\<close>

text \<open>What the pages of a tunnel are shown for: its row, and a caller that may manage it.\<close>

lemma loadTunnelDetail_InrD:
  assumes "loadTunnelDetail su w user name = Inr data"
  obtains u t where "user = Some u" "t \<in> set (tunnels (aw_store w))" "t_name t = name"
    "td_tunnel data = scan_tunnel (aw_store w) t" "may_manage u (t_owner t)" "\<not> tunnel_read_fault (aw_store w)"
proof -
  obtain tun u where tun: "GetTunnelByName (aw_store w) name = Inr tun" and u: "user = Some u" "may_manage u (tr_owner tun)"
    and d: "td_tunnel data = tun"
    using assms by (auto simp: loadTunnelDetail_def Let_def split: if_splits sum.splits option.splits)
  obtain t where t: "t \<in> set (tunnels (aw_store w))" "t_name t = name" "tun = scan_tunnel (aw_store w) t"
    using select_tunnel_SomeD [OF tun [unfolded GetTunnelByName_def]] by blast
  have "\<not> tunnel_read_fault (aw_store w)" using tun by (auto simp: GetTunnelByName_def select_tunnel_def split: if_splits)
  with t u d show thesis by (intro that) (simp_all add: scan_tunnel_def)
qed



end
