(* ===== verification/ServerRun.thy ===== *)
theory ServerRun
  imports ServerInv AdminClaims
begin

text \<open>
  The running server: the world the handlers share and the streams of the connected agents, as
  a state machine whose steps are a request to the web server, the opening, a message and the
  end of a stream, and a step of a request that waits in a connection. What every reachable
  state satisfies, and which paths the tunnels never see.
\<close>

section \<open>The state machine\<close>

record running =
  rn_world :: admin_world
  rn_streams :: "stream list"

definition grpc_view :: "admin_world \<Rightarrow> world" where
  "grpc_view w = \<lparr>wd_store = aw_store w, wd_hub = aw_hub w\<rparr>"

definition grpc_put :: "world \<Rightarrow> admin_world \<Rightarrow> admin_world" where
  "grpc_put g w = w\<lparr>aw_store := wd_store g, aw_hub := wd_hub g\<rparr>"

definition open_stream ::
  "(string \<Rightarrow> string) \<Rightarrow> time \<Rightarrow> registration option \<Rightarrow> string list \<Rightarrow> string option \<Rightarrow> running \<Rightarrow> running" where
  "open_stream H now reg auth peer x =
     (case Connect H (grpc_view (rn_world x)) now reg auth peer of
        (ack, st, g) \<Rightarrow> \<lparr>rn_world = grpc_put g (rn_world x),
                        rn_streams = rn_streams x @ (case st of Some t \<Rightarrow> [t] | None \<Rightarrow> [])\<rparr>)"

definition stream_message :: "stream \<Rightarrow> wire_response option \<Rightarrow> running \<Rightarrow> running" where
  "stream_message st msg x = x\<lparr>rn_world := grpc_put (route_message (grpc_view (rn_world x)) st msg) (rn_world x)\<rparr>"

definition end_stream :: "time \<Rightarrow> stream \<Rightarrow> running \<Rightarrow> running" where
  "end_stream now st x = \<lparr>rn_world = grpc_put (teardown (grpc_view (rn_world x)) now st) (rn_world x),
     rn_streams = remove1 st (rn_streams x)\<rparr>"

definition set_conn :: "nat \<Rightarrow> conn \<Rightarrow> running \<Rightarrow> running" where
  "set_conn i c x = x\<lparr>rn_world := (rn_world x)\<lparr>aw_hub := (aw_hub (rn_world x))\<lparr>hb_conns := (hb_conns (aw_hub (rn_world x)))(i := c)\<rparr>\<rparr>\<rparr>"

text \<open>
  Requests arrive with any clock, random string and outside answers; only the digest function
  is the same throughout. A waiting request steps inside its connection without closing it; the driver of
  the database may start or stop failing.
\<close>

inductive server_step :: "config \<Rightarrow> auth_manager \<Rightarrow> (string \<Rightarrow> string) \<Rightarrow> running \<Rightarrow> running \<Rightarrow> bool" for cfg a H where
  Http: "en_sha (os_env out) = H \<Longrightarrow> server_step cfg a H x (x\<lparr>rn_world := snd (serve_http cfg a out (rn_world x) r)\<rparr>)"
| Open: "server_step cfg a H x (open_stream H now reg auth peer x)"
| Message: "st \<in> set (rn_streams x) \<Longrightarrow> server_step cfg a H x (stream_message st msg x)"
| End: "st \<in> set (rn_streams x) \<Longrightarrow> server_step cfg a H x (end_stream now st x)"
| Waiting: "conn_step (hb_conns (aw_hub (rn_world x)) i) c \<Longrightarrow> cn_closed c = cn_closed (hb_conns (aw_hub (rn_world x)) i) \<Longrightarrow>
    server_step cfg a H x (set_conn i c x)"
| Faulty: "server_step cfg a H x (x\<lparr>rn_world := (rn_world x)\<lparr>aw_store := (aw_store (rn_world x))\<lparr>fault := f\<rparr>\<rparr>\<rparr>)"

text \<open>Runs of a server that \<open>New\<close> has built on a database of earlier runs.\<close>

inductive reachable_server :: "config \<Rightarrow> auth_manager \<Rightarrow> (string \<Rightarrow> string) \<Rightarrow> running \<Rightarrow> bool" for cfg a H where
  start: "New cfg0 file (Inr s) = Inr sv \<Longrightarrow> reachable_store H s \<Longrightarrow> domains_ok (NewDomainStore file) \<Longrightarrow>
    reachable_server cfg a H \<lparr>rn_world = sv_world sv, rn_streams = []\<rparr>"
| step: "reachable_server cfg a H x \<Longrightarrow> server_step cfg a H x y \<Longrightarrow> reachable_server cfg a H y"

inductive_cases server_stepE: "server_step cfg a H x y"

section \<open>Invariants\<close>

text \<open>A stream holds a connection that was allocated for its hostname.\<close>

definition stream_ok :: "hub \<Rightarrow> stream \<Rightarrow> bool" where
  "stream_ok h st \<longleftrightarrow> st_conn st < hb_next h \<and> cn_host (hb_conns h (st_conn st)) = st_host st"

text \<open>The connections of a table before and after: no more than closed.\<close>

definition hub_grows :: "hub \<Rightarrow> hub \<Rightarrow> bool" where
  "hub_grows h h' \<longleftrightarrow> hb_next h \<le> hb_next h' \<and> (\<forall>i < hb_next h. cn_host (hb_conns h' i) = cn_host (hb_conns h i))"

lemma hub_grows_refl [simp]: "hub_grows h h"
  by (simp add: hub_grows_def)

lemma stream_ok_grows: "hub_grows h h' \<Longrightarrow> stream_ok h st \<Longrightarrow> stream_ok h' st"
  by (auto simp: hub_grows_def stream_ok_def)

lemma close_at_grows [simp]: "hub_grows h (close_at i h)"
  by (simp add: hub_grows_def close_at_def)

lemma drop_grows [simp]: "hub_grows h (Unregister h k)" "hub_grows h (snd (Disconnect h k))"
  by (auto simp: Unregister_def Disconnect_def hub_grows_def close_at_def split: option.split)

lemma hub_ok_conn:
  assumes "hub_ok h" and "reachable_conn c" and "cn_host c = cn_host (hb_conns h i)" and "cn_closed c = cn_closed (hb_conns h i)"
  shows "hub_ok (h\<lparr>hb_conns := (hb_conns h)(i := c)\<rparr>)"
  using assms by (auto simp: hub_ok_def)

lemma conn_step_host: "conn_step c c' \<Longrightarrow> cn_host c' = cn_host c"
  by (erule conn_stepE) (auto simp: conn_defs split: option.split)

lemma deliver_frame [simp]: "cn_host (deliver w c) = cn_host c" "cn_closed (deliver w c) = cn_closed c"
  by (auto simp: deliver_def split: option.split)

text \<open>The streams of the tunnel service keep the table well formed.\<close>

lemma hub_ok_teardown:
  assumes "hub_ok h" and "cn_host (hb_conns h i) = k"
  shows "hub_ok (Unregister (close_at i h) k)"
proof (cases "Get h k")
  case None
  then have "k \<notin> fst ` set (hb_tunnels h)" by (simp add: Get_def map_of_eq_None_iff)
  then have "hb_tunnels h = drop_key k (hb_tunnels h)" by (force simp: drop_key_def filter_empty_conv intro!: filter_True [symmetric])
  then have "close_at i h = (close_at i h)\<lparr>hb_tunnels := drop_key k (hb_tunnels h)\<rparr>" by (simp add: close_at_def)
  moreover have "Unregister (close_at i h) k = close_at i h" using None by (simp add: Unregister_def)
  ultimately show ?thesis using hub_ok_drop [OF assms] by simp
next
  case (Some j)
  let ?h = "(close_at i h)\<lparr>hb_tunnels := drop_key k (hb_tunnels h)\<rparr>"
  have "hub_ok ?h" by (rule hub_ok_drop [OF assms])
  moreover have "cn_host (hb_conns ?h j) = k" using hub_ok_Get [OF assms(1) Some] by (auto simp: close_at_def)
  ultimately have "hub_ok ((close_at j ?h)\<lparr>hb_tunnels := drop_key k (hb_tunnels ?h)\<rparr>)" by (rule hub_ok_drop)
  moreover have "Unregister (close_at i h) k = (close_at j (close_at i h))\<lparr>hb_tunnels := drop_key k (hb_tunnels (close_at i h))\<rparr>"
    using Some by (simp add: Unregister_def)
  ultimately show ?thesis by (simp add: close_at_def drop_key_def)
qed

lemma hub_ok_claim:
  assumes "hub_ok h"
  shows "hub_ok (snd (RegisterIfAbsent (snd (alloc (new_conn k addr) h)) k (fst (alloc (new_conn k addr) h))))"
    "hub_grows h (snd (RegisterIfAbsent (snd (alloc (new_conn k addr) h)) k (fst (alloc (new_conn k addr) h))))"
  using assms reachable_conn.init [of k addr]
  by (fastforce simp: hub_ok_def hub_grows_def RegisterIfAbsent_def alloc_def new_conn_def Get_def distinct_put_key
      split: option.split)+

lemma claim_stream:
  "stream_ok (snd (RegisterIfAbsent (snd (alloc (new_conn k addr) h)) k i))
     \<lparr>st_conn = fst (alloc (new_conn k addr) h), st_host = k, st_tunnel = nm, st_agent = g\<rparr>"
  by (simp add: stream_ok_def RegisterIfAbsent_def alloc_def new_conn_def split: option.split)

lemma Connect_hub:
  fixes H now reg auth peer g
  assumes "hub_ok (wd_hub g)"
  defines "res \<equiv> Connect H g now reg auth peer"
  shows "hub_ok (wd_hub (snd (snd res))) \<and> hub_grows (wd_hub g) (wd_hub (snd (snd res))) \<and>
    (\<forall>t. fst (snd res) = Some t \<longrightarrow> stream_ok (wd_hub (snd (snd res))) t)"
  using hub_ok_claim [OF assms(1)] assms(1)
  by (simp add: res_def Connect_def Let_def split_beta claim_stream split: sum.split bool.split)

text \<open>The whole state: the streams constrain the table, so they are part of its invariant.\<close>

definition running_ok :: "(store \<Rightarrow> bool) \<Rightarrow> running \<Rightarrow> bool" where
  "running_ok P x \<longleftrightarrow>
     world_ok P (\<lambda>h. hub_ok h \<and> (\<forall>st \<in> set (rn_streams x). stream_ok h st)) (rn_world x)"

lemma streams_grow: "hub_grows h h' \<Longrightarrow> \<forall>st \<in> S. stream_ok h st \<Longrightarrow> \<forall>st \<in> S. stream_ok h' st"
  using stream_ok_grows by blast

interpretation reach: store_invariant "reachable_store H" H "\<lambda>h. hub_ok h \<and> (\<forall>st \<in> S. stream_ok h st)" for H S
  using streams_grow [OF drop_grows(2)] by unfold_locales (auto intro: reachable_store.step)

lemma open_stream_ok:
  assumes "running_ok (reachable_store H) x"
  shows "running_ok (reachable_store H) (open_stream H' now reg auth peer x)"
proof -
  let ?g = "grpc_view (rn_world x)"
  obtain ack st g where res: "Connect H' ?g now reg auth peer = (ack, st, g)" by (metis prod.exhaust)
  have ok: "hub_ok (wd_hub ?g)" "\<forall>st \<in> set (rn_streams x). stream_ok (wd_hub ?g) st" "reachable_store H (wd_store ?g)"
    using assms by (simp_all add: running_ok_def world_ok_def grpc_view_def)
  have grown: "hub_ok (wd_hub g)" "hub_grows (wd_hub ?g) (wd_hub g)" "\<forall>t. st = Some t \<longrightarrow> stream_ok (wd_hub g) t"
    using Connect_hub [OF ok(1), of H' now reg auth peer] by (simp_all add: res)
  moreover note streams_grow [OF grown(2) ok(2)]
  moreover have "reachable_store H (wd_store g)"
    using reach.Connect_keeps [OF ok(3), of H' now reg auth peer] by (simp add: res)
  ultimately show ?thesis
    using assms by (auto simp: open_stream_def res running_ok_def world_ok_def grpc_put_def split: option.split)
qed

lemma end_stream_ok:
  assumes "running_ok (reachable_store H) x" and "st \<in> set (rn_streams x)"
  shows "running_ok (reachable_store H) (end_stream now st x)"
proof -
  let ?g = "grpc_view (rn_world x)"
  have ok: "hub_ok (wd_hub ?g)" "\<forall>st \<in> set (rn_streams x). stream_ok (wd_hub ?g) st" "reachable_store H (wd_store ?g)"
    using assms(1) by (simp_all add: running_ok_def world_ok_def grpc_view_def)
  have hub: "wd_hub (teardown ?g now st) = Unregister (close_at (st_conn st) (wd_hub ?g)) (st_host st)"
    by (simp add: teardown_def Let_def)
  have "hub_grows (wd_hub ?g) (wd_hub (teardown ?g now st))"
    unfolding hub using drop_grows(1) [of "close_at (st_conn st) (wd_hub ?g)" "st_host st"]
      close_at_grows [of "wd_hub ?g" "st_conn st"] by (auto simp: hub_grows_def)
  from streams_grow [OF this ok(2)] have "\<forall>st' \<in> set (remove1 st (rn_streams x)). stream_ok (wd_hub (teardown ?g now st)) st'"
    using set_remove1_subset [of st "rn_streams x"] by blast
  moreover have "hub_ok (wd_hub (teardown ?g now st))"
    unfolding hub using ok(1,2) assms(2) by (intro hub_ok_teardown) (auto simp: stream_ok_def)
  ultimately show ?thesis
    using assms(1) reach.teardown_keeps [OF ok(3), of now st]
    by (simp add: end_stream_def running_ok_def world_ok_def grpc_put_def)
qed

lemma set_conn_ok:
  assumes "running_ok P x" and "reachable_conn c" and "cn_host c = cn_host (hb_conns (aw_hub (rn_world x)) i)"
    and "cn_closed c = cn_closed (hb_conns (aw_hub (rn_world x)) i)"
  shows "running_ok P (set_conn i c x)"
  using assms hub_ok_conn [OF _ assms(2-4)] by (auto simp: running_ok_def world_ok_def set_conn_def stream_ok_def)

text \<open>Every step keeps the invariant.\<close>

lemma server_step_ok:
  assumes "server_step cfg a H x y" and "running_ok (reachable_store H) x"
  shows "running_ok (reachable_store H) y"
  using assms(1)
proof cases
  case (Http out r)
  then show ?thesis using assms(2) by (simp add: running_ok_def reach.serve_keeps)
next
  case Open
  then show ?thesis using open_stream_ok [OF assms(2)] by simp
next
  case (Message st msg)
  have conns: "reachable_conn (hb_conns (aw_hub (rn_world x)) i)" for i
    using assms(2) by (simp add: running_ok_def world_ok_def hub_ok_def)
  have "running_ok (reachable_store H) (set_conn (st_conn st) (deliver m (hb_conns (aw_hub (rn_world x)) (st_conn st))) x)" for m
    using assms(2) reachable_conn.step [OF conns Deliver] by (intro set_conn_ok) simp_all
  with assms(2) Message show ?thesis
    by (cases msg) (simp_all add: stream_message_def route_message_def grpc_put_def grpc_view_def set_conn_def)
next
  case End
  then show ?thesis using end_stream_ok [OF assms(2)] by simp
next
  case (Waiting i c)
  have "reachable_conn (hb_conns (aw_hub (rn_world x)) i)"
    using assms(2) by (simp add: running_ok_def world_ok_def hub_ok_def)
  with Waiting show ?thesis
    using assms(2) conn_step_host reachable_conn.step by (auto intro!: set_conn_ok)
next
  case (Faulty f)
  have "reachable_store H ((aw_store (rn_world x))\<lparr>fault := f\<rparr>)"
    using assms(2) reachable_store.step [of H "aw_store (rn_world x)" "Faults f"] by (simp add: running_ok_def world_ok_def)
  with Faulty show ?thesis using assms(2) by (simp add: running_ok_def world_ok_def)
qed

lemma New_ok:
  assumes "New cfg0 file (Inr s) = Inr sv" and "reachable_store H s" and "domains_ok (NewDomainStore file)"
  shows "running_ok (reachable_store H) \<lparr>rn_world = sv_world sv, rn_streams = []\<rparr>"
proof -
  have "hub_ok NewRegistry" by (simp add: hub_ok_def NewRegistry_def reachable_conn.init)
  moreover have "stats_ok NewStatsStore" by (simp add: stats_ok_def NewStatsStore_def)
  ultimately show ?thesis
    using assms by (auto simp: New_def Let_def running_ok_def world_ok_def split: if_splits)
qed

lemma reachable_server_ok: "reachable_server cfg a H x \<Longrightarrow> running_ok (reachable_store H) x"
  by (induction rule: reachable_server.induct) (use New_ok server_step_ok in blast)+

section \<open>The properties\<close>

text \<open>
  C3. The running server: whatever requests, agent streams, waiting requests, driver faults and
  restarts on the same database interleave, the store is one that its operations reach (so its
  integrity and the well-formedness of the access rules hold), the allowed domains stay
  normalised and duplicate free, and every hostname in the table of live tunnels stands once,
  for an open connection that was made for that hostname and is in a reachable state.
\<close>

theorem server_invariant:
  assumes "reachable_server cfg a H x"
  shows "reachable_store H (aw_store (rn_world x)) \<and> store_ok (aw_store (rn_world x)) \<and>
    stats_ok (aw_stats (rn_world x)) \<and> domains_ok (aw_domains (rn_world x)) \<and>
    distinct (map fst (List_live (aw_hub (rn_world x)))) \<and>
    (\<forall>k i. Get (aw_hub (rn_world x)) k = Some i \<longrightarrow>
       cn_host (hb_conns (aw_hub (rn_world x)) i) = k \<and> \<not> cn_closed (hb_conns (aw_hub (rn_world x)) i) \<and>
       reachable_conn (hb_conns (aw_hub (rn_world x)) i))"
proof -
  have ok: "running_ok (reachable_store H) x" by (rule reachable_server_ok [OF assms])
  then have hub: "hub_ok (aw_hub (rn_world x))" by (simp add: running_ok_def world_ok_def)
  have "map fst (List_live (aw_hub (rn_world x))) = map fst (hb_tunnels (aw_hub (rn_world x)))"
    by (simp add: List_live_def split_beta)
  then show ?thesis
    using ok hub reachable_ok by (auto simp: running_ok_def world_ok_def hub_ok_def Get_def dest!: map_of_SomeD)
qed

text \<open>The agent \<open>box\<close> connects its tunnel to a server started on the small database.\<close>

definition demo_server :: server where
  "demo_server = \<lparr>sv_cfg = demo_config\<lparr>cf_data_dir := ''.fwdx-server''\<rparr>, sv_world = \<lparr>aw_store = demo_store,
     aw_domains = NewDomainStore Missing, aw_hub = NewRegistry, aw_stats = NewStatsStore\<rparr>\<rparr>"

definition demo_running :: running where
  "demo_running = open_stream (\<lambda>x. x) 30 (Some \<lparr>rg_tunnel = ''App'', rg_local = ''http://localhost:1''\<rparr>) [''Bearer k1''] None
     \<lparr>rn_world = sv_world demo_server, rn_streams = []\<rparr>"

theorem server_invariant_witness:
  "Get (aw_hub (rn_world demo_running)) ''app.example.com'' = Some 0 \<and>
   \<not> cn_closed (hb_conns (aw_hub (rn_world demo_running)) 0) \<and> store_ok (aw_store (rn_world demo_running))"
proof -
  have "New demo_config Missing (Inr demo_store) = Inr demo_server"
    by (simp add: New_def demo_server_def demo_config_def)
  moreover have "domains_ok (NewDomainStore Missing)" by code_simp
  ultimately have "reachable_server demo_config demo_auth (\<lambda>x. x) \<lparr>rn_world = sv_world demo_server, rn_streams = []\<rparr>"
    by (intro reachable_server.start [OF _ demo_reachable])
  then have "reachable_server demo_config demo_auth (\<lambda>x. x) demo_running"
    unfolding demo_running_def by (rule reachable_server.step [OF _ Open])
  moreover have "Get (aw_hub (rn_world demo_running)) ''app.example.com'' = Some 0" by code_simp
  ultimately show ?thesis using server_invariant [of demo_config demo_auth "\<lambda>x. x" demo_running] by auto
qed


end
