(* ===== verification/Urls.thy ===== *)
theory Urls
  imports Proxy
begin

text \<open>
  What the client uses of net/url: parsing into scheme, user, host, path, query and fragment,
  host name and port, and printing. Percent escapes are kept as they are written: they are
  neither decoded nor checked, so the model speaks of URLs without the percent sign.
\<close>

record url =
  url_scheme :: string
  url_opaque :: string
  url_user :: "string option"
  url_host :: string
  url_path :: string
  url_query :: string
  url_force_query :: bool
  url_frag :: string

section \<open>Parsing\<close>

definition is_letter :: "char \<Rightarrow> bool" where
  "is_letter c \<longleftrightarrow> (let n = of_char c :: nat in 65 \<le> n \<and> n \<le> 90 \<or> 97 \<le> n \<and> n \<le> 122)"

definition ctl_byte :: "char \<Rightarrow> bool" where
  "ctl_byte c \<longleftrightarrow> (let n = of_char c :: nat in n < 32 \<or> n = 127)"

text \<open>\<open>strings.Cut\<close>: before and after the first separator, and whether there is one.\<close>

fun cut :: "char \<Rightarrow> string \<Rightarrow> string \<times> string \<times> bool" where
  "cut sep [] = ([], [], False)"
| "cut sep (c # cs) = (if c = sep then ([], cs, True) else case cut sep cs of (a, b, f) \<Rightarrow> (c # a, b, f))"

text \<open>Before and after the last occurrence, when there is one.\<close>

definition cut_last :: "char \<Rightarrow> string \<Rightarrow> (string \<times> string) option" where
  "cut_last sep s = (case cut sep (rev s) of (b, a, f) \<Rightarrow> if f then Some (rev a, rev b) else None)"

text \<open>\<open>getScheme\<close>, with the characters read so far: nothing for a missing scheme.\<close>

fun get_scheme :: "string \<Rightarrow> string \<Rightarrow> (string \<times> string) option" where
  "get_scheme acc [] = Some ([], acc)"
| "get_scheme acc (c # cs) =
     (if is_letter c then get_scheme (acc @ [c]) cs
      else if is_digit c \<or> c \<in> {CHR ''+'', CHR ''-'', CHR ''.''} then
        (if acc = [] then Some ([], c # cs) else get_scheme (acc @ [c]) cs)
      else if c = CHR '':'' then (if acc = [] then None else Some (acc, cs))
      else Some ([], acc @ c # cs))"

definition valid_optional_port :: "string \<Rightarrow> bool" where
  "valid_optional_port p \<longleftrightarrow> p = [] \<or> hd p = CHR '':'' \<and> list_all is_digit (tl p)"

definition host_char :: "char \<Rightarrow> bool" where
  "host_char c \<longleftrightarrow> (let n = of_char c :: nat in is_letter c \<or> is_digit c \<or> 128 \<le> n \<or>
     c \<in> set ''-_.~!$&()*+,;=:[]<>%'' \<or> n = 34 \<or> n = 39)"

definition user_char :: "char \<Rightarrow> bool" where
  "user_char c \<longleftrightarrow> is_letter c \<or> is_digit c \<or> c \<in> set ''-._:~!$&()*+,;=%@'' \<or> (of_char c :: nat) = 39"

definition parse_host :: "string \<Rightarrow> string option" where
  "parse_host h =
     (if \<not> list_all host_char h then None
      else if has_prefix h ''['' then
        (case cut_last (CHR '']'') h of
           None \<Rightarrow> None
         | Some (_, port) \<Rightarrow> if valid_optional_port port then Some h else None)
      else (case cut_last (CHR '':'') h of
           Some (_, port) \<Rightarrow> if list_all is_digit port then Some h else None
         | None \<Rightarrow> Some h))"

definition parse_authority :: "string \<Rightarrow> (string option \<times> string) option" where
  "parse_authority a =
     (case cut_last (CHR ''@'') a of
        None \<Rightarrow> map_option (\<lambda>h. (None, h)) (parse_host a)
      | Some (u, h) \<Rightarrow>
          (case parse_host h of
             None \<Rightarrow> None
           | Some h' \<Rightarrow> if list_all user_char u then Some (Some u, h') else None))"

definition parse_url :: "string \<Rightarrow> url option" where
  "parse_url raw =
     (case cut (CHR ''#'') raw of (u, frag, _) \<Rightarrow>
        if list_ex ctl_byte u then None
        else case get_scheme [] u of
          None \<Rightarrow> None
        | Some (scheme0, rest0) \<Rightarrow>
            (let scheme = to_lower scheme0;
                 force = (has_suffix rest0 ''?'' \<and> CHR ''?'' \<notin> set (butlast rest0));
                 (rest, query, _) = cut (CHR ''?'') rest0;
                 base = \<lparr>url_scheme = scheme, url_opaque = [], url_user = None, url_host = [], url_path = rest,
                         url_query = query, url_force_query = force, url_frag = frag\<rparr>
             in if u = ''*'' then Some (base\<lparr>url_path := ''*''\<rparr>)
                else if \<not> has_prefix rest ''/'' \<and> scheme \<noteq> [] then Some (base\<lparr>url_opaque := rest, url_path := []\<rparr>)
                else if \<not> has_prefix rest ''/'' \<and> CHR '':'' \<in> set (fst (cut (CHR ''/'') rest)) then None
                else if (scheme \<noteq> [] \<or> \<not> has_prefix rest ''///'') \<and> has_prefix rest ''//'' then
                  (let after = drop 2 rest; authority = takeWhile (\<lambda>c. c \<noteq> CHR ''/'') after;
                       path = dropWhile (\<lambda>c. c \<noteq> CHR ''/'') after
                   in case parse_authority authority of
                        None \<Rightarrow> None
                      | Some (user, host) \<Rightarrow> Some (base\<lparr>url_user := user, url_host := host, url_path := path\<rparr>))
                else Some base))"

section \<open>Host name, port and printing\<close>

definition split_port :: "string \<Rightarrow> string \<times> string" where
  "split_port h =
     (case cut_last (CHR '':'') h of
        Some (a, p) \<Rightarrow> if list_all is_digit p then (a, p) else (h, [])
      | None \<Rightarrow> (h, []))"

definition url_hostname :: "url \<Rightarrow> string" where
  "url_hostname u =
     (let h = fst (split_port (url_host u))
      in if has_prefix h ''['' \<and> has_suffix h '']'' then tl (butlast h) else h)"

definition url_port :: "url \<Rightarrow> string" where
  "url_port u = snd (split_port (url_host u))"

text \<open>\<open>URL.String\<close>, for URLs that have a host or no scheme.\<close>

definition url_string :: "url \<Rightarrow> string" where
  "url_string u =
     (if url_scheme u = [] then [] else url_scheme u @ '':'') @
     (if url_opaque u \<noteq> [] then url_opaque u
      else (if url_scheme u \<noteq> [] \<or> url_host u \<noteq> [] \<or> url_user u \<noteq> None then
              (if url_host u \<noteq> [] \<or> url_path u \<noteq> [] \<or> url_user u \<noteq> None then ''//'' else []) @
              (case url_user u of Some s \<Rightarrow> s @ ''@'' | None \<Rightarrow> []) @ url_host u
            else []) @
           (if url_path u \<noteq> [] \<and> \<not> has_prefix (url_path u) ''/'' \<and> url_host u \<noteq> [] then ''/'' else []) @
           (if url_scheme u = [] \<and> url_host u = [] \<and> url_user u = None \<and>
               CHR '':'' \<in> set (takeWhile (\<lambda>c. c \<noteq> CHR ''/'') (url_path u)) then ''./'' else []) @
           url_path u) @
     (if url_force_query u \<or> url_query u \<noteq> [] then ''?'' @ url_query u else []) @
     (if url_frag u \<noteq> [] then ''#'' @ url_frag u else [])"

section \<open>Facts\<close>

lemma cut_none: "sep \<notin> set s \<Longrightarrow> cut sep s = (s, [], False)"
  by (induction s) auto

lemma cut_at: "sep \<notin> set a \<Longrightarrow> cut sep (a @ sep # b) = (a, b, True)"
  by (induction a) auto

lemma cut_last_none: "sep \<notin> set s \<Longrightarrow> cut_last sep s = None"
  by (simp add: cut_last_def cut_none)

lemma cut_last_at: "sep \<notin> set b \<Longrightarrow> cut_last sep (a @ sep # b) = Some (a, b)"
  using cut_at [of sep "rev b" "rev a"] by (simp add: cut_last_def)

text \<open>Names of hosts as they are usually written.\<close>

definition plain_char :: "char \<Rightarrow> bool" where
  "plain_char c \<longleftrightarrow> is_letter c \<or> is_digit c \<or> c = CHR ''.'' \<or> c = CHR ''-''"

definition plain_host :: "string \<Rightarrow> bool" where
  "plain_host h \<longleftrightarrow> h \<noteq> [] \<and> list_all plain_char h"

lemma plain_char_not:
  "\<not> plain_char CHR ''#''" "\<not> plain_char CHR ''?''" "\<not> plain_char CHR ''/''" "\<not> plain_char CHR '':''"
  "\<not> plain_char CHR ''@''" "\<not> plain_char CHR ''[''" "\<not> plain_char CHR '']''" "\<not> plain_char CHR ''*''"
  by code_simp+

lemma plain_char_ctl: "plain_char c \<Longrightarrow> \<not> ctl_byte c"
proof -
  have "\<not> ctl_byte CHR ''.''" "\<not> ctl_byte CHR ''-''" by code_simp+
  moreover have "is_letter c \<or> is_digit c \<Longrightarrow> \<not> ctl_byte c"
    by (auto simp: is_letter_def is_digit_def ctl_byte_def Let_def)
  ultimately show "plain_char c \<Longrightarrow> \<not> ctl_byte c" unfolding plain_char_def by blast
qed

lemma plain_char_host: "plain_char c \<Longrightarrow> host_char c"
proof -
  have "host_char CHR ''.''" "host_char CHR ''-''" by code_simp+
  moreover have "is_letter c \<or> is_digit c \<Longrightarrow> host_char c" by (elim disjE) (simp_all add: host_char_def Let_def)
  ultimately show "plain_char c \<Longrightarrow> host_char c" unfolding plain_char_def by blast
qed

lemma plain_not_in: "plain_host h \<Longrightarrow> \<not> plain_char c \<Longrightarrow> c \<notin> set h"
  by (auto simp: plain_host_def list_all_iff)

lemma digit_plain_char: "is_digit c \<Longrightarrow> plain_char c"
  by (simp add: plain_char_def)

end
