(* ===== verification/ClientConfig.thy ===== *)
theory ClientConfig
  imports Urls
begin

text \<open>
  The client's configuration: internal/config/client.go, auth.go and paths.go, and the start of
  \<open>Connect\<close> in internal/tunnel/connector.go, which dials the URL the configuration yields.
\<close>

section \<open>Files and environment\<close>

record client_config =
  cc_server :: string
  cc_hostname :: string
  cc_port :: int
  cc_agent :: string
  cc_token :: string

record auth_session =
  au_server :: string
  au_token :: string
  au_expires :: time
  au_subject :: string
  au_email :: string
  au_name :: string
  au_role :: string

text \<open>An environment variable that is not set reads as the empty text.\<close>

record client_env =
  ev_server :: string
  ev_port :: string
  ev_agent :: string
  ev_token :: string

text \<open>
  \<open>client.json\<close>: missing or unreadable, or what \<open>json.Unmarshal\<close> leaves in a zero
  configuration (on an error, the fields filled before it). \<open>auth.json\<close> has to decode.
\<close>

datatype 'a client_file = NoFile | Unparsable | Holds 'a

record client_home =
  ch_client :: "client_config client_file"
  ch_auth :: "auth_session client_file"

definition zero_config :: client_config where
  "zero_config = \<lparr>cc_server = [], cc_hostname = [], cc_port = 0, cc_agent = [], cc_token = []\<rparr>"

definition file_config :: "client_config client_file \<Rightarrow> client_config" where
  "file_config f = (case f of Holds c \<Rightarrow> c | _ \<Rightarrow> zero_config)"

section \<open>client.go\<close>

definition or_env :: "string \<Rightarrow> string \<Rightarrow> string" where
  "or_env v e = (if v = [] then e else v)"

definition LoadClientConfig :: "client_home \<Rightarrow> client_env \<Rightarrow> client_config" where
  "LoadClientConfig h e =
     (let cfg = file_config (ch_client h);
          server = or_env (cc_server cfg) (ev_server e);
          port = (if ev_port e \<noteq> [] then (case ParseInt (ev_port e) of Some p \<Rightarrow> p | None \<Rightarrow> cc_port cfg) else cc_port cfg);
          hostname = (if cc_hostname cfg = [] \<and> server \<noteq> []
                      then (case parse_url server of Some u \<Rightarrow> url_hostname u | None \<Rightarrow> []) else cc_hostname cfg)
      in \<lparr>cc_server = server, cc_hostname = hostname, cc_port = port, cc_agent = or_env (cc_agent cfg) (ev_agent e),
          cc_token = or_env (cc_token cfg) (ev_token e)\<rparr>)"

text \<open>\<open>disk\<close> is the error of creating the directory or writing the file, if any.\<close>

definition SaveClientConfig :: "string option \<Rightarrow> client_home \<Rightarrow> client_config \<Rightarrow> (string + unit) \<times> client_home" where
  "SaveClientConfig disk h cfg =
     (case disk of Some e \<Rightarrow> (Inl e, h) | None \<Rightarrow> (Inr (), h\<lparr>ch_client := Holds cfg\<rparr>))"

text \<open>\<open>strconv.Itoa\<close>\<close>

definition int_text :: "int \<Rightarrow> string" where
  "int_text n = (if n < 0 then ''-'' @ num_text 10 (nat (- n)) else num_text 10 (nat n))"

definition tunnel_port :: "client_config \<Rightarrow> url \<Rightarrow> int" where
  "tunnel_port c u =
     (if cc_port c \<noteq> 0 then cc_port c
      else let given = (if url_port u \<noteq> [] then (case ParseInt (url_port u) of Some p \<Rightarrow> p | None \<Rightarrow> 0) else 0);
               port = (if given = 0 then (if url_scheme u = ''https'' then 443 else 4443) else given)
           in if port = 443 \<and> url_scheme u = ''https'' then 4443 else port)"

definition TunnelURL :: "client_config \<Rightarrow> string" where
  "TunnelURL c =
     (case parse_url (cc_server c) of
        None \<Rightarrow> trim_suffix (cc_server c) ''/''
      | Some u \<Rightarrow>
          if url_host u = [] then trim_suffix (cc_server c) ''/''
          else url_string (u\<lparr>url_host := url_hostname u @ '':'' @ int_text (tunnel_port c u),
                            url_scheme := (if url_scheme u = [] then ''https'' else url_scheme u)\<rparr>))"

section \<open>auth.go\<close>

definition LoadAuthSession :: "client_home \<Rightarrow> auth_session option" where
  "LoadAuthSession h = (case ch_auth h of Holds s \<Rightarrow> Some s | _ \<Rightarrow> None)"

definition SaveAuthSession :: "string option \<Rightarrow> client_home \<Rightarrow> auth_session \<Rightarrow> (string + unit) \<times> client_home" where
  "SaveAuthSession disk h s = (case disk of Some e \<Rightarrow> (Inl e, h) | None \<Rightarrow> (Inr (), h\<lparr>ch_auth := Holds s\<rparr>))"

text \<open>Removing a missing file is no error.\<close>

definition DeleteAuthSession :: "string option \<Rightarrow> client_home \<Rightarrow> (string + unit) \<times> client_home" where
  "DeleteAuthSession disk h =
     (if ch_auth h = NoFile then (Inr (), h)
      else case disk of Some e \<Rightarrow> (Inl e, h) | None \<Rightarrow> (Inr (), h\<lparr>ch_auth := NoFile\<rparr>))"

section \<open>The address that is dialed\<close>

text \<open>The target of \<open>grpc.NewClient\<close>, and whether the connection uses TLS.\<close>

definition dial_target :: "string \<Rightarrow> (string \<times> bool) option" where
  "dial_target tunnelURL =
     (case parse_url (trim_suffix tunnelURL ''/'') of
        None \<Rightarrow> None
      | Some u \<Rightarrow>
          (let port = (if url_port u = [] then (if url_scheme u = ''https'' then ''443'' else ''4443'') else url_port u)
           in Some (url_hostname u @ '':'' @ port, url_scheme u = ''https'')))"

text \<open>The scheme and the port of a server address as a user writes it.\<close>

definition server_text :: "bool \<Rightarrow> string \<Rightarrow> int option \<Rightarrow> string" where
  "server_text tls h port = (if tls then ''https'' else ''http'') @ ''://'' @ h @
     (case port of None \<Rightarrow> [] | Some p \<Rightarrow> '':'' @ int_text p)"

definition port_text :: "int option \<Rightarrow> string" where
  "port_text port = (case port of None \<Rightarrow> [] | Some p \<Rightarrow> '':'' @ int_text p)"

definition scheme_text :: "bool \<Rightarrow> string" where
  "scheme_text tls = (if tls then ''https'' else ''http'')"

lemma server_text_split: "server_text tls h port = scheme_text tls @ CHR '':'' # ''//'' @ h @ port_text port"
  by (simp add: server_text_def scheme_text_def port_text_def)

lemma int_text_digits:
  assumes "0 \<le> p"
  shows "list_all is_digit (int_text p)" "int_text p \<noteq> []" "dec_val (int_text p) = nat p"
  using num_text_decimal [of "nat p"] assms by (simp_all add: int_text_def)

lemma ParseInt_text:
  assumes "0 \<le> p" and "p < 2 ^ 63"
  shows "ParseInt (int_text p) = Some p"
proof -
  obtain c cs where t: "int_text p = c # cs" using int_text_digits(2) [OF assms(1)] by (cases "int_text p") auto
  then have "is_digit c" using int_text_digits(1) [OF assms(1)] by simp
  then have "c \<noteq> CHR ''-''" "c \<noteq> CHR ''+''" by (auto simp: is_digit_def)
  then show ?thesis
    using int_text_digits [OF assms(1)] assms by (simp add: ParseInt_def t has_prefix_def Let_def)
qed

lemma port_text_chars:
  assumes "\<And>p. port = Some p \<Longrightarrow> 0 \<le> p" and "c \<in> set (port_text port)"
  shows "plain_char c \<or> c = CHR '':''"
  using assms int_text_digits(1) digit_plain_char by (fastforce simp: port_text_def list_all_iff split: option.splits)

lemma authority_chars:
  assumes "plain_host h" and "\<And>p. port = Some p \<Longrightarrow> 0 \<le> p" and "\<not> plain_char c" and "c \<noteq> CHR '':''"
  shows "c \<notin> set (h @ port_text port)"
  using assms(3,4) plain_not_in [OF assms(1,3)] port_text_chars [of port c] assms(2) by auto

text \<open>Host and port are found again in the authority.\<close>

lemma split_port_text:
  assumes "plain_host h" and "\<And>p. port = Some p \<Longrightarrow> 0 \<le> p"
  shows "split_port (h @ port_text port) = (h, case port of None \<Rightarrow> [] | Some p \<Rightarrow> int_text p)"
proof (cases port)
  case None
  then show ?thesis using plain_not_in [OF assms(1) plain_char_not(4)] by (simp add: split_port_def port_text_def cut_last_none)
next
  case (Some p)
  then have d: "list_all is_digit (int_text p)" using assms(2) int_text_digits(1) by blast
  then have "CHR '':'' \<notin> set (int_text p)" using digit_plain_char plain_char_not(4) by (auto simp: list_all_iff)
  then show ?thesis using d Some by (simp add: split_port_def port_text_def cut_last_at)
qed

lemma parse_authority_text:
  assumes "plain_host h" and "\<And>p. port = Some p \<Longrightarrow> 0 \<le> p"
  shows "parse_authority (h @ port_text port) = Some (None, h @ port_text port)"
proof -
  have at: "CHR ''@'' \<notin> set (h @ port_text port)" by (rule authority_chars [OF assms plain_char_not(5)]) simp_all
  have "host_char CHR '':''" by code_simp
  then have "list_all host_char (h @ port_text port)"
    using assms plain_char_host port_text_chars [of port] by (fastforce simp: plain_host_def list_all_iff)
  moreover obtain c cs where h: "h = c # cs" using assms(1) by (cases h) (auto simp: plain_host_def)
  then have "c \<noteq> CHR ''[''" using plain_not_in [OF assms(1) plain_char_not(6)] by auto
  moreover have "case cut_last (CHR '':'') (h @ port_text port) of Some (_, q) \<Rightarrow> list_all is_digit q | None \<Rightarrow> True"
  proof (cases port)
    case None
    then show ?thesis using plain_not_in [OF assms(1) plain_char_not(4)] by (simp add: port_text_def cut_last_none)
  next
    case (Some p)
    then have d: "list_all is_digit (int_text p)" using assms(2) int_text_digits(1) by blast
    then have "CHR '':'' \<notin> set (int_text p)" using digit_plain_char plain_char_not(4) by (auto simp: list_all_iff)
    then show ?thesis using d Some by (simp add: port_text_def cut_last_at)
  qed
  ultimately have "parse_host (h @ port_text port) = Some (h @ port_text port)"
    by (auto simp: parse_host_def h has_prefix_def split: option.splits)
  then show ?thesis by (simp add: parse_authority_def cut_last_none [OF at])
qed

lemma get_scheme_text: "get_scheme [] (scheme_text tls @ CHR '':'' # rest) = Some (scheme_text tls, rest)"
proof -
  have "is_letter CHR ''h''" "is_letter CHR ''t''" "is_letter CHR ''p''" "is_letter CHR ''s''"
    "\<not> is_letter CHR '':''" "\<not> is_digit CHR '':''"
    by code_simp+
  then show ?thesis by (simp add: scheme_text_def)
qed

lemma cut_append: "sep \<notin> set a \<Longrightarrow> cut sep (a @ b) = (a @ fst (cut sep b), snd (cut sep b))"
  by (induction a) (auto split: prod.split)

lemma fst_cut_slash: "has_prefix s ''/'' \<or> s = [] \<Longrightarrow> sep \<noteq> CHR ''/'' \<Longrightarrow> fst (cut sep s) = [] \<or> has_prefix (fst (cut sep s)) ''/''"
  by (cases s) (auto simp: has_prefix_def split: prod.split)

text \<open>A server address with a path and a query behind it.\<close>

lemma parse_url_text:
  assumes "plain_host h" and "\<And>p. port = Some p \<Longrightarrow> 0 \<le> p" and "s = [] \<or> has_prefix s ''/''"
    and "CHR ''#'' \<notin> set s" and "\<not> list_ex ctl_byte s"
  shows "parse_url (server_text tls h port @ s) = Some \<lparr>url_scheme = scheme_text tls, url_opaque = [], url_user = None,
    url_host = h @ port_text port, url_path = fst (cut CHR ''?'' s), url_query = fst (snd (cut CHR ''?'' s)),
    url_force_query = (has_suffix s ''?'' \<and> CHR ''?'' \<notin> set (butlast s)), url_frag = []\<rparr>"
proof -
  let ?hp = "h @ port_text port" and ?raw = "server_text tls h port @ s"
  have no: "c \<notin> set ?hp" if "\<not> plain_char c" "c \<noteq> CHR '':''" for c by (rule authority_chars [OF assms(1,2) that])
  have hp: "CHR ''#'' \<notin> set ?hp" "CHR ''?'' \<notin> set ?hp" "CHR ''/'' \<notin> set ?hp"
    using plain_char_not by (intro no; simp)+
  have raw: "?raw = scheme_text tls @ CHR '':'' # ''//'' @ ?hp @ s" by (simp add: server_text_split)
  have hash: "CHR ''#'' \<notin> set ?raw" using hp(1) assms(4) by (simp add: raw scheme_text_def)
  have "\<not> ctl_byte c" if "c \<in> set ?hp" for c
  proof -
    have "\<not> ctl_byte CHR '':''" by code_simp
    moreover have "plain_char c \<or> c = CHR '':''" using that no by blast
    ultimately show ?thesis using plain_char_ctl by blast
  qed
  then have "\<not> list_ex ctl_byte ?hp" unfolding list_ex_iff by blast
  moreover have "\<not> list_ex ctl_byte (scheme_text tls @ ''://'')" by (induction tls; code_simp)
  moreover have "?raw = (scheme_text tls @ ''://'') @ ?hp @ s" by (simp add: raw)
  ultimately have ctl: "\<not> list_ex ctl_byte ?raw" using assms(5) by (simp only: list_ex_append simp_thms)
  have star: "?raw \<noteq> ''*''" by (simp add: raw scheme_text_def)
  have lower: "to_lower (scheme_text tls) = scheme_text tls" "scheme_text tls \<noteq> []" by (induction tls; code_simp)+
  let ?rest = "''//'' @ ?hp @ s" and ?path = "fst (cut CHR ''?'' s)"
  have "CHR ''?'' \<notin> set (''//'' @ ?hp)" using hp(2) by simp
  from cut_append [OF this, of s]
  have query: "cut (CHR ''?'') ?rest = (''//'' @ ?hp @ ?path, snd (cut CHR ''?'' s))" by simp
  have force: "(has_suffix ?rest ''?'' \<and> CHR ''?'' \<notin> set (butlast ?rest)) = (has_suffix s ''?'' \<and> CHR ''?'' \<notin> set (butlast s))"
  proof (cases s rule: rev_cases)
    case Nil
    have "CHR ''?'' \<in> set t" if "has_suffix t ''?''" for t using that by (auto simp: has_suffix_iff)
    moreover have "CHR ''?'' \<notin> set ?rest" using hp(2) Nil by simp
    moreover have "\<not> has_suffix [] ''?''" by (simp add: has_suffix_def)
    ultimately show ?thesis using Nil by blast
  next
    case (snoc xs x)
    have "has_suffix (t @ [x]) ''?'' \<longleftrightarrow> x = CHR ''?''" for t by (simp add: has_suffix_def)
    from this [of "''//'' @ ?hp @ xs"] this [of xs] show ?thesis using hp(2) by (simp add: snoc butlast_append)
  qed
  have path: "?path = [] \<or> has_prefix ?path ''/''" using fst_cut_slash [of s "CHR ''?''"] assms(3) by auto
  have split: "takeWhile (\<lambda>c. c \<noteq> CHR ''/'') (?hp @ ?path) = ?hp" "dropWhile (\<lambda>c. c \<noteq> CHR ''/'') (?hp @ ?path) = ?path"
  proof -
    have all: "c \<noteq> CHR ''/''" if "c \<in> set ?hp" for c using that hp(3) by blast
    then have "takeWhile (\<lambda>c. c \<noteq> CHR ''/'') (?hp @ ?path) = ?hp @ takeWhile (\<lambda>c. c \<noteq> CHR ''/'') ?path"
      "dropWhile (\<lambda>c. c \<noteq> CHR ''/'') (?hp @ ?path) = dropWhile (\<lambda>c. c \<noteq> CHR ''/'') ?path"
      by (intro takeWhile_append2 dropWhile_append2; blast)+
    with path show "takeWhile (\<lambda>c. c \<noteq> CHR ''/'') (?hp @ ?path) = ?hp" "dropWhile (\<lambda>c. c \<noteq> CHR ''/'') (?hp @ ?path) = ?path"
      by (auto simp: has_prefix_iff)
  qed
  have slash: "has_prefix (''//'' @ ?hp @ ?path) ''/''" "has_prefix (''//'' @ ?hp @ ?path) ''//''"
    "drop 2 (''//'' @ ?hp @ ?path) = ?hp @ ?path"
    by (simp_all add: has_prefix_def numeral_2_eq_2)
  obtain q f where tail: "snd (cut CHR ''?'' s) = (q, f)" by (metis prod.exhaust)
  show ?thesis
    unfolding parse_url_def cut_none [OF hash] prod.case
    unfolding raw get_scheme_text
    using ctl [unfolded raw] star [unfolded raw]
    by (simp only: if_False option.case prod.case query tail force Let_def lower slash split parse_authority_text [OF assms(1,2)] simp_thms
        url.update_convs if_True fst_conv)
qed

lemma parse_server_text:
  assumes "plain_host h" and "\<And>p. port = Some p \<Longrightarrow> 0 \<le> p"
  shows "parse_url (server_text tls h port) = Some \<lparr>url_scheme = scheme_text tls, url_opaque = [], url_user = None,
    url_host = h @ port_text port, url_path = [], url_query = [], url_force_query = False, url_frag = []\<rparr>"
  using parse_url_text [OF assms, of port "[]" tls] by (simp add: has_suffix_def)

lemma no_slash_suffix: "CHR ''/'' \<notin> set s \<Longrightarrow> trim_suffix s ''/'' = s"
  by (auto simp: trim_suffix_def has_suffix_iff)

lemma last_digit: "p \<ge> 0 \<Longrightarrow> trim_suffix (a @ int_text p) ''/'' = a @ int_text p"
proof -
  assume "p \<ge> 0"
  then have d: "list_all is_digit (int_text p)" "int_text p \<noteq> []" by (simp_all add: int_text_digits)
  have "\<not> has_suffix (a @ int_text p) ''/''"
  proof
    assume "has_suffix (a @ int_text p) ''/''"
    then obtain q where "a @ int_text p = q @ ''/''" by (auto simp: has_suffix_iff)
    then have "last (a @ int_text p) = CHR ''/''" by simp
    then have "CHR ''/'' \<in> set (int_text p)" using d(2) last_in_set [of "int_text p"] by simp
    then show False using d(1) digit_plain_char plain_char_not(3) by (auto simp: list_all_iff)
  qed
  then show ?thesis by (simp add: trim_suffix_def)
qed

lemma plain_hostname: "plain_host h \<Longrightarrow> \<not> has_prefix h ''[''"
  using plain_not_in [of h "CHR ''[''"] plain_char_not(6) by (auto simp: has_prefix_iff)

lemma dial_server_text:
  assumes "plain_host h" and "0 \<le> p"
  shows "dial_target (server_text tls h (Some p)) = Some (h @ '':'' @ int_text p, tls)"
proof -
  have parsed: "parse_url (server_text tls h (Some p)) = Some \<lparr>url_scheme = scheme_text tls, url_opaque = [], url_user = None,
      url_host = h @ port_text (Some p), url_path = [], url_query = [], url_force_query = False, url_frag = []\<rparr>"
    using assms by (intro parse_server_text) simp_all
  have split: "split_port (h @ port_text (Some p)) = (h, int_text p)"
    using split_port_text [OF assms(1), of "Some p"] assms(2) by simp
  have trim: "trim_suffix (server_text tls h (Some p)) ''/'' = server_text tls h (Some p)"
    using last_digit [OF assms(2), of "scheme_text tls @ ''://'' @ h @ '':''"] by (simp add: server_text_split port_text_def)
  show ?thesis
    using plain_hostname [OF assms(1)] int_text_digits(2) [OF assms(2)]
    by (simp add: dial_target_def trim parsed url_hostname_def url_port_def split Let_def) (simp add: scheme_text_def)
qed

lemma schemeless_target:
  assumes "plain_host h"
  shows "dial_target h = Some ('':4443'', False) \<and> (\<forall>c. cc_server c = h \<longrightarrow> TunnelURL c = h)"
proof -
  have scan: "get_scheme acc s = Some ([], acc @ s)" if "list_all plain_char s" for acc s
    using that
  proof (induction s arbitrary: acc)
    case (Cons x xs)
    then have "is_letter x \<or> is_digit x \<or> x \<in> {CHR ''+'', CHR ''-'', CHR ''.''}" by (auto simp: plain_char_def)
    with Cons show ?case by (auto simp: plain_char_def)
  qed simp
  have no: "c \<notin> set h" if "\<not> plain_char c" for c by (rule plain_not_in [OF assms that])
  have chars: "CHR ''#'' \<notin> set h" "CHR ''?'' \<notin> set h" "CHR ''/'' \<notin> set h" "CHR '':'' \<notin> set h" "CHR ''*'' \<notin> set h"
    using plain_char_not by (intro no; simp)+
  have "\<not> list_ex ctl_byte h" using assms plain_char_ctl by (auto simp: plain_host_def list_ex_iff list_all_iff)
  moreover have "h \<noteq> ''*''" using chars(5) by auto
  moreover have "\<not> has_suffix h ''?''" "\<not> has_prefix h ''/''" "\<not> has_prefix h ''//''" using chars(2,3) by (auto simp: has_suffix_iff has_prefix_iff)
  moreover have "to_lower [] = []" by simp
  ultimately have parsed: "parse_url h = Some \<lparr>url_scheme = [], url_opaque = [], url_user = None, url_host = [], url_path = h,
      url_query = [], url_force_query = False, url_frag = []\<rparr>"
    using assms scan [of h "[]"] chars(4) by (simp add: parse_url_def plain_host_def cut_none [OF chars(1)] cut_none [OF chars(2)] cut_none [OF chars(3)] Let_def)
  have "dial_target h = Some ('':4443'', False)"
    unfolding dial_target_def no_slash_suffix [OF chars(3)] parsed
    by (simp add: url_port_def url_hostname_def split_port_def cut_last_def has_prefix_def)
  moreover have "TunnelURL c = h" if "cc_server c = h" for c
    using that by (simp add: TunnelURL_def parsed no_slash_suffix [OF chars(3)])
  ultimately show ?thesis by blast
qed

section \<open>The property\<close>

text \<open>
  C25. The address an agent dials: for a server given as scheme, host and optional port it is that
  host, with TLS exactly for https, and the configured tunnel port, or else the given port, or
  4443, where the port 443 of an https server counts as not given. A server written without its
  scheme is not refused: the agent then dials port 4443 of its own machine without TLS.
\<close>

theorem tunnel_target:
  assumes "plain_host h" and "\<And>p. port = Some p \<Longrightarrow> 0 < p \<and> p < 65536" and "0 \<le> cc_port c"
    and "cc_server c = server_text tls h port" and "cc_server d = h"
  shows "dial_target (TunnelURL c) =
      Some (h @ '':'' @ int_text (if cc_port c \<noteq> 0 then cc_port c else if tls \<and> port \<in> {None, Some 443} then 4443
                                  else case port of None \<Rightarrow> 4443 | Some p \<Rightarrow> p), tls) \<and>
    dial_target (TunnelURL d) = Some ('':4443'', False)"
proof -
  have pos: "\<And>p. port = Some p \<Longrightarrow> 0 \<le> p" using assms(2) by fastforce
  define u where "u = \<lparr>url_scheme = scheme_text tls, url_opaque = [], url_user = None,
      url_host = h @ port_text port, url_path = [], url_query = [], url_force_query = False, url_frag = []\<rparr>"
  have parsed: "parse_url (cc_server c) = Some u" unfolding assms(4) u_def by (rule parse_server_text [OF assms(1) pos])
  note split = split_port_text [OF assms(1) pos]
  have parts: "url_hostname u = h" "url_port u = (case port of None \<Rightarrow> [] | Some p \<Rightarrow> int_text p)"
    using plain_hostname [OF assms(1)] by (simp_all add: u_def url_hostname_def url_port_def split Let_def)
  have scheme: "url_scheme u = ''https'' \<longleftrightarrow> tls" "scheme_text tls \<noteq> []" by (simp_all add: u_def scheme_text_def)
  define P where "P = tunnel_port c u"
  have P: "P = (if cc_port c \<noteq> 0 then cc_port c else if tls \<and> port \<in> {None, Some 443} then 4443
      else case port of None \<Rightarrow> 4443 | Some p \<Rightarrow> p)"
  proof (cases port)
    case None
    then show ?thesis using scheme(1) by (simp add: P_def tunnel_port_def parts Let_def)
  next
    case (Some p)
    then have "ParseInt (int_text p) = Some p" "int_text p \<noteq> []" "p \<noteq> 0"
      using assms(2) [OF Some] ParseInt_text int_text_digits(2) by auto
    then show ?thesis using scheme(1) Some by (simp add: P_def tunnel_port_def parts Let_def)
  qed
  have "0 \<le> P" using assms(2,3) by (auto simp: P split: option.split)
  have "h \<noteq> []" using assms(1) by (simp add: plain_host_def)
  then have "TunnelURL c = server_text tls h (Some P)"
    using scheme(2) by (simp add: TunnelURL_def parsed parts P_def [symmetric]) (simp add: u_def url_string_def server_text_split port_text_def)
  then have "dial_target (TunnelURL c) = Some (h @ '':'' @ int_text P, tls)"
    using dial_server_text [OF assms(1) \<open>0 \<le> P\<close>] by simp
  moreover have "dial_target (TunnelURL d) = Some ('':4443'', False)"
    using schemeless_target [OF assms(1)] assms(5) by simp
  ultimately show ?thesis unfolding P by blast
qed

theorem tunnel_target_witness:
  "dial_target (TunnelURL (zero_config\<lparr>cc_server := ''https://t.example.com:443''\<rparr>)) = Some (''t.example.com:4443'', True) \<and>
   dial_target (TunnelURL (zero_config\<lparr>cc_server := ''t.example.com''\<rparr>)) = Some ('':4443'', False)"
proof -
  have "plain_host ''t.example.com''" by code_simp
  moreover have "int_text 443 = ''443''" "int_text 4443 = ''4443''"
    by (simp_all add: int_text_def num_text_big num_text_small digit_of_def)
  moreover from this have "server_text True ''t.example.com'' (Some 443) = ''https://t.example.com:443''"
    by (simp add: server_text_def)
  ultimately show ?thesis
    using tunnel_target [of "''t.example.com''" "Some 443" "zero_config\<lparr>cc_server := ''https://t.example.com:443''\<rparr>" True
        "zero_config\<lparr>cc_server := ''t.example.com''\<rparr>"]
    by (simp add: zero_config_def)
qed

end
