(* ===== verification/Connector.thy ===== *)
theory Connector
  imports ClientConfig
begin

text \<open>
  The agent's side of a tunnel: internal/tunnel/proxy_local.go and the message loop of
  \<open>Connect\<close> in internal/tunnel/connector.go. The local application is a parameter: what it
  answers to the n-th call of a request. The stream from the server is the list of its messages
  and the error that ends it.
\<close>

section \<open>One call of the local application\<close>

record local_request =
  lq_method :: string
  lq_target :: string
  lq_headers :: "(string \<times> string list) list"
  lq_body :: string

text \<open>\<open>client.Do\<close> fails, the body breaks off, or a response.\<close>

datatype local_reply = DoFails | ReadFails | Replies int "(string \<times> string list) list" string

datatype local_error = LocalTransport | ResponseTooLarge

definition maxResponseBodyBytes :: "string \<Rightarrow> int" where
  "maxResponseBodyBytes v0 =
     (let v = trim_space v0
      in if v = [] then default_limit
         else case ParseInt v of None \<Rightarrow> default_limit | Some n \<Rightarrow> if n \<le> 0 then default_limit else n)"

definition IsIdempotentMethod :: "string \<Rightarrow> bool" where
  "IsIdempotentMethod m \<longleftrightarrow> to_upper m \<in> {''GET'', ''HEAD'', ''OPTIONS''}"

text \<open>\<open>http.NewRequest\<close> accepts the method (empty is GET) and the URL.\<close>

definition local_target :: "string \<Rightarrow> proxy_request \<Rightarrow> string" where
  "local_target localURL pr = localURL @ pq_path pr @ (if pq_query pr \<noteq> [] then ''?'' @ pq_query pr else [])"

definition valid_request :: "string \<Rightarrow> proxy_request \<Rightarrow> bool" where
  "valid_request localURL pr \<longleftrightarrow> list_all token_char (pq_method pr) \<and> parse_url (local_target localURL pr) \<noteq> None"

definition local_request_of :: "string \<Rightarrow> proxy_request \<Rightarrow> local_request" where
  "local_request_of localURL pr =
     \<lparr>lq_method = (if pq_method pr = [] then ''GET'' else pq_method pr), lq_target = local_target localURL pr,
      lq_headers = drop_key ''X-Tunnel-Hostname'' (drop_key ''Connection'' (pq_headers pr)), lq_body = pq_body pr\<rparr>"

text \<open>\<open>io.ReadAll(io.LimitReader(resp.Body, max+1))\<close>; the sum is an \<open>int64\<close>.\<close>

definition ProxyToLocal ::
  "string \<Rightarrow> string \<Rightarrow> (local_request \<Rightarrow> local_reply) \<Rightarrow> proxy_request \<Rightarrow> local_error + proxy_response" where
  "ProxyToLocal limit localURL app pr =
     (if \<not> valid_request localURL pr then Inl LocalTransport
      else case app (local_request_of localURL pr) of
          DoFails \<Rightarrow> Inl LocalTransport
        | ReadFails \<Rightarrow> Inl LocalTransport
        | Replies status headers body \<Rightarrow>
            (let most = maxResponseBodyBytes limit; out = take (nat (i64 (most + 1))) body
             in if int (length out) > most then Inl ResponseTooLarge
                else Inr \<lparr>ps_id = pq_id pr, ps_status = status, ps_headers = headers, ps_body = out\<rparr>))"

section \<open>Attempts\<close>

text \<open>
  The loop of at most four attempts: \<open>cancelled n\<close> says that the context is done in the pause
  after attempt n (then \<open>Connect\<close> returns). The result comes with the number of attempts.
\<close>

function attempts ::
  "(nat \<Rightarrow> local_error + proxy_response) \<Rightarrow> (nat \<Rightarrow> bool) \<Rightarrow> string \<Rightarrow> nat \<Rightarrow> (local_error + proxy_response) option \<times> nat" where
  "attempts call cancelled meth n =
     (case call n of
        Inr x \<Rightarrow> (Some (Inr x), Suc n)
      | Inl e \<Rightarrow>
          if e \<noteq> LocalTransport \<or> \<not> IsIdempotentMethod meth \<or> 3 \<le> n then (Some (Inl e), Suc n)
          else if cancelled n then (None, Suc n)
          else attempts call cancelled meth (Suc n))"
  by pat_completeness auto

termination by (relation "measure (\<lambda>(call, cancelled, meth, n). 3 - n)") auto

declare attempts.simps [simp del]

section \<open>The message loop\<close>

text \<open>\<open>pr.Header.Set(k, v)\<close> for every header of the message.\<close>

definition request_from :: "wire_request \<Rightarrow> proxy_request" where
  "request_from m = \<lparr>pq_id = wq_id m, pq_method = wq_method m, pq_path = wq_path m, pq_query = wq_query m,
     pq_headers = http_headers (wq_headers m), pq_body = wq_body m\<rparr>"

definition bad_gateway :: "string \<Rightarrow> local_error \<Rightarrow> proxy_response" where
  "bad_gateway i e = \<lparr>ps_id = i, ps_status = 502, ps_headers = [],
     ps_body = (if e = ResponseTooLarge then ''local response too large'' else ''bad gateway'')\<rparr>"

text \<open>\<open>int32(resp.Status)\<close>\<close>

definition i32 :: "int \<Rightarrow> int" where
  "i32 n = signed_take_bit 31 n"

definition response_message :: "proxy_response \<Rightarrow> wire_response" where
  "response_message x = \<lparr>wr_id = ps_id x, wr_status = i32 (ps_status x), wr_headers = wire_headers (ps_headers x), wr_body = ps_body x\<rparr>"

record agent_env =
  ag_limit :: string
  ag_local :: string
  ag_app :: "nat \<Rightarrow> local_request \<Rightarrow> local_reply"
  ag_cancelled :: "nat \<Rightarrow> bool"

text \<open>One request of the server: the answer, unless the context is done, and the calls made.\<close>

definition answer_request :: "agent_env \<Rightarrow> wire_request \<Rightarrow> wire_response option \<times> nat" where
  "answer_request ag m =
     (let pr = request_from m
      in case attempts (\<lambda>n. ProxyToLocal (ag_limit ag) (ag_local ag) (ag_app ag n) pr) (ag_cancelled ag) (pq_method pr) 0 of
          (None, n) \<Rightarrow> (None, n)
        | (Some (Inr x), n) \<Rightarrow> (Some (response_message x), n)
        | (Some (Inl e), n) \<Rightarrow> (Some (response_message (bad_gateway (pq_id pr) e)), n))"

text \<open>What arrives: a request or another message; in the end the stream closes or fails.\<close>

datatype incoming = Incoming wire_request | OtherMessage

datatype stream_end = EndOfStream | StreamError string

datatype connect_result = Closed_normally | Context_done | Send_failed string | Receive_failed string

text \<open>\<open>send\<close> is the error of sending the n-th response; the responses sent are returned.\<close>

fun receive_loop ::
  "(nat \<Rightarrow> agent_env) \<Rightarrow> (nat \<Rightarrow> string option) \<Rightarrow> stream_end \<Rightarrow> incoming list \<Rightarrow> wire_response list \<Rightarrow>
   connect_result \<times> wire_response list" where
  "receive_loop ag send fin [] sent =
     ((case fin of EndOfStream \<Rightarrow> Closed_normally | StreamError e \<Rightarrow> Receive_failed e), sent)"
| "receive_loop ag send fin (OtherMessage # ms) sent = receive_loop ag send fin ms sent"
| "receive_loop ag send fin (Incoming m # ms) sent =
     (case answer_request (ag (length sent)) m of
        (None, _) \<Rightarrow> (Context_done, sent)
      | (Some x, _) \<Rightarrow>
          (case send (length sent) of
             Some e \<Rightarrow> (Send_failed e, sent)
           | None \<Rightarrow> receive_loop ag send fin ms (sent @ [x])))"

text \<open>The registration that opens the stream: the message, and what the acknowledgement means.\<close>

definition register_outcome :: "(bool \<times> string) option \<Rightarrow> string option" where
  "register_outcome ack =
     (case ack of
        Some (True, _) \<Rightarrow> None
      | Some (False, e) \<Rightarrow> Some (''register: '' @ (if e = [] then ''registration failed'' else e))
      | None \<Rightarrow> Some ''register: registration failed'')"

text \<open>
  \<open>Connect\<close>: the arguments are the outcomes of the library's calls, in order; the result is
  an error text, or how the message loop ended.
\<close>

record dial =
  di_client :: "string option"
  di_stream :: "string option"
  di_send :: "string option"
  di_ack :: "string + (bool \<times> string) option"

definition Connect_client ::
  "dial \<Rightarrow> (nat \<Rightarrow> agent_env) \<Rightarrow> (nat \<Rightarrow> string option) \<Rightarrow> stream_end \<Rightarrow> incoming list \<Rightarrow> string \<Rightarrow>
   string + (connect_result \<times> wire_response list)" where
  "Connect_client di ag send fin ms tunnelURL =
     (case dial_target tunnelURL of
        None \<Rightarrow> Inl ''tunnel URL: invalid''
      | Some _ \<Rightarrow>
          (case di_client di of
             Some e \<Rightarrow> Inl (''grpc dial: '' @ e)
           | None \<Rightarrow>
               (case di_stream di of
                  Some e \<Rightarrow> Inl (''connect: '' @ e)
                | None \<Rightarrow>
                    (case di_send di of
                       Some e \<Rightarrow> Inl (''send register: '' @ e)
                     | None \<Rightarrow>
                         (case di_ack di of
                            Inl e \<Rightarrow> Inl (''recv register ack: '' @ e)
                          | Inr ack \<Rightarrow>
                              (case register_outcome ack of
                                 Some e \<Rightarrow> Inl e
                               | None \<Rightarrow> Inr (receive_loop ag send fin ms [])))))))"

end
