(* ===== verification/ConnectorClaims.thy ===== *)
theory ConnectorClaims
  imports Connector
begin

text \<open>
  The properties of the agent: how often the local application is called, that every request
  is answered, and what becomes of a request and its response on the way through both ends of
  the tunnel.
\<close>

section \<open>Attempts\<close>

definition attempts_ok ::
  "(nat \<Rightarrow> local_error + proxy_response) \<Rightarrow> (nat \<Rightarrow> bool) \<Rightarrow> string \<Rightarrow> nat \<Rightarrow> (local_error + proxy_response) option \<Rightarrow> nat \<Rightarrow> bool" where
  "attempts_ok call cancelled meth n r t \<longleftrightarrow>
     n < t \<and> t \<le> 4 \<and> (\<forall>k. n \<le> k \<and> Suc k < t \<longrightarrow> call k = Inl LocalTransport) \<and>
     (Suc n < t \<longrightarrow> IsIdempotentMethod meth) \<and>
     (case r of
        Some x \<Rightarrow> x = call (t - 1) \<and> (x = Inl LocalTransport \<longrightarrow> \<not> IsIdempotentMethod meth \<or> t = 4)
      | None \<Rightarrow> cancelled (t - 1) \<and> IsIdempotentMethod meth)"

lemma attempts_okD:
  assumes "attempts_ok call cancelled meth n r t"
  shows "n < t" and "t \<le> 4" and "\<lbrakk> n \<le> k; Suc k < t \<rbrakk> \<Longrightarrow> call k = Inl LocalTransport"
    and "Suc n < t \<Longrightarrow> IsIdempotentMethod meth"
    and "r = Some x \<Longrightarrow> x = call (t - 1) \<and> (x = Inl LocalTransport \<longrightarrow> \<not> IsIdempotentMethod meth \<or> t = 4)"
    and "r = None \<Longrightarrow> cancelled (t - 1) \<and> IsIdempotentMethod meth"
proof -
  note d = assms [unfolded attempts_ok_def]
  show "n < t" "t \<le> 4" using d by blast+
  show "\<lbrakk> n \<le> k; Suc k < t \<rbrakk> \<Longrightarrow> call k = Inl LocalTransport" "Suc n < t \<Longrightarrow> IsIdempotentMethod meth" using d by blast+
  have c: "case r of Some x \<Rightarrow> x = call (t - 1) \<and> (x = Inl LocalTransport \<longrightarrow> \<not> IsIdempotentMethod meth \<or> t = 4)
      | None \<Rightarrow> cancelled (t - 1) \<and> IsIdempotentMethod meth" using d by blast
  show "x = call (t - 1) \<and> (x = Inl LocalTransport \<longrightarrow> \<not> IsIdempotentMethod meth \<or> t = 4)" if r: "r = Some x"
    using c unfolding r option.case .
  show "cancelled (t - 1) \<and> IsIdempotentMethod meth" if r: "r = None"
    using c unfolding r option.case .
qed

lemma attempts_ok_here:
  assumes "n \<le> 3" and "r = Some (call n) \<and> (call n = Inl LocalTransport \<longrightarrow> \<not> IsIdempotentMethod meth \<or> 3 \<le> n) \<or>
    r = None \<and> cancelled n \<and> IsIdempotentMethod meth"
  shows "attempts_ok call cancelled meth n r (Suc n)"
  using assms by (auto simp: attempts_ok_def)

lemma attempts_ok_next:
  assumes "call n = Inl LocalTransport" and "IsIdempotentMethod meth" and ok: "attempts_ok call cancelled meth (Suc n) r t"
  shows "attempts_ok call cancelled meth n r t"
proof -
  have each: "call k = Inl LocalTransport" if "n \<le> k" "Suc k < t" for k
    using that assms(1) attempts_okD(3) [OF ok, of k] by (cases "k = n") simp_all
  have pos: "n < t" using attempts_okD(1) [OF ok] by (rule Suc_lessD)
  show ?thesis
    unfolding attempts_ok_def
  proof (intro conjI allI impI)
    show "n < t" by (rule pos)
    show "t \<le> 4" by (rule attempts_okD(2) [OF ok])
    show "call k = Inl LocalTransport" if "n \<le> k \<and> Suc k < t" for k using that each by blast
    show "IsIdempotentMethod meth" by (rule assms(2))
    show "case r of Some x \<Rightarrow> x = call (t - 1) \<and> (x = Inl LocalTransport \<longrightarrow> \<not> IsIdempotentMethod meth \<or> t = 4)
      | None \<Rightarrow> cancelled (t - 1) \<and> IsIdempotentMethod meth"
      using ok unfolding attempts_ok_def by (elim conjE)
  qed
qed

lemma attempts_ok_some:
  assumes "attempts_ok call cancelled meth n r t" and "\<And>k. \<not> cancelled k"
  shows "\<exists>x. r = Some x \<and> x = call (t - 1)"
  using attempts_okD(5,6) [OF assms(1)] assms(2) by (cases r) blast+

lemma attempts_spec:
  "attempts call cancelled meth n = (r, t) \<Longrightarrow> n \<le> 3 \<Longrightarrow> attempts_ok call cancelled meth n r t"
proof (induction "3 - n" arbitrary: n)
  case 0
  have "n = 3" using 0 by simp
  have "attempts call cancelled meth n = (Some (call n), Suc n)"
    unfolding \<open>n = 3\<close> by (subst attempts.simps) (simp split: sum.split)
  then have "t = Suc n" "r = Some (call n)" using 0(2) by simp_all
  then show ?case using attempts_ok_here [of n r call] 0(3) \<open>n = 3\<close> by simp
next
  case (Suc d)
  show ?case
  proof (cases "call n = Inl LocalTransport \<and> IsIdempotentMethod meth \<and> \<not> 3 \<le> n \<and> \<not> cancelled n")
    case True
    then have step: "attempts call cancelled meth n = attempts call cancelled meth (Suc n)" by (subst attempts.simps) simp
    have d: "d = 3 - Suc n" "Suc n \<le> 3" using True Suc.hyps(2) by linarith+
    have "attempts_ok call cancelled meth (Suc n) r t"
      by (rule Suc.hyps(1) [OF d(1) trans [OF step [symmetric] Suc.prems(1)] d(2)])
    then show ?thesis using True attempts_ok_next by metis
  next
    case False
    then have "attempts call cancelled meth n =
        (if call n = Inl LocalTransport \<and> IsIdempotentMethod meth \<and> \<not> 3 \<le> n then None else Some (call n), Suc n)"
      by (subst attempts.simps) (auto split: sum.split)
    then have "t = Suc n" "r = (if call n = Inl LocalTransport \<and> IsIdempotentMethod meth \<and> \<not> 3 \<le> n then None else Some (call n))"
      using Suc.prems(1) by simp_all
    then show ?thesis using attempts_ok_here [of n r call meth cancelled] Suc.prems(2) False by auto
  qed
qed

text \<open>
  C9. The agent ends every request: the local application is called at most four times, once
  unless the method is GET, HEAD or OPTIONS, again only after a transport error; the outcome is
  that of the last call, and when it is a transport error of one of these methods all four
  calls failed. Only a done context leaves a request without an outcome.
\<close>

theorem attempts_bounded:
  assumes "attempts call cancelled meth 0 = (r, t)"
  shows "1 \<le> t \<and> t \<le> (if IsIdempotentMethod meth then 4 else 1) \<and>
    (\<forall>k. Suc k < t \<longrightarrow> call k = Inl LocalTransport) \<and>
    (case r of
       Some x \<Rightarrow> x = call (t - 1) \<and> (x = Inl LocalTransport \<and> IsIdempotentMethod meth \<longrightarrow> t = 4)
     | None \<Rightarrow> cancelled (t - 1) \<and> IsIdempotentMethod meth)"
proof -
  have ok: "attempts_ok call cancelled meth 0 r t" using attempts_spec [OF assms] by simp
  note D = attempts_okD [OF ok]
  have "1 \<le> t" using D(1) by linarith
  moreover have "t \<le> (if IsIdempotentMethod meth then 4 else 1)"
  proof (cases "IsIdempotentMethod meth")
    case False
    then have "\<not> Suc 0 < t" using D(4) by blast
    then show ?thesis using False by simp
  qed (use D(2) in simp)
  moreover have "\<forall>k. Suc k < t \<longrightarrow> call k = Inl LocalTransport" using D(3) by blast
  moreover have "case r of Some x \<Rightarrow> x = call (t - 1) \<and> (x = Inl LocalTransport \<and> IsIdempotentMethod meth \<longrightarrow> t = 4)
      | None \<Rightarrow> cancelled (t - 1) \<and> IsIdempotentMethod meth" using D(5,6) by (cases r) (simp_all only: option.case, blast+)
  ultimately show ?thesis by blast
qed

theorem attempts_bounded_witness:
  "attempts (\<lambda>n. if n < 2 then Inl LocalTransport else Inl ResponseTooLarge) (\<lambda>_. False) ''get'' 0 = (Some (Inl ResponseTooLarge), 3) \<and>
   3 \<le> (if IsIdempotentMethod ''get'' then 4 else (1::nat))"
proof -
  have meth: "IsIdempotentMethod ''get''" by code_simp
  have e: "attempts (\<lambda>n. if n < 2 then Inl LocalTransport else Inl ResponseTooLarge) (\<lambda>_. False) ''get'' 0 = (Some (Inl ResponseTooLarge), 3)"
    by (subst attempts.simps, subst attempts.simps, subst attempts.simps) (simp add: meth)
  show ?thesis using attempts_bounded [OF e] e by simp
qed

section \<open>The message loop\<close>

text \<open>The requests among the messages.\<close>

definition requests_of :: "incoming list \<Rightarrow> wire_request list" where
  "requests_of ms = concat (map (\<lambda>m. case m of Incoming q \<Rightarrow> [q] | OtherMessage \<Rightarrow> []) ms)"

lemma requests_of_simps [simp]:
  "requests_of [] = []" "requests_of (Incoming q # ms) = q # requests_of ms" "requests_of (OtherMessage # ms) = requests_of ms"
  by (simp_all add: requests_of_def)

lemma ProxyToLocal_id:
  "ProxyToLocal limit l app pr = Inr y \<Longrightarrow> ps_id y = pq_id pr"
  by (auto simp: ProxyToLocal_def Let_def split: if_splits local_reply.splits)

lemma answer_request_id:
  assumes "\<And>k. \<not> ag_cancelled ag k"
  shows "\<exists>x. fst (answer_request ag m) = Some x \<and> wr_id x = wq_id m"
proof -
  let ?pr = "request_from m"
  obtain r t where res: "attempts (\<lambda>n. ProxyToLocal (ag_limit ag) (ag_local ag) (ag_app ag n) ?pr) (ag_cancelled ag) (pq_method ?pr) 0 = (r, t)"
    by (metis surj_pair)
  from attempts_spec [OF this]
  have "attempts_ok (\<lambda>n. ProxyToLocal (ag_limit ag) (ag_local ag) (ag_app ag n) ?pr) (ag_cancelled ag) (pq_method ?pr) 0 r t" by simp
  from attempts_ok_some [OF this assms] obtain x where
    x: "r = Some x" "x = ProxyToLocal (ag_limit ag) (ag_local ag) (ag_app ag (t - 1)) ?pr" by blast
  have id: "pq_id ?pr = wq_id m" by (simp add: request_from_def)
  show ?thesis
  proof (cases x)
    case (Inl e)
    then show ?thesis using x(1) res id by (simp add: answer_request_def response_message_def bad_gateway_def)
  next
    case (Inr y)
    then have "ps_id y = wq_id m" using x(2) ProxyToLocal_id id by metis
    then show ?thesis using x(1) res Inr by (simp add: answer_request_def response_message_def)
  qed
qed

text \<open>
  C17. While its context lives and the stream accepts its responses, the agent answers every
  request it receives, in order, with exactly one response that carries the id of the request,
  however the local application behaves, and it returns only because the stream has ended.
\<close>

theorem agent_answers_all:
  assumes "\<And>i k. \<not> ag_cancelled (ag i) k" and "\<And>i. send i = None"
  shows "fst (receive_loop ag send fin ms []) = (case fin of EndOfStream \<Rightarrow> Closed_normally | StreamError e \<Rightarrow> Receive_failed e) \<and>
    map wr_id (snd (receive_loop ag send fin ms [])) = map wq_id (requests_of ms)"
proof -
  have "fst (receive_loop ag send fin ms sent) = (case fin of EndOfStream \<Rightarrow> Closed_normally | StreamError e \<Rightarrow> Receive_failed e) \<and>
    map wr_id (snd (receive_loop ag send fin ms sent)) = map wr_id sent @ map wq_id (requests_of ms)" for sent
  proof (induction ms arbitrary: sent)
    case (Cons m ms)
    show ?case
    proof (cases m)
      case (Incoming q)
      obtain x n where x: "answer_request (ag (length sent)) q = (Some x, n)" "wr_id x = wq_id q"
        using answer_request_id [of "ag (length sent)" q] assms(1) by (metis prod.collapse)
      then show ?thesis using Cons.IH [of "sent @ [x]"] Incoming assms(2) by simp
    next
      case OtherMessage
      then show ?thesis using Cons.IH [of sent] by simp
    qed
  qed simp
  then show ?thesis by simp
qed

theorem agent_answers_all_witness:
  "map wr_id (snd (receive_loop (\<lambda>i. \<lparr>ag_limit = [], ag_local = ''http://localhost:1'', ag_app = (\<lambda>_ _. DoFails), ag_cancelled = (\<lambda>_. False)\<rparr>)
     (\<lambda>_. None) EndOfStream [OtherMessage, Incoming \<lparr>wq_id = ''r1'', wq_method = ''GET'', wq_path = ''/'', wq_query = [], wq_headers = [], wq_body = []\<rparr>] [])) = [''r1'']"
  using agent_answers_all [of "\<lambda>i. \<lparr>ag_limit = [], ag_local = ''http://localhost:1'', ag_app = (\<lambda>_ _. DoFails), ag_cancelled = (\<lambda>_. False)\<rparr>"
      "\<lambda>_. None" EndOfStream "[OtherMessage, Incoming \<lparr>wq_id = ''r1'', wq_method = ''GET'', wq_path = ''/'', wq_query = [], wq_headers = [], wq_body = []\<rparr>]"]
  by simp

section \<open>Through the tunnel and back\<close>

text \<open>Headers as net/http hands them over: canonical distinct names, each with a value.\<close>

definition canonical_headers :: "(string \<times> string list) list \<Rightarrow> bool" where
  "canonical_headers hs \<longleftrightarrow> distinct (map fst hs) \<and> list_all (\<lambda>(k, vv). mime_key k = k \<and> vv \<noteq> []) hs"

definition joined :: "(string \<times> string list) list \<Rightarrow> string \<Rightarrow> string list option" where
  "joined hs k = map_option (\<lambda>vv. [join_with '', '' vv]) (map_of hs k)"

lemma joined_none: "k \<notin> set (map fst hs) \<Longrightarrow> joined hs k = None"
  by (simp add: joined_def map_of_eq_None_iff)

lemma joined_single:
  "list_all (\<lambda>(k, vv). length vv = 1) hs \<Longrightarrow> joined hs k = map_of hs k"
  by (induction hs) (auto simp: joined_def length_Suc_conv)

lemma set_headers_joined:
  assumes "canonical_headers hs"
  shows "map_of (foldl (\<lambda>acc (k, v). put_key (mime_key k) [v] acc) acc (wire_headers hs)) k =
    (case joined hs k of Some v \<Rightarrow> Some v | None \<Rightarrow> map_of acc k)"
  using assms
proof (induction hs arbitrary: acc)
  case (Cons h hs)
  obtain k0 vv where h: "h = (k0, vv)" by (cases h)
  have hs: "canonical_headers hs" "mime_key k0 = k0" "vv \<noteq> []" "k0 \<notin> set (map fst hs)"
    using Cons.prems by (simp_all add: canonical_headers_def h)
  have "wire_headers (h # hs) = (k0, join_with '', '' vv) # wire_headers hs" using hs(3) by (simp add: wire_headers_def h)
  then have "map_of (foldl (\<lambda>acc (k, v). put_key (mime_key k) [v] acc) acc (wire_headers (h # hs))) k =
      (case joined hs k of Some v \<Rightarrow> Some v | None \<Rightarrow> map_of (put_key k0 [join_with '', '' vv] acc) k)"
    using Cons.IH [OF hs(1), of "put_key k0 [join_with '', '' vv] acc"] hs(2) by simp
  moreover have "joined (h # hs) k = (if k = k0 then Some [join_with '', '' vv] else joined hs k)" by (simp add: h joined_def)
  moreover have "joined hs k0 = None" by (rule joined_none [OF hs(4)])
  ultimately show ?case by (simp split: option.split)
qed (simp add: wire_headers_def joined_def)

lemma http_wire_headers:
  "canonical_headers hs \<Longrightarrow> map_of (http_headers (wire_headers hs)) k = joined hs k"
  using set_headers_joined [of hs "[]" k] by (simp add: http_headers_def split: option.splits)

lemma i32_id: "0 \<le> n \<Longrightarrow> n < 1000 \<Longrightarrow> i32 n = n"
  by (simp add: i32_def signed_take_bit_int_eq_self)

text \<open>
  C12. A request that goes through the tunnel reaches the local application with its method and
  body, under the local URL extended by its path and query, and with its headers except
  \<open>Connection\<close> and \<open>X-Tunnel-Hostname\<close>; a response comes back with its id, status, body and
  headers. The values of a repeated header are joined into one by a comma and a blank in both
  directions (two \<open>Set-Cookie\<close> lines arrive as one); a header with one value arrives as it was.
\<close>

theorem tunnel_roundtrip:
  fixes pr :: proxy_request and x :: proxy_response and l i k :: string
  assumes "canonical_headers (pq_headers pr)" and "canonical_headers (ps_headers x)" and "0 \<le> ps_status x" and "ps_status x < 1000"
    and "pq_method pr \<noteq> []"
  defines "lq \<equiv> local_request_of l (request_from (message_of i pr))" and "y \<equiv> response_of (response_message x)"
  shows "lq_method lq = pq_method pr \<and> lq_body lq = pq_body pr \<and> lq_target lq = local_target l pr \<and>
    map_of (lq_headers lq) k = (if k = ''Connection'' \<or> k = ''X-Tunnel-Hostname'' then None else joined (pq_headers pr) k) \<and>
    ps_id y = ps_id x \<and> ps_status y = ps_status x \<and> ps_body y = ps_body x \<and> map_of (ps_headers y) k = joined (ps_headers x) k \<and>
    (list_all (\<lambda>(k, vv). length vv = 1) (pq_headers pr) \<longrightarrow> joined (pq_headers pr) k = map_of (pq_headers pr) k)"
proof -
  have "pq_headers (request_from (message_of i pr)) = http_headers (wire_headers (pq_headers pr))"
    by (simp add: request_from_def message_of_def)
  then have "map_of (lq_headers lq) k = (if k = ''Connection'' \<or> k = ''X-Tunnel-Hostname'' then None else joined (pq_headers pr) k)"
    by (simp add: lq_def local_request_of_def http_wire_headers [OF assms(1)])
  moreover have "lq_method lq = pq_method pr" "lq_body lq = pq_body pr" "lq_target lq = local_target l pr"
    using assms(5) by (simp_all add: lq_def local_request_of_def request_from_def message_of_def local_target_def)
  moreover have "ps_id y = ps_id x" "ps_status y = ps_status x" "ps_body y = ps_body x" "map_of (ps_headers y) k = joined (ps_headers x) k"
    using i32_id [OF assms(3,4)] by (simp_all add: y_def response_of_def response_message_def http_wire_headers [OF assms(2)])
  ultimately show ?thesis using joined_single by blast
qed

theorem tunnel_roundtrip_witness:
  "map_of (ps_headers (response_of (response_message
     \<lparr>ps_id = ''r1'', ps_status = 200, ps_headers = [(''Set-Cookie'', [''a=1'', ''b=2''])], ps_body = ''ok''\<rparr>))) ''Set-Cookie'' = Some [''a=1, b=2'']"
proof -
  have "canonical_headers [(''Set-Cookie'', [''a=1'', ''b=2''])]" "canonical_headers []" by code_simp+
  then show ?thesis
    using tunnel_roundtrip [of "\<lparr>pq_id = [], pq_method = ''GET'', pq_path = ''/'', pq_query = [], pq_headers = [], pq_body = []\<rparr>"
        "\<lparr>ps_id = ''r1'', ps_status = 200, ps_headers = [(''Set-Cookie'', [''a=1'', ''b=2''])], ps_body = ''ok''\<rparr>" "[]" "''r1''" "''Set-Cookie''"]
    by (simp add: joined_def)
qed



end
