(* ===== verification/EndToEnd.thy ===== *)
theory EndToEnd
  imports ConnectorClaims ProxyClaims
begin

text \<open>
  The two ends of a tunnel together: a visitor's request goes through the public proxy, down the
  stream, through the agent to the local application, and its response comes back.
\<close>

section \<open>The far end\<close>

text \<open>
  What \<open>EnqueueRequest\<close> returns for a request to which it gave the id \<open>uid\<close>, when the message
  reaches the agent and the agent's response is routed back by that id; the call is closed when
  the agent's context is done.
\<close>

definition agent_serves :: "agent_env \<Rightarrow> string \<Rightarrow> nat \<Rightarrow> proxy_request \<Rightarrow> proxy_response option \<times> bool" where
  "agent_serves ag uid i pr =
     (case fst (answer_request ag (message_of uid pr)) of
        Some w \<Rightarrow> (Some (response_of w), False)
      | None \<Rightarrow> (None, True))"

section \<open>Facts\<close>

lemma handler_forward:
  assumes "px_forwarded (ProxyHandlerWithConfig p cfg stats store hub enq r) = Some (i, pr)"
  shows "\<exists>c tid body. ProxyHandlerWithConfig p cfg stats store hub enq r = forward c tid i enq body \<and>
    pc_request c = r \<and> pr = request_of r body"
proof -
  let ?hn = "hostWithoutPort (rq_host r)"
  let ?c = "\<lparr>pc_env = p, pc_request = r, pc_host = ?hn,
    pc_client = resolveClientIP r (parseTrustedProxyCIDRs (cf_trusted cfg)), pc_stats = stats, pc_store = store\<rparr>"
  let ?m = "maxRequestBodyBytes (pe_limit p)"
  obtain t0 where t0: "lookup_tunnel store ?hn = Inr t0"
    using assms by (cases "lookup_tunnel store ?hn") (simp_all add: ProxyHandlerWithConfig_def Let_def)
  obtain j where j: "Get hub ?hn = Some j"
    using assms t0 by (cases "Get hub ?hn") (simp_all add: ProxyHandlerWithConfig_def Let_def)
  let ?tid = "relookup store ?hn t0"
  have "access_check ?c ?tid = None"
  proof (cases "access_check ?c ?tid")
    case (Some res)
    then show ?thesis using assms t0 j access_check_refuses [OF Some] by (simp add: ProxyHandlerWithConfig_def Let_def)
  qed
  then have pass: "ProxyHandlerWithConfig p cfg stats store hub enq r = pass_request ?c ?tid j enq"
    using t0 j by (simp add: ProxyHandlerWithConfig_def Let_def)
  have "pass_request ?c ?tid j enq = forward ?c ?tid j enq (read_body r ?m)"
    using assms unfolding pass by (simp add: pass_request_def Let_def split: if_splits)
  then have "ProxyHandlerWithConfig p cfg stats store hub enq r = forward ?c ?tid j enq (read_body r ?m)" using pass by simp
  moreover from this have "j = i" "pr = request_of r (read_body r ?m)" using assms forward_forwards [of ?c ?tid j enq "read_body r ?m"] by simp_all
  ultimately show ?thesis by (intro exI [of _ ?c] exI [of _ ?tid] exI [of _ "read_body r ?m"]) simp
qed

lemma forward_response:
  assumes "enq i (request_of (pc_request c) body) = (Some x, False)" and "sent_response x = Some resp"
  shows "px_response (forward c tid i enq body) = Some resp"
  using assms by (simp add: forward_def finish_def Let_def)

text \<open>The headers as the server passes them on.\<close>

lemma set_http_headers:
  assumes "canonical_headers hs"
  shows "set (foldl (\<lambda>acc (k, v). put_key (mime_key k) [v] acc) acc (wire_headers hs)) =
    (\<lambda>(k, vv). (k, [join_with '', '' vv])) ` set hs \<union> {q \<in> set acc. fst q \<notin> fst ` set hs}"
  using assms
proof (induction hs arbitrary: acc)
  case (Cons h hs)
  obtain k0 vv where h: "h = (k0, vv)" by (cases h)
  have hs: "canonical_headers hs" "mime_key k0 = k0" "vv \<noteq> []" "k0 \<notin> fst ` set hs"
    using Cons.prems by (simp_all add: canonical_headers_def h)
  have "wire_headers (h # hs) = (k0, join_with '', '' vv) # wire_headers hs" using hs(3) by (simp add: wire_headers_def h)
  moreover have "(k0, b) \<notin> set hs" for b using hs(4) by force
  ultimately show ?case
    using Cons.IH [OF hs(1), of "put_key k0 [join_with '', '' vv] acc"] hs(2,4) by (auto simp: h)
qed (simp add: wire_headers_def)

lemma passed_headers:
  assumes "canonical_headers hs"
  shows "set (concat (map (\<lambda>(k, vv). map (\<lambda>v. (mime_key k, v)) vv) (http_headers (wire_headers hs)))) =
    (\<lambda>(k, vv). (k, join_with '', '' vv)) ` set hs"
proof -
  have "set (http_headers (wire_headers hs)) = (\<lambda>(k, vv). (k, [join_with '', '' vv])) ` set hs"
    using set_http_headers [OF assms, of "[]"] by (simp add: http_headers_def)
  moreover have "mime_key k = k" if "(k, vv) \<in> set hs" for k vv
    using assms that by (auto simp: canonical_headers_def list_all_iff)
  ultimately show ?thesis by (auto simp: image_iff) force
qed

lemma first_attempt:
  assumes "call 0 = Inr y"
  shows "attempts call cancelled meth 0 = (Some (Inr y), Suc 0)"
  by (subst attempts.simps) (simp add: assms)

lemma local_replies:
  assumes "valid_request l pr" and "app (local_request_of l pr) = Replies status hs body"
    and "maxResponseBodyBytes limit < 2 ^ 63 - 1" and "int (length body) \<le> maxResponseBodyBytes limit"
  shows "ProxyToLocal limit l app pr = Inr \<lparr>ps_id = pq_id pr, ps_status = status, ps_headers = hs, ps_body = body\<rparr>"
proof -
  have "0 < maxResponseBodyBytes limit"
    by (auto simp: maxResponseBodyBytes_def default_limit_def Let_def split: option.split)
  then have "i64 (maxResponseBodyBytes limit + 1) = maxResponseBodyBytes limit + 1" using assms(3) by (intro i64_id) auto
  then show ?thesis using assms by (simp add: ProxyToLocal_def Let_def)
qed

section \<open>The visitor's view\<close>

text \<open>The request as the local application sees it.\<close>

definition delivered :: "agent_env \<Rightarrow> string \<Rightarrow> request \<Rightarrow> local_request" where
  "delivered ag uid r = local_request_of (ag_local ag) (request_from (message_of uid (request_of r (rq_body r))))"

lemma agent_serves_reply:
  assumes "valid_request (ag_local ag) (request_from (message_of uid pr))"
    and "ag_app ag 0 (local_request_of (ag_local ag) (request_from (message_of uid pr))) = Replies status hs body"
    and "maxResponseBodyBytes (ag_limit ag) < 2 ^ 63 - 1" and "int (length body) \<le> maxResponseBodyBytes (ag_limit ag)"
    and "0 \<le> status" and "status < 1000"
  shows "agent_serves ag uid i pr =
    (Some \<lparr>ps_id = uid, ps_status = status, ps_headers = http_headers (wire_headers hs), ps_body = body\<rparr>, False)"
proof -
  let ?m = "message_of uid pr"
  let ?call = "\<lambda>n. ProxyToLocal (ag_limit ag) (ag_local ag) (ag_app ag n) (request_from ?m)"
  have id: "pq_id (request_from ?m) = uid" by (simp add: request_from_def message_of_def)
  have "?call 0 = Inr \<lparr>ps_id = uid, ps_status = status, ps_headers = hs, ps_body = body\<rparr>"
    using local_replies [where app = "ag_app ag 0", OF assms(1-4)] id by simp
  then have "answer_request ag ?m = (Some (response_message \<lparr>ps_id = uid, ps_status = status, ps_headers = hs, ps_body = body\<rparr>), Suc 0)"
    using first_attempt [of ?call] by (simp add: answer_request_def Let_def)
  then show ?thesis using i32_id [OF assms(5,6)] by (simp add: agent_serves_def response_of_def response_message_def)
qed

text \<open>When every attempt fails, the answer is a bad gateway.\<close>

lemma agent_serves_failure:
  assumes "\<And>n. ag_app ag n (local_request_of (ag_local ag) (request_from (message_of uid pr))) = DoFails" and "\<And>k. \<not> ag_cancelled ag k"
  shows "agent_serves ag uid i pr = (Some \<lparr>ps_id = uid, ps_status = 502, ps_headers = [], ps_body = ''bad gateway''\<rparr>, False)"
proof -
  let ?m = "message_of uid pr"
  let ?call = "\<lambda>n. ProxyToLocal (ag_limit ag) (ag_local ag) (ag_app ag n) (request_from ?m)"
  obtain res t where a: "attempts ?call (ag_cancelled ag) (pq_method (request_from ?m)) 0 = (res, t)" by (metis surj_pair)
  from attempts_spec [OF a] have "attempts_ok ?call (ag_cancelled ag) (pq_method (request_from ?m)) 0 res t" by simp
  from attempts_ok_some [OF this assms(2)] have "res = Some (?call (t - 1))" by blast
  moreover have "?call k = Inl LocalTransport" for k by (simp add: ProxyToLocal_def assms(1))
  ultimately have "answer_request ag ?m = (Some (response_message (bad_gateway uid LocalTransport)), t)"
    using a by (simp add: answer_request_def Let_def request_from_def message_of_def)
  then show ?thesis
    by (simp add: agent_serves_def response_of_def response_message_def bad_gateway_def i32_id http_headers_def wire_headers_def)
qed

lemma end_to_end_parts:
  fixes cfg stats hub r p s ag uid
  defines "result \<equiv> ProxyHandlerWithConfig p cfg stats (Some s) hub (agent_serves ag uid) r"
  assumes ok: "store_ok s" and limit: "maxRequestBodyBytes (pe_limit p) < 2 ^ 63 - 1"
    and live: "Get hub (hostWithoutPort (rq_host r)) = Some i"
    and policy: "policy_admits (pe_sha p) s (hostWithoutPort (rq_host r)) (resolveClientIP r (parseTrustedProxyCIDRs (cf_trusted cfg))) r"
    and size: "\<not> isWebsocketUpgrade r" "rq_length r \<le> maxRequestBodyBytes (pe_limit p)"
      "int (length (rq_body r)) \<le> maxRequestBodyBytes (pe_limit p)" and meth: "rq_method r \<noteq> []"
  shows "px_forwarded result = Some (i, request_of r (rq_body r))"
    and "lq_method (delivered ag uid r) = rq_method r \<and> lq_body (delivered ag uid r) = rq_body r \<and>
      lq_target (delivered ag uid r) = ag_local ag @ rq_path r @ (if rq_query r \<noteq> [] then ''?'' @ rq_query r else [])"
    and "\<lbrakk> valid_request (ag_local ag) (request_from (message_of uid (request_of r (rq_body r))));
       ag_app ag 0 (delivered ag uid r) = Replies status hs body; canonical_headers hs; body \<noteq> [];
       200 \<le> status; status < 1000; status \<noteq> 204; status \<noteq> 304;
       maxResponseBodyBytes (ag_limit ag) < 2 ^ 63 - 1; int (length body) \<le> maxResponseBodyBytes (ag_limit ag) \<rbrakk> \<Longrightarrow>
       \<exists>resp. px_response result = Some resp \<and> rs_status resp = status \<and> rs_body resp = Text body \<and>
         set (rs_headers resp) = (\<lambda>(k, vv). (k, join_with '', '' vv)) ` set hs"
    and "\<lbrakk> \<And>n. ag_app ag n (delivered ag uid r) = DoFails; \<And>k. \<not> ag_cancelled ag k \<rbrakk> \<Longrightarrow>
       \<exists>resp. px_response result = Some resp \<and> rs_status resp = 502 \<and> rs_body resp = Text ''bad gateway''"
proof -
  let ?pr = "request_of r (rq_body r)"
  show fwd: "px_forwarded result = Some (i, ?pr)"
    unfolding result_def using handler_forwards_iff [OF ok limit] live policy size by blast
  show "lq_method (delivered ag uid r) = rq_method r \<and> lq_body (delivered ag uid r) = rq_body r \<and>
      lq_target (delivered ag uid r) = ag_local ag @ rq_path r @ (if rq_query r \<noteq> [] then ''?'' @ rq_query r else [])"
    using meth by (simp add: delivered_def local_request_of_def local_target_def request_from_def message_of_def request_of_def)
  obtain c tid body0 where f: "result = forward c tid i (agent_serves ag uid) body0" "?pr = request_of (pc_request c) body0"
    using handler_forward [OF fwd [unfolded result_def]] unfolding result_def by auto
  show "\<exists>resp. px_response result = Some resp \<and> rs_status resp = status \<and> rs_body resp = Text body \<and>
         set (rs_headers resp) = (\<lambda>(k, vv). (k, join_with '', '' vv)) ` set hs"
    if "valid_request (ag_local ag) (request_from (message_of uid ?pr))"
       "ag_app ag 0 (delivered ag uid r) = Replies status hs body" and canon: "canonical_headers hs" and st: "body \<noteq> []"
       "200 \<le> status" "status < 1000" "status \<noteq> 204" "status \<noteq> 304" and
       "maxResponseBodyBytes (ag_limit ag) < 2 ^ 63 - 1" "int (length body) \<le> maxResponseBodyBytes (ag_limit ag)"
  proof -
    let ?x = "\<lparr>ps_id = uid, ps_status = status, ps_headers = http_headers (wire_headers hs), ps_body = body\<rparr>"
    have serves: "agent_serves ag uid i ?pr = (Some ?x, False)"
      using that by (intro agent_serves_reply) (simp_all add: delivered_def)
    let ?resp = "\<lparr>rs_status = status, rs_headers = concat (map (\<lambda>(k, vv). map (\<lambda>v. (mime_key k, v)) vv) (http_headers (wire_headers hs))),
      rs_cookies = [], rs_body = Text body\<rparr>"
    have "sent_response ?x = Some ?resp" using st by (simp add: sent_response_def Let_def)
    from forward_response [where enq = "agent_serves ag uid", OF serves [unfolded f(2)] this] have "px_response result = Some ?resp" unfolding f(1) .
    then show ?thesis using passed_headers [OF canon] by (intro exI [of _ ?resp]) simp
  qed
  show "\<exists>resp. px_response result = Some resp \<and> rs_status resp = 502 \<and> rs_body resp = Text ''bad gateway''"
    if "\<And>n. ag_app ag n (delivered ag uid r) = DoFails" "\<And>k. \<not> ag_cancelled ag k"
  proof -
    let ?x = "\<lparr>ps_id = uid, ps_status = 502, ps_headers = [], ps_body = ''bad gateway''\<rparr>"
    have serves: "agent_serves ag uid i ?pr = (Some ?x, False)"
      using that by (intro agent_serves_failure) (simp_all add: delivered_def)
    have "sent_response ?x = Some \<lparr>rs_status = 502, rs_headers = [], rs_cookies = [], rs_body = Text ''bad gateway''\<rparr>"
      by (simp add: sent_response_def Let_def)
    from forward_response [where enq = "agent_serves ag uid", OF serves [unfolded f(2)] this] show ?thesis unfolding f(1) by simp
  qed
qed


definition demo_agent :: agent_env where
  "demo_agent = \<lparr>ag_limit = [], ag_local = ''http://localhost:3000'',
     ag_app = (\<lambda>_ _. Replies 201 [(''Set-Cookie'', [''a=1'', ''b=2''])] ''made''), ag_cancelled = (\<lambda>_. False)\<rparr>"

definition demo_visit :: request where
  "demo_visit = demo_public_request [(''Authorization'', [''Basic Ym9iOnMzY3JldA==''])]"

lemma demo_visit_facts:
  "policy_admits (\<lambda>x. x) demo_rule_store ''app.example.com'' ''@'' demo_visit"
  "resolveClientIP demo_visit (parseTrustedProxyCIDRs (cf_trusted (host_config ''example.com''))) = ''@''"
  "hostWithoutPort (rq_host demo_visit) = ''app.example.com''" "Get demo_hub ''app.example.com'' = Some 0"
  "\<not> isWebsocketUpgrade demo_visit" "rq_method demo_visit \<noteq> []"
  "valid_request (ag_local demo_agent) (request_from (message_of ''u1'' (request_of demo_visit (rq_body demo_visit))))"
  by code_simp+


end
