(* ===== verification/RunState.thy ===== *)
theory RunState
  imports ClientConfig
begin

text \<open>
  The state of tunnels on the user's machine: internal/tunnel/runtime_state.go (the files of
  detached tunnels and the check whether their process runs) and \<open>stopPID\<close> of the same file.
\<close>

section \<open>The machine\<close>

record runtime_state =
  rt_name :: string
  rt_hostname :: string
  rt_local :: string
  rt_pid :: int
  rt_log :: string
  rt_started :: time

text \<open>A process: what \<open>ps -o args=\<close> prints for it, and whether we may signal it.\<close>

record os_process =
  op_args :: string
  op_ours :: bool

text \<open>
  Files by their path: the runtime states (JSON, as decoded) and the logs. \<open>mc_disk\<close> is the
  error of every write below the configuration directory, if there is one; \<open>mc_ps\<close> says
  whether the program \<open>ps\<close> can be run; \<open>mc_signals\<close> are the signals sent so far.
\<close>

record machine =
  mc_home :: client_home
  mc_env :: client_env
  mc_dir :: string
  mc_states :: "string \<Rightarrow> runtime_state client_file"
  mc_logs :: "string \<Rightarrow> string option"
  mc_disk :: "string option"
  mc_ps :: bool
  mc_procs :: "int \<Rightarrow> os_process option"
  mc_signals :: "(int \<times> int) list"
  mc_now :: time

section \<open>Runtime files\<close>

definition runtimeDir :: "'a machine_scheme \<Rightarrow> string" where
  "runtimeDir m = mc_dir m @ ''/run''"

definition runtimeStatePath :: "'a machine_scheme \<Rightarrow> string \<Rightarrow> string" where
  "runtimeStatePath m name = runtimeDir m @ ''/'' @ name @ ''.json''"

definition runtimeLogPath :: "'a machine_scheme \<Rightarrow> string \<Rightarrow> string" where
  "runtimeLogPath m name = runtimeDir m @ ''/'' @ name @ ''.log''"

definition writeRuntimeState :: "runtime_state \<Rightarrow> 'a machine_scheme \<Rightarrow> (string + unit) \<times> 'a machine_scheme" where
  "writeRuntimeState st m =
     (if rt_name st = [] then (Inl ''invalid runtime state'', m)
      else case mc_disk m of
          Some e \<Rightarrow> (Inl e, m)
        | None \<Rightarrow> (Inr (), m\<lparr>mc_states := (mc_states m)(runtimeStatePath m (rt_name st) := Holds st)\<rparr>))"

definition readRuntimeState :: "'a machine_scheme \<Rightarrow> string \<Rightarrow> runtime_state option" where
  "readRuntimeState m name = (case mc_states m (runtimeStatePath m name) of Holds st \<Rightarrow> Some st | _ \<Rightarrow> None)"

definition removeRuntimeState :: "string \<Rightarrow> 'a machine_scheme \<Rightarrow> 'a machine_scheme" where
  "removeRuntimeState name m = m\<lparr>mc_states := (mc_states m)(runtimeStatePath m name := NoFile)\<rparr>"

section \<open>Processes\<close>

definition isPIDRunning :: "'a machine_scheme \<Rightarrow> int \<Rightarrow> bool" where
  "isPIDRunning m pid \<longleftrightarrow> 0 < pid \<and> (case mc_procs m pid of Some p \<Rightarrow> op_ours p | None \<Rightarrow> False)"

definition processLooksLikeTunnel :: "'a machine_scheme \<Rightarrow> int \<Rightarrow> string \<Rightarrow> bool" where
  "processLooksLikeTunnel m pid name \<longleftrightarrow>
     0 < pid \<and> mc_ps m \<and>
     (case mc_procs m pid of
        None \<Rightarrow> False
      | Some p \<Rightarrow>
          (let cmdline = trim_space (op_args p)
           in cmdline \<noteq> [] \<and> contains_str cmdline ''tunnel'' \<and> contains_str cmdline ''start'' \<and> contains_str cmdline name))"

definition runtimeStateIfRunning :: "string \<Rightarrow> 'a machine_scheme \<Rightarrow> runtime_state option \<times> 'a machine_scheme" where
  "runtimeStateIfRunning name m =
     (case readRuntimeState m name of
        None \<Rightarrow> (None, m)
      | Some st \<Rightarrow>
          if \<not> isPIDRunning m (rt_pid st) then (None, removeRuntimeState name m)
          else if processLooksLikeTunnel m (rt_pid st) name then (Some st, m)
          else if \<not> is_zero (rt_started st) \<and> mc_now m - rt_started st < 2 * minute then (Some st, m)
          else (None, removeRuntimeState name m))"

text \<open>
  The loop of \<open>stopPID\<close>: \<open>clock k\<close> and \<open>alive k\<close> are what the k-th look at the clock and at
  the process sees. It returns whether the process has gone, and the number of looks.
\<close>

partial_function (option) await_exit :: "(nat \<Rightarrow> time) \<Rightarrow> (nat \<Rightarrow> bool) \<Rightarrow> time \<Rightarrow> nat \<Rightarrow> (bool \<times> nat) option" where
  "await_exit clock alive deadline k =
     (if clock k < deadline then (if \<not> alive k then Some (True, k) else await_exit clock alive deadline (Suc k))
      else Some (False, k))"

definition send_signal :: "int \<Rightarrow> int \<Rightarrow> 'a machine_scheme \<Rightarrow> (string + unit) \<times> 'a machine_scheme" where
  "send_signal pid sig m =
     (case mc_procs m pid of
        None \<Rightarrow> (Inl ''os: process already finished'', m)
      | Some p \<Rightarrow>
          if op_ours p then (Inr (), m\<lparr>mc_signals := mc_signals m @ [(pid, sig)]\<rparr>)
          else (Inl ''operation not permitted'', m))"

definition stopPID ::
  "(nat \<Rightarrow> time) \<Rightarrow> (nat \<Rightarrow> bool) \<Rightarrow> int \<Rightarrow> time \<Rightarrow> 'a machine_scheme \<Rightarrow> ((string + unit) \<times> 'a machine_scheme) option" where
  "stopPID clock alive pid timeout m =
     (case send_signal pid 15 m of
        (Inl e, m1) \<Rightarrow> Some (Inl e, m1)
      | (Inr _, m1) \<Rightarrow>
          (case await_exit clock alive (mc_now m1 + timeout) 0 of
             None \<Rightarrow> None
           | Some (gone, k) \<Rightarrow>
               (let m2 = (if gone then m1 else snd (send_signal pid 9 m1))
                in Some (Inr (), m2\<lparr>mc_procs := (mc_procs m2)(pid := None), mc_now := clock k\<rparr>))))"

section \<open>Facts\<close>

lemma runtimeStatePath_inj: "runtimeStatePath m a = runtimeStatePath m b \<longleftrightarrow> a = b"
  by (simp add: runtimeStatePath_def)

lemma runtimeStatePath_eq: "mc_dir m = mc_dir n \<Longrightarrow> runtimeStatePath m a = runtimeStatePath n a"
  by (simp add: runtimeStatePath_def runtimeDir_def)

lemma removeRuntimeState_frame [simp]:
  "mc_home (removeRuntimeState n m) = mc_home m" "mc_env (removeRuntimeState n m) = mc_env m"
  "mc_dir (removeRuntimeState n m) = mc_dir m" "mc_logs (removeRuntimeState n m) = mc_logs m"
  "mc_disk (removeRuntimeState n m) = mc_disk m" "mc_ps (removeRuntimeState n m) = mc_ps m"
  "mc_procs (removeRuntimeState n m) = mc_procs m" "mc_signals (removeRuntimeState n m) = mc_signals m"
  "mc_now (removeRuntimeState n m) = mc_now m" "machine.more (removeRuntimeState n m) = machine.more m"
  by (simp_all add: removeRuntimeState_def)

lemma runtimeStateIfRunning_state:
  "snd (runtimeStateIfRunning name m) = m \<or> snd (runtimeStateIfRunning name m) = removeRuntimeState name m"
  by (auto simp: runtimeStateIfRunning_def split: option.split)

lemma runtimeStateIfRunning_None:
  "fst (runtimeStateIfRunning name m) = None \<Longrightarrow>
   mc_states (snd (runtimeStateIfRunning name m)) (runtimeStatePath m name) \<in> {NoFile, Unparsable}"
  by (auto simp: runtimeStateIfRunning_def readRuntimeState_def removeRuntimeState_def
      split: option.splits client_file.splits if_splits)

lemma await_exit_returns:
  assumes "\<And>k. clock k + step \<le> clock (Suc k)" and "0 < step"
  shows "\<exists>g n. await_exit clock alive deadline k = Some (g, n) \<and> k \<le> n \<and> (n = k \<or> clock (n - 1) < deadline) \<and>
    (g \<longrightarrow> \<not> alive n \<and> clock n < deadline) \<and> (\<not> g \<longrightarrow> deadline \<le> clock n) \<and> (\<forall>j. k \<le> j \<and> j < n \<longrightarrow> alive j)"
proof (induction "nat (deadline - clock k)" arbitrary: k rule: less_induct)
  case less
  show ?case
  proof (cases "clock k < deadline \<and> alive k")
    case False
    then show ?thesis by (subst await_exit.simps) auto
  next
    case True
    then have eq: "await_exit clock alive deadline k = await_exit clock alive deadline (Suc k)"
      by (subst await_exit.simps) simp
    have "nat (deadline - clock (Suc k)) < nat (deadline - clock k)" using True assms(1) [of k] assms(2) by linarith
    from less [OF this] obtain g n where n: "await_exit clock alive deadline (Suc k) = Some (g, n)" "Suc k \<le> n"
      "n = Suc k \<or> clock (n - 1) < deadline" "g \<longrightarrow> \<not> alive n \<and> clock n < deadline" "\<not> g \<longrightarrow> deadline \<le> clock n"
      "\<forall>j. Suc k \<le> j \<and> j < n \<longrightarrow> alive j" by blast
    have "alive j" if "k \<le> j" "j < n" for j using that n(6) True by (cases "j = k") auto
    moreover have "clock (n - 1) < deadline" using n(2,3) True by auto
    ultimately show ?thesis using n(1,2,4,5) eq by (metis Suc_leD)
  qed
qed

end
