(* ===== verification/Manager.thy ===== *)
theory Manager
  imports RunState Connector
begin

text \<open>
  The tunnel manager of the command line: internal/tunnel/tunnel.go. It keeps the session, the
  agent credential and the runtime files of the machine and calls the control plane. The control
  plane is a parameter \<open>net\<close>: its answer to the last of the calls made so far (newest first);
  what \<open>json.Decode\<close> makes of a body is part of the answer.
\<close>

section \<open>Calls of the control plane\<close>

record api_tunnel =
  at_id :: int
  at_name :: string
  at_hostname :: string
  at_local :: string
  at_agent_id :: int
  at_agent :: string
  at_desired :: string
  at_actual :: string
  at_last_error :: string
  at_created :: time
  at_updated :: time

datatype api_body = No_body | Empty_object | Name_body string | Create_body string string string string string

record api_call =
  ac_url :: url
  ac_method :: string
  ac_token :: "string option"
  ac_json :: bool
  ac_body :: api_body

record api_reply =
  re_status :: int
  re_status_text :: string
  re_raw :: string
  re_tunnel :: "string + api_tunnel"
  re_tunnels :: "string + api_tunnel list"
  re_agent :: "string + (string \<times> string)"

type_synonym control_plane = "api_call list \<Rightarrow> string + api_reply"

record client = machine +
  cl_calls :: "api_call list"

text \<open>\<open>url.PathEscape\<close>\<close>

definition unreserved :: "char \<Rightarrow> bool" where
  "unreserved c \<longleftrightarrow> is_letter c \<or> is_digit c \<or> c \<in> set ''-_.~$&+:=@''"

definition upper_hex :: "nat \<Rightarrow> char" where
  "upper_hex n = ''0123456789ABCDEF'' ! n"

definition PathEscape :: "string \<Rightarrow> string" where
  "PathEscape s = concat (map (\<lambda>c. if unreserved c then [c]
     else [CHR ''%'', upper_hex (of_char c div 16), upper_hex (of_char c mod 16)]) s)"

text \<open>\<open>resolvePath\<close> for an absolute path: the dot segments are removed.\<close>

fun resolve_elems :: "string \<Rightarrow> bool \<Rightarrow> string list \<Rightarrow> string" where
  "resolve_elems dst first [] = dst"
| "resolve_elems dst first (e # es) =
     (if e = ''.'' then resolve_elems dst False es
      else if e = ''..'' then
        (case cut_last CHR ''/'' (tl dst) of
           None \<Rightarrow> resolve_elems ''/'' True es
         | Some (a, _) \<Rightarrow> resolve_elems (''/'' @ a) first es)
      else resolve_elems (dst @ (if first then [] else ''/'') @ e) False es)"

definition resolvePath :: "string \<Rightarrow> string" where
  "resolvePath full =
     (let es = split_on CHR ''/'' full; r0 = resolve_elems ''/'' True es;
          r = (if last es \<in> {''.'', ''..''} then r0 @ ''/'' else r0)
      in if 1 < length r \<and> r ! 1 = CHR ''/'' then tl r else r)"

text \<open>\<open>base.ResolveReference(&url.URL{Path: path})\<close>: the literal text of the path is the path.\<close>

definition resolve_reference :: "url \<Rightarrow> string \<Rightarrow> url" where
  "resolve_reference base path =
     base\<lparr>url_opaque := [], url_path := resolvePath path, url_query := [], url_force_query := False, url_frag := []\<rparr>"

definition api_request :: "url \<Rightarrow> string \<Rightarrow> string \<Rightarrow> string \<Rightarrow> api_body \<Rightarrow> api_call" where
  "api_request base accessToken meth path body0 =
     (let body = (if body0 = No_body \<and> meth \<in> {''POST'', ''PATCH''} then Empty_object else body0)
      in \<lparr>ac_url = resolve_reference base path, ac_method = meth,
          ac_token = (if trim_space accessToken \<noteq> [] then Some accessToken else None),
          ac_json = (body \<noteq> No_body), ac_body = body\<rparr>)"

definition apiJSON ::
  "control_plane \<Rightarrow> url \<Rightarrow> string \<Rightarrow> string \<Rightarrow> string \<Rightarrow> api_body \<Rightarrow> int \<Rightarrow> 'a client_scheme \<Rightarrow>
   (string + api_reply) \<times> 'a client_scheme" where
  "apiJSON net base accessToken meth path body wantStatus m =
     (let m1 = m\<lparr>cl_calls := api_request base accessToken meth path body # cl_calls m\<rparr>
      in case net (cl_calls m1) of
          Inl e \<Rightarrow> (Inl e, m1)
        | Inr x \<Rightarrow>
            if re_status x \<noteq> wantStatus then
              (let msg0 = trim_space (take 2048 (re_raw x)); msg = (if msg0 = [] then re_status_text x else msg0)
               in (Inl (meth @ '' '' @ path @ '': '' @ msg), m1))
            else (Inr x, m1))"

section \<open>Session and credential\<close>

definition errClientConfigRequired :: string where
  "errClientConfigRequired = ''client config required: set FWDX_SERVER or ~/.fwdx/client.json''"

definition errLoginRequired :: string where
  "errLoginRequired = ''login required: run '' @ [CHR 0x27] @ ''fwdx login'' @ [CHR 0x27]"

definition loadControlPlaneContext ::
  "'a machine_scheme \<Rightarrow> (string + client_config \<times> auth_session \<times> url) \<times> 'a machine_scheme" where
  "loadControlPlaneContext m =
     (let cfg0 = LoadClientConfig (mc_home m) (mc_env m)
      in case LoadAuthSession (mc_home m) of
          None \<Rightarrow> (Inl errLoginRequired, m)
        | Some sess \<Rightarrow>
            if trim_space (au_token sess) = [] then (Inl errLoginRequired, m)
            else
              (let (cfg, m1) =
                 (if trim_space (cc_server cfg0) = [] then
                    (let c = cfg0\<lparr>cc_server := trim_space (au_server sess)\<rparr>
                     in (c, m\<lparr>mc_home := snd (SaveClientConfig (mc_disk m) (mc_home m) c)\<rparr>))
                  else (cfg0, m))
               in if trim_space (cc_server cfg) = [] then (Inl errClientConfigRequired, m1)
                  else case parse_url (trim_suffix (cc_server cfg) ''/'') of
                      None \<Rightarrow> (Inl ''parse error'', m1)
                    | Some base \<Rightarrow> (Inr (cfg, sess, base), m1)))"

text \<open>\<open>bytes\<close> is what \<open>rand.Read\<close> delivers, if it does; its error is ignored.\<close>

definition alphabet :: string where
  "alphabet = ''abcdefghijklmnopqrstuvwxyz0123456789''"

definition randomString :: "nat list option \<Rightarrow> string" where
  "randomString bytes = (case bytes of None \<Rightarrow> [] | Some bs \<Rightarrow> map (\<lambda>b. alphabet ! (b mod length alphabet)) bs)"

text \<open>\<open>hostname\<close> is the name of the machine.\<close>

definition default_agent_name :: "string \<Rightarrow> nat list option \<Rightarrow> string" where
  "default_agent_name hostname bytes =
     (let host0 = replace_char CHR '' '' CHR ''-'' (replace_char CHR ''.'' CHR ''-'' (to_lower (trim_space hostname)));
          host = (if host0 = [] then ''local'' else host0)
      in host @ ''-'' @ to_lower (randomString bytes))"

record agent_seed =
  sd_hostname :: string
  sd_bytes :: "nat list option"

definition ensureAgentCredential ::
  "control_plane \<Rightarrow> agent_seed \<Rightarrow> client_config \<Rightarrow> auth_session \<Rightarrow> url \<Rightarrow> 'a client_scheme \<Rightarrow>
   (string + client_config) \<times> 'a client_scheme" where
  "ensureAgentCredential net seed cfg sess base m =
     (if trim_space (cc_agent cfg) \<noteq> [] \<and> trim_space (cc_token cfg) \<noteq> [] then (Inr cfg, m)
      else
        (let name = (if cc_agent cfg = [] then default_agent_name (sd_hostname seed) (sd_bytes seed) else cc_agent cfg)
         in case apiJSON net base (au_token sess) ''POST'' ''/api/agents'' (Name_body name) 201 m of
             (Inl e, m1) \<Rightarrow> (Inl e, m1)
           | (Inr x, m1) \<Rightarrow>
               (case re_agent x of
                  Inl e \<Rightarrow> (Inl e, m1)
                | Inr (agent, credential) \<Rightarrow>
                    (let cfg' = cfg\<lparr>cc_agent := agent, cc_token := credential\<rparr>
                     in case SaveClientConfig (mc_disk m1) (mc_home m1) cfg' of
                         (Inl e, h) \<Rightarrow> (Inl e, m1\<lparr>mc_home := h\<rparr>)
                       | (Inr _, h) \<Rightarrow> (Inr cfg', m1\<lparr>mc_home := h\<rparr>)))))"

definition normalizeLocalURL :: "string \<Rightarrow> string" where
  "normalizeLocalURL l =
     (let l' = trim_space l in if has_prefix l' ''http://'' \<or> has_prefix l' ''https://'' then l' else ''http://'' @ l')"

section \<open>Tunnels\<close>

record tunnel_view =
  tv_name :: string
  tv_hostname :: string
  tv_local :: string
  tv_agent :: string
  tv_desired :: string
  tv_actual :: string
  tv_created :: time
  tv_updated :: time
  tv_running :: bool
  tv_pid :: int

definition fromAPI :: "api_tunnel \<Rightarrow> 'a machine_scheme \<Rightarrow> tunnel_view \<times> 'a machine_scheme" where
  "fromAPI x m =
     (let t = \<lparr>tv_name = at_name x, tv_hostname = at_hostname x, tv_local = at_local x, tv_agent = at_agent x,
               tv_desired = at_desired x, tv_actual = at_actual x, tv_created = at_created x, tv_updated = at_updated x,
               tv_running = False, tv_pid = 0\<rparr>
      in case runtimeStateIfRunning (at_name x) m of
          (Some st, m1) \<Rightarrow> (t\<lparr>tv_running := True, tv_pid := rt_pid st\<rparr>, m1)
        | (None, m1) \<Rightarrow> (t, m1))"

fun all_fromAPI :: "api_tunnel list \<Rightarrow> 'a machine_scheme \<Rightarrow> tunnel_view list \<times> 'a machine_scheme" where
  "all_fromAPI [] m = ([], m)"
| "all_fromAPI (x # xs) m =
     (case fromAPI x m of (t, m1) \<Rightarrow> (case all_fromAPI xs m1 of (ts, m2) \<Rightarrow> (t # ts, m2)))"

definition tunnel_path :: "string \<Rightarrow> string" where
  "tunnel_path name = ''/api/tunnels/'' @ PathEscape (to_lower name)"

definition Create ::
  "control_plane \<Rightarrow> agent_seed \<Rightarrow> string \<Rightarrow> string \<Rightarrow> string \<Rightarrow> string \<Rightarrow> 'a client_scheme \<Rightarrow>
   (string + tunnel_view) \<times> 'a client_scheme" where
  "Create net seed l subdomain customURL customName m =
     (case loadControlPlaneContext m of
        (Inl e, m1) \<Rightarrow> (Inl e, m1)
      | (Inr (cfg, sess, base), m1) \<Rightarrow>
          (case ensureAgentCredential net seed cfg sess base m1 of
             (Inl e, m2) \<Rightarrow> (Inl e, m2)
           | (Inr cfg', m2) \<Rightarrow>
               (let name0 = trim_space customName;
                    name = (if name0 \<noteq> [] then name0
                            else if subdomain \<noteq> [] then subdomain @ ''-tunnel''
                            else replace_char CHR ''.'' CHR ''-'' (trim_space customURL) @ ''-tunnel'')
                in case apiJSON net base (au_token sess) ''POST'' ''/api/tunnels''
                       (Create_body name subdomain customURL l (cc_agent cfg')) 201 m2 of
                    (Inl e, m3) \<Rightarrow> (Inl e, m3)
                  | (Inr x, m3) \<Rightarrow>
                      (case re_tunnel x of
                         Inl e \<Rightarrow> (Inl e, m3)
                       | Inr rec \<Rightarrow> (case fromAPI rec m3 of (t, m4) \<Rightarrow> (Inr t, m4))))))"

definition Get_tunnel ::
  "control_plane \<Rightarrow> string \<Rightarrow> 'a client_scheme \<Rightarrow> (string + tunnel_view) \<times> 'a client_scheme" where
  "Get_tunnel net name m =
     (case loadControlPlaneContext m of
        (Inl e, m1) \<Rightarrow> (Inl e, m1)
      | (Inr (_, sess, base), m1) \<Rightarrow>
          (case apiJSON net base (au_token sess) ''GET'' (tunnel_path name) No_body 200 m1 of
             (Inl e, m2) \<Rightarrow> (Inl e, m2)
           | (Inr x, m2) \<Rightarrow>
               (case re_tunnel x of
                  Inl e \<Rightarrow> (Inl e, m2)
                | Inr rec \<Rightarrow> (case fromAPI rec m2 of (t, m3) \<Rightarrow> (Inr t, m3)))))"

definition List_tunnels ::
  "control_plane \<Rightarrow> 'a client_scheme \<Rightarrow> (string + tunnel_view list) \<times> 'a client_scheme" where
  "List_tunnels net m =
     (case loadControlPlaneContext m of
        (Inl e, m1) \<Rightarrow> (Inl e, m1)
      | (Inr (_, sess, base), m1) \<Rightarrow>
          (case apiJSON net base (au_token sess) ''GET'' ''/api/tunnels'' No_body 200 m1 of
             (Inl e, m2) \<Rightarrow> (Inl e, m2)
           | (Inr x, m2) \<Rightarrow>
               (case re_tunnels x of
                  Inl e \<Rightarrow> (Inl e, m2)
                | Inr recs \<Rightarrow> (case all_fromAPI recs m2 of (ts, m3) \<Rightarrow> (Inr ts, m3)))))"

section \<open>Start and stop\<close>

text \<open>The common beginning of \<open>Start\<close> and \<open>StartDetached\<close>: the tunnel and the configuration.\<close>

definition prepare ::
  "control_plane \<Rightarrow> agent_seed \<Rightarrow> string \<Rightarrow> 'a client_scheme \<Rightarrow> (string + tunnel_view \<times> client_config) \<times> 'a client_scheme" where
  "prepare net seed name m =
     (case Get_tunnel net name m of
        (Inl e, m1) \<Rightarrow> (Inl e, m1)
      | (Inr t, m1) \<Rightarrow>
          (case loadControlPlaneContext m1 of
             (Inl e, m2) \<Rightarrow> (Inl e, m2)
           | (Inr (cfg, sess, base), m2) \<Rightarrow>
               (case ensureAgentCredential net seed cfg sess base m2 of
                  (Inl e, m3) \<Rightarrow> (Inl e, m3)
                | (Inr cfg', m3) \<Rightarrow>
                    (case runtimeStateIfRunning name m3 of
                       (Some _, m4) \<Rightarrow> (Inl (''tunnel '' @ name @ '' is already running''), m4)
                     | (None, m4) \<Rightarrow>
                         (Inr (t, cfg'), if readRuntimeState m4 name \<noteq> None then removeRuntimeState name m4 else m4)))))"

text \<open>\<open>Start\<close> up to its call of \<open>Connect\<close>: the tunnel URL, the credential, the name and the local URL.\<close>

definition Start ::
  "control_plane \<Rightarrow> agent_seed \<Rightarrow> string \<Rightarrow> 'a client_scheme \<Rightarrow>
   (string + string \<times> string \<times> string \<times> string) \<times> 'a client_scheme" where
  "Start net seed name m =
     (case prepare net seed name m of
        (Inl e, m1) \<Rightarrow> (Inl e, m1)
      | (Inr (t, cfg), m1) \<Rightarrow> (Inr (TunnelURL cfg, cc_token cfg, tv_name t, normalizeLocalURL (tv_local t)), m1))"

text \<open>
  What the operating system answers when a process is started: the error of opening the log, the
  path of the program or an error, the number of the new process or an error.
\<close>

record spawning =
  sp_log :: "string option"
  sp_exe :: "string + string"
  sp_start :: "string + int"

definition child_args :: "string \<Rightarrow> string \<Rightarrow> bool \<Rightarrow> string" where
  "child_args exe name debug = exe @ '' tunnel start '' @ name @ '' --watch'' @ (if debug then '' --debug'' else [])"

definition StartDetached ::
  "control_plane \<Rightarrow> agent_seed \<Rightarrow> spawning \<Rightarrow> string \<Rightarrow> bool \<Rightarrow> 'a client_scheme \<Rightarrow>
   (string + runtime_state) \<times> 'a client_scheme" where
  "StartDetached net seed sp name debug m =
     (case prepare net seed name m of
        (Inl e, m1) \<Rightarrow> (Inl e, m1)
      | (Inr (t, _), m1) \<Rightarrow>
          (let logPath = runtimeLogPath m1 name
           in case sp_log sp of
               Some e \<Rightarrow> (Inl e, m1)
             | None \<Rightarrow>
                 (let m2 = (if mc_logs m1 logPath = None then m1\<lparr>mc_logs := (mc_logs m1)(logPath := Some [])\<rparr> else m1)
                  in case sp_exe sp of
                      Inl e \<Rightarrow> (Inl e, m2)
                    | Inr exe \<Rightarrow>
                        (case sp_start sp of
                           Inl e \<Rightarrow> (Inl e, m2)
                         | Inr pid \<Rightarrow>
                             (let m3 = m2\<lparr>mc_procs := (mc_procs m2)(pid \<mapsto> \<lparr>op_args = child_args exe name debug, op_ours = True\<rparr>)\<rparr>;
                                  st = \<lparr>rt_name = name, rt_hostname = tv_hostname t, rt_local = tv_local t, rt_pid = pid,
                                        rt_log = logPath, rt_started = mc_now m3\<rparr>
                              in case writeRuntimeState st m3 of
                                  (Inl e, m4) \<Rightarrow> (Inl e, m4\<lparr>mc_procs := (mc_procs m4)(pid := None)\<rparr>)
                                | (Inr _, m4) \<Rightarrow> (Inr st, m4))))))"

text \<open>\<open>Stop\<close>: no result when the loop of \<open>stopPID\<close> does not end.\<close>

definition Stop ::
  "control_plane \<Rightarrow> (nat \<Rightarrow> time) \<Rightarrow> (nat \<Rightarrow> bool) \<Rightarrow> string \<Rightarrow> 'a client_scheme \<Rightarrow>
   ((string + unit) \<times> 'a client_scheme) option" where
  "Stop net clock alive name m =
     (case runtimeStateIfRunning name m of
        (None, m1) \<Rightarrow> Some (Inl (''tunnel '' @ name @ '' is not running''), removeRuntimeState name m1)
      | (Some st, m1) \<Rightarrow>
          (case stopPID clock alive (rt_pid st) (5 * second) m1 of
             None \<Rightarrow> None
           | Some (Inl e, m2) \<Rightarrow> Some (Inl e, m2)
           | Some (Inr _, m2) \<Rightarrow>
               (let m3 = removeRuntimeState name m2
                in case loadControlPlaneContext m3 of
                    (Inl _, m4) \<Rightarrow> Some (Inr (), m4)
                  | (Inr (_, sess, base), m4) \<Rightarrow>
                      Some (Inr (), snd (apiJSON net base (au_token sess) ''POST'' (tunnel_path name @ ''/stop'') Empty_object 200 m4)))))"

definition Delete ::
  "control_plane \<Rightarrow> (nat \<Rightarrow> time) \<Rightarrow> (nat \<Rightarrow> bool) \<Rightarrow> string \<Rightarrow> bool \<Rightarrow> 'a client_scheme \<Rightarrow>
   ((string + unit) \<times> 'a client_scheme) option" where
  "Delete net clock alive name force m =
     (let remove = (\<lambda>m. case loadControlPlaneContext m of
              (Inl e, m1) \<Rightarrow> (Inl e, m1)
            | (Inr (_, sess, base), m1) \<Rightarrow>
                (case apiJSON net base (au_token sess) ''DELETE'' (tunnel_path name) No_body 204 m1 of
                   (Inl e, m2) \<Rightarrow> (Inl e, m2)
                 | (Inr _, m2) \<Rightarrow> (Inr (), m2)))
      in case runtimeStateIfRunning name m of
          (None, m1) \<Rightarrow> Some (remove m1)
        | (Some _, m1) \<Rightarrow>
            if \<not> force then Some (Inl (''tunnel '' @ name @ '' is running; stop it first or use --force''), m1)
            else (case Stop net clock alive name m1 of
                None \<Rightarrow> None
              | Some (Inl e, m2) \<Rightarrow> Some (Inl e, m2)
              | Some (Inr _, m2) \<Rightarrow> Some (remove m2)))"

section \<open>Logs\<close>

text \<open>The last lines of the file, as they are printed before following.\<close>

definition log_lines :: "string \<Rightarrow> string list" where
  "log_lines txt = (let all = split_on CHR 0x0A txt in if last all = [] then butlast all else all)"

definition last_lines :: "int \<Rightarrow> string \<Rightarrow> string" where
  "last_lines n txt = (let all = log_lines txt in join_with [CHR 0x0A] (drop (length all - nat n) all))"

text \<open>
  Following: in every round the file as it is then, the error of reading it, and whether the
  tunnel still runs. The rounds that follow are those of the list.
\<close>

fun follow_log :: "(string \<times> string option \<times> bool) list \<Rightarrow> nat \<Rightarrow> string \<Rightarrow> (string + unit) option \<times> string" where
  "follow_log [] pos out = (None, out)"
| "follow_log ((txt, err, running) # rounds) pos out =
     (let chunk = take 4096 (drop pos txt); out' = out @ chunk
      in case err of
          Some e \<Rightarrow> (Some (Inl e), out')
        | None \<Rightarrow> if \<not> running then (Some (Inr ()), out') else follow_log rounds (pos + length chunk) out')"

definition log_path :: "string \<Rightarrow> 'a machine_scheme \<Rightarrow> string \<times> 'a machine_scheme" where
  "log_path name m =
     (case runtimeStateIfRunning name m of
        (Some st, m1) \<Rightarrow> (if rt_log st \<noteq> [] then rt_log st else runtimeLogPath m1 name, m1)
      | (None, m1) \<Rightarrow> (runtimeLogPath m1 name, m1))"

definition TailLogs ::
  "(string \<times> string option \<times> bool) list \<Rightarrow> string \<Rightarrow> int \<Rightarrow> bool \<Rightarrow> 'a machine_scheme \<Rightarrow>
   ((string + unit) option \<times> string) \<times> 'a machine_scheme" where
  "TailLogs rounds name lines0 follow m =
     (let n = (if lines0 \<le> 0 then 100 else lines0); (path, m1) = log_path name m
      in case mc_logs m1 path of
          None \<Rightarrow> ((Some (Inl ''read logs: no such file''), []), m1)
        | Some txt \<Rightarrow>
            if \<not> follow then ((Some (Inr ()), last_lines n txt), m1)
            else (follow_log rounds (length txt) (last_lines n txt), m1))"

end
