(* ===== verification/Cli.thy ===== *)
theory Cli
  imports Manager Server
begin

text \<open>
  The commands of the program, cmd/fwdx: the configuration of the server command, the choice of
  the server to talk to, login and logout, and the commands that call a server or the tunnel
  manager. Flag parsing (cobra) and the layout of the output are left out: a command takes its
  flags as arguments and returns what it prints. The servers are a parameter \<open>web\<close>, the answer
  to the last of the calls made so far (newest first), with what the body decodes to.
\<close>

section \<open>The serve command\<close>

record serve_flags =
  fl_hostname :: string
  fl_web_port :: int
  fl_grpc_port :: int
  fl_cert :: string
  fl_key :: string
  fl_data_dir :: string
  fl_issuer :: string
  fl_client_id :: string
  fl_client_secret :: string
  fl_redirect :: string
  fl_scopes :: string
  fl_emails :: string
  fl_subjects :: string
  fl_groups :: string
  fl_session_secret :: string
  fl_device_client :: string
  fl_trusted :: string

definition default_flags :: "string \<Rightarrow> serve_flags" where
  "default_flags home =
     \<lparr>fl_hostname = [], fl_web_port = 8080, fl_grpc_port = 4440, fl_cert = [], fl_key = [],
      fl_data_dir = home @ ''/.fwdx-server'', fl_issuer = [], fl_client_id = [], fl_client_secret = [], fl_redirect = [],
      fl_scopes = ''openid,profile,email'', fl_emails = [], fl_subjects = [], fl_groups = [],
      fl_session_secret = [], fl_device_client = [], fl_trusted = []\<rparr>"

definition splitCSV :: "string \<Rightarrow> string list" where
  "splitCSV v = filter (\<lambda>p. p \<noteq> []) (map trim_space (split_on CHR '','' v))"

text \<open>A flag that is empty takes the variable; other flags give way to a variable that is set.\<close>

definition flag_first :: "string \<Rightarrow> string \<Rightarrow> string" where
  "flag_first flag var = (if flag = [] then var else flag)"

definition env_first :: "string \<Rightarrow> string \<Rightarrow> string" where
  "env_first flag var = (if var \<noteq> [] then var else flag)"

definition serve_config :: "serve_flags \<Rightarrow> (string \<Rightarrow> string) \<Rightarrow> string + config" where
  "serve_config fl var =
     (let hostname = flag_first (fl_hostname fl) (var ''FWDX_HOSTNAME'')
      in if hostname = [] then Inl ''hostname is required (--hostname or FWDX_HOSTNAME)''
         else Inr \<lparr>cf_hostname = hostname, cf_web_port = fl_web_port fl, cf_grpc_port = fl_grpc_port fl,
           cf_cert = fl_cert fl, cf_key = fl_key fl, cf_data_dir = fl_data_dir fl,
           cf_issuer = flag_first (fl_issuer fl) (var ''FWDX_OIDC_ISSUER''),
           cf_client_id = flag_first (fl_client_id fl) (var ''FWDX_OIDC_CLIENT_ID''),
           cf_client_secret = flag_first (fl_client_secret fl) (var ''FWDX_OIDC_CLIENT_SECRET''),
           cf_redirect_url = flag_first (fl_redirect fl) (var ''FWDX_OIDC_REDIRECT_URL''),
           cf_scopes = splitCSV (env_first (fl_scopes fl) (var ''FWDX_OIDC_SCOPES'')),
           cf_admin_emails = splitCSV (env_first (fl_emails fl) (var ''FWDX_OIDC_ADMIN_EMAILS'')),
           cf_admin_subjects = splitCSV (env_first (fl_subjects fl) (var ''FWDX_OIDC_ADMIN_SUBJECTS'')),
           cf_admin_groups = splitCSV (env_first (fl_groups fl) (var ''FWDX_OIDC_ADMIN_GROUPS'')),
           cf_session_secret = flag_first (fl_session_secret fl) (var ''FWDX_OIDC_SESSION_SECRET''),
           cf_device_client_id = flag_first (fl_device_client fl) (var ''FWDX_OIDC_DEVICE_CLIENT_ID''),
           cf_trusted = splitCSV (env_first (fl_trusted fl) (var ''FWDX_TRUSTED_PROXY_CIDRS''))\<rparr>)"

definition runServe :: "serve_flags \<Rightarrow> (string \<Rightarrow> string) \<Rightarrow> domain_file \<Rightarrow> string + store \<Rightarrow> string + server" where
  "runServe fl var file opened = (case serve_config fl var of Inl e \<Rightarrow> Inl e | Inr cfg \<Rightarrow> New cfg file opened)"

section \<open>The server to talk to\<close>

definition resolveServerURL :: "string \<Rightarrow> 'a machine_scheme \<Rightarrow> string + string" where
  "resolveServerURL explicit m =
     (let cfg = LoadClientConfig (mc_home m) (mc_env m) in
      if trim_space explicit \<noteq> [] then Inr (trim_space explicit)
      else if trim_space (ev_server (mc_env m)) \<noteq> [] then Inr (trim_space (ev_server (mc_env m)))
      else if trim_space (cc_server cfg) \<noteq> [] then Inr (trim_space (cc_server cfg))
      else Inl ''server is required (--server or FWDX_SERVER)'')"

definition resolveServerBase :: "string \<Rightarrow> 'a machine_scheme \<Rightarrow> string + url" where
  "resolveServerBase explicit m =
     (case resolveServerURL explicit m of
        Inl e \<Rightarrow> Inl e
      | Inr server \<Rightarrow> (case parse_url (trim_suffix server ''/'') of None \<Rightarrow> Inl ''parse error'' | Some u \<Rightarrow> Inr u))"

definition not_logged_in :: string where
  "not_logged_in = ''not logged in: run '' @ [CHR 0x27] @ ''fwdx login'' @ [CHR 0x27]"

definition requireAuthSession :: "'a machine_scheme \<Rightarrow> string + auth_session" where
  "requireAuthSession m =
     (case LoadAuthSession (mc_home m) of
        None \<Rightarrow> Inl not_logged_in
      | Some s \<Rightarrow> if au_token s = [] then Inl not_logged_in else Inr s)"

section \<open>Calls of a server\<close>

record device_grant =
  dg_code :: string
  dg_user_code :: string
  dg_uri :: string
  dg_uri_complete :: string
  dg_expires :: int
  dg_interval :: int

record granted_token =
  gt_token :: string
  gt_expires :: string
  gt_subject :: string
  gt_email :: string
  gt_name :: string
  gt_role :: string

record web_call =
  wc_url :: url
  wc_method :: string
  wc_token :: "string option"
  wc_json :: bool
  wc_body :: "(string \<times> string) list option"

record web_reply =
  wy_status :: int
  wy_text :: string
  wy_device :: "string + device_grant"
  wy_granted :: "string + granted_token"
  wy_agent :: "string + (string \<times> string)"
  wy_agents :: "string + (string \<times> string) list"
  wy_me :: "string + (string \<times> string \<times> string \<times> string)"
  wy_hosts :: "string + (string \<times> string) list"
  wy_domains :: "string + string list"
  wy_info :: "string + string"

type_synonym web = "web_call list \<Rightarrow> string + web_reply"

record shell = client +
  sh_calls :: "web_call list"

text \<open>\<open>http.DefaultClient.Do\<close> and the status check with its message.\<close>

definition do_call :: "web \<Rightarrow> web_call \<Rightarrow> 'a shell_scheme \<Rightarrow> (string + web_reply) \<times> 'a shell_scheme" where
  "do_call web c m = (let m1 = m\<lparr>sh_calls := c # sh_calls m\<rparr> in (web (sh_calls m1), m1))"

definition expect :: "string \<Rightarrow> int \<Rightarrow> string + web_reply \<Rightarrow> string + web_reply" where
  "expect what status reply =
     (case reply of
        Inl e \<Rightarrow> Inl e
      | Inr x \<Rightarrow> if wy_status x \<noteq> status then Inl (what @ '': '' @ wy_text x) else Inr x)"

definition session_call :: "url \<Rightarrow> auth_session \<Rightarrow> string \<Rightarrow> string \<Rightarrow> (string \<times> string) list option \<Rightarrow> web_call" where
  "session_call base s meth path body =
     \<lparr>wc_url = resolve_reference base path, wc_method = meth, wc_token = Some (au_token s), wc_json = (body \<noteq> None), wc_body = body\<rparr>"

section \<open>Login and logout\<close>

definition login_session :: "(string \<Rightarrow> time) \<Rightarrow> url \<Rightarrow> granted_token \<Rightarrow> auth_session" where
  "login_session parse_time base g =
     \<lparr>au_server = url_string base, au_token = gt_token g, au_expires = parse_time (gt_expires g), au_subject = gt_subject g,
      au_email = gt_email g, au_name = gt_name g, au_role = gt_role g\<rparr>"

definition poll_call :: "url \<Rightarrow> string \<Rightarrow> web_call" where
  "poll_call base code = \<lparr>wc_url = resolve_reference base ''/auth/device/poll'', wc_method = ''POST'', wc_token = None,
     wc_json = True, wc_body = Some [(''device_code'', code)]\<rparr>"

text \<open>The polling loop; \<open>clock k\<close> is the time before the k-th poll.\<close>

partial_function (option) poll_loop ::
  "web \<Rightarrow> (string \<Rightarrow> time) \<Rightarrow> (nat \<Rightarrow> time) \<Rightarrow> url \<Rightarrow> string \<Rightarrow> time \<Rightarrow> nat \<Rightarrow> 'a shell_scheme \<Rightarrow>
   ((string + string \<times> string) \<times> 'a shell_scheme) option" where
  "poll_loop web parse_time clock base code deadline k m =
     (if \<not> clock k < deadline then Some (Inl ''device login timed out'', m)
      else case do_call web (poll_call base code) m of
          (Inl e, m1) \<Rightarrow> Some (Inl e, m1)
        | (Inr x, m1) \<Rightarrow>
            if wy_status x = 202 then poll_loop web parse_time clock base code deadline (Suc k) m1
            else if wy_status x \<noteq> 200 then Some (Inl (''device auth poll: '' @ wy_text x), m1)
            else case wy_granted x of
                Inl e \<Rightarrow> Some (Inl e, m1)
              | Inr g \<Rightarrow>
                  (case SaveAuthSession (mc_disk m1) (mc_home m1) (login_session parse_time base g) of
                     (Inl e, h) \<Rightarrow> Some (Inl e, m1\<lparr>mc_home := h\<rparr>)
                   | (Inr _, h) \<Rightarrow> Some (Inr (gt_email g, gt_role g), m1\<lparr>mc_home := h\<rparr>)))"

definition start_call :: "url \<Rightarrow> web_call" where
  "start_call base = \<lparr>wc_url = resolve_reference base ''/auth/device/start'', wc_method = ''POST'', wc_token = None,
     wc_json = True, wc_body = None\<rparr>"

text \<open>The seconds between two polls: the loop sleeps for this time.\<close>

definition poll_interval :: "device_grant \<Rightarrow> int" where
  "poll_interval d = (if dg_interval d \<le> 0 then 5 else dg_interval d)"

text \<open>\<open>clocks\<close> gives the clock readings for an interval.\<close>

definition runLogin ::
  "web \<Rightarrow> (string \<Rightarrow> time) \<Rightarrow> (int \<Rightarrow> nat \<Rightarrow> time) \<Rightarrow> string \<Rightarrow> 'a shell_scheme \<Rightarrow>
   ((string + string \<times> string) \<times> 'a shell_scheme) option" where
  "runLogin web parse_time clocks explicit m =
     (case resolveServerBase explicit m of
        Inl e \<Rightarrow> Some (Inl e, m)
      | Inr base \<Rightarrow>
          (case do_call web (start_call base) m of
             (reply, m1) \<Rightarrow>
               (case expect ''device auth start'' 200 reply of
                  Inl e \<Rightarrow> Some (Inl e, m1)
                | Inr x \<Rightarrow>
                    (case wy_device x of
                       Inl e \<Rightarrow> Some (Inl e, m1)
                     | Inr d \<Rightarrow>
                         poll_loop web parse_time (clocks (poll_interval d)) base (dg_code d)
                           (mc_now m1 + i64 (dg_expires d * second)) 0 m1))))"

definition runLogout :: "'a machine_scheme \<Rightarrow> (string + unit) \<times> 'a machine_scheme" where
  "runLogout m = (case DeleteAuthSession (mc_disk m) (mc_home m) of (r, h) \<Rightarrow> (r, m\<lparr>mc_home := h\<rparr>))"

section \<open>Commands that call a server\<close>

text \<open>The session first, then the server the session names.\<close>

definition with_session ::
  "'a shell_scheme \<Rightarrow> (url \<Rightarrow> auth_session \<Rightarrow> (string + 'r) \<times> 'a shell_scheme) \<Rightarrow> (string + 'r) \<times> 'a shell_scheme" where
  "with_session m run =
     (case requireAuthSession m of
        Inl e \<Rightarrow> (Inl e, m)
      | Inr s \<Rightarrow> (case resolveServerBase (au_server s) m of Inl e \<Rightarrow> (Inl e, m) | Inr b \<Rightarrow> run b s))"

definition manageServerAndToken :: "string \<Rightarrow> 'a machine_scheme \<Rightarrow> string + url \<times> auth_session" where
  "manageServerAndToken explicit m =
     (case resolveServerBase explicit m of
        Inl e \<Rightarrow> Inl e
      | Inr b \<Rightarrow> (case requireAuthSession m of Inl e \<Rightarrow> Inl e | Inr s \<Rightarrow> Inr (b, s)))"

text \<open>A call, the check of its status, and a view of its body.\<close>

definition fetch ::
  "web \<Rightarrow> web_call \<Rightarrow> string \<Rightarrow> int \<Rightarrow> (web_reply \<Rightarrow> string + 'r) \<Rightarrow> 'a shell_scheme \<Rightarrow> (string + 'r) \<times> 'a shell_scheme" where
  "fetch web c what status view m =
     (case do_call web c m of
        (reply, m1) \<Rightarrow> ((case expect what status reply of Inl e \<Rightarrow> Inl e | Inr x \<Rightarrow> view x), m1))"

definition runWhoAmI :: "web \<Rightarrow> 'a shell_scheme \<Rightarrow> (string + string \<times> string \<times> string \<times> string) \<times> 'a shell_scheme" where
  "runWhoAmI web m =
     with_session m (\<lambda>b s. fetch web (session_call b s ''GET'' ''/api/users/me'' None) ''whoami'' 200 wy_me m)"

definition runAgentCreate :: "web \<Rightarrow> string \<Rightarrow> 'a shell_scheme \<Rightarrow> (string + string \<times> string) \<times> 'a shell_scheme" where
  "runAgentCreate web name0 m =
     (let name = trim_space (to_lower name0)
      in if name = [] then (Inl ''--name is required'', m)
         else with_session m (\<lambda>b s. fetch web (session_call b s ''POST'' ''/api/agents'' (Some [(''name'', name)])) ''create agent'' 201 wy_agent m))"

definition runAgentList :: "web \<Rightarrow> 'a shell_scheme \<Rightarrow> (string + (string \<times> string) list) \<times> 'a shell_scheme" where
  "runAgentList web m =
     with_session m (\<lambda>b s. fetch web (session_call b s ''GET'' ''/api/agents'' None) ''list agents'' 200 wy_agents m)"

definition runAgentRevoke :: "web \<Rightarrow> string \<Rightarrow> 'a shell_scheme \<Rightarrow> (string + unit) \<times> 'a shell_scheme" where
  "runAgentRevoke web name m =
     with_session m (\<lambda>b s. fetch web (session_call b s ''POST'' (''/api/agents/'' @ PathEscape (to_lower name) @ ''/revoke'') (Some []))
       ''revoke agent'' 200 (\<lambda>_. Inr ()) m)"

text \<open>The domain and the host name that the DNS instructions name.\<close>

definition runDomainsAdd :: "web \<Rightarrow> string \<Rightarrow> string \<Rightarrow> 'a shell_scheme \<Rightarrow> (string + string \<times> string) \<times> 'a shell_scheme" where
  "runDomainsAdd web explicit domain0 m =
     (let domain = trim_space (to_lower domain0)
      in if domain = [] then (Inl ''domain is required'', m)
         else case resolveServerBase explicit m of
             Inl e \<Rightarrow> (Inl e, m)
           | Inr b \<Rightarrow>
               (case requireAuthSession m of
                  Inl e \<Rightarrow> (Inl e, m)
                | Inr s \<Rightarrow>
                    (case do_call web (session_call b s ''POST'' ''/admin/domains'' (Some [(''domain'', domain)])) m of
                       (Inl e, m1) \<Rightarrow> (Inl (''add domain: '' @ e), m1)
                     | (Inr x, m1) \<Rightarrow>
                         if wy_status x \<noteq> 200 then (Inl (''add domain: '' @ wy_text x), m1)
                         else (case do_call web (session_call b s ''GET'' ''/admin/info'' None) m1 of
                             (Inl e, m2) \<Rightarrow> (Inl (''get server info: '' @ e), m2)
                           | (Inr y, m2) \<Rightarrow>
                               (case wy_info y of
                                  Inl e \<Rightarrow> (Inl (''get server info: '' @ e), m2)
                                | Inr host \<Rightarrow> (Inr (domain, if host = [] then url_hostname b else host), m2))))))"

definition runManageTunnels :: "web \<Rightarrow> string \<Rightarrow> 'a shell_scheme \<Rightarrow> (string + (string \<times> string) list) \<times> 'a shell_scheme" where
  "runManageTunnels web explicit m =
     (case manageServerAndToken explicit m of
        Inl e \<Rightarrow> (Inl e, m)
      | Inr (b, s) \<Rightarrow> fetch web (session_call b s ''GET'' ''/admin/tunnels'' None) ''list tunnels'' 200 wy_hosts m)"

definition runManageDomainsList :: "web \<Rightarrow> string \<Rightarrow> 'a shell_scheme \<Rightarrow> (string + string list) \<times> 'a shell_scheme" where
  "runManageDomainsList web explicit m =
     (case manageServerAndToken explicit m of
        Inl e \<Rightarrow> (Inl e, m)
      | Inr (b, s) \<Rightarrow> fetch web (session_call b s ''GET'' ''/admin/domains'' None) ''list domains'' 200 wy_domains m)"

text \<open>\<open>head\<close> is the outcome of the request to the address as configured.\<close>

definition handleHealth :: "(string \<Rightarrow> string + unit) \<Rightarrow> 'a machine_scheme \<Rightarrow> string + string" where
  "handleHealth head m =
     (let cfg = LoadClientConfig (mc_home m) (mc_env m)
      in if cc_server cfg = [] then Inl ''FWDX_SERVER (or client.json) must be set''
         else case head (cc_server cfg) of
             Inl e \<Rightarrow> Inl (''Cannot reach server: '' @ e)
           | Inr _ \<Rightarrow> Inr ''Client config OK and server reachable'')"

section \<open>The configuration command\<close>

definition maskToken :: "string \<Rightarrow> string" where
  "maskToken s = (if length s \<le> 8 then ''****'' else take 4 s @ ''****'' @ drop (length s - 4) s)"

record config_view =
  cv_dir :: string
  cv_server :: string
  cv_agent :: "string option"
  cv_token :: "string option"
  cv_host :: string
  cv_port :: int
  cv_session :: "(string \<times> string \<times> string \<times> time) option"

definition handleConfig :: "'a machine_scheme \<Rightarrow> config_view" where
  "handleConfig m =
     (let cfg = LoadClientConfig (mc_home m) (mc_env m)
      in \<lparr>cv_dir = mc_dir m, cv_server = cc_server cfg,
          cv_agent = (if cc_agent cfg \<noteq> [] then Some (cc_agent cfg) else None),
          cv_token = (if cc_token cfg \<noteq> [] then Some (maskToken (cc_token cfg) @ ''...'') else None),
          cv_host = cc_hostname cfg, cv_port = cc_port cfg,
          cv_session = map_option (\<lambda>a. (au_subject a, au_email a, au_role a, au_expires a)) (LoadAuthSession (mc_home m))\<rparr>)"

section \<open>Tunnel commands\<close>

definition tunnel_error :: "string \<Rightarrow> (string + 'r) \<times> 's \<Rightarrow> (string + 'r) \<times> 's" where
  "tunnel_error what res = (case res of (Inl e, m) \<Rightarrow> (Inl (what @ '': '' @ e), m) | (Inr x, m) \<Rightarrow> (Inr x, m))"

definition handleTunnelCreate ::
  "control_plane \<Rightarrow> agent_seed \<Rightarrow> string \<Rightarrow> string \<Rightarrow> string \<Rightarrow> string \<Rightarrow> 'a client_scheme \<Rightarrow> (string + tunnel_view) \<times> 'a client_scheme" where
  "handleTunnelCreate net seed l subdomain url name m =
     tunnel_error ''Failed to create tunnel'' (Create net seed l subdomain url name m)"

definition tunnelCreateCmd ::
  "control_plane \<Rightarrow> agent_seed \<Rightarrow> string \<Rightarrow> string \<Rightarrow> string \<Rightarrow> string \<Rightarrow> 'a client_scheme \<Rightarrow> (string + tunnel_view) \<times> 'a client_scheme" where
  "tunnelCreateCmd net seed l subdomain url name m =
     (if l = [] then (Inl ''--local is required'', m)
      else if subdomain = [] \<and> url = [] then (Inl ''Either --subdomain or --url is required'', m)
      else if subdomain \<noteq> [] \<and> url \<noteq> [] then (Inl ''Cannot use both --subdomain and --url'', m)
      else handleTunnelCreate net seed l subdomain url name m)"

datatype started = Detached runtime_state | Connects "string \<times> string \<times> string \<times> string"

definition handleTunnelStart ::
  "control_plane \<Rightarrow> agent_seed \<Rightarrow> spawning \<Rightarrow> string \<Rightarrow> bool \<Rightarrow> bool \<Rightarrow> bool \<Rightarrow> 'a client_scheme \<Rightarrow> (string + started) \<times> 'a client_scheme" where
  "handleTunnelStart net seed sp name watch detach debug m =
     (if detach \<and> watch then (Inl ''use either --detach or --watch, not both'', m)
      else tunnel_error ''Failed to start tunnel''
        (if detach then (case StartDetached net seed sp name debug m of (r, m1) \<Rightarrow> (map_sum id Detached r, m1))
         else (case Start net seed name m of (r, m1) \<Rightarrow> (map_sum id Connects r, m1))))"

definition handleTunnelStop ::
  "control_plane \<Rightarrow> (nat \<Rightarrow> time) \<Rightarrow> (nat \<Rightarrow> bool) \<Rightarrow> string \<Rightarrow> 'a client_scheme \<Rightarrow> ((string + unit) \<times> 'a client_scheme) option" where
  "handleTunnelStop net clock alive name m = map_option (tunnel_error ''Failed to stop tunnel'') (Stop net clock alive name m)"

definition handleTunnelList :: "control_plane \<Rightarrow> 'a client_scheme \<Rightarrow> (string + tunnel_view list) \<times> 'a client_scheme" where
  "handleTunnelList net m = tunnel_error ''Failed to list tunnels'' (List_tunnels net m)"

definition handleTunnelShow :: "control_plane \<Rightarrow> string \<Rightarrow> 'a client_scheme \<Rightarrow> (string + tunnel_view) \<times> 'a client_scheme" where
  "handleTunnelShow net name m = tunnel_error ''Tunnel not found'' (Get_tunnel net name m)"

definition handleTunnelDelete ::
  "control_plane \<Rightarrow> (nat \<Rightarrow> time) \<Rightarrow> (nat \<Rightarrow> bool) \<Rightarrow> string \<Rightarrow> bool \<Rightarrow> 'a client_scheme \<Rightarrow> ((string + unit) \<times> 'a client_scheme) option" where
  "handleTunnelDelete net clock alive name force m =
     map_option (tunnel_error ''Failed to delete tunnel'') (Delete net clock alive name force m)"

definition logsCmd ::
  "(string \<times> string option \<times> bool) list \<Rightarrow> string \<Rightarrow> int \<Rightarrow> bool \<Rightarrow> 'a machine_scheme \<Rightarrow> ((string + unit) option \<times> string) \<times> 'a machine_scheme" where
  "logsCmd rounds name n follow m =
     (case TailLogs rounds name n follow m of
        ((Some (Inl e), out), m1) \<Rightarrow> ((Some (Inl (''logs: '' @ e)), out), m1)
      | (r, m1) \<Rightarrow> (r, m1))"

text \<open>A row of the table the list command prints (pkg/output).\<close>

definition list_row :: "tunnel_view \<Rightarrow> string list" where
  "list_row t = [tv_name t, tv_hostname t, tv_local t, if tv_running t then ''running'' else ''stopped'',
     if 0 < tv_pid t then int_text (tv_pid t) else ''-'']"

end
