(* ===== verification/ManagerClaims.thy ===== *)
theory ManagerClaims
  imports Manager
begin

text \<open>
  The properties of the tunnel manager: which server gets the session's token, what the calls
  leave alone, how a tunnel is stopped, and what becomes of a detached start.
\<close>

section \<open>What the operations leave alone\<close>

lemma apiJSON_state:
  "snd (apiJSON net base tok meth path body want m) = m\<lparr>cl_calls := api_request base tok meth path body # cl_calls m\<rparr>"
  by (simp add: apiJSON_def Let_def split: sum.split)

lemma api_request_fields:
  "ac_url (api_request base tok meth path body) = resolve_reference base path"
  "ac_method (api_request base tok meth path body) = meth"
  "ac_token (api_request base tok meth path body) = (if trim_space tok \<noteq> [] then Some tok else None)"
  by (simp_all add: api_request_def Let_def)

lemma load_context_frame:
  "mc_states (snd (loadControlPlaneContext m)) = mc_states m \<and> mc_procs (snd (loadControlPlaneContext m)) = mc_procs m \<and>
   mc_dir (snd (loadControlPlaneContext m)) = mc_dir m \<and> mc_ps (snd (loadControlPlaneContext m)) = mc_ps m \<and>
   mc_signals (snd (loadControlPlaneContext m)) = mc_signals m \<and> mc_now (snd (loadControlPlaneContext m)) = mc_now m"
  by (simp add: loadControlPlaneContext_def Let_def split: option.split)

text \<open>The parts of the machine that decide whether a tunnel counts as running.\<close>

definition same_processes :: "'a machine_scheme \<Rightarrow> 'a machine_scheme \<Rightarrow> bool" where
  "same_processes m n \<longleftrightarrow> mc_procs n = mc_procs m \<and> mc_dir n = mc_dir m \<and> mc_ps n = mc_ps m \<and> mc_now n = mc_now m"

lemma same_processes_refl [simp]: "same_processes m m"
  by (simp add: same_processes_def)

lemma same_processes_trans: "same_processes a b \<Longrightarrow> same_processes b c \<Longrightarrow> same_processes a c"
  by (simp add: same_processes_def)

text \<open>A tunnel that looks like running keeps its file, whichever name is asked about.\<close>

definition looks_running :: "string \<Rightarrow> runtime_state \<Rightarrow> 'a machine_scheme \<Rightarrow> bool" where
  "looks_running name st m \<longleftrightarrow> mc_states m (runtimeStatePath m name) = Holds st \<and>
     isPIDRunning m (rt_pid st) \<and> processLooksLikeTunnel m (rt_pid st) name"

lemma looks_running_answer: "looks_running name st m \<Longrightarrow> runtimeStateIfRunning name m = (Some st, m)"
  by (simp add: looks_running_def runtimeStateIfRunning_def readRuntimeState_def)

lemma looks_running_cong:
  assumes "same_processes m n" and "mc_states n (runtimeStatePath m name) = mc_states m (runtimeStatePath m name)"
    and "looks_running name st m"
  shows "looks_running name st n"
  using assms by (simp add: looks_running_def same_processes_def runtimeStatePath_def runtimeDir_def isPIDRunning_def
      processLooksLikeTunnel_def)

lemma looks_running_query:
  assumes "looks_running name st m"
  shows "looks_running name st (snd (runtimeStateIfRunning other m))"
proof (cases "other = name")
  case True
  then show ?thesis using assms looks_running_answer [OF assms] by simp
next
  case False
  have "same_processes m (removeRuntimeState other m)" by (simp add: same_processes_def)
  moreover have "mc_states (removeRuntimeState other m) (runtimeStatePath m name) = mc_states m (runtimeStatePath m name)"
    using False by (simp add: removeRuntimeState_def runtimeStatePath_inj)
  ultimately have "looks_running name st (removeRuntimeState other m)" using looks_running_cong assms by blast
  then show ?thesis using runtimeStateIfRunning_state [of other m] assms by metis
qed

lemma looks_running_apiJSON:
  assumes "looks_running name st m"
  shows "looks_running name st (snd (apiJSON net base tok meth path body want m))"
  unfolding apiJSON_state by (rule looks_running_cong [OF _ _ assms]) (simp_all add: same_processes_def)

lemma looks_running_context: "looks_running name st m \<Longrightarrow> looks_running name st (snd (loadControlPlaneContext m))"
  by (rule looks_running_cong [rotated 2]) (simp_all add: same_processes_def load_context_frame)

lemma looks_running_home: "looks_running name st m \<Longrightarrow> looks_running name st (m\<lparr>mc_home := h\<rparr>)"
  by (rule looks_running_cong [rotated 2]) (simp_all add: same_processes_def)

lemma looks_running_Get:
  assumes "looks_running name st m"
  shows "looks_running name st (snd (Get_tunnel net other m))"
proof -
  have from_api: "looks_running name st (snd (fromAPI x n))" if "looks_running name st n" for x and n :: "'a client_scheme"
    using looks_running_query [OF that, of "at_name x"] by (auto simp: fromAPI_def Let_def split: prod.split option.split)
  have call: "looks_running name st (snd (case apiJSON net b tok me p bd w n of
             (Inl e, m2) \<Rightarrow> (Inl e, m2)
           | (Inr x, m2) \<Rightarrow>
               (case re_tunnel x of Inl e \<Rightarrow> (Inl e, m2) | Inr rec \<Rightarrow> (case fromAPI rec m2 of (t, m3) \<Rightarrow> (Inr t, m3)))))"
    if "looks_running name st n" for b tok me p bd w and n :: "'a client_scheme"
    using looks_running_apiJSON [OF that, of net b tok me p bd w] from_api
    by (auto simp: split_beta split: sum.split)
  show ?thesis
    unfolding Get_tunnel_def using looks_running_context [OF assms] call
    by (auto simp: split_beta split: sum.split)
qed

lemma looks_running_ensure:
  assumes "looks_running name st m"
  shows "looks_running name st (snd (ensureAgentCredential net seed cfg sess base m))"
  unfolding ensureAgentCredential_def Let_def
  by (simp add: split_beta looks_running_apiJSON looks_running_home assms split: sum.split)

section \<open>Detached tunnels\<close>

lemma prepare_running:
  assumes "looks_running name st m"
  shows "\<exists>e. fst (prepare net seed name m) = Inl e"
proof (cases "fst (Get_tunnel net name m)")
  case (Inl e)
  then show ?thesis by (simp add: prepare_def split_beta)
next
  case get: (Inr t)
  let ?m1 = "snd (Get_tunnel net name m)"
  have 1: "looks_running name st ?m1" by (rule looks_running_Get [OF assms])
  show ?thesis
  proof (cases "fst (loadControlPlaneContext ?m1)")
    case (Inl e)
    then show ?thesis using get by (simp add: prepare_def split_beta)
  next
    case ctx: (Inr c)
    obtain cfg sess base where c: "c = (cfg, sess, base)" by (cases c)
    let ?m2 = "snd (loadControlPlaneContext ?m1)"
    let ?m3 = "snd (ensureAgentCredential net seed cfg sess base ?m2)"
    have "looks_running name st ?m3" by (rule looks_running_ensure [OF looks_running_context [OF 1]])
    from looks_running_answer [OF this] show ?thesis
      using get ctx c by (cases "fst (ensureAgentCredential net seed cfg sess base ?m2)") (simp_all add: prepare_def split_beta)
  qed
qed

lemma contains_str_append: "contains_str (a @ b) sub" if "contains_str b sub"
  using that by (induction a) auto

lemma contains_str_prefix: "contains_str (sub @ b) sub"
proof -
  have "has_prefix (sub @ b) sub" by (simp add: has_prefix_iff)
  then show ?thesis by (cases "sub @ b") auto
qed

lemma contains_str_middle: "contains_str (a @ sub @ b) sub"
  by (rule contains_str_append [OF contains_str_prefix])

text \<open>The command line of the child contains the words that are looked for.\<close>

lemma trim_space_tail:
  assumes "w \<noteq> []" and "\<not> is_space (hd w)" and "\<not> is_space (last w)"
  shows "\<exists>p. trim_space (a @ CHR '' '' # w) = p @ w"
proof -
  have sp: "is_space CHR '' ''" by code_simp
  have "\<exists>p. dropWhile is_space (a @ CHR '' '' # w) = p @ w"
  proof (cases "\<exists>c\<in>set a. \<not> is_space c")
    case True
    then have "dropWhile is_space (a @ CHR '' '' # w) = (dropWhile is_space a @ '' '') @ w" by (auto simp: dropWhile_append1)
    then show ?thesis by blast
  next
    case False
    then have "dropWhile is_space (a @ CHR '' '' # w) = dropWhile is_space (CHR '' '' # w)" by (simp add: dropWhile_append2)
    also have "\<dots> = w" using assms(1,2) sp by (cases w) simp_all
    finally show ?thesis by (metis append_Nil)
  qed
  then obtain p where p: "dropWhile is_space (a @ CHR '' '' # w) = p @ w" by blast
  obtain u c where "w = u @ [c]" using assms(1) by (metis append_butlast_last_id)
  then have "dropWhile is_space (rev (p @ w)) = rev (p @ w)" using assms(3) by simp
  then show ?thesis unfolding trim_space_def p by simp
qed

lemma child_args_found:
  "let c = trim_space (child_args exe name debug)
   in c \<noteq> [] \<and> contains_str c ''tunnel'' \<and> contains_str c ''start'' \<and> contains_str c name"
proof -
  define rest where "rest = '' --watch'' @ (if debug then '' --debug'' else [])"
  define w where "w = ''tunnel start '' @ name @ rest"
  have args: "child_args exe name debug = exe @ CHR '' '' # w" by (simp add: child_args_def w_def rest_def)
  have "last w = (if debug then CHR ''g'' else CHR ''h'')" by (simp add: w_def rest_def)
  moreover have "\<not> is_space CHR ''g''" "\<not> is_space CHR ''h''" "\<not> is_space CHR ''t''" by code_simp+
  ultimately have "\<not> is_space (last w)" "\<not> is_space (hd w)" "w \<noteq> []" by (simp_all add: w_def del: last.simps)
  then obtain p where p: "trim_space (child_args exe name debug) = p @ w"
    using trim_space_tail [of w exe] unfolding args by blast
  have "w = ''tunnel'' @ '' start '' @ name @ rest" "w = ''tunnel '' @ ''start'' @ '' '' @ name @ rest"
    "w = ''tunnel start '' @ name @ rest" by (simp_all add: w_def)
  then have "contains_str w ''tunnel''" "contains_str w ''start''" "contains_str w name"
    by (metis contains_str_prefix, metis contains_str_middle, metis contains_str_middle)
  then show ?thesis using contains_str_append by (auto simp: p Let_def w_def)
qed

lemma StartDetached_spec:
  assumes "StartDetached net seed sp name debug m = (Inr st, m')"
  shows "\<exists>exe pid m1. sp_exe sp = Inr exe \<and> sp_start sp = Inr pid \<and> m1 = snd (prepare net seed name m) \<and>
    rt_name st = name \<and> rt_pid st = pid \<and> rt_log st = runtimeLogPath m1 name \<and> mc_dir m' = mc_dir m1 \<and>
    mc_states m' (runtimeStatePath m' name) = Holds st \<and> mc_logs m' (rt_log st) \<noteq> None \<and>
    mc_procs m' pid = Some \<lparr>op_args = child_args exe name debug, op_ours = True\<rparr>"
proof -
  obtain r m1 where prep: "prepare net seed name m = (r, m1)" by (cases "prepare net seed name m")
  with assms obtain t cfg where r: "r = Inr (t, cfg)" by (cases r) (auto simp: StartDetached_def)
  obtain exe where exe: "sp_exe sp = Inr exe"
    using assms by (cases "sp_exe sp") (auto simp: StartDetached_def prep r Let_def split: option.splits)
  obtain pid where pid: "sp_start sp = Inr pid"
    using assms by (cases "sp_start sp") (auto simp: StartDetached_def prep r exe Let_def split: option.splits)
  have log: "sp_log sp = None"
    using assms by (cases "sp_log sp") (simp_all add: StartDetached_def prep r Let_def)
  let ?m2 = "if mc_logs m1 (runtimeLogPath m1 name) = None then m1\<lparr>mc_logs := (mc_logs m1)(runtimeLogPath m1 name := Some [])\<rparr> else m1"
  let ?m3 = "?m2\<lparr>mc_procs := (mc_procs ?m2)(pid \<mapsto> \<lparr>op_args = child_args exe name debug, op_ours = True\<rparr>)\<rparr>"
  let ?st = "\<lparr>rt_name = name, rt_hostname = tv_hostname t, rt_local = tv_local t, rt_pid = pid,
                                        rt_log = runtimeLogPath m1 name, rt_started = mc_now ?m3\<rparr>"
  have w: "writeRuntimeState ?st ?m3 = (Inr (), m')" "st = ?st"
    using assms by (auto simp: StartDetached_def prep r exe pid log Let_def split: prod.splits sum.splits simp del: if_split)
  have "name \<noteq> []" "mc_disk ?m3 = None" "m' = ?m3\<lparr>mc_states := (mc_states ?m3)(runtimeStatePath ?m3 name := Holds ?st)\<rparr>"
    using w(1) by (auto simp: writeRuntimeState_def simp del: if_split split: option.splits if_splits)
  then show ?thesis
    unfolding w(2) by (intro exI [of _ exe] exI [of _ pid] exI [of _ m1])
      (simp add: exe pid prep runtimeStatePath_def runtimeLogPath_def runtimeDir_def)
qed

text \<open>
  C38. A detached start records the new process under its tunnel, with an existing log file, and
  while that process lives every other start of the tunnel is refused. The refusal extends to
  the new process itself: it is the command \<open>tunnel start\<close> run again, finds its own number in
  the file its parent has written, and ends without ever connecting.
\<close>

theorem detached_start_exclusive:
  fixes n :: client
  assumes "StartDetached net seed sp name debug m = (Inr st, m')" and "0 < rt_pid st"
    and "mc_dir n = mc_dir m'" and "mc_ps n" and "mc_states n (runtimeStatePath n name) = mc_states m' (runtimeStatePath m' name)"
    and "mc_procs n (rt_pid st) = mc_procs m' (rt_pid st)"
  shows "rt_name st = name \<and> mc_logs m' (rt_log st) \<noteq> None \<and> fst (runtimeStateIfRunning name n) = Some st \<and>
    (\<exists>e. fst (Start net' seed' name n) = Inl e) \<and> (\<exists>e. fst (StartDetached net' seed' sp' name debug' n) = Inl e)"
proof -
  obtain exe pid m1 where st: "rt_name st = name" "rt_pid st = pid" "mc_states m' (runtimeStatePath m' name) = Holds st"
    "mc_logs m' (rt_log st) \<noteq> None" "mc_procs m' pid = Some \<lparr>op_args = child_args exe name debug, op_ours = True\<rparr>"
    using StartDetached_spec [OF assms(1)] by blast
  have "processLooksLikeTunnel n pid name"
    using child_args_found [of exe name debug] assms(2,4,6) st(2,5) by (simp add: processLooksLikeTunnel_def Let_def)
  then have running: "looks_running name st n"
    using assms(2,5,6) st(2,3,5) by (simp add: looks_running_def isPIDRunning_def)
  obtain e where "fst (prepare net' seed' name n) = Inl e" using prepare_running [OF running] by blast
  moreover obtain e' where "fst (prepare net' seed' name n) = Inl e'" using prepare_running [OF running] by blast
  ultimately have "\<exists>e. fst (Start net' seed' name n) = Inl e" "\<exists>e. fst (StartDetached net' seed' sp' name debug' n) = Inl e"
    by (simp_all add: Start_def StartDetached_def split_beta)
  then show ?thesis using st(1,4) looks_running_answer [OF running] by simp
qed

text \<open>A machine with a session, a credential and one tunnel called app.\<close>

definition demo_plane :: control_plane where
  "demo_plane cs = Inr \<lparr>re_status = 200, re_status_text = ''200 OK'', re_raw = ''{}'',
     re_tunnel = Inr \<lparr>at_id = 1, at_name = ''app'', at_hostname = ''app.t.io'', at_local = ''localhost:3000'', at_agent_id = 1,
       at_agent = ''box'', at_desired = ''stopped'', at_actual = ''offline'', at_last_error = [], at_created = 0, at_updated = 0\<rparr>,
     re_tunnels = Inr [], re_agent = Inl ''no agent''\<rparr>"

definition demo_client :: client where
  "demo_client = \<lparr>mc_home = \<lparr>ch_client = Holds \<lparr>cc_server = ''https://t.io'', cc_hostname = [], cc_port = 0, cc_agent = ''box'', cc_token = ''k''\<rparr>,
       ch_auth = Holds \<lparr>au_server = ''https://other.io'', au_token = ''s3'', au_expires = 9, au_subject = [], au_email = [], au_name = [], au_role = []\<rparr>\<rparr>,
     mc_env = \<lparr>ev_server = [], ev_port = [], ev_agent = [], ev_token = []\<rparr>, mc_dir = ''/h/.fwdx'',
     mc_states = (\<lambda>_. NoFile), mc_logs = (\<lambda>_. None), mc_disk = None, mc_ps = True, mc_procs = (\<lambda>_. None),
     mc_signals = [], mc_now = 7, cl_calls = []\<rparr>"

definition demo_seed :: agent_seed where
  "demo_seed = \<lparr>sd_hostname = ''box'', sd_bytes = None\<rparr>"

definition demo_spawn :: spawning where
  "demo_spawn = \<lparr>sp_log = None, sp_exe = Inr ''/usr/bin/fwdx'', sp_start = Inr 42\<rparr>"

definition demo_detached :: "(string + runtime_state) \<times> client" where
  "demo_detached = StartDetached demo_plane demo_seed demo_spawn ''app'' False demo_client"

lemma demo_detached_started:
  "case fst demo_detached of Inl _ \<Rightarrow> False | Inr st \<Rightarrow> 0 < rt_pid st" "mc_ps (snd demo_detached)"
  by code_simp+

theorem detached_start_exclusive_witness:
  "\<exists>e. fst (Start demo_plane demo_seed ''app'' (snd demo_detached)) = Inl e"
proof -
  obtain st where st: "fst demo_detached = Inr st" "0 < rt_pid st"
    using demo_detached_started(1) by (cases "fst demo_detached") simp_all
  then have "StartDetached demo_plane demo_seed demo_spawn ''app'' False demo_client = (Inr st, snd demo_detached)"
    unfolding demo_detached_def [symmetric] by (metis prod.collapse)
  from detached_start_exclusive [OF this st(2), of "snd demo_detached"] show ?thesis
    using demo_detached_started(2) by blast
qed

section \<open>Stopping\<close>

text \<open>The machine after the process has gone, with SIGKILL sent or not.\<close>

definition after_stop :: "int \<Rightarrow> bool \<Rightarrow> time \<Rightarrow> 'a machine_scheme \<Rightarrow> 'a machine_scheme" where
  "after_stop pid killed t m = m\<lparr>mc_procs := (mc_procs m)(pid := None),
     mc_signals := mc_signals m @ (pid, 15) # (if killed then [(pid, 9)] else []), mc_now := t\<rparr>"

lemma stopPID_returns:
  assumes "\<And>k. clock k + 100 * millisecond \<le> clock (Suc k)" and "mc_procs m pid = Some p" and "op_ours p"
  obtains killed n where "stopPID clock alive pid timeout m = Some (Inr (), after_stop pid killed (clock n) m)"
    and "killed \<Longrightarrow> mc_now m + timeout \<le> clock n" and "killed \<Longrightarrow> \<forall>j < n. alive j" and "\<not> killed \<Longrightarrow> \<not> alive n"
proof -
  have "0 < 100 * millisecond" by (simp add: millisecond_def)
  from await_exit_returns [of clock, OF assms(1) this, of alive "mc_now m + timeout" 0]
  obtain g n where n: "await_exit clock alive (mc_now m + timeout) 0 = Some (g, n)" "g \<longrightarrow> \<not> alive n \<and> clock n < mc_now m + timeout"
    "\<not> g \<longrightarrow> mc_now m + timeout \<le> clock n" "\<forall>j. 0 \<le> j \<and> j < n \<longrightarrow> alive j" by (elim exE conjE)
  have "send_signal pid 15 m = (Inr (), m\<lparr>mc_signals := mc_signals m @ [(pid, 15)]\<rparr>)"
    using assms(2,3) by (simp add: send_signal_def)
  then have "stopPID clock alive pid timeout m = Some (Inr (), after_stop pid (\<not> g) (clock n) m)"
    using n(1) assms(2,3) by (simp add: stopPID_def Let_def) (simp add: send_signal_def after_stop_def)
  then show thesis by (rule that) (use n in simp_all)
qed

lemma after_stop_frame [simp]:
  "mc_home (after_stop p k t m) = mc_home m" "mc_env (after_stop p k t m) = mc_env m" "mc_dir (after_stop p k t m) = mc_dir m"
  "mc_states (after_stop p k t m) = mc_states m" "mc_procs (after_stop p k t m) = (mc_procs m)(p := None)"
  "mc_signals (after_stop p k t m) = mc_signals m @ (p, 15) # (if k then [(p, 9)] else [])"
  by (simp_all add: after_stop_def)

lemma runtimeStateIfRunning_Some:
  assumes "fst (runtimeStateIfRunning name m) = Some st"
  shows "snd (runtimeStateIfRunning name m) = m" and "isPIDRunning m (rt_pid st)"
    and "mc_states m (runtimeStatePath m name) = Holds st"
  using assms by (auto simp: runtimeStateIfRunning_def readRuntimeState_def split: option.splits if_splits client_file.splits)



end
