(* ===== verification/ClientClaims.thy ===== *)
theory ClientClaims
  imports ManagerClaims ControlPlane
begin

text \<open>
  Client and control plane together: which server gets the session's token, and which tunnel
  the server finds for a name typed at the client.
\<close>

section \<open>Where the token goes\<close>

text \<open>The session of the machine and the server of its configuration.\<close>

definition configured :: "auth_session \<Rightarrow> string \<Rightarrow> 'a machine_scheme \<Rightarrow> bool" where
  "configured sess srv m \<longleftrightarrow>
     LoadAuthSession (mc_home m) = Some sess \<and> cc_server (LoadClientConfig (mc_home m) (mc_env m)) = srv"

text \<open>A call with the session's token to the host of the URL.\<close>

definition sent_to :: "auth_session \<Rightarrow> url \<Rightarrow> api_call \<Rightarrow> bool" where
  "sent_to sess base c \<longleftrightarrow> ac_token c = Some (au_token sess) \<and> url_scheme (ac_url c) = url_scheme base \<and>
     url_user (ac_url c) = url_user base \<and> url_host (ac_url c) = url_host base"

text \<open>The calls made between two states are of this kind, and the configuration stays.\<close>

definition calls_ok :: "auth_session \<Rightarrow> string \<Rightarrow> url \<Rightarrow> 'a client_scheme \<Rightarrow> 'a client_scheme \<Rightarrow> bool" where
  "calls_ok sess srv base m m' \<longleftrightarrow>
     configured sess srv m' \<and> (\<exists>cs. cl_calls m' = cs @ cl_calls m \<and> list_all (sent_to sess base) cs)"

lemma calls_ok_trans: "calls_ok s v b m1 m2 \<Longrightarrow> calls_ok s v b m2 m3 \<Longrightarrow> calls_ok s v b m1 m3"
  unfolding calls_ok_def by (auto intro: exI [of _ "_ @ _"])

lemma calls_ok_configured: "calls_ok s v b m1 m2 \<Longrightarrow> configured s v m2"
  by (simp add: calls_ok_def)

lemma calls_ok_same:
  assumes "configured s v m1" and "mc_home m2 = mc_home m1" and "mc_env m2 = mc_env m1" and "cl_calls m2 = cl_calls m1"
  shows "calls_ok s v b m1 m2"
  using assms by (auto simp: calls_ok_def configured_def)

lemma calls_ok_apiJSON:
  assumes "configured s v m" and "trim_space (au_token s) \<noteq> []"
  shows "calls_ok s v b m (snd (apiJSON net b (au_token s) meth path body want m))"
  using assms by (auto simp: calls_ok_def configured_def apiJSON_state sent_to_def api_request_fields resolve_reference_def
      intro!: exI [of _ "[_]"])

lemma removeRuntimeState_calls [simp]: "cl_calls (removeRuntimeState n m) = cl_calls m"
  by (simp add: removeRuntimeState_def)

lemma calls_ok_query: "configured s v m \<Longrightarrow> calls_ok s v b m (snd (runtimeStateIfRunning n m))"
  using runtimeStateIfRunning_state [of n m] by (auto intro: calls_ok_same)

lemma calls_ok_fromAPI: "configured s v m \<Longrightarrow> calls_ok s v b m (snd (fromAPI x m))"
  using calls_ok_query [of s v m b "at_name x"] by (simp add: fromAPI_def Let_def split_beta split: option.split)

lemma calls_ok_all_fromAPI: "configured s v m \<Longrightarrow> calls_ok s v b m (snd (all_fromAPI xs m))"
proof (induction xs arbitrary: m)
  case (Cons x xs)
  note 1 = calls_ok_fromAPI [OF Cons.prems, of b x]
  show ?case using calls_ok_trans [OF 1 Cons.IH [OF calls_ok_configured [OF 1]]] by (simp add: split_beta)
qed (simp add: calls_ok_same)

lemma load_configured:
  assumes "configured s v m" and "trim_space v \<noteq> []" and "parse_url (trim_suffix v ''/'') = Some b"
  shows "loadControlPlaneContext m =
    (if trim_space (au_token s) = [] then Inl errLoginRequired else Inr (LoadClientConfig (mc_home m) (mc_env m), s, b), m)"
  using assms by (simp add: configured_def loadControlPlaneContext_def Let_def)

lemma configured_save:
  assumes "configured s v m" and "v \<noteq> []" and "cc_server cfg = v"
  shows "configured s v (m\<lparr>mc_home := snd (SaveClientConfig disk (mc_home m) cfg)\<rparr>)"
  using assms by (auto simp: configured_def SaveClientConfig_def LoadAuthSession_def LoadClientConfig_def Let_def or_env_def
      file_config_def split: option.split)

lemma calls_ok_ensure:
  fixes m :: "'a client_scheme"
  assumes "configured s v m" and "v \<noteq> []" and "trim_space (au_token s) \<noteq> []" and "cc_server cfg = v"
  shows "calls_ok s v b m (snd (ensureAgentCredential net seed cfg s b m))"
proof -
  have same: "calls_ok s v b m m" by (rule calls_ok_same [OF assms(1)]) simp_all
  have call: "calls_ok s v b m (snd (apiJSON net b (au_token s) meth path body want m))" for meth path body want
    by (rule calls_ok_apiJSON [OF assms(1,3)])
  have save: "calls_ok s v b m (n\<lparr>mc_home := snd (SaveClientConfig (mc_disk n) (mc_home n) (cfg\<lparr>cc_agent := a, cc_token := k\<rparr>))\<rparr>)"
    if "calls_ok s v b m n" for n :: "'a client_scheme" and a k
    using that configured_save [OF calls_ok_configured [OF that] assms(2), of "cfg\<lparr>cc_agent := a, cc_token := k\<rparr>" "mc_disk n"] assms(4)
    by (simp add: calls_ok_def)
  show ?thesis
    unfolding ensureAgentCredential_def Let_def
    by (simp add: split_beta same call save split: sum.split)
qed

lemma LoadClientConfig_server: "configured s v m \<Longrightarrow> cc_server (LoadClientConfig (mc_home m) (mc_env m)) = v"
  by (simp add: configured_def)

text \<open>Every operation of the manager.\<close>

lemma calls_ok_Get:
  assumes m: "configured s v m" and v: "trim_space v \<noteq> []" "parse_url (trim_suffix v ''/'') = Some b"
  shows "calls_ok s v b m (snd (Get_tunnel net name m))"
proof (cases "trim_space (au_token s) = []")
  case True
  then show ?thesis using load_configured [OF m v] calls_ok_same [OF m refl refl refl] by (simp add: Get_tunnel_def)
next
  case False
  note 1 = calls_ok_apiJSON [OF m False, of b net "''GET''" "tunnel_path name" No_body 200]
  have "calls_ok s v b m (snd (fromAPI x (snd (apiJSON net b (au_token s) ''GET'' (tunnel_path name) No_body 200 m))))" for x
    using calls_ok_trans [OF 1 calls_ok_fromAPI [OF calls_ok_configured [OF 1]]] .
  then show ?thesis using load_configured [OF m v] False 1 by (simp add: Get_tunnel_def split_beta split: sum.split)
qed

lemma calls_ok_List:
  assumes m: "configured s v m" and v: "trim_space v \<noteq> []" "parse_url (trim_suffix v ''/'') = Some b"
  shows "calls_ok s v b m (snd (List_tunnels net m))"
proof (cases "trim_space (au_token s) = []")
  case True
  then show ?thesis using load_configured [OF m v] calls_ok_same [OF m refl refl refl] by (simp add: List_tunnels_def)
next
  case False
  note 1 = calls_ok_apiJSON [OF m False, of b net "''GET''" "''/api/tunnels''" No_body 200]
  have "calls_ok s v b m (snd (all_fromAPI xs (snd (apiJSON net b (au_token s) ''GET'' ''/api/tunnels'' No_body 200 m))))" for xs
    using calls_ok_trans [OF 1 calls_ok_all_fromAPI [OF calls_ok_configured [OF 1]]] .
  then show ?thesis using load_configured [OF m v] False 1 by (simp add: List_tunnels_def split_beta split: sum.split)
qed

lemma calls_ok_Create:
  assumes m: "configured s v m" and v: "trim_space v \<noteq> []" "parse_url (trim_suffix v ''/'') = Some b"
  shows "calls_ok s v b m (snd (Create net seed l sub url cname m))"
proof (cases "trim_space (au_token s) = []")
  case True
  then show ?thesis using load_configured [OF m v] calls_ok_same [OF m refl refl refl] by (simp add: Create_def)
next
  case False
  have "v \<noteq> []" using v(1) by auto
  note 1 = calls_ok_ensure [OF m this False LoadClientConfig_server [OF m], of b net seed]
  let ?m1 = "snd (ensureAgentCredential net seed (LoadClientConfig (mc_home m) (mc_env m)) s b m)"
  have 2: "calls_ok s v b m (snd (apiJSON net b (au_token s) me pa bd w ?m1))" for me pa bd w
    by (rule calls_ok_trans [OF 1 calls_ok_apiJSON [OF calls_ok_configured [OF 1] False]])
  have "calls_ok s v b m (snd (fromAPI x (snd (apiJSON net b (au_token s) me pa bd w ?m1))))" for x me pa bd w
    by (rule calls_ok_trans [OF 2 calls_ok_fromAPI [OF calls_ok_configured [OF 2]]])
  then show ?thesis using load_configured [OF m v] False 1 2 by (simp add: Create_def Let_def split_beta split: sum.split)
qed

lemma calls_ok_prepare:
  assumes m: "configured s v m" and v: "trim_space v \<noteq> []" "parse_url (trim_suffix v ''/'') = Some b"
  shows "calls_ok s v b m (snd (prepare net seed name m))"
proof (cases "trim_space (au_token s) = []")
  case True
  then have "fst (Get_tunnel net name m) = Inl errLoginRequired" using load_configured [OF m v] by (simp add: Get_tunnel_def)
  then show ?thesis using calls_ok_Get [OF m v, of net name] by (simp add: prepare_def split_beta)
next
  case False
  note 1 = calls_ok_Get [OF m v, of net name]
  let ?m1 = "snd (Get_tunnel net name m)"
  let ?cfg = "LoadClientConfig (mc_home ?m1) (mc_env ?m1)"
  note c1 = calls_ok_configured [OF 1]
  have "v \<noteq> []" using v(1) by auto
  note 2 = calls_ok_trans [OF 1 calls_ok_ensure [OF c1 this False LoadClientConfig_server [OF c1], of b net seed]]
  let ?m2 = "snd (ensureAgentCredential net seed ?cfg s b ?m1)"
  note 3 = calls_ok_trans [OF 2 calls_ok_query [OF calls_ok_configured [OF 2], of b name]]
  have 4: "calls_ok s v b m (removeRuntimeState name (snd (runtimeStateIfRunning name ?m2)))"
    by (rule calls_ok_trans [OF 3 calls_ok_same [OF calls_ok_configured [OF 3]]]) simp_all
  show ?thesis
    using load_configured [OF c1 v] False 1 2 3 4 by (simp add: prepare_def split_beta split: sum.split option.split)
qed

lemma calls_ok_Start:
  assumes "configured s v m" and "trim_space v \<noteq> []" and "parse_url (trim_suffix v ''/'') = Some b"
  shows "calls_ok s v b m (snd (Start net seed name m))"
  using calls_ok_prepare [OF assms, of net seed name] by (simp add: Start_def split_beta split: sum.split)

lemma send_signal_frame [simp]:
  "mc_home (snd (send_signal p g m)) = mc_home m" "mc_env (snd (send_signal p g m)) = mc_env m"
  "machine.more (snd (send_signal p g m)) = machine.more m"
  by (simp_all add: send_signal_def split: option.split)

lemma calls_of_more: "machine.more m = machine.more m' \<Longrightarrow> cl_calls m = cl_calls m'"
  by (cases m; cases m') simp

lemma calls_ok_stopPID:
  assumes "configured s v m" and "stopPID clock alive pid timeout m = Some (r, m')"
  shows "calls_ok s v b m m'"
proof -
  have "mc_home m' = mc_home m" "mc_env m' = mc_env m" "machine.more m' = machine.more m"
    using assms(2) by (auto simp: stopPID_def Let_def split_beta split: sum.splits option.splits if_splits)
  then show ?thesis by (intro calls_ok_same [OF assms(1)] calls_of_more)
qed

lemma calls_ok_Stop:
  assumes m: "configured s v m" and v: "trim_space v \<noteq> []" "parse_url (trim_suffix v ''/'') = Some b"
    and stop: "Stop net clock alive name m = Some (r, m')"
  shows "calls_ok s v b m m'"
proof -
  note 1 = calls_ok_query [OF m, of b name]
  let ?m1 = "snd (runtimeStateIfRunning name m)"
  have remove: "calls_ok s v b m (removeRuntimeState name n)" if "calls_ok s v b m n" for n
    by (rule calls_ok_trans [OF that calls_ok_same [OF calls_ok_configured [OF that]]]) simp_all
  show ?thesis
  proof (cases "fst (runtimeStateIfRunning name m)")
    case None
    then show ?thesis using stop remove [OF 1] by (simp add: Stop_def split_beta)
  next
    case (Some st)
    obtain r2 m2 where s2: "stopPID clock alive (rt_pid st) (5 * second) ?m1 = Some (r2, m2)"
      using stop Some by (auto simp: Stop_def split_beta split: option.splits)
    note 2 = calls_ok_trans [OF 1 calls_ok_stopPID [OF calls_ok_configured [OF 1] s2]]
    note 3 = remove [OF 2]
    note load = load_configured [OF calls_ok_configured [OF 3] v]
    show ?thesis
    proof (cases r2)
      case (Inl e)
      then show ?thesis using stop Some s2 2 by (simp add: Stop_def split_beta)
    next
      case (Inr u)
      have 4: "calls_ok s v b m (snd (apiJSON net b (au_token s) me pa bd w (removeRuntimeState name m2)))"
        if "trim_space (au_token s) \<noteq> []" for me pa bd w
        by (rule calls_ok_trans [OF 3 calls_ok_apiJSON [OF calls_ok_configured [OF 3] that]])
      show ?thesis using stop Some s2 Inr load 3 4 by (auto simp: Stop_def split_beta Let_def split: if_splits)
    qed
  qed
qed

lemma calls_ok_remove_call:
  assumes m: "configured s v m" and v: "trim_space v \<noteq> []" "parse_url (trim_suffix v ''/'') = Some b"
  shows "calls_ok s v b m (snd (case loadControlPlaneContext m of
              (Inl e, m1) \<Rightarrow> (Inl e, m1)
            | (Inr (_, sess, base), m1) \<Rightarrow>
                (case apiJSON net base (au_token sess) ''DELETE'' (tunnel_path name) No_body 204 m1 of
                   (Inl e, m2) \<Rightarrow> (Inl e, m2)
                 | (Inr _, m2) \<Rightarrow> (Inr (), m2))))"
  using load_configured [OF m v] calls_ok_same [OF m refl refl refl] calls_ok_apiJSON [OF m]
  by (simp add: split_beta split: sum.split)

lemma calls_ok_Delete:
  assumes m: "configured s v m" and v: "trim_space v \<noteq> []" "parse_url (trim_suffix v ''/'') = Some b"
    and del: "Delete net clock alive name force m = Some (r, m')"
  shows "calls_ok s v b m m'"
proof -
  note 1 = calls_ok_query [OF m, of b name]
  let ?m1 = "snd (runtimeStateIfRunning name m)"
  note direct = calls_ok_trans [OF 1 calls_ok_remove_call [OF calls_ok_configured [OF 1] v, of net name]]
  show ?thesis
  proof (cases "fst (runtimeStateIfRunning name m)")
    case None
    then have "m' = snd (the (Delete net clock alive name force m))" using del by simp
    then show ?thesis using None direct by (simp add: Delete_def Let_def split_beta)
  next
    case (Some st)
    show ?thesis
    proof (cases force)
      case False
      then show ?thesis using del Some 1 by (simp add: Delete_def Let_def split_beta)
    next
      case True
      obtain r2 m2 where s2: "Stop net clock alive name ?m1 = Some (r2, m2)"
        using del Some True by (auto simp: Delete_def Let_def split_beta split: option.splits)
      note 2 = calls_ok_trans [OF 1 calls_ok_Stop [OF calls_ok_configured [OF 1] v s2]]
      note 3 = calls_ok_trans [OF 2 calls_ok_remove_call [OF calls_ok_configured [OF 2] v, of net name]]
      have "m' = snd (the (Delete net clock alive name force m))" using del by simp
      then show ?thesis using Some True s2 2 3 by (cases r2) (simp_all add: Delete_def Let_def split_beta)
    qed
  qed
qed


definition demo_session :: auth_session where
  "demo_session = \<lparr>au_server = ''https://other.io'', au_token = ''s3'', au_expires = 9, au_subject = [], au_email = [], au_name = [], au_role = []\<rparr>"

lemma demo_client_configured:
  "configured demo_session ''https://t.io'' demo_client" "trim_space ''https://t.io'' \<noteq> []"
  "map_option url_host (parse_url (trim_suffix ''https://t.io'' ''/'')) = Some ''t.io''"
  "map (url_host \<circ> ac_url) (cl_calls (snd (Get_tunnel demo_plane ''app'' demo_client))) = [''t.io'']"
  by code_simp+


section \<open>Names\<close>

lemma PathEscape_Nil [simp]: "PathEscape [] = []"
  by (simp add: PathEscape_def)

lemma PathEscape_Cons:
  "PathEscape (c # s) = (if unreserved c then [c] else [CHR ''%'', upper_hex (of_char c div 16), upper_hex (of_char c mod 16)]) @ PathEscape s"
  by (simp add: PathEscape_def)

lemma PathEscape_unreserved: "list_all unreserved s \<Longrightarrow> PathEscape s = s"
  by (induction s) (simp_all add: PathEscape_Cons)

lemma PathEscape_length: "length s \<le> length (PathEscape s) \<and> (\<not> list_all unreserved s \<longrightarrow> length s < length (PathEscape s))"
  by (induction s) (auto simp: PathEscape_Cons)

lemma hex_digit_safe: "n < 16 \<Longrightarrow> unreserved (upper_hex n)"
proof -
  have "list_all (\<lambda>n. unreserved (upper_hex n)) [0..<16]" by code_simp
  then show "n < 16 \<Longrightarrow> ?thesis" by (simp add: list_all_iff)
qed

lemma set_PathEscape: "c \<in> set (PathEscape s) \<Longrightarrow> unreserved c \<or> c = CHR ''%''"
proof (induction s)
  case (Cons x s)
  have "(of_char x :: nat) < 256" using of_char_mod_256 [of x, where 'a = nat] by (metis mod_less_divisor zero_less_numeral)
  then have "unreserved (upper_hex (of_char x div 16))" "unreserved (upper_hex (of_char x mod 16))"
    by (intro hex_digit_safe less_mult_imp_div_less; simp)+
  then show ?case using Cons by (auto simp: PathEscape_Cons split: if_splits)
qed simp

lemma not_unreserved: "\<not> unreserved CHR ''/''" "\<not> unreserved CHR '' ''" "\<not> unreserved CHR ''%''"
  by code_simp+

lemma unreserved_not_space: "unreserved c \<Longrightarrow> \<not> is_space c"
proof -
  have "list_all (\<lambda>n. \<not> unreserved (char_of n)) [32, 9, 10, 11, 12, 13 :: nat]" by code_simp
  then show "unreserved c \<Longrightarrow> ?thesis" by (auto simp: is_space_code) (metis char_of_char)+
qed

lemma trim_space_none: "list_all (\<lambda>c. \<not> is_space c) s \<Longrightarrow> trim_space s = s"
proof -
  assume s: "list_all (\<lambda>c. \<not> is_space c) s"
  have skip: "list_all (\<lambda>c. \<not> is_space c) t \<Longrightarrow> dropWhile is_space t = t" for t by (cases t) simp_all
  show ?thesis using skip [OF s] skip [of "rev s"] s by (simp add: trim_space_def)
qed

lemma normalizeName_escaped: "normalizeName (PathEscape s) = to_lower (PathEscape s)"
proof -
  have no: "\<not> is_space c" if "c \<in> set (PathEscape s)" for c
    using set_PathEscape [OF that] unreserved_not_space by (auto simp: is_space_def)
  then have "list_all (\<lambda>c. \<not> is_space c) (to_lower (PathEscape s))" by (auto simp: to_lower_def list_all_iff)
  then have "trim_lower (PathEscape s) = to_lower (PathEscape s)" by (simp add: trim_lower_def trim_space_none)
  moreover have blank: "CHR '' '' \<notin> set (to_lower (PathEscape s))"
    using \<open>list_all _ _\<close> by (auto simp: list_all_iff is_space_def)
  moreover have "map (\<lambda>c. if c = CHR '' '' then CHR ''-'' else c) (to_lower (PathEscape s)) = to_lower (PathEscape s)"
    using blank by (intro map_idI) auto
  ultimately show ?thesis by (simp add: normalizeName_def replace_char_def)
qed

lemma PathEscape_dots:
  assumes "s \<noteq> ''.''" and "s \<noteq> ''..''"
  shows "PathEscape s \<noteq> ''.'' \<and> PathEscape s \<noteq> ''..''"
proof (cases "list_all unreserved s")
  case True
  then show ?thesis using assms PathEscape_unreserved by simp
next
  case False
  then obtain c where "c \<in> set s" "\<not> unreserved c" by (auto simp: list_all_iff)
  then have "CHR ''%'' \<in> set (PathEscape s)" by (auto simp: PathEscape_def intro!: bexI [of _ c])
  then show ?thesis by auto
qed

lemma resolvePath_tunnel:
  assumes "CHR ''/'' \<notin> set x" and "x \<noteq> ''.''" and "x \<noteq> ''..''"
  shows "resolvePath (''/api/tunnels/'' @ x) = ''/api/tunnels/'' @ x"
  using assms by (simp add: resolvePath_def Let_def split_on_no_sep)

text \<open>
  C40. The path the client calls for a tunnel reaches the handler of that one tunnel, and the
  name the server looks up is the typed name in lower case when it consists of letters, digits
  and the characters that need no escape, and some other name otherwise: the client escapes it
  once itself and once more with the URL, and the server decodes once. A tunnel whose name needs
  an escape can be created but not shown, started, stopped or deleted from the client.
\<close>

theorem client_names:
  assumes "name \<noteq> []" and "to_lower name \<noteq> ''.''" and "to_lower name \<noteq> ''..''"
    and "rq_path r = url_path (resolve_reference base (tunnel_path name))"
  defines "key \<equiv> to_lower (PathEscape (to_lower name))"
  shows "(key = normalizeName name \<longleftrightarrow> list_all unreserved (to_lower name)) \<and>
    tunnel_handler en user s r =
      (case GetTunnelByName s key of
         Inl _ \<Rightarrow> (http_error ''tunnel not found'' 404, s)
       | Inr tun \<Rightarrow> if \<not> may_manage user (tr_owner tun) then (http_error ''forbidden'' 403, s)
                   else tunnel_action en user [PathEscape (to_lower name)] key tun s r)"
proof -
  let ?x = "PathEscape (to_lower name)"
  have slash: "CHR ''/'' \<notin> set ?x" using set_PathEscape not_unreserved(1) by fastforce
  have "rq_path r = ''/api/tunnels/'' @ ?x"
    using assms(4) resolvePath_tunnel [OF slash] PathEscape_dots [OF assms(2,3)] by (simp add: resolve_reference_def tunnel_path_def)
  then have parts: "split_on CHR ''/'' (trim_prefix (rq_path r) ''/api/tunnels/'') = [?x]"
    using split_on_no_sep [OF slash] by (simp only: trim_prefix_append)
  have key: "normalizeName ([?x] ! 0) = key" "normalizeName ?x = key" by (simp_all add: key_def normalizeName_escaped)
  have len: "length (to_lower name) \<le> length ?x" using PathEscape_length by blast
  have "0 < length name" using assms(1) by simp
  then have "0 < length key" using len by (simp only: key_def length_to_lower)
  then have "key \<noteq> []" by blast
  then have "tunnel_handler en user s r =
      (case GetTunnelByName s key of
         Inl _ \<Rightarrow> (http_error ''tunnel not found'' 404, s)
       | Inr tun \<Rightarrow> if \<not> may_manage user (tr_owner tun) then (http_error ''forbidden'' 403, s)
                   else tunnel_action en user [?x] key tun s r)"
    unfolding tunnel_handler_def parts Let_def key(1) by simp
  moreover have "key = normalizeName name \<longleftrightarrow> list_all unreserved (to_lower name)"
  proof
    assume u: "list_all unreserved (to_lower name)"
    have "normalizeName name = normalizeName (to_lower name)" by (simp add: normalizeName_def trim_lower_def)
    also have "\<dots> = normalizeName ?x" using PathEscape_unreserved [OF u] by simp
    finally show "key = normalizeName name" using key by simp
  next
    assume eq: "key = normalizeName name"
    have "length (trim_space t) \<le> length t" for t
      using length_dropWhile_le [of is_space "rev (dropWhile is_space t)"] length_dropWhile_le [of is_space t]
      by (simp add: trim_space_def)
    from this [of "to_lower name"] have "length (normalizeName name) \<le> length (to_lower name)"
      by (simp add: normalizeName_def replace_char_def trim_lower_def)
    then have "length ?x \<le> length (to_lower name)" using arg_cong [OF eq, of length] by (simp add: key_def)
    then show "list_all unreserved (to_lower name)" using PathEscape_length [of "to_lower name"] by linarith
  qed
  ultimately show ?thesis by blast
qed

theorem client_names_witness:
  "to_lower (PathEscape (to_lower ''My-App'')) = normalizeName ''My-App'' \<and>
   to_lower (PathEscape (to_lower ''a!b'')) \<noteq> normalizeName ''a!b''"
proof -
  have u: "list_all unreserved (to_lower ''My-App'')" "\<not> list_all unreserved (to_lower ''a!b'')"
    "to_lower ''My-App'' \<noteq> ''.''" "to_lower ''My-App'' \<noteq> ''..''" "to_lower ''a!b'' \<noteq> ''.''" "to_lower ''a!b'' \<noteq> ''..''" by code_simp+
  have ex: "\<exists>r :: request. rq_path r = p" for p
    by (rule exI [of _ "undefined\<lparr>rq_path := p\<rparr>"]) simp
  obtain ra :: request where ra: "rq_path ra = url_path (resolve_reference undefined (tunnel_path ''My-App''))" using ex by blast
  obtain rb :: request where rb: "rq_path rb = url_path (resolve_reference undefined (tunnel_path ''a!b''))" using ex by blast
  have "to_lower (PathEscape (to_lower ''My-App'')) = normalizeName ''My-App''"
    using conjunct1 [OF client_names [OF list.distinct(2) u(3,4) ra]] u(1) by (rule iffD2)
  moreover have "to_lower (PathEscape (to_lower ''a!b'')) \<noteq> normalizeName ''a!b''"
    using conjunct1 [OF client_names [OF list.distinct(2) u(5,6) rb]] u(2) by (simp only: simp_thms)
  ultimately show ?thesis by (rule conjI)
qed

end
