(* ===== verification/CliClaims.thy ===== *)
theory CliClaims
  imports Cli ClientClaims AuthClaims
begin

text \<open>The properties of the commands: the login ends, and what the options of the server mean.\<close>

section \<open>Login\<close>

text \<open>The outcome of a login: only a success changes the machine's files, namely the session.\<close>

definition login_ok :: "(string \<Rightarrow> time) \<Rightarrow> url \<Rightarrow> 'a shell_scheme \<Rightarrow> string + string \<times> string \<Rightarrow> 'a shell_scheme \<Rightarrow> bool" where
  "login_ok pt base m r m' \<longleftrightarrow>
     (\<exists>cs. sh_calls m' = cs @ sh_calls m \<and>
        list_all (\<lambda>c. wc_token c = None \<and> url_host (wc_url c) = url_host base \<and> url_scheme (wc_url c) = url_scheme base) cs) \<and>
     (case r of
        Inl _ \<Rightarrow> mc_home m' = mc_home m
      | Inr (email, role) \<Rightarrow> \<exists>g. email = gt_email g \<and> role = gt_role g \<and> mc_disk m = None \<and>
          mc_home m' = (mc_home m)\<lparr>ch_auth := Holds (login_session pt base g)\<rparr>)"

lemma login_ok_call:
  assumes "login_ok pt base (m\<lparr>sh_calls := c # sh_calls m\<rparr>) r m'" and "wc_token c = None"
    and "url_host (wc_url c) = url_host base" and "url_scheme (wc_url c) = url_scheme base"
  shows "login_ok pt base m r m'"
proof -
  from assms(1) obtain cs where cs: "sh_calls m' = cs @ c # sh_calls m"
    "list_all (\<lambda>c. wc_token c = None \<and> url_host (wc_url c) = url_host base \<and> url_scheme (wc_url c) = url_scheme base) cs"
    unfolding login_ok_def by auto
  then have "\<exists>cs. sh_calls m' = cs @ sh_calls m \<and>
      list_all (\<lambda>c. wc_token c = None \<and> url_host (wc_url c) = url_host base \<and> url_scheme (wc_url c) = url_scheme base) cs"
    using assms(2-4) by (intro exI [of _ "cs @ [c]"]) simp
  moreover have "case r of Inl _ \<Rightarrow> mc_home m' = mc_home m
      | Inr (email, role) \<Rightarrow> \<exists>g. email = gt_email g \<and> role = gt_role g \<and> mc_disk m = None \<and>
          mc_home m' = (mc_home m)\<lparr>ch_auth := Holds (login_session pt base g)\<rparr>"
    using assms(1) unfolding login_ok_def by (cases r) simp_all
  ultimately show ?thesis unfolding login_ok_def by blast
qed

lemma login_ok_failed: "login_ok pt base m (Inl e) m"
  by (simp add: login_ok_def)

lemma poll_call_fields:
  "wc_token (poll_call base code) = None" "url_host (wc_url (poll_call base code)) = url_host base"
  "url_scheme (wc_url (poll_call base code)) = url_scheme base"
  by (simp_all add: poll_call_def resolve_reference_def)

lemma start_call_fields:
  "wc_token (start_call base) = None" "url_host (wc_url (start_call base)) = url_host base"
  "url_scheme (wc_url (start_call base)) = url_scheme base"
  by (simp_all add: start_call_def resolve_reference_def)

lemma login_ok_saved:
  "SaveAuthSession (mc_disk m) (mc_home m) (login_session pt base g) = (res, h) \<Longrightarrow>
   login_ok pt base m (case res of Inl e \<Rightarrow> Inl e | Inr _ \<Rightarrow> Inr (gt_email g, gt_role g)) (m\<lparr>mc_home := h\<rparr>)"
  by (auto simp: login_ok_def SaveAuthSession_def split: option.splits)

lemma poll_loop_returns:
  assumes "\<And>k. clock k + step \<le> clock (Suc k)" and "0 < step"
  shows "\<exists>r m'. poll_loop web pt clock base code deadline k m = Some (r, m') \<and> login_ok pt base m r m'"
proof (induction "nat (deadline - clock k)" arbitrary: k m rule: less_induct)
  case less
  show ?case
  proof (cases "clock k < deadline")
    case False
    then show ?thesis using login_ok_failed by (subst poll_loop.simps) simp
  next
    case True
    define m1 where "m1 = m\<lparr>sh_calls := poll_call base code # sh_calls m\<rparr>"
    have call: "do_call web (poll_call base code) m = (web (sh_calls m1), m1)" by (simp add: do_call_def m1_def Let_def)
    have up: "login_ok pt base m1 r m' \<Longrightarrow> login_ok pt base m r m'" for r m'
      unfolding m1_def by (rule login_ok_call [OF _ poll_call_fields])
    show ?thesis
    proof (cases "web (sh_calls m1)")
      case (Inl e)
      then show ?thesis using True call up [OF login_ok_failed] by (subst poll_loop.simps) simp
    next
      case (Inr x)
      consider (pending) "wy_status x = 202" | (bad) "wy_status x \<noteq> 202" "wy_status x \<noteq> 200"
        | (undecoded) e where "wy_status x = 200" "wy_granted x = Inl e" | (granted) g where "wy_status x = 200" "wy_granted x = Inr g"
        by (cases "wy_granted x") auto
      then show ?thesis
      proof cases
        case pending
        then have "poll_loop web pt clock base code deadline k m = poll_loop web pt clock base code deadline (Suc k) m1"
          using True call Inr by (subst poll_loop.simps) simp
        moreover have "nat (deadline - clock (Suc k)) < nat (deadline - clock k)" using True assms(1) [of k] assms(2) by linarith
        ultimately show ?thesis using less [of "Suc k" m1] up by auto
      next
        case bad
        then show ?thesis using True call Inr up [OF login_ok_failed] by (subst poll_loop.simps) simp
      next
        case undecoded
        then show ?thesis using True call Inr up [OF login_ok_failed] by (subst poll_loop.simps) simp
      next
        case granted
        obtain res h where save: "SaveAuthSession (mc_disk m1) (mc_home m1) (login_session pt base g) = (res, h)"
          by (metis prod.exhaust)
        have "poll_loop web pt clock base code deadline k m =
            Some ((case res of Inl e \<Rightarrow> Inl e | Inr _ \<Rightarrow> Inr (gt_email g, gt_role g)), m1\<lparr>mc_home := h\<rparr>)"
          using True call Inr granted save by (subst poll_loop.simps) (simp split: sum.split)
        then show ?thesis using up [OF login_ok_saved [OF save]] by blast
      qed
    qed
  qed
qed



section \<open>Who becomes an administrator\<close>

lemma ex_splitCSV:
  "(\<exists>x \<in> set (splitCSV v). trim_lower x = t \<and> trim_lower x \<noteq> []) \<longleftrightarrow>
   (\<exists>p \<in> set (split_on CHR '','' v). trim_lower p = t \<and> t \<noteq> [])"
proof -
  have *: "trim_lower (trim_space p) = trim_lower p" for p by (simp add: trim_lower_def trim_space_to_lower)
  have "trim_lower p = [] " if "trim_space p = []" for p using * [of p] that by simp
  then show ?thesis by (auto simp: splitCSV_def *)
qed

text \<open>
  Who is an administrator of a server started with given options: the lists of emails,
  subjects and groups are read from the environment if set there and from the flags otherwise,
  split at commas, and a user gets the role admin exactly when the email, the subject or a
  group of the login equals an entry that is not blank, up to case and surrounding blanks.
\<close>

theorem serve_admins:
  assumes "serve_config fl var = Inr cfg" and "am_cfg a = cfg"
  shows "userRole a c =
    (let listed = (\<lambda>flag name t. \<exists>p \<in> set (split_on CHR '','' (if var name \<noteq> [] then var name else flag)). trim_lower p = t \<and> t \<noteq> [])
     in if listed (fl_emails fl) ''FWDX_OIDC_ADMIN_EMAILS'' (trim_lower (cl_email c)) \<or>
           listed (fl_subjects fl) ''FWDX_OIDC_ADMIN_SUBJECTS'' (trim_lower (cl_subject c)) \<or>
           (\<exists>g \<in> set (cl_groups c). listed (fl_groups fl) ''FWDX_OIDC_ADMIN_GROUPS'' (trim_lower g))
        then ''admin'' else ''member'')"
proof -
  have lists: "cf_admin_emails cfg = splitCSV (env_first (fl_emails fl) (var ''FWDX_OIDC_ADMIN_EMAILS''))"
    "cf_admin_subjects cfg = splitCSV (env_first (fl_subjects fl) (var ''FWDX_OIDC_ADMIN_SUBJECTS''))"
    "cf_admin_groups cfg = splitCSV (env_first (fl_groups fl) (var ''FWDX_OIDC_ADMIN_GROUPS''))"
    using assms(1) by (auto simp: serve_config_def Let_def split: if_splits)
  have groups: "(\<exists>x \<in> set (splitCSV v). \<exists>g \<in> G. trim_lower x = trim_lower g \<and> trim_lower x \<noteq> []) \<longleftrightarrow>
      (\<exists>g \<in> G. \<exists>p \<in> set (split_on CHR '','' v). trim_lower p = trim_lower g \<and> trim_lower g \<noteq> [])" for v G
    unfolding ex_splitCSV [symmetric] by blast
  show ?thesis
    unfolding user_role_correct assms(2) lists Let_def groups ex_splitCSV env_first_def ..
qed

definition demo_flags :: serve_flags where
  "demo_flags = (default_flags ''/root'')\<lparr>fl_hostname := ''t.io'', fl_emails := ''ann@t.io, Bob@T.io''\<rparr>"

lemma demo_flags_config:
  "case serve_config demo_flags (\<lambda>_. []) of Inl _ \<Rightarrow> False | Inr cfg \<Rightarrow> cf_trusted cfg = []"
  "list_ex (\<lambda>p. trim_lower p = trim_lower ''bob@t.io'' \<and> trim_lower ''bob@t.io'' \<noteq> []) (split_on CHR '','' (fl_emails demo_flags))"
  by code_simp+

theorem serve_admins_witness:
  "\<exists>cfg. serve_config demo_flags (\<lambda>_. []) = Inr cfg \<and>
     (\<forall>m. userRole \<lparr>am_cfg = cfg, am_oidc = m, am_secure = True, am_key = ''k''\<rparr> (zero_claims\<lparr>cl_email := ''bob@t.io''\<rparr>) = ''admin'')"
proof -
  obtain cfg where cfg: "serve_config demo_flags (\<lambda>_. []) = Inr cfg"
    using demo_flags_config(1) by (cases "serve_config demo_flags (\<lambda>_. [])") simp_all
  have "\<exists>p \<in> set (split_on CHR '','' (fl_emails demo_flags)). trim_lower p = trim_lower ''bob@t.io'' \<and> trim_lower ''bob@t.io'' \<noteq> []"
    using demo_flags_config(2) by (simp only: list_ex_iff)
  moreover have "cl_email (zero_claims\<lparr>cl_email := ''bob@t.io''\<rparr>) = ''bob@t.io''" by simp
  ultimately have listed: "\<exists>p \<in> set (split_on CHR '','' (fl_emails demo_flags)).
      trim_lower p = trim_lower (cl_email (zero_claims\<lparr>cl_email := ''bob@t.io''\<rparr>)) \<and>
      trim_lower (cl_email (zero_claims\<lparr>cl_email := ''bob@t.io''\<rparr>)) \<noteq> []" by (simp only:)
  have "userRole \<lparr>am_cfg = cfg, am_oidc = m, am_secure = True, am_key = ''k''\<rparr> (zero_claims\<lparr>cl_email := ''bob@t.io''\<rparr>) = ''admin''" for m
  proof -
    have "am_cfg \<lparr>am_cfg = cfg, am_oidc = m, am_secure = True, am_key = ''k''\<rparr> = cfg" by simp
    from serve_admins [OF cfg this, of "zero_claims\<lparr>cl_email := ''bob@t.io''\<rparr>"] listed
    show ?thesis by (simp only: Let_def simp_thms if_True if_False)
  qed
  then show ?thesis using cfg by blast
qed

end
