(* ===== verification/Tokens.thy ===== *)
theory Tokens
  imports Oidc
begin

text \<open>
  Random tokens of internal/server/oidc.go: unpadded URL-safe base64 of random bytes
  (\<open>randomString\<close>), the PKCE verifier with its challenge, and the parameters of the URL of the
  provider's login page. Bytes are naturals below 256; the digest is a parameter.
\<close>

section \<open>Base64\<close>

text \<open>Bytes to groups of six bits, and back.\<close>

fun sextets :: "nat list \<Rightarrow> nat list" where
  "sextets (a # b # c # bs) =
     (a div 4) # ((a mod 4) * 16 + b div 16) # ((b mod 16) * 4 + c div 64) # (c mod 64) # sextets bs"
| "sextets [a, b] = [a div 4, (a mod 4) * 16 + b div 16, (b mod 16) * 4]"
| "sextets [a] = [a div 4, (a mod 4) * 16]"
| "sextets [] = []"

fun unsextets :: "nat list \<Rightarrow> nat list" where
  "unsextets (p # q # r # s # ss) =
     (p * 4 + q div 16) # ((q mod 16) * 16 + r div 4) # ((r mod 4) * 64 + s) # unsextets ss"
| "unsextets [p, q, r] = [p * 4 + q div 16, (q mod 16) * 16 + r div 4]"
| "unsextets [p, q] = [p * 4 + q div 16]"
| "unsextets ss = []"

definition url_alphabet :: string where
  "url_alphabet = ''ABCDEFGHIJKLMNOPQRSTUVWXYZabcdefghijklmnopqrstuvwxyz0123456789-_''"

definition RawURLEncoding :: "nat list \<Rightarrow> string" where
  "RawURLEncoding bs = map (\<lambda>n. url_alphabet ! n) (sextets bs)"

section \<open>Tokens\<close>

text \<open>\<open>bytes\<close> is the outcome of \<open>rand.Read\<close>.\<close>

definition randomToken :: "nat list res \<Rightarrow> string res" where
  "randomToken bytes = (case bytes of Inl e \<Rightarrow> Inl e | Inr bs \<Rightarrow> Inr (RawURLEncoding bs))"

definition generatePKCEVerifier :: "(string \<Rightarrow> nat list) \<Rightarrow> nat list res \<Rightarrow> (string \<times> string) res" where
  "generatePKCEVerifier sha256 bytes =
     (case randomToken bytes of
        Inl e \<Rightarrow> Inl e
      | Inr verifier \<Rightarrow> Inr (verifier, RawURLEncoding (sha256 verifier)))"

text \<open>\<open>lib\<close> is \<open>oauth2.Config.AuthCodeURL\<close> with the configuration of the client.\<close>

definition authCodeURL :: "(string \<Rightarrow> (string \<times> string) list \<Rightarrow> string) \<Rightarrow> string \<Rightarrow> string \<Rightarrow> string" where
  "authCodeURL lib state challenge =
     lib state [(''code_challenge'', challenge), (''code_challenge_method'', ''S256'')]"

section \<open>Facts\<close>

lemma sextets_small: "list_all (\<lambda>b. b < 256) bs \<Longrightarrow> list_all (\<lambda>n. n < 64) (sextets bs)"
  by (induction bs rule: sextets.induct) (auto simp: less_mult_imp_div_less)

lemma length_sextets: "length (sextets bs) = (4 * length bs + 2) div 3"
  by (induction bs rule: sextets.induct) auto

lemma unsextets_sextets: "list_all (\<lambda>b. b < 256) bs \<Longrightarrow> unsextets (sextets bs) = bs"
proof (induction bs rule: sextets.induct)
  case (1 a b c bs)
  have "((a mod 4) * 16 + b div 16) div 16 = a mod 4" "((b mod 16) * 4 + c div 64) div 4 = b mod 16"
    "((a mod 4) * 16 + b div 16) mod 16 = b div 16" "((b mod 16) * 4 + c div 64) mod 4 = c div 64"
    using 1(2) by (auto simp: less_mult_imp_div_less)
  then show ?case using 1 by (simp add: mult.commute)
next
  case (2 a b)
  have "((a mod 4) * 16 + b div 16) div 16 = a mod 4" "((a mod 4) * 16 + b div 16) mod 16 = b div 16"
    using 2 by (auto simp: less_mult_imp_div_less)
  then show ?case by (simp add: mult.commute)
qed (simp_all add: mult.commute)

lemma url_alphabet_distinct: "distinct url_alphabet" "length url_alphabet = 64"
  by code_simp+

lemma url_alphabet_safe: "list_all (\<lambda>c. \<not> is_space c \<and> c \<notin> {CHR ''+'', CHR ''/'', CHR ''='', CHR ''?'', CHR ''&'', CHR ''#'', CHR '';'', CHR '',''}) url_alphabet"
  by code_simp

text \<open>Different bytes give different tokens, and a token can stand in a URL, a cookie or a header.\<close>

lemma RawURLEncoding_inj:
  assumes "list_all (\<lambda>b. b < 256) bs" and "list_all (\<lambda>b. b < 256) cs" and "RawURLEncoding bs = RawURLEncoding cs"
  shows "bs = cs"
proof -
  have inj: "inj_on (\<lambda>n. url_alphabet ! n) {n. n < 64}"
    using url_alphabet_distinct by (auto simp: inj_on_def nth_eq_iff_index_eq)
  have "set (sextets bs) \<union> set (sextets cs) \<subseteq> {n. n < 64}"
    using sextets_small [OF assms(1)] sextets_small [OF assms(2)] by (auto simp: list_all_iff)
  then have "inj_on (\<lambda>n. url_alphabet ! n) (set (sextets bs) \<union> set (sextets cs))"
    by (rule inj_on_subset [OF inj])
  then have same: "sextets bs = sextets cs"
    by (rule map_inj_on [OF assms(3) [unfolded RawURLEncoding_def]])
  have "bs = unsextets (sextets cs)" using unsextets_sextets [OF assms(1)] unfolding same by (rule sym)
  also have "\<dots> = cs" by (rule unsextets_sextets [OF assms(2)])
  finally show ?thesis .
qed

lemma RawURLEncoding_alphabet:
  assumes "list_all (\<lambda>b. b < 256) bs"
  shows "set (RawURLEncoding bs) \<subseteq> set url_alphabet"
  using sextets_small [OF assms] url_alphabet_distinct(2) by (auto simp: RawURLEncoding_def list_all_iff)

text \<open>The query of a callback gives the state back unchanged: trimming takes nothing from a token.\<close>

lemma trim_RawURLEncoding:
  assumes "list_all (\<lambda>b. b < 256) bs"
  shows "trim_space (RawURLEncoding bs) = RawURLEncoding bs"
proof -
  let ?t = "RawURLEncoding bs"
  have none: "\<not> is_space c" if "c \<in> set ?t" for c
    using that RawURLEncoding_alphabet [OF assms] url_alphabet_safe by (auto simp: list_all_iff)
  have drop: "dropWhile is_space xs = xs" if "set xs \<subseteq> set ?t" for xs
    using that none by (cases xs) auto
  show ?thesis by (simp add: trim_space_def drop)
qed

lemma randomToken_spec:
  assumes "randomToken (Inr bs) = Inr t" and "list_all (\<lambda>b. b < 256) bs"
  shows "length t = (4 * length bs + 2) div 3 \<and> set t \<subseteq> set url_alphabet"
  using assms sextets_small [OF assms(2)] url_alphabet_distinct(2)
  by (auto simp: randomToken_def RawURLEncoding_def length_sextets list_all_iff)

end
