(* ===== verification/LoginFlow.thy ===== *)
theory LoginFlow
  imports Tokens AuthClaims
begin

text \<open>
  A browser login from end to end (auth_http.go with the tokens of oidc.go): the login handler
  with the random state and PKCE verifier it really makes, anything the server does to the
  store meanwhile, and the callback at a provider that checks the challenge.
\<close>

section \<open>The login handler with its tokens\<close>

definition login_with_tokens ::
  "(go_err \<Rightarrow> string) \<Rightarrow> (string \<Rightarrow> (string \<times> string) list \<Rightarrow> string) \<Rightarrow> (string \<Rightarrow> nat list) \<Rightarrow> auth_manager \<Rightarrow>
   store \<Rightarrow> time \<Rightarrow> nat list res \<Rightarrow> nat list res \<Rightarrow> request \<Rightarrow> auth_response \<times> store" where
  "login_with_tokens drv lib sha256 a s now state_bytes verifier_bytes r =
     (let pkce = generatePKCEVerifier sha256 verifier_bytes
      in handleOIDCLogin drv (\<lambda>st _. authCodeURL lib st (case pkce of Inl _ \<Rightarrow> [] | Inr (_, challenge) \<Rightarrow> challenge)) a s now
           (randomToken state_bytes) (map_sum id fst pkce) r)"

section \<open>A pending login stays until it is used\<close>

fun consumes_login :: "string \<Rightarrow> store_op \<Rightarrow> bool" where
  "consumes_login st (OpConsumeLogin now st') = (st' = st)"
| "consumes_login st _ = False"

definition login_pending :: "login_row \<Rightarrow> store \<Rightarrow> bool" where
  "login_pending l s \<longleftrightarrow> store_ok s \<and> l \<in> set (logins s)"

lemma identity_logins: "identity_part s' = identity_part s \<Longrightarrow> logins s' = logins s"
  by (simp add: identity_part_def)

lemma ConsumeLogin_keeps:
  assumes "login_pending l s" and "st \<noteq> ls_state l"
  shows "l \<in> set (logins (snd (ConsumeLoginState s now st)))"
proof -
  have other: "ls_id l \<noteq> ls_id x" if "find (\<lambda>l. ls_state l = st) (logins s) = Some x" for x
    using find_SomeD [OF that] distinct_key_unique [OF store_okD(10), of s x l] assms by (auto simp: login_pending_def)
  then show ?thesis
    using assms by (auto simp: ConsumeLoginState_def Let_def login_pending_def dest: other split: option.split)
qed

lemma exec_op_pending:
  assumes "login_pending l s" and "\<not> consumes_login (ls_state l) op"
  shows "login_pending l (exec_op H op s)"
proof -
  have "l \<in> set (logins (exec_op H op s))"
  proof (cases op)
    case (OpConsumeLogin now st)
    then show ?thesis using ConsumeLogin_keeps [OF assms(1)] assms(2) by simp
  next
    case (OpCreateLogin now st v r ex)
    then show ?thesis using assms(1) by (auto simp: login_pending_def CreateLoginState_def Let_def)
  qed (use assms(1) in \<open>simp_all add: login_pending_def tunnel_part_identity [THEN identity_logins]\<close>)
  then show ?thesis using assms(1) by (simp add: login_pending_def exec_op_ok)
qed

lemma run_ops_pending:
  assumes "login_pending l s" and "list_all (\<lambda>op. \<not> consumes_login (ls_state l) op) ops"
  shows "login_pending l (run_ops H ops s)"
  by (rule run_ops_invariant [where Q = "\<lambda>op. \<not> consumes_login (ls_state l) op", OF exec_op_pending assms])

lemma ConsumeLogin_pending:
  assumes "login_pending l s" and "\<not> fault s LoginStates" and "\<not> expired now (lo_expires (scan_login l))"
  shows "fst (ConsumeLoginState s now (ls_state l)) = Inr (scan_login l)"
proof -
  have "find (\<lambda>x. ls_state x = ls_state l) (logins s) = Some l"
    using assms(1) store_okD(9) by (auto intro!: find_unique simp: login_pending_def)
  then show ?thesis using assms(2,3) by (simp add: ConsumeLoginState_def Let_def)
qed

section \<open>Without faults the steps of a callback succeed\<close>

lemma Upsert_succeeds:
  assumes "\<not> fault s Users"
  shows "\<exists>u. fst (UpsertUserFromOIDC s now sub em dn gs ro) = Inr u \<and>
    ur_id u \<in> us_id ` set (users (snd (UpsertUserFromOIDC s now sub em dn gs ro)))"
proof -
  let ?s = "upsert_user_row s now sub em dn gs (if ro = [] then ''member'' else ro)"
  have "sub \<in> us_subject ` set (users ?s)"
    by (auto simp: upsert_user_row_def update_where_def image_image intro: rev_image_eqI)
  then obtain u where u: "find (\<lambda>u. us_subject u = sub) (users ?s) = Some u"
    by (cases "find (\<lambda>u. us_subject u = sub) (users ?s)") (auto simp: find_None_iff)
  then show ?thesis
    using assms by (auto simp: UpsertUserFromOIDC_def Let_def scanUserRecord_def dest: find_SomeD)
qed

lemma issue_succeeds:
  assumes "\<not> fault s Sessions" and "sessionHash hmac a tok \<notin> session_hashes s" and "uid \<in> us_id ` set (users s)"
  shows "fst (issueSession hmac a s now (Inr tok) uid) = Inr (tok, now + defaultSessionTTL)"
  using assms by (auto simp: issueSession_def CreateSession_def Let_def session_hashes_def split: prod.split)

section \<open>The two handlers\<close>

lemma login_redirect_nonempty: "login_redirect r \<noteq> []"
  by (auto simp: login_redirect_def default_redirect_def Let_def)

lemma begun_login:
  assumes "sessions_up s" and "\<not> fault s LoginStates" and "OIDCEnabled a" and "RawURLEncoding bs \<notin> login_states s"
    and "rq_method r = ''GET''" and "login_with_tokens drv lib sha256 a s now (Inr bs) (Inr vs) r = (resp, s1)"
  shows "resp = redirect (lib (RawURLEncoding bs)
      [(''code_challenge'', RawURLEncoding (sha256 (RawURLEncoding vs))), (''code_challenge_method'', ''S256'')])"
    "\<exists>l. login_pending l s1 \<and> scan_login l = \<lparr>lo_id = ls_id l, lo_state = RawURLEncoding bs, lo_verifier = RawURLEncoding vs,
      lo_redirect = login_redirect r, lo_expires = now + 10 * minute, lo_created = now\<rparr>"
proof -
  let ?c = "CreateLoginState s now (RawURLEncoding bs) (RawURLEncoding vs) (login_redirect r) (now + 10 * minute)"
  have "fst ?c = Inr ()" using assms(2,4) by (simp add: CreateLoginState_def Let_def login_states_def)
  then have c: "?c = (Inr (), snd ?c)" by (metis prod.collapse)
  obtain s0 where c0: "?c = (Inr (), s0)" using c by blast
  have run: "(resp, s1) = (redirect (lib (RawURLEncoding bs)
      [(''code_challenge'', RawURLEncoding (sha256 (RawURLEncoding vs))), (''code_challenge_method'', ''S256'')]), s0)"
    unfolding assms(6) [symmetric] login_with_tokens_def handleOIDCLogin_def
    using assms(3,5) by (simp add: randomToken_def generatePKCEVerifier_def authCodeURL_def c0 Let_def)
  then show "resp = redirect (lib (RawURLEncoding bs)
      [(''code_challenge'', RawURLEncoding (sha256 (RawURLEncoding vs))), (''code_challenge_method'', ''S256'')])" by simp
  have s1: "s1 = snd ?c" using run by (simp add: c0)
  have okc: "store_ok s1" using assms(1) by (simp add: s1 sessions_up_def CreateLoginState_ok)
  let ?l = "\<lparr>ls_id = next_id s LoginStates, ls_state = RawURLEncoding bs, ls_verifier = RawURLEncoding vs,
    ls_redirect = login_redirect r, ls_expires = format_time (now + 10 * minute), ls_created = format_time now\<rparr>"
  have "?l \<in> set (logins s1)"
    using assms(2,4) login_redirect_nonempty [of r]
    by (simp add: s1 CreateLoginState_def Let_def login_states_def)
  then have "login_pending ?l s1" using okc by (simp add: login_pending_def)
  moreover have "scan_login ?l = \<lparr>lo_id = ls_id ?l, lo_state = RawURLEncoding bs, lo_verifier = RawURLEncoding vs,
      lo_redirect = login_redirect r, lo_expires = now + 10 * minute, lo_created = now\<rparr>"
    by (simp add: scan_login_def)
  ultimately show "\<exists>l. login_pending l s1 \<and> scan_login l = \<lparr>lo_id = ls_id l, lo_state = RawURLEncoding bs, lo_verifier = RawURLEncoding vs,
      lo_redirect = login_redirect r, lo_expires = now + 10 * minute, lo_created = now\<rparr>" by blast
qed

lemma callback_of_pending:
  assumes up: "sessions_up s" and consumed: "ConsumeLoginState s now st = (Inr login, s1)"
    and "rq_method r = ''GET''" and "OIDCEnabled a" and "trim_space (query_get r ''state'') = st" and "st \<noteq> []"
    and "trim_space (query_get r ''code'') \<noteq> []" and code: "exchange (trim_space (query_get r ''code'')) (lo_verifier login) = Inr c"
    and tok: "sessionHash hmac a tok \<notin> session_hashes s" "tok \<noteq> []"
  shows "\<exists>resp s2 u. handleOIDCCallback drv hmac exchange a s now (Inr tok) r = (resp, s2) \<and>
    resp = setSessionCookie tok (now + 12 * hour) (redirect (lo_redirect login)) \<and>
    ur_subject u = cl_subject c \<and> ur_role u = userRole a c \<and>
    (\<forall>q t. requestSessionToken q = tok \<longrightarrow> \<not> expired t (now + 12 * hour) \<longrightarrow> speaks_for hmac a s2 t q u)"
proof -
  let ?up = "UpsertUserFromOIDC s1 now (cl_subject c) (cl_email c) (cl_name c) (cl_groups c) (userRole a c)"
  have up1: "sessions_up s1" using sessions_up_frame(1) [OF up, of now st] by (simp add: consumed)
  have same: "session_hashes s1 = session_hashes s" using identity_ops_frame(6) [of s now st] by (simp add: consumed)
  have nofault: "\<not> fault s1 Users" using up1 by (simp add: sessions_up_def)
  obtain u s2 where user: "?up = (Inr u, s2)" and uid: "ur_id u \<in> us_id ` set (users s2)"
    using Upsert_succeeds [OF nofault, of now "cl_subject c" "cl_email c" "cl_name c" "cl_groups c" "userRole a c"]
    by (metis prod.collapse)
  have up2: "sessions_up s2"
    using sessions_up_frame(2) [OF up1, of now "cl_subject c" "cl_email c" "cl_name c" "cl_groups c" "userRole a c"]
    by (simp add: user)
  have hashes: "session_hashes s2 = session_hashes s"
    using identity_ops_frame(1) [of s1 now "cl_subject c" "cl_email c" "cl_name c" "cl_groups c" "userRole a c"] same
    by (simp add: user)
  have "fst (issueSession hmac a s2 now (Inr tok) (ur_id u)) = Inr (tok, now + defaultSessionTTL)"
    by (rule issue_succeeds) (use up2 tok(1) hashes uid in \<open>simp_all add: sessions_up_def\<close>)
  then obtain s3 where sess: "issueSession hmac a s2 now (Inr tok) (ur_id u) = (Inr (tok, now + 12 * hour), s3)"
    unfolding defaultSessionTTL_def by (metis prod.collapse)
  have "handleOIDCCallback drv hmac exchange a s now (Inr tok) r =
      (setSessionCookie tok (now + 12 * hour) (redirect (lo_redirect login)), s3)"
    using assms(3-7) by (simp add: handleOIDCCallback_def Let_def consumed code user sess)
  moreover have "ur_subject u = cl_subject c" "ur_role u = userRole a c"
    using UpsertUserFromOIDC_result [OF user] userRole_values [of a c] by auto
  moreover have "speaks_for hmac a s3 t q u" if "requestSessionToken q = tok" "\<not> expired t (now + 12 * hour)" for q t
    by (rule issued_session_speaks [OF up1 user sess that(1) tok(2) that(2)])
  ultimately show ?thesis by blast
qed

section \<open>A login completes\<close>

text \<open>
  C19. A login that is begun can be completed: with working tables and a state not in use, the
  login handler redirects to the provider with its state and the S256 challenge of a fresh
  verifier; whatever the server does to the store meanwhile, short of using that state, a
  callback within ten minutes that brings the state back succeeds at every provider that
  accepts the code from whoever knows a verifier of that challenge: it redirects to where the
  login asked, and the cookie it sets speaks for the provider's subject for twelve hours.
\<close>

theorem login_completes:
  assumes up: "sessions_up s" "\<not> fault s LoginStates" "OIDCEnabled a"
    and random: "list_all (\<lambda>b. b < 256) bs" "bs \<noteq> []" "RawURLEncoding bs \<notin> login_states s"
    and login: "rq_method r = ''GET''"
      "login_with_tokens drv lib sha256 a s now (Inr bs) (Inr vs) r = (resp1, s1)"
    and later: "list_all (\<lambda>op. \<not> consumes_login (RawURLEncoding bs) op) ops" "s' = run_ops H ops s1"
      "sessions_up s'" "\<not> fault s' LoginStates" "now' \<le> now + 10 * minute"
    and callback: "rq_method r' = ''GET''" "query_get r' ''state'' = RawURLEncoding bs"
      "trim_space (query_get r' ''code'') = code" "code \<noteq> []"
    and provider: "\<And>v. RawURLEncoding (sha256 v) = challenge \<Longrightarrow> exchange code v = Inr c"
      "challenge = RawURLEncoding (sha256 (RawURLEncoding vs))"
    and token: "sessionHash hmac a tok \<notin> session_hashes s'" "tok \<noteq> []"
  shows "rs_status resp1 = 302 \<and>
    rs_headers resp1 = [(''Location'', lib (RawURLEncoding bs) [(''code_challenge'', challenge), (''code_challenge_method'', ''S256'')])] \<and>
    (\<exists>resp2 s2 u. handleOIDCCallback drv hmac exchange a s' now' (Inr tok) r' = (resp2, s2) \<and> rs_status resp2 = 302 \<and>
      rs_headers resp2 = [(''Location'', login_redirect r)] \<and>
      rs_cookies resp2 = [SetCookie userSessionCookieName tok (now' + 12 * hour)] \<and>
      ur_subject u = cl_subject c \<and> ur_role u = userRole a c \<and>
      (\<forall>q t. requestSessionToken q = tok \<longrightarrow> \<not> expired t (now' + 12 * hour) \<longrightarrow> speaks_for hmac a s2 t q u))"
proof -
  have st: "RawURLEncoding bs \<noteq> []"
    using random(2) length_sextets [of bs] by (cases bs) (auto simp: RawURLEncoding_def)
  have trimmed: "trim_space (query_get r' ''state'') = RawURLEncoding bs"
    using trim_RawURLEncoding [OF random(1)] callback(2) by simp
  obtain l where l: "login_pending l s1" "scan_login l = \<lparr>lo_id = ls_id l, lo_state = RawURLEncoding bs,
      lo_verifier = RawURLEncoding vs, lo_redirect = login_redirect r, lo_expires = now + 10 * minute, lo_created = now\<rparr>"
    using begun_login(2) [OF up random(3) login] by blast
  have ls: "ls_state l = RawURLEncoding bs" using arg_cong [OF l(2), of lo_state] by (simp add: scan_login_def)
  have pending: "login_pending l s'" using run_ops_pending [OF l(1)] later(1,2) ls by simp
  have live: "\<not> expired now' (lo_expires (scan_login l))" using l(2) later(5) by (simp add: expired_def)
  obtain s3 where consumed: "ConsumeLoginState s' now' (RawURLEncoding bs) = (Inr (scan_login l), s3)"
    using ConsumeLogin_pending [OF pending later(4) live] ls by (metis prod.collapse)
  have code: "exchange (trim_space (query_get r' ''code'')) (lo_verifier (scan_login l)) = Inr c"
    using provider l(2) callback(3) by simp
  have given: "trim_space (query_get r' ''code'') \<noteq> []" using callback(3,4) by simp
  obtain resp2 s2 u where cb: "handleOIDCCallback drv hmac exchange a s' now' (Inr tok) r' = (resp2, s2)"
      "resp2 = setSessionCookie tok (now' + 12 * hour) (redirect (lo_redirect (scan_login l)))"
      "ur_subject u = cl_subject c" "ur_role u = userRole a c"
      "\<forall>q t. requestSessionToken q = tok \<longrightarrow> \<not> expired t (now' + 12 * hour) \<longrightarrow> speaks_for hmac a s2 t q u"
    using callback_of_pending [where drv = drv and exchange = exchange and hmac = hmac and c = c, OF later(3) consumed callback(1) up(3) trimmed st given code token] by blast
  have "rs_status resp2 = 302" "rs_headers resp2 = [(''Location'', login_redirect r)]"
    "rs_cookies resp2 = [SetCookie userSessionCookieName tok (now' + 12 * hour)]"
    by (simp_all add: cb(2) l(2) setSessionCookie_def redirect_def plain_response_def)
  moreover have "resp1 = redirect (lib (RawURLEncoding bs) [(''code_challenge'', challenge), (''code_challenge_method'', ''S256'')])"
    using begun_login(1) [OF up random(3) login] provider(2) by simp
  then have "rs_status resp1 = 302" "rs_headers resp1 = [(''Location'', lib (RawURLEncoding bs)
      [(''code_challenge'', challenge), (''code_challenge_method'', ''S256'')])]"
    by (simp_all add: redirect_def plain_response_def)
  ultimately show ?thesis using cb(1,3-5) by blast
qed

definition flow_sha :: "string \<Rightarrow> nat list" where
  "flow_sha v = map (of_char :: char \<Rightarrow> nat) v"

definition flow_exchange :: "string \<Rightarrow> string \<Rightarrow> string + claims" where
  "flow_exchange code v =
     (if code = ''c7'' \<and> RawURLEncoding (flow_sha v) = RawURLEncoding (flow_sha (RawURLEncoding [200, 5, 6]))
      then Inr demo_claims else Inl ''invalid_grant'')"

definition flow_login :: "auth_response \<times> store" where
  "flow_login = login_with_tokens (\<lambda>_. []) (\<lambda>st ps. ''https://idp?'' @ st) flow_sha demo_auth demo_store 20
     (Inr [1, 2, 250]) (Inr [200, 5, 6]) (demo_request ''GET'' ''/auth/oidc/login'' [])"

definition flow_store :: store where
  "flow_store = run_ops (\<lambda>x. x) [OpGetSession 21 ''h2'', OpConsumeLogin 22 ''st'', Restart] (snd flow_login)"

definition flow_callback :: request where
  "flow_callback = (demo_request ''GET'' ''/auth/oidc/callback'' [])\<lparr>rq_args := [(''state'', ''AQL6''), (''code'', ''c7'')]\<rparr>"

theorem login_completes_witness:
  "rs_headers (fst flow_login) = [(''Location'', ''https://idp?AQL6'')] \<and>
   (\<exists>resp s2 u. handleOIDCCallback (\<lambda>_. []) demo_hmac flow_exchange demo_auth flow_store 60 (Inr ''tok'') flow_callback = (resp, s2) \<and>
     rs_headers resp = [(''Location'', ''/admin/ui'')] \<and> ur_role u = ''admin'' \<and>
     speaks_for demo_hmac demo_auth s2 90 (demo_request ''GET'' ''/'' ''tok'') u)"
proof -
  let ?r = "demo_request ''GET'' ''/auth/oidc/login'' []"
  have A: "\<not> fault demo_store LoginStates" "OIDCEnabled demo_auth" "list_all (\<lambda>b. b < 256) [1, 2, 250 :: nat]"
    "[1, 2, 250 :: nat] \<noteq> []" "RawURLEncoding [1, 2, 250] \<notin> login_states demo_store" "rq_method ?r = ''GET''"
    by code_simp+
  have B: "list_all (\<lambda>op. \<not> consumes_login (RawURLEncoding [1, 2, 250]) op) [OpGetSession 21 ''h2'', OpConsumeLogin 22 ''st'', Restart]"
    "\<not> fault flow_store Sessions" "\<not> fault flow_store Users" "\<not> fault flow_store LoginStates"
    by code_simp+
  have C: "rq_method flow_callback = ''GET''" "query_get flow_callback ''state'' = RawURLEncoding [1, 2, 250]"
    "trim_space (query_get flow_callback ''code'') = ''c7''" "''c7'' \<noteq> ([] :: string)"
    "sessionHash demo_hmac demo_auth ''tok'' \<notin> session_hashes flow_store" "''tok'' \<noteq> ([] :: string)"
    "requestSessionToken (demo_request ''GET'' ''/'' ''tok'') = ''tok''" "userRole demo_auth demo_claims = ''admin''"
    "login_redirect ?r = ''/admin/ui''" "RawURLEncoding [1, 2, 250] = ''AQL6''"
    by code_simp+
  have E: "login_with_tokens (\<lambda>_. []) (\<lambda>st ps. ''https://idp?'' @ st) flow_sha demo_auth demo_store 20
      (Inr [1, 2, 250]) (Inr [200, 5, 6]) ?r = (fst flow_login, snd flow_login)"
    by (simp add: flow_login_def)
  have "store_ok (snd flow_login)"
    using begun_login(2) [OF demo_sessions_up A(1,2,5,6) E] by (auto simp: login_pending_def)
  then have up: "sessions_up flow_store"
    using B(2,3) unfolding sessions_up_def by (simp add: flow_store_def run_ops_ok)
  have time: "(60 :: int) \<le> 20 + 10 * minute" "\<not> expired 90 (60 + 12 * hour)"
    by (simp_all add: expired_def is_zero_def hour_def minute_def second_def)
  have P: "flow_exchange ''c7'' v = Inr demo_claims"
    if "RawURLEncoding (flow_sha v) = RawURLEncoding (flow_sha (RawURLEncoding [200, 5, 6]))" for v
    using that by (simp add: flow_exchange_def)
  note R = login_completes [where hmac = demo_hmac and exchange = flow_exchange and H = "\<lambda>x. x" and drv = "\<lambda>_. []",
      OF demo_sessions_up A E B(1) flow_store_def up B(4) time(1) C(1-4) P refl C(5,6)]
  obtain resp s2 u where cb: "handleOIDCCallback (\<lambda>_. []) demo_hmac flow_exchange demo_auth flow_store 60 (Inr ''tok'') flow_callback = (resp, s2)"
      "rs_headers resp = [(''Location'', login_redirect ?r)]" "ur_role u = userRole demo_auth demo_claims"
      "\<forall>q t. requestSessionToken q = ''tok'' \<longrightarrow> \<not> expired t (60 + 12 * hour) \<longrightarrow> speaks_for demo_hmac demo_auth s2 t q u"
    using R by blast
  have "speaks_for demo_hmac demo_auth s2 90 (demo_request ''GET'' ''/'' ''tok'') u" using cb(4) C(7) time(2) by blast
  then show ?thesis using R cb(1-3) C(8-10) by auto
qed

end
