(* ===== verification/Startup.thy ===== *)
theory Startup
  imports Server
begin

text \<open>
  What happens when the server starts and ends: opening the database (\<open>NewStore\<close> of store.go),
  the options of the gRPC server (\<open>RunGrpcServer\<close> of grpc_tunnel.go) and the end of \<open>Run\<close>
  (server.go), which waits for both servers.
\<close>

section \<open>Opening the database\<close>

text \<open>
  The outcomes of creating the directory, of \<open>sql.Open\<close> and of the schema script; the two
  \<open>ALTER TABLE\<close> statements for old databases may fail without effect.
\<close>

definition NewStore :: "string option \<Rightarrow> string + store \<Rightarrow> string option \<Rightarrow> string \<Rightarrow> string + store" where
  "NewStore mkdir opened schema dataDir =
     (if dataDir = [] then Inl ''data-dir required''
      else case mkdir of
          Some e \<Rightarrow> Inl e
        | None \<Rightarrow>
            (case opened of
               Inl e \<Rightarrow> Inl e
             | Inr s \<Rightarrow> (case schema of Some e \<Rightarrow> Inl e | None \<Rightarrow> Inr s)))"

section \<open>The gRPC server\<close>

text \<open>The largest message in bytes (an \<open>int\<close> of 64 bits) and the use of TLS.\<close>

definition grpc_options :: "string \<Rightarrow> bool \<Rightarrow> string \<Rightarrow> string \<Rightarrow> string option \<Rightarrow> string + (int \<times> bool)" where
  "grpc_options limit useTLS cert key load_error =
     (let most = i64 (maxProxyBodyBytes limit + 2 ^ 20); tls = (useTLS \<and> cert \<noteq> [] \<and> key \<noteq> [])
      in if tls then (case load_error of Some e \<Rightarrow> Inl e | None \<Rightarrow> Inr (most, True)) else Inr (most, False))"

section \<open>The end of Run\<close>

text \<open>
  The errors with which the web server and the gRPC server ended, in the order in which they
  did; nothing while one of them still runs. The two assignments to \<open>runErr\<close>, which the
  code does not synchronise, are taken one after the other.
\<close>

definition Run_result :: "serve_error option option \<Rightarrow> serve_error option option \<Rightarrow> bool \<Rightarrow> serve_error option option" where
  "Run_result web grpc web_first =
     (case (web, grpc) of
        (Some a, Some b) \<Rightarrow> Some (if web_first then firstErr (firstErr None a) b else firstErr (firstErr None b) a)
      | _ \<Rightarrow> None)"

lemma Run_result_waits: "Run_result (Some (Some (Failed e))) None first = None"
  by (simp add: Run_result_def)

lemma Run_result_error:
  "Run_result (Some a) (Some b) first = Some r \<Longrightarrow>
   (r = None \<longleftrightarrow> (\<forall>e. a \<noteq> Some (Failed e)) \<and> (\<forall>e. b \<noteq> Some (Failed e)))"
  by (auto simp: Run_result_def firstErr_def split: if_splits option.splits serve_error.splits)

end
