(* ===== verification/Output.thy ===== *)
theory Output
  imports Cli AdminPages
begin

text \<open>
  What the program writes besides responses: the list and the details of tunnels on the terminal
  (pkg/output/formatter.go), the directories of its files (internal/config/paths.go), and the
  frames of the admin pages' event stream (admin_ui.go). The layout of a table is the library's.
\<close>

section \<open>Tunnels on the terminal\<close>

datatype listing =
    Json_doc "tunnel_view list"
  | Yaml_doc "tunnel_view list"
  | Table "string list" "string list list"

definition PrintTunnelList :: "tunnel_view list \<Rightarrow> string \<Rightarrow> listing" where
  "PrintTunnelList ts format =
     (if format = ''json'' then Json_doc ts
      else if format = ''yaml'' then Yaml_doc ts
      else Table [''Name'', ''Hostname'', ''Local'', ''Status'', ''PID''] (map list_row ts))"

text \<open>\<open>stamp\<close> is \<open>Time.Format\<close> with the layout of the code.\<close>

definition PrintTunnelDetails :: "(time \<Rightarrow> string) \<Rightarrow> tunnel_view \<Rightarrow> string list" where
  "PrintTunnelDetails stamp t =
     [''Name:      '' @ tv_name t, ''Hostname:  https://'' @ tv_hostname t, ''Local:     http://'' @ tv_local t] @
     (if tv_agent t \<noteq> [] then [''Agent:     '' @ tv_agent t] else []) @
     [''Running:   '' @ (if tv_running t then ''true'' else ''false'')] @
     (if 0 < tv_pid t then [''PID:       '' @ int_text (tv_pid t)] else []) @
     [''Created:   '' @ stamp (tv_created t)]"

section \<open>Directories\<close>

text \<open>The home directory is empty when it cannot be found; \<open>join\<close> is \<open>filepath.Join\<close>.\<close>

definition GetConfigDir :: "(string list \<Rightarrow> string) \<Rightarrow> string + string \<Rightarrow> string" where
  "GetConfigDir join home = join [case home of Inl _ \<Rightarrow> [] | Inr d \<Rightarrow> d, ''.fwdx'']"

definition TunnelsDir :: "(string list \<Rightarrow> string) \<Rightarrow> string + string \<Rightarrow> string" where
  "TunnelsDir join home = join [GetConfigDir join home, ''tunnels'']"

section \<open>The event stream\<close>

abbreviation newline :: char where "newline \<equiv> CHR 0x0A"

definition frame :: "string \<Rightarrow> string \<Rightarrow> string" where
  "frame event payload = ''event: '' @ event @ [newline] @ ''data: '' @ payload @ [newline, newline]"

text \<open>What one tick writes; \<open>stamp\<close> is the text of the instant, which needs no quoting.\<close>

definition tick_payload :: "string \<Rightarrow> string" where
  "tick_payload now = ''{'' @ [CHR 0x22] @ ''ts'' @ [CHR 0x22] @ '':'' @ [CHR 0x22] @ now @ [CHR 0x22] @ ''}''"

definition tick_frames :: "(time \<Rightarrow> string) \<Rightarrow> time \<Rightarrow> string" where
  "tick_frames stamp now =
     frame ''stats_tick'' (tick_payload (stamp now)) @ frame ''tunnels_update'' ''{}'' @
     frame ''health_update'' ''{}'' @ frame ''logs_update'' ''{}''"

text \<open>The stream: the ticks that fire before the client goes away.\<close>

fun event_stream :: "(time \<Rightarrow> string) \<Rightarrow> time list \<Rightarrow> string" where
  "event_stream stamp [] = []"
| "event_stream stamp (now # ticks) = tick_frames stamp now @ event_stream stamp ticks"

text \<open>A browser's reading of such a stream: an event is dispatched by a blank line.\<close>

fun read_events :: "string \<times> string \<Rightarrow> string list \<Rightarrow> (string \<times> string) list" where
  "read_events (ev, payload) [] = []"
| "read_events (ev, payload) (l # ls) =
     (if l = [] then (if payload = [] then read_events ([], []) ls else (ev, payload) # read_events ([], []) ls)
      else if has_prefix l ''event: '' then read_events (drop 7 l, payload) ls
      else if has_prefix l ''data: '' then read_events (ev, drop 6 l) ls
      else read_events (ev, payload) ls)"

section \<open>Facts\<close>

lemma two_lines:
  assumes "newline \<notin> set a" and "newline \<notin> set b"
  shows "split_on newline (a @ newline # b @ newline # newline # rest) = a # b # [] # split_on newline rest"
  using assms by (simp add: split_on_append)

lemma read_frame:
  assumes "newline \<notin> set ev" and "newline \<notin> set d" and "d \<noteq> []"
  shows "read_events ([], []) (split_on newline (frame ev d @ rest)) = (ev, d) # read_events ([], []) (split_on newline rest)"
proof -
  have "frame ev d @ rest = (''event: '' @ ev) @ newline # (''data: '' @ d) @ newline # newline # rest"
    by (simp add: frame_def)
  moreover have "newline \<notin> set (''event: '' @ ev)" "newline \<notin> set (''data: '' @ d)" using assms by simp_all
  ultimately have "split_on newline (frame ev d @ rest) = (''event: '' @ ev) # (''data: '' @ d) # [] # split_on newline rest"
    using two_lines by metis
  moreover have "read_events ([], []) ((''event: '' @ ev) # (''data: '' @ d) # [] # ls) = (ev, d) # read_events ([], []) ls" for ls
    using assms(3) by (simp add: has_prefix_def)
  ultimately show ?thesis by (simp only:)
qed

text \<open>A browser sees the four events of every tick, in order, with the instant of the tick.\<close>

lemma event_stream_read:
  assumes "\<And>t. newline \<notin> set (stamp t)"
  shows "read_events ([], []) (split_on newline (event_stream stamp ticks)) =
    concat (map (\<lambda>t. [(''stats_tick'', tick_payload (stamp t)), (''tunnels_update'', ''{}''),
      (''health_update'', ''{}''), (''logs_update'', ''{}'')]) ticks)"
proof (induction ticks)
  case Nil
  show ?case by simp
next
  case (Cons t ticks)
  have payload: "newline \<notin> set (tick_payload (stamp t))" "tick_payload (stamp t) \<noteq> []"
    using assms [of t] by (simp_all add: tick_payload_def)
  have names: "newline \<notin> set ''stats_tick''" "newline \<notin> set ''tunnels_update''" "newline \<notin> set ''health_update''"
    "newline \<notin> set ''logs_update''" "newline \<notin> set ''{}''" "''{}'' \<noteq> ([] :: string)"
    by simp_all
  show ?case
    unfolding event_stream.simps tick_frames_def append_assoc list.map concat.simps append.simps
    unfolding read_frame [OF names(1) payload] read_frame [OF names(2,5,6)] read_frame [OF names(3,5,6)]
      read_frame [OF names(4,5,6)] Cons.IH
    by (rule refl)
qed

end
