(* ===== verification/Spec2Isabelle.thy ===== *)
theory Spec2Isabelle
  imports AuthClaims GrpcServerClaims StoreClaims LogClaims ControlErrors Stats ProxyClaims ServerRun EndToEnd CliClaims
    LoginFlow Startup Output
begin

text \<open>
  A model of fwdx, a self-hosted tunnelling server with its agent and command line, written in
  Go, and the properties that make it correct.

  The program. A server (\<open>fwdx serve\<close>, internal/server) accepts HTTP requests on one port and
  gRPC streams of agents on another. An agent (\<open>fwdx tunnel start\<close>, internal/tunnel) opens a
  stream, names its tunnel and is given the tunnel's host name; requests for that host name are
  sent down the stream, performed against an application on the agent's machine, and answered.
  A database holds tunnels, access rules, request logs, users, sessions, pending logins and
  agents; a JSON API, an admin API and HTML pages change it; users log in through an OpenID
  provider, in the browser or with a device code. The command line keeps a session, an agent
  credential and the runtime files of detached tunnels in the user's home directory.

  \<^bold>\<open>Theories and sources\<close>

  \<^item> Prelude, GoStrings, GoTime, Netip, Http, Mux, Urls: what the program uses of Go's standard
    library (tables, strings, instants and their text, IP addresses and prefixes, requests and
    responses, the router, URLs). The stored form of an instant is an instance of the class
    linorder whose order is that of the text SQL compares.
  \<^item> StoreBase, AccessRules, StoreTunnels, StoreLogs, StoreUsers: internal/server/store.go and
    user_types.go. One record per table, rows in rowid order, one function per method of
    \<open>Store\<close>; a statement fails when the table's fault is set, and then changes nothing.
  \<^item> Oidc, Tokens, Sessions, AuthHttp: oidc.go, session.go, auth_http.go. The provider's answers,
    random bytes and the digests are arguments. Tokens holds the base64 text of random bytes and
    the PKCE challenge; LoginFlow puts the login, what happens meanwhile and the callback together.
  \<^item> GrpcConn: \<open>GrpcTunnelConn\<close> of grpc_tunnel.go. Requests run concurrently, so a connection
    is a step relation whose steps are the pieces of code between two releases of a lock or
    two channel operations. Registry, GrpcServer: registry.go and \<open>Connect\<close> of grpc_tunnel.go.
  \<^item> Domains, Stats: domains.go with its file, stats.go with its 64-bit counters.
  \<^item> ControlPlane (controlplane_api.go), AdminApi (admin.go), AdminUi and AdminPages
    (admin_ui_tunnels.go, admin_ui.go), Proxy (proxy.go): one function per handler, from the
    request and the state to the response and the state, with every early return.
  \<^item> Server (server.go): construction and routing. ServerRun: the running server as a state
    machine over the shared state and the open streams. Startup: opening the database, the
    options of the gRPC server and the end of \<open>Run\<close>.
  \<^item> ClientConfig (internal/config), Connector (connector.go, proxy_local.go), RunState
    (runtime_state.go), Manager (tunnel.go): the agent and the tunnel manager, over a machine
    with files, processes, signals and a clock.
  \<^item> EndToEnd: both ends of a tunnel composed, from the visitor to the local application.
  \<^item> Cli (cmd/fwdx): the commands. Output: what they print of tunnels (pkg/output), the
    directories of paths.go, and the frames of the admin pages' event stream.
  \<^item> StoreInv, StoreFrame, StoreProps, SessionStore, ControlFrame, ServerInv hold the invariants
    and frame lemmas; the theories named Claims hold the properties of their components, in
    text blocks numbered as in the manifest.

  \<^bold>\<open>Interfaces\<close>

  Four contracts are locales, each interpreted on the model's own definitions: \<open>session_table\<close>
  (create, look up at a time, delete), \<open>live_table\<close> (the exclusive table of host names),
  \<open>domain_set\<close> (the list of domains as a set), and \<open>store_invariant\<close>: any predicate that all
  operations of the store keep is kept by every request, registration, message and teardown. It
  is interpreted on the stores reachable by operations and driver faults.

  \<^bold>\<open>What the lemmas show\<close>

  \<^item> Store: the constraints of the schema and the shape of stored access rules hold in every
    reachable database; creation, deletion, sessions, pending logins (used once), the request log
    and its retention do what their names say, on success and on error.
  \<^item> Access: which addresses a rule admits, which credentials it accepts, who is an administrator,
    what login and logout give and take, that a login begun completes at a provider that checks
    its challenge; every administration surface is closed without the
    session of an administrator; the API changes only what its session may manage, and an error
    leaves no trace.
  \<^item> Tunnels: a host name has one live connection; only an assigned, unrevoked agent with its
    credential gets it; under every interleaving a request is answered by its own response, and
    Close leaves none stuck. The agent answers every request, calls the application at most four
    times, and loses nothing on the way but the separation of repeated headers.
  \<^item> Proxy: the decision whether a request is forwarded equals a policy written down on its own,
    and the statistics equal a summary of the history.
  \<^item> Whole server: the invariant of every reachable state, and the routing as a decision on the
    path. Client: the address that is dialed, the server that gets the session's token, that
    logins and stops end, what a detached start does.

  Several lemmas show behaviour the program surely does not want; the manifest lists them as
  findings. Examples are a panic in \<open>EnqueueRequest\<close> (GrpcClaims), a revocation undone by the end
  of a stream (GrpcServerClaims), a tunnel still served after its deletion (ProxyClaims), and a
  detached start that refuses itself (ManagerClaims).

  \<^bold>\<open>Bounds and termination\<close>

  No function takes fuel. The attempts of the agent recurse on the distance to the fourth; the
  loops that wait for a process or for a login are partial functions with an option result, and
  are proved to return when every look at the clock is later than the one before by the time
  the loop sleeps. Counters of the statistics, size limits and the device expiry wrap at 64
  bits, a response status at 32. Message loops run over the finite list of what arrives before
  the stream ends.

  \<^bold>\<open>Not modelled\<close>

  Generated protobuf code, gRPC transport, TLS and listening sockets; the SQL engine beyond its
  constraints; html/template and the text of the pages (a page is the data it is given); cobra's
  flag parsing and the drawing of printed tables; fixtures of the tests and the documentation
  site. Text is bytes with the case mapping of ASCII. URLs are parsed
  without decoding percent escapes. Scheduling is modelled where code shares state by channels and
  locks (GrpcConn, ServerRun); an HTTP handler is one step of the server, so the interleaving of
  the statements of two handlers is not covered.
\<close>

end
